(* ===== verification/Prelude.thy ===== *)
theory Prelude
  imports Main
begin

text \<open>
  Shared ground of the development.

  \<^item> Go errors as values: a chain of sentinel errors built by \<open>errs.Wrap\<close>
    (src/internal/errs/wrap.go), with \<open>errors.Is\<close> as membership.
  \<^item> A state-and-error computation type for the fallible, stateful Go functions,
    its combinators (return, raise, sequencing, wrapping, recovery, loops) and
    the inversion rules the component proofs use (\<open>run_simps\<close>).
  \<^item> A preorder-based frame calculus: \<open>steps R m\<close> says that every run of \<open>m\<close>
    relates its initial and its final state by \<open>R\<close>, whatever it returns.
  \<^item> List lemmas on look-up and on updates of table rows.
\<close>

named_theorems run_simps "inversion of successful runs of the computation combinators"
named_theorems steps_intro "compositional rules for frame conditions"

section \<open>Errors\<close>

text \<open>
  An error value is the chain of the sentinels that \<open>errors.Is\<close> finds in it.
  \<open>E n\<close> is the sentinel variable named \<open>n\<close> (package-qualified outside the manager
  package), \<open>Msg t\<close> is an opaque error text that matches no sentinel.
\<close>

datatype atom = E string | Msg string

type_synonym gerror = "atom list"

definition errs_Is :: "gerror \<Rightarrow> string \<Rightarrow> bool" where
  "errs_Is e n \<longleftrightarrow> E n \<in> set e"

definition Wrap :: "gerror \<Rightarrow> gerror option \<Rightarrow> gerror" where
  "Wrap base ext = (case ext of None \<Rightarrow> base | Some e \<Rightarrow> base @ e)"

definition Wrapf :: "gerror \<Rightarrow> string \<Rightarrow> gerror" where
  "Wrapf base t = base @ [Msg t]"

definition IsAnyError :: "gerror \<Rightarrow> string list \<Rightarrow> bool" where
  "IsAnyError err targetErrs \<longleftrightarrow> (\<exists>e \<in> set targetErrs. errs_Is err e)"

lemma errs_Is_Wrap [simp]:
  "errs_Is (Wrap base ext) n \<longleftrightarrow> errs_Is base n \<or> (\<exists>e. ext = Some e \<and> errs_Is e n)"
  by (auto simp: errs_Is_def Wrap_def split: option.splits)

lemma errs_Is_Wrapf [simp]: "errs_Is (Wrapf base t) n = errs_Is base n"
  by (auto simp: errs_Is_def Wrapf_def)

lemma errs_Is_Cons [simp]:
  "errs_Is (a # e) n \<longleftrightarrow> a = E n \<or> errs_Is e n"
  by (auto simp: errs_Is_def)

lemma errs_Is_Nil [simp]: "\<not> errs_Is [] n"
  by (simp add: errs_Is_def)

section \<open>Computations\<close>

type_synonym ('s, 'a) comp = "'s \<Rightarrow> (gerror + 'a) \<times> 's"

definition returnC :: "'a \<Rightarrow> ('s, 'a) comp" where
  "returnC x s = (Inr x, s)"

definition throwC :: "gerror \<Rightarrow> ('s, 'a) comp" where
  "throwC e s = (Inl e, s)"

definition bindC :: "('s, 'a) comp \<Rightarrow> ('a \<Rightarrow> ('s, 'b) comp) \<Rightarrow> ('s, 'b) comp" where
  "bindC m f s = (case m s of (Inl e, s') \<Rightarrow> (Inl e, s') | (Inr x, s') \<Rightarrow> f x s')"

text \<open>\<open>x, err := f(); if err != nil { return errs.Wrap(w, err) }\<close>\<close>

definition wrapC :: "string \<Rightarrow> ('s, 'a) comp \<Rightarrow> ('s, 'a) comp" where
  "wrapC w m s = (case m s of (Inl e, s') \<Rightarrow> (Inl (E w # e), s') | (Inr x, s') \<Rightarrow> (Inr x, s'))"

text \<open>\<open>x, err := f()\<close> with \<open>err\<close> inspected by the caller\<close>

definition tryC :: "('s, 'a) comp \<Rightarrow> (gerror + 'a \<Rightarrow> ('s, 'b) comp) \<Rightarrow> ('s, 'b) comp" where
  "tryC m f s = (case m s of (r, s') \<Rightarrow> f r s')"

definition getC :: "('s \<Rightarrow> 'a) \<Rightarrow> ('s, 'a) comp" where
  "getC f s = (Inr (f s), s)"

definition modifyC :: "('s \<Rightarrow> 's) \<Rightarrow> ('s, unit) comp" where
  "modifyC f s = (Inr (), f s)"

definition unlessC :: "bool \<Rightarrow> gerror \<Rightarrow> ('s, unit) comp" where
  "unlessC b e = (if b then returnC () else throwC e)"

definition liftC :: "gerror + 'a \<Rightarrow> ('s, 'a) comp" where
  "liftC r s = (r, s)"

text \<open>\<open>for _, x := range xs { ... }\<close>: in order, stopping at the first error\<close>

fun forC :: "'a list \<Rightarrow> ('a \<Rightarrow> ('s, 'b) comp) \<Rightarrow> ('s, 'b list) comp" where
  "forC [] f = returnC []"
| "forC (x # xs) f = bindC (f x) (\<lambda>y. bindC (forC xs f) (\<lambda>ys. returnC (y # ys)))"

text \<open>the same loop with an accumulator that the body replaces\<close>

fun foldC :: "'a list \<Rightarrow> 'b \<Rightarrow> ('b \<Rightarrow> 'a \<Rightarrow> ('s, 'b) comp) \<Rightarrow> ('s, 'b) comp" where
  "foldC [] acc f = returnC acc"
| "foldC (x # xs) acc f = bindC (f acc x) (\<lambda>acc'. foldC xs acc' f)"

subsection \<open>Running the combinators\<close>

lemma returnC_run [run_simps]: "returnC x s = (r, s') \<longleftrightarrow> r = Inr x \<and> s' = s"
  by (auto simp: returnC_def)

lemma throwC_run [run_simps]: "throwC e s = (r, s') \<longleftrightarrow> r = Inl e \<and> s' = s"
  by (auto simp: throwC_def)

lemma getC_run [run_simps]: "getC f s = (r, s') \<longleftrightarrow> r = Inr (f s) \<and> s' = s"
  by (auto simp: getC_def)

lemma modifyC_run [run_simps]: "modifyC f s = (r, s') \<longleftrightarrow> r = Inr () \<and> s' = f s"
  by (auto simp: modifyC_def)

lemma liftC_run [run_simps]: "liftC x s = (r, s') \<longleftrightarrow> x = r \<and> s' = s"
  by (auto simp: liftC_def)

lemma unlessC_run [run_simps]:
  "unlessC b e s = (Inr u, s') \<longleftrightarrow> b \<and> s' = s"
  by (auto simp: unlessC_def returnC_def throwC_def)

lemma bindC_run [run_simps]:
  "bindC m f s = (Inr y, s') \<longleftrightarrow> (\<exists>x t. m s = (Inr x, t) \<and> f x t = (Inr y, s'))"
  by (auto simp: bindC_def split: prod.splits sum.splits)

lemma bindC_run_err:
  "bindC m f s = (Inl e, s') \<longleftrightarrow>
     m s = (Inl e, s') \<or> (\<exists>x t. m s = (Inr x, t) \<and> f x t = (Inl e, s'))"
  by (auto simp: bindC_def split: prod.splits sum.splits)

lemma wrapC_run [run_simps]: "wrapC w m s = (Inr y, s') \<longleftrightarrow> m s = (Inr y, s')"
  by (auto simp: wrapC_def split: prod.splits sum.splits)

lemma wrapC_run_err:
  "wrapC w m s = (Inl e, s') \<longleftrightarrow> (\<exists>e'. m s = (Inl e', s') \<and> e = E w # e')"
  by (auto simp: wrapC_def split: prod.splits sum.splits)

text \<open>a caller that inspects the error of the call\<close>

lemma tryC_run [run_simps]:
  "tryC m f s = (Inr y, s') \<longleftrightarrow>
     (\<exists>e t. m s = (Inl e, t) \<and> f (Inl e) t = (Inr y, s')) \<or>
     (\<exists>x t. m s = (Inr x, t) \<and> f (Inr x) t = (Inr y, s'))"
proof (cases "m s")
  case (Pair r t)
  then show ?thesis by (cases r) (auto simp: tryC_def)
qed

lemma tryC_run_err:
  "tryC m f s = (Inl e, s') \<longleftrightarrow>
     (\<exists>e' t. m s = (Inl e', t) \<and> f (Inl e') t = (Inl e, s')) \<or>
     (\<exists>x t. m s = (Inr x, t) \<and> f (Inr x) t = (Inl e, s'))"
proof (cases "m s")
  case (Pair r t)
  then show ?thesis by (cases r) (auto simp: tryC_def)
qed

text \<open>forward evaluation, for concrete inputs\<close>

lemma bindC_Inr: "m s = (Inr x, t) \<Longrightarrow> bindC m f s = f x t"
  by (simp add: bindC_def)

lemma bindC_Inl: "m s = (Inl e, t) \<Longrightarrow> bindC m f s = (Inl e, t)"
  by (simp add: bindC_def)

lemmas comp_defs = returnC_def throwC_def bindC_def wrapC_def tryC_def getC_def
  modifyC_def unlessC_def liftC_def

lemma bindC_same:
  "(\<And>x t. m s = (Inr x, t) \<Longrightarrow> f x t = g x t) \<Longrightarrow> bindC m f s = bindC m g s"
  by (auto simp: bindC_def split: prod.splits sum.splits)

lemma tryC_same: "(\<And>r t. m s = (r, t) \<Longrightarrow> f r t = g r t) \<Longrightarrow> tryC m f s = tryC m g s"
  by (auto simp: tryC_def split: prod.splits)

lemma bindC_assoc: "bindC (bindC m f) g = bindC m (\<lambda>x. bindC (f x) g)"
  by (rule ext) (auto simp: bindC_def split: prod.splits sum.splits)

lemma bindC_return_left [simp]: "bindC (returnC x) f = f x"
  by (rule ext) (simp add: bindC_def returnC_def)

lemma bindC_throw_left [simp]: "bindC (throwC e) f = throwC e"
  by (rule ext) (simp add: bindC_def throwC_def)

section \<open>Frame conditions\<close>

definition steps :: "('s \<Rightarrow> 's \<Rightarrow> bool) \<Rightarrow> ('s, 'a) comp \<Rightarrow> bool" where
  "steps R m \<longleftrightarrow> (\<forall>s. R s (snd (m s)))"

lemma steps_run: "steps R m \<Longrightarrow> m s = (r, s') \<Longrightarrow> R s s'"
  by (metis steps_def snd_conv)

locale frame =
  fixes R :: "'s \<Rightarrow> 's \<Rightarrow> bool"
  assumes R_refl: "R s s"
    and R_trans: "R s t \<Longrightarrow> R t u \<Longrightarrow> R s u"
begin

lemma steps_return [steps_intro]: "steps R (returnC x)"
  by (simp add: steps_def returnC_def R_refl)

lemma steps_throw [steps_intro]: "steps R (throwC e)"
  by (simp add: steps_def throwC_def R_refl)

lemma steps_get [steps_intro]: "steps R (getC f)"
  by (simp add: steps_def getC_def R_refl)

lemma steps_lift [steps_intro]: "steps R (liftC r)"
  by (simp add: steps_def liftC_def R_refl)

lemma steps_unless [steps_intro]: "steps R (unlessC b e)"
  by (simp add: unlessC_def steps_return steps_throw)

lemma steps_bind [steps_intro]:
  assumes "steps R m" and "\<And>x. steps R (f x)"
  shows "steps R (bindC m f)"
proof -
  have "R s (snd (bindC m f s))" for s
    using assms(1)[unfolded steps_def, rule_format, of s]
      assms(2)[unfolded steps_def, rule_format]
    by (auto simp: bindC_def split: prod.split sum.split intro: R_trans)
  then show ?thesis by (simp add: steps_def)
qed

lemma steps_wrap [steps_intro]: "steps R m \<Longrightarrow> steps R (wrapC w m)"
  by (auto simp: steps_def wrapC_def split: prod.split sum.split) (metis snd_conv)+

lemma steps_try [steps_intro]:
  assumes "steps R m" and "\<And>r. steps R (f r)"
  shows "steps R (tryC m f)"
proof -
  have "R s (snd (tryC m f s))" for s
    using assms(1)[unfolded steps_def, rule_format, of s]
      assms(2)[unfolded steps_def, rule_format]
    by (auto simp: tryC_def split: prod.split intro: R_trans)
  then show ?thesis by (simp add: steps_def)
qed

lemma steps_if [steps_intro]: "steps R m \<Longrightarrow> steps R m' \<Longrightarrow> steps R (if b then m else m')"
  by simp

lemma steps_case_option [steps_intro]:
  "steps R m \<Longrightarrow> (\<And>x. steps R (f x)) \<Longrightarrow> steps R (case v of None \<Rightarrow> m | Some x \<Rightarrow> f x)"
  by (cases v) auto

lemma steps_case_sum [steps_intro]:
  "(\<And>e. steps R (g e)) \<Longrightarrow> (\<And>x. steps R (f x)) \<Longrightarrow> steps R (case v of Inl e \<Rightarrow> g e | Inr x \<Rightarrow> f x)"
  by (cases v) auto

lemma steps_case_prod [steps_intro]:
  "(\<And>x y. steps R (f x y)) \<Longrightarrow> steps R (case v of (x, y) \<Rightarrow> f x y)"
  by (cases v) auto

lemma steps_case_list [steps_intro]:
  "steps R m \<Longrightarrow> (\<And>x xs. steps R (f x xs)) \<Longrightarrow> steps R (case v of [] \<Rightarrow> m | x # xs \<Rightarrow> f x xs)"
  by (cases v) auto

lemma steps_Let [steps_intro]: "(\<And>x. steps R (f x)) \<Longrightarrow> steps R (Let v f)"
  by simp

lemma steps_for [steps_intro]: "(\<And>x. steps R (f x)) \<Longrightarrow> steps R (forC xs f)"
  by (induction xs) (auto intro!: steps_bind steps_return)

lemma steps_fold [steps_intro]: "(\<And>a x. steps R (f a x)) \<Longrightarrow> steps R (foldC xs acc f)"
  by (induction xs arbitrary: acc) (auto intro!: steps_bind steps_return)

end

section \<open>Association lists\<close>

text \<open>\<open>m[k] = v\<close> on a Go map\<close>

definition aset :: "'k \<Rightarrow> 'v \<Rightarrow> ('k \<times> 'v) list \<Rightarrow> ('k \<times> 'v) list" where
  "aset k v m = (k, v) # filter (\<lambda>p. fst p \<noteq> k) m"

lemma map_of_aset [simp]: "map_of (aset k v m) = (map_of m)(k \<mapsto> v)"
proof
  fix x
  have "x \<noteq> k \<Longrightarrow> map_of (filter (\<lambda>p. fst p \<noteq> k) m) x = map_of m x"
    by (induction m) auto
  then show "map_of (aset k v m) x = ((map_of m)(k \<mapsto> v)) x"
    by (auto simp: aset_def)
qed

section \<open>Rows of a table\<close>

text \<open>the row a primary key selects, and the in-place change of the selected rows\<close>

definition row_upd :: "('r \<Rightarrow> bool) \<Rightarrow> ('r \<Rightarrow> 'r) \<Rightarrow> 'r list \<Rightarrow> 'r list" where
  "row_upd p f = map (\<lambda>r. if p r then f r else r)"

text \<open>the order clause of a query: insertion sort by a given order\<close>

definition sort_by :: "('r \<Rightarrow> 'r \<Rightarrow> bool) \<Rightarrow> 'r list \<Rightarrow> 'r list" where
  "sort_by le rs =
     foldr (\<lambda>r rs. takeWhile (\<lambda>x. \<not> le r x) rs @ r # dropWhile (\<lambda>x. \<not> le r x) rs) rs []"

lemma set_sort_by [simp]: "set (sort_by le rs) = set rs"
proof -
  have "set (takeWhile p xs) \<union> set (dropWhile p xs) = set xs" for p and xs :: "'a list"
    by (metis set_append takeWhile_dropWhile_id)
  then show ?thesis by (induction rs) (auto simp: sort_by_def)
qed

lemma length_sort_by [simp]: "length (sort_by le rs) = length rs"
proof -
  have "length (takeWhile p xs) + length (dropWhile p xs) = length xs" for p and xs :: "'a list"
    by (metis length_append takeWhile_dropWhile_id)
  then show ?thesis by (induction rs) (auto simp: sort_by_def)
qed

text \<open>\<open>strings.ToUpper\<close> on ASCII\<close>

definition ToUpper :: "string \<Rightarrow> string" where
  "ToUpper = map (\<lambda>c. let n = of_char c :: nat in
     if 97 \<le> n \<and> n \<le> 122 then char_of (n - 32) else c)"

text \<open>\<open>strings.ToLower\<close> on ASCII\<close>

definition ToLower :: "string \<Rightarrow> string" where
  "ToLower = map (\<lambda>c. let n = of_char c :: nat in
     if 65 \<le> n \<and> n \<le> 90 then char_of (n + 32) else c)"

text \<open>update the matching row, or append it\<close>

definition upsert :: "('r \<Rightarrow> bool) \<Rightarrow> 'r \<Rightarrow> 'r list \<Rightarrow> 'r list" where
  "upsert p r rs = (if \<exists>x \<in> set rs. p x then row_upd p (\<lambda>_. r) rs else rs @ [r])"

lemma row_upd_length [simp]: "length (row_upd p f rs) = length rs"
  by (simp add: row_upd_def)

lemma row_upd_none [simp]: "\<not> (\<exists>r \<in> set rs. p r) \<Longrightarrow> row_upd p f rs = rs"
  by (induction rs) (auto simp: row_upd_def)

lemma set_row_upd:
  "set (row_upd p f rs) = f ` {r \<in> set rs. p r} \<union> {r \<in> set rs. \<not> p r}"
  by (auto simp: row_upd_def)

lemma find_row_upd_other:
  assumes "\<And>r. p r \<Longrightarrow> q (f r) \<longleftrightarrow> q r" and "\<And>r. q r \<Longrightarrow> \<not> p r"
  shows "find q (row_upd p f rs) = find q rs"
  using assms by (induction rs) (auto simp: row_upd_def)

lemma find_row_upd_same:
  assumes "\<And>r. p r \<Longrightarrow> p (f r)"
  shows "find p (row_upd p f rs) = map_option f (find p rs)"
  using assms by (induction rs) (auto simp: row_upd_def)

lemma find_Some_in: "find p rs = Some r \<Longrightarrow> r \<in> set rs \<and> p r"
  by (induction rs) (auto split: if_splits)

lemma find_append: "find p (xs @ ys) = (case find p xs of Some x \<Rightarrow> Some x | None \<Rightarrow> find p ys)"
  by (induction xs) auto

lemma find_filter_other: "(\<And>r. q r \<Longrightarrow> p r) \<Longrightarrow> find q (filter p rs) = find q rs"
  by (induction rs) auto

end
