(* ===== verification/World.thy ===== *)
theory World
  imports Prelude
begin

text \<open>
  The data model (src/internal/model) and the state the managers run on.

  Rows are records with the columns of the gorm structs; enumerations are datatypes
  with the constants of the source as constructors. A tenant schema is a record of
  tables, a table the list of its rows in scan order. The world holds the shared
  tenant table, one schema per schema name, whether the running transaction has been
  aborted by a failed statement, a counter of the interactions with the outside, and
  the log of the calls the program made to other services.

  What is not in the repository (database faults, clock, uuid generation, the
  identity-management and key-store plugins, the orbital job manager, the state-machine
  library, the task queue) is a field of the record \<open>env\<close>; answers that may differ
  from call to call take the interaction counter as an argument.
\<close>

section \<open>Rows\<close>

type_synonym uuid = nat
type_synonym time = int

abbreviation uuid_Nil :: uuid where "uuid_Nil \<equiv> 0"

datatype WorkflowState =
    WorkflowStateInitial | WorkflowStateRevoked | WorkflowStateRejected | WorkflowStateExpired
  | WorkflowStateWaitApproval | WorkflowStateWaitConfirmation | WorkflowStateExecuting
  | WorkflowStateSuccessful | WorkflowStateFailed

datatype WorkflowArtifactType =
    WorkflowArtifactTypeKey | WorkflowArtifactTypeKeyConfiguration | WorkflowArtifactTypeSystem

datatype WorkflowActionType =
    WorkflowActionTypeUpdateState | WorkflowActionTypeUpdatePrimary | WorkflowActionTypeLink
  | WorkflowActionTypeUnlink | WorkflowActionTypeSwitch | WorkflowActionTypeDelete

datatype WorkflowParametersResourceType =
    WorkflowParametersResourceTypeKey | WorkflowParametersResourceTypeKeyConfiguration

definition WorkflowNonTerminalStates :: "WorkflowState list" where
  "WorkflowNonTerminalStates =
     [WorkflowStateInitial, WorkflowStateWaitApproval, WorkflowStateWaitConfirmation,
      WorkflowStateExecuting]"

definition WorkflowTerminalStates :: "WorkflowState list" where
  "WorkflowTerminalStates =
     [WorkflowStateRevoked, WorkflowStateRejected, WorkflowStateExpired,
      WorkflowStateSuccessful, WorkflowStateFailed]"

record Workflow =
  wf_ID :: uuid
  wf_State :: WorkflowState
  wf_InitiatorID :: string
  wf_ApproverGroupIDs :: "uuid list option"
  wf_ArtifactType :: WorkflowArtifactType
  wf_ArtifactID :: uuid
  wf_ArtifactName :: "string option"
  wf_ActionType :: WorkflowActionType
  wf_Parameters :: string
  wf_ParametersResourceName :: "string option"
  wf_ParametersResourceType :: "WorkflowParametersResourceType option"
  wf_FailureReason :: string
  wf_ExpiryDate :: "time option"
  wf_MinimumApprovalCount :: int
  wf_CreatedAt :: time

text \<open>\<open>Approved sql.NullBool\<close>: \<open>None\<close> is SQL NULL, a vote not yet cast\<close>

record WorkflowApprover =
  wa_WorkflowID :: uuid
  wa_UserID :: string
  wa_Approved :: "bool option"

record WorkflowApproverGroup =
  wag_ID :: uuid
  wag_WorkflowID :: uuid
  wag_GroupID :: uuid

datatype KeyType = KeyTypeBYOK | KeyTypeHYOK

datatype KeyState =
    KeyStateDELETED | KeyStateDETACHED | KeyStateDETACHING | KeyStateDISABLED | KeyStateENABLED
  | KeyStateERROR | KeyStateFORBIDDEN | KeyStatePENDINGCREATION | KeyStatePENDINGDELETION
  | KeyStatePENDINGIMPORT | KeyStateUNKNOWN

text \<open>the access details of a region; the column is a JSON object from region names to them\<close>

record KeyAccessDetailsRegion =
  rg_CertificateSubject :: "string option"
  rg_AdditionalProperties :: "(string \<times> string) list"

type_synonym KeyAccessData = "(string \<times> KeyAccessDetailsRegion) list"

text \<open>\<open>IsPrimary\<close> and \<open>EditableRegions\<close> are not columns; they are filled when a key is read\<close>

record Key =
  key_ID :: uuid
  key_KeyConfigurationID :: uuid
  key_Name :: string
  key_KeyType :: KeyType
  key_Description :: string
  key_Algorithm :: string
  key_Provider :: string
  key_Region :: string
  key_State :: KeyState
  key_NativeID :: "string option"
  key_ManagementAccessData :: "KeyAccessDetailsRegion option"
  key_CryptoAccessData :: "KeyAccessData option"
  key_UnderWorkflow :: bool
  key_ErrorDetail :: "string option"
  key_CreatedAt :: time
  key_IsPrimary :: bool
  key_EditableRegions :: "(string \<times> bool) list"

record KeyVersion =
  kv_ID :: uuid
  kv_NativeID :: string
  kv_KeyID :: uuid
  kv_RotatedAt :: time
  kv_Status :: string
  kv_CreatedAt :: time

record KeyLabel =
  kl_ID :: uuid
  kl_Key :: string
  kl_Value :: string
  kl_ResourceID :: uuid

datatype SystemStatus =
    SystemStatusCONNECTED | SystemStatusDISCONNECTED | SystemStatusFAILED | SystemStatusPROCESSING

datatype SystemType = SystemTypeSYSTEM | SystemTypeSUBACCOUNT

record System =
  sys_ID :: uuid
  sys_Identifier :: string
  sys_Region :: string
  sys_Type :: SystemType
  sys_KeyConfigurationID :: "uuid option"
  sys_TargetKeyConfigurationID :: "uuid option"
  sys_Status :: SystemStatus
  sys_UnderWorkflow :: bool

record SystemProperty =
  sp_ID :: uuid
  sp_Key :: string
  sp_Value :: string

record Group =
  grp_ID :: uuid
  grp_Name :: string
  grp_Description :: string
  grp_Role :: string
  grp_IAMIdentifier :: string

record KeyConfiguration =
  kc_ID :: uuid
  kc_Name :: string
  kc_Description :: string
  kc_AdminGroupID :: uuid
  kc_CreatorID :: string
  kc_PrimaryKeyID :: "uuid option"

datatype JobType =
    JobTypeSystemLink | JobTypeSystemUnlink | JobTypeSystemUnlinkDecommission
  | JobTypeSystemSwitch | JobTypeSystemSwitchNewPK | JobTypeSystemKeyRotate
  | JobTypeKeyEnable | JobTypeKeyDisable | JobTypeKeyDetach | JobTypeKeyDelete

text \<open>the JSON payload of a job, decoded: \<open>SystemActionJobData\<close> or \<open>KeyActionJobData\<close>\<close>

record SystemActionJobData =
  jd_SystemID :: string
  jd_TenantID :: string
  jd_KeyIDTo :: string
  jd_KeyIDFrom :: string
  jd_Trigger :: string

datatype JobData =
    SystemData SystemActionJobData
  | KeyData string string  \<comment> \<open>tenant, key\<close>

datatype JobStatus =
    JobStatusCreated | JobStatusConfirmed | JobStatusResolving | JobStatusReady
  | JobStatusProcessing | JobStatusDone | JobStatusFailed | JobStatusConfirmCanceled
  | JobStatusResolveCanceled | JobStatusUserCanceled

record Job =
  job_ExternalID :: string
  job_Type :: JobType
  job_Data :: JobData
  job_Status :: JobStatus
  job_ErrorMessage :: string

record Event =
  ev_Identifier :: string
  ev_Type :: JobType
  ev_Data :: JobData
  ev_Status :: JobStatus
  ev_ErrorCode :: string
  ev_ErrorMessage :: string
  ev_PreviousItemStatus :: SystemStatus

record WorkflowConfig =
  cfg_Enabled :: bool
  cfg_MinimumApprovals :: int
  cfg_RetentionPeriodDays :: int
  cfg_DefaultExpiryPeriodDays :: int
  cfg_MaxExpiryPeriodDays :: int

record ImportParams =
  ip_KeyID :: uuid
  ip_WrappingAlg :: string
  ip_HashFunction :: string
  ip_PublicKeyPEM :: string
  ip_Expires :: "time option"
  ip_ProviderParameters :: "(string \<times> string) list"

record Tag =
  tag_ID :: uuid
  tag_Values :: "string list"

record Tenant =
  ten_ID :: string
  ten_SchemaName :: string
  ten_Name :: string
  ten_OwnerType :: string
  ten_OwnerID :: string
  ten_IssuerURL :: string
  ten_Role :: string
  ten_Status :: string

section \<open>Schemas and the world\<close>

text \<open>\<open>tenant_configs\<close> holds the decoded row under the key \<open>WORKFLOW_CONFIG\<close>, if there is one\<close>

record schema =
  workflows :: "Workflow list"
  approvers :: "WorkflowApprover list"
  approver_groups :: "WorkflowApproverGroup list"
  keys :: "Key list"
  key_versions :: "KeyVersion list"
  key_labels :: "KeyLabel list"
  key_configurations :: "KeyConfiguration list"
  systems :: "System list"
  system_properties :: "SystemProperty list"
  groups :: "Group list"
  events :: "Event list"
  import_params :: "ImportParams list"
  tenant_configs :: "WorkflowConfig list"
  tags :: "Tag list"

text \<open>calls to other services, in the order they were made\<close>

datatype call =
    CallPrepareJob Job
  | CallEnqueue string uuid
  | CallAudit string uuid
  | CallProvider string string
  | CallRegistry string string

record world =
  tenants :: "Tenant list"
  schemas :: "string \<Rightarrow> schema"
  aborted :: bool
  tick :: nat
  calls :: "call list"

type_synonym 'a M = "(world, 'a) comp"

section \<open>Code outside the repository\<close>

datatype Transition =
    TransitionCreate | TransitionExpire | TransitionApprove | TransitionReject
  | TransitionConfirm | TransitionExecute | TransitionFail | TransitionRevoke

text \<open>resources and actions of the repository's authorization (src/internal/authz/policies.go)\<close>

datatype RepoResourceType =
    RepoResourceTypeCertificate | RepoResourceTypeEvent | RepoResourceTypeGroup
  | RepoResourceTypeImportparam | RepoResourceTypeKey | RepoResourceTypeKeyconfiguration
  | RepoResourceTypeKeystore | RepoResourceTypeKeyversion | RepoResourceTypeKeyLabel
  | RepoResourceTypeSystem | RepoResourceTypeSystemProperty | RepoResourceTypeTag
  | RepoResourceTypeTenant | RepoResourceTypeTenantconfig | RepoResourceTypeWorkflow
  | RepoResourceTypeWorkflowApprover

datatype RepoAction =
    RepoActionList | RepoActionFirst | RepoActionCount | RepoActionCreate | RepoActionUpdate
  | RepoActionDelete

text \<open>\<open>fsm.EventDesc\<close> of github.com/looplab/fsm\<close>

record EventDesc =
  ed_Name :: Transition
  ed_Src :: "WorkflowState list"
  ed_Dst :: WorkflowState

text \<open>errors of the identity-management plugin: gRPC code NotFound, or any other\<close>

datatype idm_error = IdmNotFound | IdmFailure string

record User =
  usr_ID :: string
  usr_Name :: string
  usr_Email :: string

text \<open>what a key-store plugin reports for a key, and for a version of it\<close>

record ProviderKey =
  pk_KeyID :: string
  pk_Status :: KeyState
  pk_Algorithm :: string

record ProviderKeyVersion =
  pv_ID :: string
  pv_CreationTime :: "time option"
  pv_Status :: string

text \<open>a system as the registry service reports it\<close>

record RegistrySystem =
  rs_Region :: string
  rs_ExternalId :: string
  rs_Type :: string

record SystemFilter_reg =
  sf_Region :: string
  sf_ExternalID :: string
  sf_TenantID :: string
  sf_Limit :: int

text \<open>the workflow section of the deployment configuration, zero meaning not set\<close>

record DeployWorkflow =
  dw_DefaultMinimumApprovals :: int
  dw_DefaultRetentionPeriodDays :: int
  dw_DefaultExpiryPeriodDays :: int
  dw_DefaultMaxExpiryPeriodDays :: int

text \<open>
  \<open>prov_init\<close> and \<open>ks_NeedsProvisioning\<close> stand for the initialisation of a key-store provider and
  for the state of the tenant's default key store (certificates, trust grants and the pool of key
  stores, which work on tables of their own): they answer or fail, and a failure may be that of
  a statement, which then aborts the running transaction. \<open>prov_Command\<close> are the plugin calls
  without a result of interest (enable, disable, delete, import); \<open>km_plugin\<close> tells which key-management
  plugins are registered. \<open>cfg_CryptoCerts\<close> are the configured crypto certificates (name and
  subject, the subject depending on the tenant).

  The registry service lists systems by pages (a limit and a page token; the answer holds the next
  token, empty on the last page); its errors carry their gRPC code as a sentinel such as
  \<open>grpc.NotFound\<close>. \<open>sis_GetSystemInfo\<close> is the system-information plugin, \<open>cfg_OptionalProperties\<close>
  the configured optional properties of systems with their display names. \<open>notify_New\<close> and
  \<open>notify_CreateTask\<close> build the mail task of a workflow transition (no task is a possible answer).
  \<open>collate\<close> is the database's order on text columns. \<open>orbital_FailedTasks\<close> lists the messages of a job's
  failed tasks, \<open>cfg_Targets\<close> the regions with a configured message target, and
  \<open>prov_TransformCryptoAccessData\<close> the access metadata a key-management plugin makes of a key's crypto
  access data, by region; \<open>ks_CryptoAccessData\<close> is the crypto access data of the tenant's default key store.

  \<open>authz_keys\<close> is the content of the in-memory allow list for business users (tenant, IAM
  group, resource, action) at the time of an interaction; a background task maintains it.
\<close>

record env =
  cfg_Workflow :: "DeployWorkflow option"
  db_fault :: "nat \<Rightarrow> string option"
  authz_keys :: "nat \<Rightarrow> (string \<times> string) \<times> RepoResourceType \<times> RepoAction \<Rightarrow> bool"
  clock :: "nat \<Rightarrow> time"
  fresh_uuid :: "nat \<Rightarrow> uuid"
  uuid_Parse :: "string \<Rightarrow> uuid option"
  uuid_String :: "uuid \<Rightarrow> string"
  collate :: "string \<Rightarrow> string \<Rightarrow> bool"
  fsm_dest :: "EventDesc list \<Rightarrow> WorkflowState \<Rightarrow> Transition \<Rightarrow> WorkflowState option"
  idm_plugin :: "string option"
  idm_GetGroup :: "nat \<Rightarrow> string \<Rightarrow> idm_error + string"
  idm_ListGroupUsers :: "nat \<Rightarrow> string \<Rightarrow> idm_error + User list"
  idm_GetUserName :: "nat \<Rightarrow> string \<Rightarrow> idm_error + string"
  async_client :: bool
  queue_Enqueue :: "nat \<Rightarrow> string option"
  notify_New :: "gerror option"
  notify_CreateTask :: "nat \<Rightarrow> Workflow \<Rightarrow> Transition \<Rightarrow> string list \<Rightarrow> gerror + bool"
  orbital_PrepareJob :: "nat \<Rightarrow> JobType \<Rightarrow> JobData \<Rightarrow> string \<Rightarrow> gerror + Job"
  audit_Send :: "nat \<Rightarrow> string option"
  prov_init :: "nat \<Rightarrow> Key \<Rightarrow> (gerror \<times> bool) option"
  ks_NeedsProvisioning :: "nat \<Rightarrow> (gerror \<times> bool) + bool"
  cfg_CryptoCerts :: "gerror + (string \<Rightarrow> (string \<times> string) list)"
  km_plugin :: "string \<Rightarrow> bool"
  prov_CreateKey :: "nat \<Rightarrow> Key \<Rightarrow> gerror + ProviderKey"
  prov_GetKey :: "nat \<Rightarrow> Key \<Rightarrow> string \<Rightarrow> gerror + ProviderKey"
  prov_GetKeyVersions :: "nat \<Rightarrow> Key \<Rightarrow> string \<Rightarrow> gerror + ProviderKeyVersion list"
  prov_Command :: "nat \<Rightarrow> string \<Rightarrow> string \<Rightarrow> gerror option"
  prov_GetImportParameters :: "nat \<Rightarrow> Key \<Rightarrow> string \<Rightarrow> gerror + (string \<rightharpoonup> string)"
  prov_ValidateKeyAccessData :: "nat \<Rightarrow> string \<Rightarrow> (string \<times> string) list \<Rightarrow> KeyAccessData \<Rightarrow> gerror + bool \<times> string"
  registry_client :: bool
  registry_ListSystems :: "nat \<Rightarrow> SystemFilter_reg \<Rightarrow> int \<Rightarrow> string \<Rightarrow> gerror + RegistrySystem list \<times> string"
  registry_UnmapSystem :: "nat \<Rightarrow> string \<Rightarrow> string \<Rightarrow> string \<Rightarrow> gerror option"
  registry_UpdateL1KeyClaim :: "nat \<Rightarrow> SystemFilter_reg \<Rightarrow> bool \<Rightarrow> gerror + bool"
  registry_UpdateSystemStatus :: "nat \<Rightarrow> SystemFilter_reg \<Rightarrow> SystemType \<Rightarrow> string \<Rightarrow> gerror + bool"
  orbital_FailedTasks :: "nat \<Rightarrow> Job \<Rightarrow> gerror + string list"
  cfg_Targets :: "string list"
  cfg_Region :: string
  prov_TransformCryptoAccessData ::
    "nat \<Rightarrow> string \<Rightarrow> string \<Rightarrow> KeyAccessData \<Rightarrow> gerror + (string \<times> string) list"
  ks_CryptoAccessData :: "nat \<Rightarrow> gerror + KeyAccessData"
  sis_plugin :: bool
  sis_GetSystemInfo :: "nat \<Rightarrow> string \<Rightarrow> SystemType \<Rightarrow> gerror + (string \<times> string) list option"
  cfg_OptionalProperties :: "(string \<times> string) list"
  time_Parse :: "string \<Rightarrow> time option"
  base64_ok :: "string \<Rightarrow> bool"

definition tick_of :: "nat M" where
  "tick_of w = (Inr (tick w), w\<lparr>tick := Suc (tick w)\<rparr>)"

definition logCall :: "call \<Rightarrow> unit M" where
  "logCall c = modifyC (\<lambda>w. w\<lparr>calls := calls w @ [c]\<rparr>)"

definition timeNow :: "env \<Rightarrow> time M" where
  "timeNow env = bindC tick_of (\<lambda>n. returnC (clock env n))"

definition newUUID :: "env \<Rightarrow> uuid M" where
  "newUUID env = bindC tick_of (\<lambda>n. returnC (fresh_uuid env n))"

end
