(* ===== verification/Cmk_Context.thy ===== *)
theory Cmk_Context
  imports World
begin

text \<open>
  Request contexts (src/utils/context/context.go).

  A Go context is modelled by the values the program stores in it: tenant, request id,
  user type, business user data, internal role, and the open transaction
  (\<open>dbCtxKey\<close> of src/internal/repo/sql/repo.go). Extraction functions return a Go error
  or the value; injection functions return the extended context.
\<close>

record ClientData =
  cd_Identifier :: string
  cd_Groups :: "string list"
  cd_AuthContext :: "string \<rightharpoonup> string"

record ctx =
  ctx_Tenant :: "string option"
  ctx_RequestID :: "string option"
  ctx_UserType :: "string option"
  ctx_BusinessUserData :: "ClientData option"
  ctx_InternalUserData :: "string option"
  ctx_tx :: bool

definition BusinessUser :: string where "BusinessUser = ''Business''"
definition InternalUser :: string where "InternalUser = ''Internal''"

definition Background :: ctx where
  "Background = \<lparr>ctx_Tenant = None, ctx_RequestID = None, ctx_UserType = None,
     ctx_BusinessUserData = None, ctx_InternalUserData = None, ctx_tx = False\<rparr>"

text \<open>\<open>v, ok := ctx.Value(k).(string)\<close> with the test \<open>!ok || v == ""\<close>\<close>

definition nonempty_value :: "string option \<Rightarrow> gerror \<Rightarrow> gerror + string" where
  "nonempty_value v e = (case v of None \<Rightarrow> Inl e | Some s \<Rightarrow> if s = [] then Inl e else Inr s)"

definition ExtractTenantID :: "ctx \<Rightarrow> gerror + string" where
  "ExtractTenantID ctx = nonempty_value (ctx_Tenant ctx)
     (Wrap [E ''cmkcontext.ErrExtractTenantID''] (Some [E ''cmkcontext.ErrTenantInvalid'']))"

definition CreateTenantContext :: "ctx \<Rightarrow> string \<Rightarrow> ctx" where
  "CreateTenantContext ctx tenantSchema = ctx\<lparr>ctx_Tenant := Some tenantSchema\<rparr>"

definition InjectRequestID :: "string \<Rightarrow> ctx \<Rightarrow> string \<Rightarrow> ctx" where
  "InjectRequestID newid ctx requestID =
     ctx\<lparr>ctx_RequestID := Some (if requestID = [] then newid else requestID)\<rparr>"

definition GetRequestID :: "ctx \<Rightarrow> gerror + string" where
  "GetRequestID ctx = nonempty_value (ctx_RequestID ctx) [E ''cmkcontext.ErrGetRequestID'']"

definition ExtractUserType :: "ctx \<Rightarrow> gerror + string" where
  "ExtractUserType ctx = nonempty_value (ctx_UserType ctx) [E ''cmkcontext.ErrExtractUserType'']"

definition InjectBusinessUserData :: "ctx \<Rightarrow> ClientData \<Rightarrow> string list \<Rightarrow> ctx" where
  "InjectBusinessUserData ctx businessUserData authContextFields =
     (let filteredAuthCtx = (\<lambda>field. if field \<in> set authContextFields
                              then cd_AuthContext businessUserData field else None)
      in ctx\<lparr>ctx_UserType := Some BusinessUser,
             ctx_BusinessUserData :=
               Some (businessUserData\<lparr>cd_AuthContext := filteredAuthCtx\<rparr>)\<rparr>)"

definition ExtractBusinessUserData :: "ctx \<Rightarrow> gerror + ClientData" where
  "ExtractBusinessUserData ctx = (case ctx_BusinessUserData ctx of
       None \<Rightarrow> Inl [E ''cmkcontext.ErrExtractBusinessUserData'']
     | Some d \<Rightarrow> Inr d)"

definition ExtractBusinessUserDataIdentifier :: "ctx \<Rightarrow> gerror + string" where
  "ExtractBusinessUserDataIdentifier ctx = (case ExtractBusinessUserData ctx of
       Inl err \<Rightarrow> Inl err | Inr d \<Rightarrow> Inr (cd_Identifier d))"

definition ExtractBusinessUserDataGroups :: "ctx \<Rightarrow> gerror + string list" where
  "ExtractBusinessUserDataGroups ctx = (case ExtractBusinessUserData ctx of
       Inl err \<Rightarrow> Inl err | Inr d \<Rightarrow> Inr (cd_Groups d))"

definition ExtractBusinessUserDataAuthContextField :: "ctx \<Rightarrow> string \<Rightarrow> gerror + string" where
  "ExtractBusinessUserDataAuthContextField ctx field = (case ExtractBusinessUserData ctx of
       Inl err \<Rightarrow> Inl [E ''cmkcontext.ErrExtractBusinessUserDataAuthContext'']
     | Inr d \<Rightarrow> nonempty_value (cd_AuthContext d field)
                  [E ''cmkcontext.ErrExtractBusinessUserDataAuthContext''])"

definition ExtractBusinessUserDataIssuer :: "ctx \<Rightarrow> gerror + string" where
  "ExtractBusinessUserDataIssuer ctx = ExtractBusinessUserDataAuthContextField ctx ''issuer''"

definition ExtractBusinessUserDataAuthContext :: "ctx \<Rightarrow> gerror + (string \<rightharpoonup> string)" where
  "ExtractBusinessUserDataAuthContext ctx = (case ExtractBusinessUserData ctx of
       Inl err \<Rightarrow> Inl err | Inr d \<Rightarrow> Inr (cd_AuthContext d))"

definition InjectInternalUserData :: "string \<Rightarrow> ctx \<Rightarrow> string \<Rightarrow> gerror + ctx" where
  "InjectInternalUserData newid ctx role =
     (case ctx_UserType ctx of
        Some userType \<Rightarrow> if userType \<noteq> InternalUser
          then Inl [E ''cmkcontext.ErrInvalidUserType'']
          else Inr ((InjectRequestID newid ctx newid)
                     \<lparr>ctx_UserType := Some InternalUser, ctx_InternalUserData := Some role\<rparr>)
      | None \<Rightarrow> Inr ((InjectRequestID newid ctx newid)
                     \<lparr>ctx_UserType := Some InternalUser, ctx_InternalUserData := Some role\<rparr>))"

definition ExtractInternalRole :: "ctx \<Rightarrow> gerror + string" where
  "ExtractInternalRole ctx = (case ExtractUserType ctx of
       Inl err \<Rightarrow> Inl err
     | Inr userType \<Rightarrow>
         if userType \<noteq> InternalUser then Inl [E ''cmkcontext.ErrInvalidUserType'']
         else nonempty_value (ctx_InternalUserData ctx)
                [E ''cmkcontext.ErrExtractBusinessUserData''])"

definition ExtractUserIdentifier :: "ctx \<Rightarrow> gerror + string" where
  "ExtractUserIdentifier ctx = (case ExtractBusinessUserData ctx of
       Inr d \<Rightarrow> Inr (cd_Identifier d)
     | Inl _ \<Rightarrow> ExtractInternalRole ctx)"

definition BusinessToInternalContext :: "string \<Rightarrow> ctx \<Rightarrow> string \<Rightarrow> gerror + ctx" where
  "BusinessToInternalContext newid ctx role =
     (if case ctx_UserType ctx of None \<Rightarrow> False | Some userType \<Rightarrow> userType \<noteq> BusinessUser
      then Inl [E ''cmkcontext.ErrInvalidUserType'']
      else (case ExtractTenantID ctx of
          Inl err \<Rightarrow> Inl err
        | Inr tenantID \<Rightarrow>
            (case InjectInternalUserData newid (CreateTenantContext Background tenantID) role of
               Inl err \<Rightarrow> Inl err
             | Inr internalCtx \<Rightarrow>
                 (case GetRequestID ctx of
                    Inr requestID \<Rightarrow> Inr (InjectRequestID newid internalCtx requestID)
                  | Inl _ \<Rightarrow> Inr internalCtx))))"

section \<open>Lemmas\<close>

lemmas ctx_defs = nonempty_value_def ExtractTenantID_def CreateTenantContext_def
  InjectRequestID_def GetRequestID_def ExtractUserType_def ExtractBusinessUserData_def
  ExtractBusinessUserDataIdentifier_def ExtractBusinessUserDataGroups_def
  InjectInternalUserData_def ExtractInternalRole_def ExtractUserIdentifier_def
  BusinessToInternalContext_def Background_def BusinessUser_def InternalUser_def

lemma nonempty_value_Inr [simp]:
  "nonempty_value v e = Inr s \<longleftrightarrow> v = Some s \<and> s \<noteq> []"
  by (auto simp: nonempty_value_def split: option.splits)

lemma ExtractTenantID_tx [simp]: "ExtractTenantID (ctx\<lparr>ctx_tx := b\<rparr>) = ExtractTenantID ctx"
  by (simp add: ExtractTenantID_def)

lemma ExtractTenantID_Inr: "ExtractTenantID ctx = Inr t \<longleftrightarrow> ctx_Tenant ctx = Some t \<and> t \<noteq> []"
  by (simp add: ExtractTenantID_def)

lemma ExtractUserIdentifier_tx [simp]:
  "ExtractUserIdentifier (ctx\<lparr>ctx_tx := b\<rparr>) = ExtractUserIdentifier ctx"
  by (auto simp: ctx_defs split: option.splits sum.splits)

text \<open>
  The conversion to an internal context keeps the tenant and drops the business
  identity; an internal context cannot be converted again.
\<close>

lemma BusinessToInternalContext_result:
  assumes "BusinessToInternalContext newid ctx role = Inr ictx"
  shows "ctx_Tenant ictx = ctx_Tenant ctx \<and> ctx_BusinessUserData ictx = None \<and>
    ctx_UserType ictx = Some InternalUser \<and> ctx_InternalUserData ictx = Some role \<and>
    ctx_tx ictx = False"
  using assms by (auto simp: ctx_defs split: if_splits option.splits sum.splits)

lemma InjectInternalUserData_role:
  assumes "InjectInternalUserData newid ctx role = Inr ictx" and "role \<noteq> []"
  shows "ExtractInternalRole ictx = Inr role"
  using assms by (auto simp: ctx_defs split: if_splits option.splits)

end
