(* ===== verification/Authz.thy ===== *)
theory Authz
  imports Cmk_Context
begin

text \<open>
  Authorization (src/internal/authz): role policies, the allow lists built from them, and
  the decision for business and internal users.

  Policies are tables (role, policies), a policy lists resource types with their actions.
  The handler of the source is generic in resources and actions; the same definitions
  serve the API handler and the repository handler. Sending the audit record of a denial
  is a log output and is not part of the decision.
\<close>

section \<open>Policies\<close>

datatype APIResourceType =
    APIResourceTypeKeyConfiguration | APIResourceTypeKey | APIResourceTypeSystem
  | APIResourceTypeWorkFlow | APIResourceTypeUserGroup | APIResourceTypeTenant
  | APIResourceTypeTenantSettings | APIResourceTypeEvent | APIResourceTypeImportParams
  | APIResourceTypeKeyStoreConfig

datatype APIAction =
    APIActionRead | APIActionCreate | APIActionUpdate | APIActionDelete | APIActionKeyRotate
  | APIActionSystemModifyLink

type_synonym ('r, 'a) Resource = "'r \<times> 'a list"
type_synonym ('r, 'a) Policy = "string \<times> ('r, 'a) Resource list"
type_synonym ('r, 'a) RolePolicies = "(string \<times> ('r, 'a) Policy list) list"

definition KeyAdminRole :: string where "KeyAdminRole = ''KEY_ADMINISTRATOR''"
definition TenantAdminRole :: string where "TenantAdminRole = ''TENANT_ADMINISTRATOR''"
definition TenantAuditorRole :: string where "TenantAuditorRole = ''TENANT_AUDITOR''"

definition APIPolicies :: "(APIResourceType, APIAction) RolePolicies" where
  "APIPolicies =
    [(''TENANT_AUDITOR'', [(''AuditorPolicy'',
        [(APIResourceTypeKeyConfiguration, [APIActionRead]),
         (APIResourceTypeKey, [APIActionRead]),
         (APIResourceTypeSystem, [APIActionRead]),
         (APIResourceTypeWorkFlow, [APIActionRead]),
         (APIResourceTypeTenantSettings, [APIActionRead]),
         (APIResourceTypeUserGroup, [APIActionRead]),
         (APIResourceTypeTenant, [APIActionRead])])]),
     (''KEY_ADMINISTRATOR'', [(''KeyAdminPolicy'',
        [(APIResourceTypeKeyConfiguration, [APIActionRead, APIActionCreate, APIActionDelete,
            APIActionUpdate]),
         (APIResourceTypeKey, [APIActionRead, APIActionCreate, APIActionDelete, APIActionUpdate,
            APIActionKeyRotate]),
         (APIResourceTypeUserGroup, [APIActionRead]),
         (APIResourceTypeSystem, [APIActionSystemModifyLink, APIActionRead, APIActionUpdate]),
         (APIResourceTypeWorkFlow, [APIActionRead, APIActionCreate, APIActionDelete,
            APIActionUpdate]),
         (APIResourceTypeTenantSettings, [APIActionRead])])]),
     (''TENANT_ADMINISTRATOR'', [(''TenantAdminPolicy'',
        [(APIResourceTypeTenant, [APIActionRead, APIActionUpdate]),
         (APIResourceTypeUserGroup, [APIActionRead, APIActionCreate, APIActionDelete,
            APIActionUpdate]),
         (APIResourceTypeTenantSettings, [APIActionRead, APIActionUpdate])])])]"

definition tenantAuditor_repo :: "(RepoResourceType, RepoAction) Policy list" where
  "tenantAuditor_repo =
     [(''AuditorPolicy'',
      [(RepoResourceTypeCertificate, [RepoActionList, RepoActionFirst, RepoActionCount]),
       (RepoResourceTypeEvent, [RepoActionList, RepoActionFirst, RepoActionCount]),
       (RepoResourceTypeGroup, [RepoActionList, RepoActionFirst, RepoActionCount]),
       (RepoResourceTypeImportparam, [RepoActionList, RepoActionFirst, RepoActionCount]),
       (RepoResourceTypeKey, [RepoActionList, RepoActionFirst, RepoActionCount]),
       (RepoResourceTypeKeyconfiguration, [RepoActionList, RepoActionFirst, RepoActionCount]),
       (RepoResourceTypeKeystore, [RepoActionList, RepoActionFirst, RepoActionCount]),
       (RepoResourceTypeKeyversion, [RepoActionList, RepoActionFirst, RepoActionCount]),
       (RepoResourceTypeKeyLabel, [RepoActionList, RepoActionFirst, RepoActionCount]),
       (RepoResourceTypeSystem, [RepoActionList, RepoActionFirst, RepoActionCount]),
       (RepoResourceTypeSystemProperty, [RepoActionList, RepoActionFirst, RepoActionCount]),
       (RepoResourceTypeTag, [RepoActionList, RepoActionFirst, RepoActionCount]),
       (RepoResourceTypeTenant, [RepoActionList, RepoActionFirst, RepoActionCount]),
       (RepoResourceTypeTenantconfig, [RepoActionList, RepoActionFirst, RepoActionCount]),
       (RepoResourceTypeWorkflow, [RepoActionList, RepoActionFirst, RepoActionCount]),
       (RepoResourceTypeWorkflowApprover, [RepoActionList, RepoActionFirst,
          RepoActionCount])])]"

definition keyAdmin_repo :: "(RepoResourceType, RepoAction) Policy list" where
  "keyAdmin_repo =
     [(''KeyAdminPolicy'',
      [(RepoResourceTypeCertificate, [RepoActionList, RepoActionFirst, RepoActionCount,
          RepoActionCreate, RepoActionUpdate, RepoActionDelete]),
       (RepoResourceTypeEvent, [RepoActionList, RepoActionFirst, RepoActionCount,
          RepoActionCreate, RepoActionUpdate, RepoActionDelete]),
       (RepoResourceTypeGroup, [RepoActionList, RepoActionFirst, RepoActionCount]),
       (RepoResourceTypeImportparam, [RepoActionList, RepoActionFirst, RepoActionCount,
          RepoActionCreate, RepoActionUpdate, RepoActionDelete]),
       (RepoResourceTypeKey, [RepoActionList, RepoActionFirst, RepoActionCount,
          RepoActionCreate, RepoActionUpdate, RepoActionDelete]),
       (RepoResourceTypeKeyconfiguration, [RepoActionList, RepoActionFirst, RepoActionCount,
          RepoActionCreate, RepoActionUpdate, RepoActionDelete]),
       (RepoResourceTypeKeystore, [RepoActionList, RepoActionFirst, RepoActionCount,
          RepoActionCreate, RepoActionUpdate, RepoActionDelete]),
       (RepoResourceTypeKeyversion, [RepoActionList, RepoActionFirst, RepoActionCount,
          RepoActionCreate, RepoActionUpdate, RepoActionDelete]),
       (RepoResourceTypeKeyLabel, [RepoActionList, RepoActionFirst, RepoActionCount,
          RepoActionCreate, RepoActionUpdate, RepoActionDelete]),
       (RepoResourceTypeSystem, [RepoActionList, RepoActionFirst, RepoActionCount,
          RepoActionCreate, RepoActionUpdate, RepoActionDelete]),
       (RepoResourceTypeSystemProperty, [RepoActionList, RepoActionFirst, RepoActionCount,
          RepoActionCreate, RepoActionUpdate, RepoActionDelete]),
       (RepoResourceTypeTag, [RepoActionList, RepoActionFirst, RepoActionCount,
          RepoActionCreate, RepoActionUpdate, RepoActionDelete]),
       (RepoResourceTypeTenant, [RepoActionList, RepoActionFirst, RepoActionCount]),
       (RepoResourceTypeTenantconfig, [RepoActionList, RepoActionFirst, RepoActionCount,
          RepoActionCreate, RepoActionUpdate]),
       (RepoResourceTypeWorkflow, [RepoActionList, RepoActionFirst, RepoActionCount,
          RepoActionCreate, RepoActionUpdate, RepoActionDelete]),
       (RepoResourceTypeWorkflowApprover, [RepoActionList, RepoActionFirst, RepoActionCount,
          RepoActionCreate, RepoActionUpdate, RepoActionDelete])])]"

definition tenantAdmin_repo :: "(RepoResourceType, RepoAction) Policy list" where
  "tenantAdmin_repo =
     [(''TenantAdminPolicy'',
      [(RepoResourceTypeGroup, [RepoActionList, RepoActionFirst, RepoActionCount,
          RepoActionCreate, RepoActionUpdate, RepoActionDelete]),
       (RepoResourceTypeKeyconfiguration, [RepoActionFirst]),
       (RepoResourceTypeTenant, [RepoActionList, RepoActionFirst, RepoActionCount,
          RepoActionCreate, RepoActionUpdate, RepoActionDelete]),
       (RepoResourceTypeTenantconfig, [RepoActionList, RepoActionFirst, RepoActionCount,
          RepoActionCreate, RepoActionUpdate, RepoActionDelete])])]"

definition RepoBusinessPolicies :: "(RepoResourceType, RepoAction) RolePolicies" where
  "RepoBusinessPolicies =
    [(''TENANT_AUDITOR'', tenantAuditor_repo),
     (''KEY_ADMINISTRATOR'', keyAdmin_repo),
     (''TENANT_ADMINISTRATOR'', tenantAdmin_repo)]"

definition internalBusinessAuthz_repo :: "(RepoResourceType, RepoAction) Policy list" where
  "internalBusinessAuthz_repo =
     [(''InternalBusinessAuthz'',
      [(RepoResourceTypeGroup, [RepoActionList, RepoActionCount]),
       (RepoResourceTypeKeyconfiguration, [RepoActionCount])])]"

definition internalTenantCLI_repo :: "(RepoResourceType, RepoAction) Policy list" where
  "internalTenantCLI_repo =
     [(''InternalTenantCLI'',
      [(RepoResourceTypeTenant, [RepoActionList, RepoActionFirst, RepoActionCreate,
          RepoActionDelete, RepoActionUpdate]),
       (RepoResourceTypeGroup, [RepoActionCreate])])]"

definition internalEventReconciler_repo :: "(RepoResourceType, RepoAction) Policy list" where
  "internalEventReconciler_repo =
     [(''InternalEventReconciler'',
      [(RepoResourceTypeTenant, [RepoActionFirst]),
       (RepoResourceTypeKey, [RepoActionFirst, RepoActionList, RepoActionUpdate]),
       (RepoResourceTypeSystem, [RepoActionFirst, RepoActionCount, RepoActionList,
          RepoActionUpdate]),
       (RepoResourceTypeCertificate, [RepoActionFirst]),
       (RepoResourceTypeTenantconfig, [RepoActionFirst, RepoActionUpdate, RepoActionCreate]),
       (RepoResourceTypeEvent, [RepoActionUpdate, RepoActionDelete]),
       (RepoResourceTypeKeyversion, [RepoActionFirst])])]"

definition internalTenantProvisioning_repo :: "(RepoResourceType, RepoAction) Policy list" where
  "internalTenantProvisioning_repo =
     [(''InternalTenantProvisioning'',
      [(RepoResourceTypeTenant, [RepoActionCreate, RepoActionUpdate, RepoActionDelete]),
       (RepoResourceTypeGroup, [RepoActionFirst, RepoActionCreate]),
       (RepoResourceTypeSystem, [RepoActionCount, RepoActionList, RepoActionFirst,
          RepoActionUpdate]),
       (RepoResourceTypeKey, [RepoActionCount, RepoActionList, RepoActionUpdate]),
       (RepoResourceTypeKeyconfiguration, [RepoActionCount, RepoActionFirst,
          RepoActionList])])]"

definition internalTaskProcessing_repo :: "(RepoResourceType, RepoAction) Policy list" where
  "internalTaskProcessing_repo =
     [(''InternalTaskProcessing'',
      [(RepoResourceTypeTenant, [RepoActionCount, RepoActionList])])]"

definition internalTaskCertRotation_repo :: "(RepoResourceType, RepoAction) Policy list" where
  "internalTaskCertRotation_repo =
     [(''InternalTaskCertRotation'',
      [(RepoResourceTypeCertificate, [RepoActionList, RepoActionFirst, RepoActionCreate,
          RepoActionCount, RepoActionUpdate])])]"

definition internalTaskWorkflowApprovers_repo :: "(RepoResourceType, RepoAction) Policy list" where
  "internalTaskWorkflowApprovers_repo =
     [(''InternalTaskWorkflowApprovers'',
      [(RepoResourceTypeTenant, [RepoActionFirst]),
       (RepoResourceTypeTenantconfig, [RepoActionFirst]),
       (RepoResourceTypeWorkflow, [RepoActionUpdate, RepoActionFirst, RepoActionUpdate,
          RepoActionCreate]),
       (RepoResourceTypeWorkflowApprover, [RepoActionCreate, RepoActionUpdate,
          RepoActionCount, RepoActionList]),
       (RepoResourceTypeKey, [RepoActionFirst, RepoActionUpdate]),
       (RepoResourceTypeKeyversion, [RepoActionFirst]),
       (RepoResourceTypeGroup, [RepoActionCount, RepoActionList]),
       (RepoResourceTypeKeyconfiguration, [RepoActionFirst, RepoActionList, RepoActionCount]),
       (RepoResourceTypeSystem, [RepoActionCount, RepoActionList, RepoActionFirst,
          RepoActionUpdate]),
       (RepoResourceTypeSystemProperty, [RepoActionCount, RepoActionList]),
       (RepoResourceTypeEvent, [RepoActionFirst, RepoActionList, RepoActionCount])])]"

definition internalTaskHYOKSync_repo :: "(RepoResourceType, RepoAction) Policy list" where
  "internalTaskHYOKSync_repo =
     [(''InternalTaskHYOKSync'',
      [(RepoResourceTypeKey, [RepoActionCount, RepoActionList, RepoActionUpdate,
          RepoActionFirst]),
       (RepoResourceTypeKeyversion, [RepoActionCreate, RepoActionCount, RepoActionList,
          RepoActionUpdate, RepoActionFirst]),
       (RepoResourceTypeCertificate, [RepoActionFirst, RepoActionCount, RepoActionCreate,
          RepoActionUpdate]),
       (RepoResourceTypeKeyconfiguration, [RepoActionFirst])])]"

definition internalTaskPendingStateSync_repo :: "(RepoResourceType, RepoAction) Policy list" where
  "internalTaskPendingStateSync_repo =
     [(''InternalTaskPendingStateSync'',
      [(RepoResourceTypeKey, [RepoActionFirst, RepoActionCount, RepoActionList,
          RepoActionUpdate, RepoActionCreate]),
       (RepoResourceTypeKeyversion, [RepoActionFirst]),
       (RepoResourceTypeKeyconfiguration, [RepoActionFirst, RepoActionUpdate]),
       (RepoResourceTypeCertificate, [RepoActionFirst, RepoActionCount, RepoActionCreate,
          RepoActionUpdate]),
       (RepoResourceTypeTenantconfig, [RepoActionFirst, RepoActionDelete, RepoActionCreate]),
       (RepoResourceTypeKeystore, [RepoActionFirst, RepoActionDelete])])]"

definition internalTaskKeystorePool_repo :: "(RepoResourceType, RepoAction) Policy list" where
  "internalTaskKeystorePool_repo =
     [(''InternalTaskKeystorePool'',
      [(RepoResourceTypeKeystore, [RepoActionCount, RepoActionCreate])])]"

definition internalTaskSystemRefresh_repo :: "(RepoResourceType, RepoAction) Policy list" where
  "internalTaskSystemRefresh_repo =
     [(''InternalTaskSystemRefresh'',
      [(RepoResourceTypeKeyconfiguration, [RepoActionList, RepoActionCount]),
       (RepoResourceTypeSystem, [RepoActionCount, RepoActionList]),
       (RepoResourceTypeSystemProperty, [RepoActionCount, RepoActionList, RepoActionUpdate]),
       (RepoResourceTypeEvent, [RepoActionCount, RepoActionList])])]"

definition internalTaskTenantRefresh_repo :: "(RepoResourceType, RepoAction) Policy list" where
  "internalTaskTenantRefresh_repo =
     [(''InternalTaskTenantRefresh'',
      [(RepoResourceTypeTenant, [RepoActionUpdate])])]"

definition internalTaskWorkflowCleanup_repo :: "(RepoResourceType, RepoAction) Policy list" where
  "internalTaskWorkflowCleanup_repo =
     [(''InternalTaskWorkflowCleanup'',
      [(RepoResourceTypeTenantconfig, [RepoActionFirst, RepoActionUpdate, RepoActionCreate]),
       (RepoResourceTypeTenant, [RepoActionFirst]),
       (RepoResourceTypeWorkflow, [RepoActionList, RepoActionCount, RepoActionDelete])])]"

definition internalTaskWorkflowExpiration_repo :: "(RepoResourceType, RepoAction) Policy list" where
  "internalTaskWorkflowExpiration_repo =
     [(''InternalTaskWorkflowExpiration'',
      [(RepoResourceTypeWorkflow, [RepoActionFirst, RepoActionList, RepoActionCount,
          RepoActionUpdate]),
       (RepoResourceTypeSystem, [RepoActionUpdate])])]"

definition RepoInternalPolicies :: "(RepoResourceType, RepoAction) RolePolicies" where
  "RepoInternalPolicies =
    [(''INTERNAL_BUSINESS_AUTH'', internalBusinessAuthz_repo),
     (''INTERNAL_TENANT_CLI'', internalTenantCLI_repo),
     (''INTERNAL_EVENT_RECONCILER'', internalEventReconciler_repo),
     (''INTERNAL_TENANT_PROVISIONING'', internalTenantProvisioning_repo),
     (''INTERNAL_TASK_PROCESSING'', internalTaskProcessing_repo),
     (''INTERNAL_TASK_CERT_ROTATION'', internalTaskCertRotation_repo),
     (''INTERNAL_TASK_WORKFLOW_APPROVERS'', internalTaskWorkflowApprovers_repo),
     (''INTERNAL_TASK_HYOK_SYNC'', internalTaskHYOKSync_repo),
     (''INTERNAL_TASK_PENDING_STATE_SYNC'', internalTaskPendingStateSync_repo),
     (''INTERNAL_TASK_KEYSTORE_POOL'', internalTaskKeystorePool_repo),
     (''INTERNAL_TASK_SYSTEM_REFRESH'', internalTaskSystemRefresh_repo),
     (''INTERNAL_TASK_TENANT_REFRESH'', internalTaskTenantRefresh_repo),
     (''INTERNAL_TASK_WORKFLOW_CLEANUP'', internalTaskWorkflowCleanup_repo),
     (''INTERNAL_TASK_WORKFLOW_EXPIRATION'', internalTaskWorkflowExpiration_repo)]"

definition repoActionList :: "RepoAction list" where
  "repoActionList = [RepoActionList, RepoActionFirst, RepoActionCount, RepoActionCreate,
     RepoActionUpdate, RepoActionDelete]"

definition RepoResourceTypeActions :: "(RepoResourceType \<times> RepoAction list) list" where
  "RepoResourceTypeActions = map (\<lambda>r. (r, repoActionList))
     [RepoResourceTypeCertificate, RepoResourceTypeEvent, RepoResourceTypeGroup,
      RepoResourceTypeImportparam, RepoResourceTypeKey, RepoResourceTypeKeyconfiguration,
      RepoResourceTypeKeystore, RepoResourceTypeKeyversion, RepoResourceTypeKeyLabel,
      RepoResourceTypeSystem, RepoResourceTypeSystemProperty, RepoResourceTypeTag,
      RepoResourceTypeTenant, RepoResourceTypeTenantconfig, RepoResourceTypeWorkflow,
      RepoResourceTypeWorkflowApprover]"

definition APIResourceTypeActions :: "(APIResourceType \<times> APIAction list) list" where
  "APIResourceTypeActions =
    [(APIResourceTypeKeyConfiguration,
        [APIActionRead, APIActionCreate, APIActionDelete, APIActionUpdate]),
     (APIResourceTypeKey,
        [APIActionRead, APIActionCreate, APIActionDelete, APIActionUpdate, APIActionKeyRotate]),
     (APIResourceTypeSystem, [APIActionRead, APIActionSystemModifyLink]),
     (APIResourceTypeWorkFlow,
        [APIActionRead, APIActionCreate, APIActionDelete, APIActionUpdate]),
     (APIResourceTypeTenantSettings, [APIActionRead, APIActionUpdate]),
     (APIResourceTypeUserGroup,
        [APIActionRead, APIActionCreate, APIActionDelete, APIActionUpdate]),
     (APIResourceTypeTenant, [APIActionRead, APIActionUpdate])]"

section \<open>Endpoints\<close>

definition AllowListByAPI :: "string list" where
  "AllowListByAPI =
    [''GET /tenants'',
     ''GET /tenants/{tenantID}'',
     ''GET /userInfo'',
     ''GET /swagger'']"

definition RestrictionsByAPI :: "(string \<times> APIResourceType \<times> APIAction) list" where
  "RestrictionsByAPI =
    [(''GET /keys'', APIResourceTypeKey, APIActionRead),
     (''POST /keys'', APIResourceTypeKey, APIActionCreate),
     (''GET /keys/{keyID}'', APIResourceTypeKey, APIActionRead),
     (''PATCH /keys/{keyID}'', APIResourceTypeKey, APIActionUpdate),
     (''DELETE /keys/{keyID}'', APIResourceTypeKey, APIActionDelete),
     (''GET /keys/{keyID}/importParams'', APIResourceTypeKey, APIActionRead),
     (''POST /keys/{keyID}/importKeyMaterial'', APIResourceTypeKey, APIActionUpdate),
     (''GET /keys/{keyID}/versions'', APIResourceTypeKey, APIActionRead),
     (''POST /keys/{keyID}/versions'', APIResourceTypeKey, APIActionCreate),
     (''GET /keys/{keyID}/versions/{version}'', APIResourceTypeKey, APIActionRead),
     (''GET /key/{keyID}/labels'', APIResourceTypeKey, APIActionRead),
     (''POST /key/{keyID}/labels'', APIResourceTypeKey, APIActionCreate),
     (''DELETE /key/{keyID}/label/{labelName}'', APIResourceTypeKey, APIActionDelete),
     (''GET /keyConfigurations'', APIResourceTypeKeyConfiguration, APIActionRead),
     (''POST /keyConfigurations'', APIResourceTypeKeyConfiguration, APIActionCreate),
     (''GET /keyConfigurations/{keyConfigurationID}'', APIResourceTypeKeyConfiguration,
            APIActionRead),
     (''PATCH /keyConfigurations/{keyConfigurationID}'', APIResourceTypeKeyConfiguration,
            APIActionUpdate),
     (''DELETE /keyConfigurations/{keyConfigurationID}'', APIResourceTypeKeyConfiguration,
            APIActionDelete),
     (''GET /keyConfigurations/{keyConfigurationID}/tags'', APIResourceTypeKeyConfiguration,
            APIActionRead),
     (''PUT /keyConfigurations/{keyConfigurationID}/tags'', APIResourceTypeKeyConfiguration,
            APIActionUpdate),
     (''GET /keyConfigurations/{keyConfigurationID}/certificates'',
            APIResourceTypeKeyConfiguration, APIActionRead),
     (''GET /systems'', APIResourceTypeSystem, APIActionRead),
     (''GET /systems/filterOptions'', APIResourceTypeSystem, APIActionRead),
     (''GET /systems/{systemID}'', APIResourceTypeSystem, APIActionRead),
     (''PATCH /systems/{systemID}/link'', APIResourceTypeSystem, APIActionSystemModifyLink),
     (''DELETE /systems/{systemID}/link'', APIResourceTypeSystem, APIActionSystemModifyLink),
     (''POST /systems/{systemID}/recoveryActions'', APIResourceTypeSystem,
            APIActionSystemModifyLink),
     (''GET /systems/{systemID}/recoveryActions'', APIResourceTypeSystem,
            APIActionSystemModifyLink),
     (''POST /workflows'', APIResourceTypeWorkFlow, APIActionCreate),
     (''GET /workflows'', APIResourceTypeWorkFlow, APIActionRead),
     (''POST /workflows/check'', APIResourceTypeWorkFlow, APIActionUpdate),
     (''GET /workflows/{workflowID}'', APIResourceTypeWorkFlow, APIActionRead),
     (''GET /workflows/{workflowID}/approvers'', APIResourceTypeWorkFlow, APIActionRead),
     (''POST /workflows/{workflowID}/approvers'', APIResourceTypeWorkFlow, APIActionCreate),
     (''POST /workflows/{workflowID}/state'', APIResourceTypeWorkFlow, APIActionUpdate),
     (''GET /groups'', APIResourceTypeUserGroup, APIActionRead),
     (''POST /groups'', APIResourceTypeUserGroup, APIActionCreate),
     (''POST /groups/iamCheck'', APIResourceTypeUserGroup, APIActionRead),
     (''GET /groups/{groupID}'', APIResourceTypeUserGroup, APIActionRead),
     (''PATCH /groups/{groupID}'', APIResourceTypeUserGroup, APIActionUpdate),
     (''DELETE /groups/{groupID}'', APIResourceTypeUserGroup, APIActionDelete),
     (''GET /tenantConfigurations/keystores'', APIResourceTypeTenantSettings, APIActionRead),
     (''GET /tenantConfigurations/workflow'', APIResourceTypeTenantSettings, APIActionRead),
     (''PATCH /tenantConfigurations/workflow'', APIResourceTypeTenantSettings, APIActionUpdate),
     (''GET /tenantInfo'', APIResourceTypeTenant, APIActionRead)]"

section \<open>Allow lists\<close>

text \<open>the resources and actions a list of policies grants\<close>

definition grants :: "('r, 'a) Policy list \<Rightarrow> ('r \<times> 'a) list" where
  "grants policies =
     concat (map (\<lambda>(_, ress). concat (map (\<lambda>(r, acts). map (\<lambda>a. (r, a)) acts) ress)) policies)"

definition NewInternalUserAuthzData :: "('r, 'a) RolePolicies \<Rightarrow> (string \<times> 'r \<times> 'a) list" where
  "NewInternalUserAuthzData rolePolicies =
     concat (map (\<lambda>(role, policies). map (\<lambda>g. (role, g)) (grants policies)) rolePolicies)"

text \<open>
  \<open>AddUser\<close>: for each role (in the iteration order of the map) the tenant and the IAM
  groups that have it; it stops at a role without policies
\<close>

fun AddUser ::
  "('r, 'a) RolePolicies \<Rightarrow> (string \<times> string \<times> string list) list \<Rightarrow>
   ((string \<times> string) \<times> 'r \<times> 'a) list \<Rightarrow>
   gerror option \<times> ((string \<times> string) \<times> 'r \<times> 'a) list" where
  "AddUser rolePolicies [] authzKeys = (None, authzKeys)"
| "AddUser rolePolicies ((role, tenant, grps) # users) authzKeys =
     (case map_of rolePolicies role of
        None \<Rightarrow> (Some (Wrap [E ''authz.ErrValidation''] (Some [E ''authz.ErrInvalidRole''])), authzKeys)
      | Some policies \<Rightarrow>
          AddUser rolePolicies users
            (authzKeys @ concat (map (\<lambda>g. map (\<lambda>grp. ((tenant, grp), g)) grps) (grants policies))))"

section \<open>Decisions\<close>

text \<open>the two allow lists as lookups\<close>

record ('r, 'a) Handler =
  h_internal :: "string \<times> 'r \<times> 'a \<Rightarrow> bool"
  h_business :: "(string \<times> string) \<times> 'r \<times> 'a \<Rightarrow> bool"
  h_resourceActions :: "('r \<times> 'a list) list"

definition isValidResourceAction :: "('r, 'a) Handler \<Rightarrow> 'r \<Rightarrow> 'a \<Rightarrow> gerror option" where
  "isValidResourceAction h resource action = (case map_of (h_resourceActions h) resource of
       None \<Rightarrow> Some [E ''authz.ErrResourceTypeInvalid'']
     | Some acts \<Rightarrow> if action \<in> set acts then None
                   else Some [E ''authz.ErrActionInvalidForResource''])"

text \<open>\<open>IsValidContext\<close> of a business request: not empty, same tenant, business user\<close>

definition validBusinessRequest :: "ctx \<Rightarrow> string \<Rightarrow> string \<Rightarrow> string list \<Rightarrow> gerror option" where
  "validBusinessRequest ctx tenantID userName grps =
     (if userName = [] \<or> grps = [] then Some [E ''authz.ErrEmptyRequest'']
      else case ExtractTenantID ctx of
          Inl err \<Rightarrow> Some err
        | Inr tenant \<Rightarrow>
            if tenantID \<noteq> tenant then Some [E ''authz.ErrWrongTenantID'']
            else (case ExtractUserType ctx of
                Inl err \<Rightarrow> Some err
              | Inr userType \<Rightarrow> if userType \<noteq> BusinessUser
                  then Some [E ''authz.ErrNoAuthzForUserType''] else None))"

definition validInternalRequest :: "ctx \<Rightarrow> string \<Rightarrow> gerror option" where
  "validInternalRequest ctx role =
     (if role = [] then Some [E ''authz.ErrEmptyRequest'']
      else case ExtractUserType ctx of
          Inl err \<Rightarrow> Some err
        | Inr userType \<Rightarrow> if userType \<noteq> InternalUser
            then Some [E ''authz.ErrNoAuthzForUserType''] else None)"

definition IsBusinessUserAllowed ::
  "('r, 'a) Handler \<Rightarrow> ctx \<Rightarrow> string \<Rightarrow> string \<Rightarrow> string list \<Rightarrow> 'r \<Rightarrow> 'a \<Rightarrow> gerror + bool" where
  "IsBusinessUserAllowed h ctx tenantID userName grps resource action =
     (case validBusinessRequest ctx tenantID userName grps of
        Some err \<Rightarrow> Inl (Wrap [E ''authz.ErrInvalidRequest''] (Some err))
      | None \<Rightarrow> (case isValidResourceAction h resource action of
          Some err \<Rightarrow> Inl (Wrap [E ''authz.ErrInvalidRequest''] (Some [E ''authz.ErrInvalidRequest'']))
        | None \<Rightarrow>
            if \<exists>grp \<in> set grps. h_business h ((tenantID, grp), resource, action) then Inr True
            else Inl (Wrap [E ''authz.ErrAuthorizationDecision''] (Some [E ''authz.ErrAuthorizationDenied'']))))"

definition IsInternalUserAllowed ::
  "('r, 'a) Handler \<Rightarrow> ctx \<Rightarrow> string \<Rightarrow> 'r \<Rightarrow> 'a \<Rightarrow> gerror + bool" where
  "IsInternalUserAllowed h ctx role resource action =
     (case validInternalRequest ctx role of
        Some err \<Rightarrow> Inl (Wrap [E ''authz.ErrInvalidRequest''] (Some err))
      | None \<Rightarrow> (case isValidResourceAction h resource action of
          Some err \<Rightarrow> Inl (Wrap [E ''authz.ErrInvalidRequest''] (Some [E ''authz.ErrInvalidRequest'']))
        | None \<Rightarrow>
            if h_internal h (role, resource, action) then Inr True
            else Inl (Wrap [E ''authz.ErrAuthorizationDecision''] (Some [E ''authz.ErrAuthorizationDenied'']))))"

text \<open>\<open>NewRequest\<close>: the user must not be empty and the context must carry a request id\<close>

definition NewRequest :: "ctx \<Rightarrow> bool \<Rightarrow> gerror option" where
  "NewRequest ctx userIsEmpty =
     (if userIsEmpty then Some (Wrap [E ''authz.ErrValidation''] (Some [E ''authz.ErrUserEmpty'']))
      else case GetRequestID ctx of Inl err \<Rightarrow> Some err | Inr _ \<Rightarrow> None)"

definition checkBusinessUserAuthz :: "('r, 'a) Handler \<Rightarrow> ctx \<Rightarrow> 'r \<Rightarrow> 'a \<Rightarrow> gerror + bool" where
  "checkBusinessUserAuthz h ctx resource action = (case ExtractTenantID ctx of
       Inl err \<Rightarrow> Inl (Wrap [E ''authz.ErrExtractTenantID''] (Some err))
     | Inr tenant \<Rightarrow> (case ExtractBusinessUserData ctx of
         Inl err \<Rightarrow> Inl (Wrap [E ''authz.ErrExtractBusinessUserData''] (Some err))
       | Inr d \<Rightarrow> (case NewRequest ctx (cd_Identifier d = [] \<or> cd_Groups d = []) of
           Some err \<Rightarrow> Inl (Wrap [E ''authz.ErrCreateAuthzRequest''] (Some err))
         | None \<Rightarrow>
             (case IsBusinessUserAllowed h ctx tenant (cd_Identifier d) (cd_Groups d) resource action of
                Inl err \<Rightarrow> Inl (Wrap [E ''authz.ErrAuthzDecision''] (Some err))
              | Inr allowed \<Rightarrow> Inr allowed))))"

definition checkInternalUserAuthz :: "('r, 'a) Handler \<Rightarrow> ctx \<Rightarrow> 'r \<Rightarrow> 'a \<Rightarrow> gerror + bool" where
  "checkInternalUserAuthz h ctx resource action = (case ExtractInternalRole ctx of
       Inl err \<Rightarrow> Inl (Wrap [E ''authz.ErrExtractInternalUserData''] (Some err))
     | Inr role \<Rightarrow> (case NewRequest ctx (role = []) of
         Some err \<Rightarrow> Inl (Wrap [E ''authz.ErrCreateAuthzRequest''] (Some err))
       | None \<Rightarrow> (case IsInternalUserAllowed h ctx role resource action of
           Inl err \<Rightarrow> Inl (Wrap [E ''authz.ErrAuthzDecision''] (Some err))
         | Inr allowed \<Rightarrow> Inr allowed)))"

definition CheckAuthz :: "('r, 'a) Handler \<Rightarrow> ctx \<Rightarrow> 'r \<Rightarrow> 'a \<Rightarrow> gerror + bool" where
  "CheckAuthz h ctx resource action = (case ExtractUserType ctx of
       Inl err \<Rightarrow> Inl (Wrap [E ''authz.ErrAuthzDecision''] (Some err))
     | Inr userType \<Rightarrow>
         (case (if userType = BusinessUser then checkBusinessUserAuthz h ctx resource action
                else if userType = InternalUser then checkInternalUserAuthz h ctx resource action
                else Inl [E ''authz.ErrNoAuthzForUserType'']) of
            Inl err \<Rightarrow> Inl (Wrap [E ''authz.ErrAuthzDecision''] (Some err))
          | Inr allowed \<Rightarrow> if \<not> allowed
              then Inl (Wrap [E ''authz.ErrAuthzDecision''] (Some [E ''authz.ErrAuthzUnauthorized'']))
              else Inr allowed))"

definition CheckInternalUserRole :: "ctx \<Rightarrow> string \<Rightarrow> gerror option" where
  "CheckInternalUserRole ctx role = (case ExtractInternalRole ctx of
       Inl err \<Rightarrow> Some (Wrap [E ''authz.ErrExtractInternalUserData''] (Some err))
     | Inr ctxRole \<Rightarrow> if ctxRole \<noteq> role then Some [E ''authz.ErrAuthzUnauthorized''] else None)"

definition CheckInternalUserRoles :: "ctx \<Rightarrow> string list \<Rightarrow> gerror option" where
  "CheckInternalUserRoles ctx allowedRoles = (case ExtractInternalRole ctx of
       Inl err \<Rightarrow> Some (Wrap [E ''authz.ErrExtractInternalUserData''] (Some err))
     | Inr ctxRole \<Rightarrow> if ctxRole \<notin> set allowedRoles then Some [E ''authz.ErrAuthzUnauthorized'']
                      else None)"

text \<open>the lookup in the allow list of the internal users, evaluated in the policies of the role only\<close>

definition internal_allowed :: "string \<times> RepoResourceType \<times> RepoAction \<Rightarrow> bool" where
  "internal_allowed k \<longleftrightarrow> k \<in> set (NewInternalUserAuthzData RepoInternalPolicies)"

definition internal_policy :: "string \<Rightarrow> (RepoResourceType, RepoAction) Policy list" where
  "internal_policy role =
    (if role = ''INTERNAL_BUSINESS_AUTH'' then internalBusinessAuthz_repo
     else if role = ''INTERNAL_TENANT_CLI'' then internalTenantCLI_repo
     else if role = ''INTERNAL_EVENT_RECONCILER'' then internalEventReconciler_repo
     else if role = ''INTERNAL_TENANT_PROVISIONING'' then internalTenantProvisioning_repo
     else if role = ''INTERNAL_TASK_PROCESSING'' then internalTaskProcessing_repo
     else if role = ''INTERNAL_TASK_CERT_ROTATION'' then internalTaskCertRotation_repo
     else if role = ''INTERNAL_TASK_WORKFLOW_APPROVERS'' then internalTaskWorkflowApprovers_repo
     else if role = ''INTERNAL_TASK_HYOK_SYNC'' then internalTaskHYOKSync_repo
     else if role = ''INTERNAL_TASK_PENDING_STATE_SYNC'' then internalTaskPendingStateSync_repo
     else if role = ''INTERNAL_TASK_KEYSTORE_POOL'' then internalTaskKeystorePool_repo
     else if role = ''INTERNAL_TASK_SYSTEM_REFRESH'' then internalTaskSystemRefresh_repo
     else if role = ''INTERNAL_TASK_TENANT_REFRESH'' then internalTaskTenantRefresh_repo
     else if role = ''INTERNAL_TASK_WORKFLOW_CLEANUP'' then internalTaskWorkflowCleanup_repo
     else if role = ''INTERNAL_TASK_WORKFLOW_EXPIRATION'' then internalTaskWorkflowExpiration_repo
     else [])"

definition granted :: "('r, 'a) Policy list \<Rightarrow> 'r \<Rightarrow> 'a \<Rightarrow> bool" where
  "granted policies r a \<longleftrightarrow>
     list_ex (\<lambda>(_, ress). list_ex (\<lambda>(r', acts). r' = r \<and> list_ex (\<lambda>a'. a' = a) acts) ress) policies"

lemma granted_iff: "granted policies r a \<longleftrightarrow> (r, a) \<in> set (grants policies)"
  by (fastforce simp: granted_def grants_def list_ex_iff)

lemmas internal_policies =
  internalBusinessAuthz_repo_def internalTenantCLI_repo_def internalEventReconciler_repo_def internalTenantProvisioning_repo_def internalTaskProcessing_repo_def internalTaskCertRotation_repo_def internalTaskWorkflowApprovers_repo_def internalTaskHYOKSync_repo_def internalTaskPendingStateSync_repo_def internalTaskKeystorePool_repo_def internalTaskSystemRefresh_repo_def internalTaskTenantRefresh_repo_def internalTaskWorkflowCleanup_repo_def internalTaskWorkflowExpiration_repo_def

lemma internal_policy_map: "map_of RepoInternalPolicies role = (if internal_policy role = [] then None else Some (internal_policy role))"
  by (simp add: RepoInternalPolicies_def internal_policy_def internal_policies)

lemma internal_allowed_role [code]: "internal_allowed (role, r, a) \<longleftrightarrow> granted (internal_policy role) r a"
proof -
  have "distinct (map fst RepoInternalPolicies)" by (simp add: RepoInternalPolicies_def)
  then have "internal_allowed (role, r, a) \<longleftrightarrow> (\<exists>ps. map_of RepoInternalPolicies role = Some ps \<and> (r, a) \<in> set (grants ps))"
    by (auto simp: internal_allowed_def NewInternalUserAuthzData_def)
  then show ?thesis
    by (auto simp: internal_policy_map granted_iff grants_def split: if_splits)
qed

text \<open>the two handlers of the program; no internal user has access to the API\<close>

definition repoHandler ::
  "((string \<times> string) \<times> RepoResourceType \<times> RepoAction \<Rightarrow> bool) \<Rightarrow> (RepoResourceType, RepoAction) Handler" where
  "repoHandler authzKeys = \<lparr>h_internal = internal_allowed,
     h_business = authzKeys, h_resourceActions = RepoResourceTypeActions\<rparr>"

definition apiHandler ::
  "((string \<times> string) \<times> APIResourceType \<times> APIAction \<Rightarrow> bool) \<Rightarrow> (APIResourceType, APIAction) Handler" where
  "apiHandler authzKeys = \<lparr>h_internal = (\<lambda>k. k \<in> set (NewInternalUserAuthzData [])),
     h_business = authzKeys, h_resourceActions = APIResourceTypeActions\<rparr>"

end
