(* ===== verification/Repo.thy ===== *)
theory Repo
  imports Authz
begin

text \<open>
  The resource repository (src/internal/repo/sql/repo.go, src/internal/repo/repository.go)
  and the authorizing repository around it (src/internal/authz/repo/authz_repo.go), through
  which the managers work.

  Every operation resolves the schema of the context's tenant and runs one statement in
  it, inside the open transaction of the context or in a transaction of its own. A
  statement may fail (\<open>db_fault\<close>); a failed statement aborts the open transaction, so
  that every later statement of it fails and its commit rolls back, as PostgreSQL does.
  \<open>Transaction\<close> restores all schemas when its body fails, when the transaction has been
  aborted, or when the commit fails. Calls to other services are not undone.

  A table descriptor names the rows of a table, their update, and the table's unique
  constraints; the locale \<open>table_laws\<close> states what the operations rely on and is
  interpreted for every table of the schema.
\<close>

section \<open>Tables\<close>

datatype tab =
    TabWorkflows | TabApprovers | TabApproverGroups | TabKeys | TabKeyVersions | TabKeyLabels
  | TabKeyConfigurations | TabSystems | TabSystemProperties | TabGroups | TabEvents
  | TabImportParams | TabTenantConfigs | TabTags

record 'r table =
  t_tag :: tab
  t_get :: "schema \<Rightarrow> 'r list"
  t_upd :: "('r list \<Rightarrow> 'r list) \<Rightarrow> schema \<Rightarrow> schema"
  t_uniq :: "'r list \<Rightarrow> bool"
  t_res :: RepoResourceType

definition T_workflows :: "Workflow table" where
  "T_workflows = \<lparr>t_tag = TabWorkflows, t_get = workflows, t_upd = workflows_update,
     t_uniq = (\<lambda>rs. distinct (map wf_ID rs)),
     t_res = RepoResourceTypeWorkflow\<rparr>"

definition T_approvers :: "WorkflowApprover table" where
  "T_approvers = \<lparr>t_tag = TabApprovers, t_get = approvers, t_upd = approvers_update,
     t_uniq = (\<lambda>rs. distinct (map (\<lambda>r. (wa_WorkflowID r, wa_UserID r)) rs)),
     t_res = RepoResourceTypeWorkflowApprover\<rparr>"

definition T_approver_groups :: "WorkflowApproverGroup table" where
  "T_approver_groups = \<lparr>t_tag = TabApproverGroups, t_get = approver_groups, t_upd = approver_groups_update,
     t_uniq = (\<lambda>rs. distinct (map wag_ID rs)),
     t_res = RepoResourceTypeWorkflow\<rparr>"

definition T_keys :: "Key table" where
  "T_keys = \<lparr>t_tag = TabKeys, t_get = keys, t_upd = keys_update,
     t_uniq = (\<lambda>rs. distinct (map key_ID rs) \<and>
                    distinct (map (\<lambda>k. (key_KeyConfigurationID k, key_Name k)) rs)),
     t_res = RepoResourceTypeKey\<rparr>"

definition T_key_versions :: "KeyVersion table" where
  "T_key_versions = \<lparr>t_tag = TabKeyVersions, t_get = key_versions, t_upd = key_versions_update,
     t_uniq = (\<lambda>rs. distinct (map kv_ID rs) \<and>
                    distinct (map (\<lambda>v. (kv_KeyID v, kv_NativeID v)) rs)),
     t_res = RepoResourceTypeKeyversion\<rparr>"

definition T_key_labels :: "KeyLabel table" where
  "T_key_labels = \<lparr>t_tag = TabKeyLabels, t_get = key_labels, t_upd = key_labels_update,
     t_uniq = (\<lambda>rs. distinct (map kl_ID rs)),
     t_res = RepoResourceTypeKeyLabel\<rparr>"

definition T_key_configurations :: "KeyConfiguration table" where
  "T_key_configurations = \<lparr>t_tag = TabKeyConfigurations, t_get = key_configurations, t_upd = key_configurations_update,
     t_uniq = (\<lambda>rs. distinct (map kc_ID rs) \<and> distinct (map kc_Name rs)),
     t_res = RepoResourceTypeKeyconfiguration\<rparr>"

definition T_systems :: "System table" where
  "T_systems = \<lparr>t_tag = TabSystems, t_get = systems, t_upd = systems_update,
     t_uniq = (\<lambda>rs. distinct (map sys_ID rs) \<and>
                    distinct (map (\<lambda>s. (sys_Region s, sys_Identifier s)) rs)),
     t_res = RepoResourceTypeSystem\<rparr>"

definition T_groups :: "Group table" where
  "T_groups = \<lparr>t_tag = TabGroups, t_get = groups, t_upd = groups_update,
     t_uniq = (\<lambda>rs. distinct (map grp_ID rs) \<and> distinct (map grp_Name rs) \<and>
                    distinct (map grp_IAMIdentifier rs)),
     t_res = RepoResourceTypeGroup\<rparr>"

definition T_events :: "Event table" where
  "T_events = \<lparr>t_tag = TabEvents, t_get = events, t_upd = events_update,
     t_uniq = (\<lambda>rs. distinct (map ev_Identifier rs)),
     t_res = RepoResourceTypeEvent\<rparr>"

definition T_import_params :: "ImportParams table" where
  "T_import_params = \<lparr>t_tag = TabImportParams, t_get = import_params, t_upd = import_params_update,
     t_uniq = (\<lambda>rs. distinct (map ip_KeyID rs)),
     t_res = RepoResourceTypeImportparam\<rparr>"

definition T_system_properties :: "SystemProperty table" where
  "T_system_properties = \<lparr>t_tag = TabSystemProperties, t_get = system_properties, t_upd = system_properties_update,
     t_uniq = (\<lambda>rs. distinct (map (\<lambda>p. (sp_ID p, sp_Key p)) rs)),
     t_res = RepoResourceTypeSystemProperty\<rparr>"

definition T_tenant_configs :: "WorkflowConfig table" where
  "T_tenant_configs = \<lparr>t_tag = TabTenantConfigs, t_get = tenant_configs, t_upd = tenant_configs_update,
     t_uniq = (\<lambda>rs. length rs \<le> 1),
     t_res = RepoResourceTypeTenantconfig\<rparr>"

definition T_tags :: "Tag table" where
  "T_tags = \<lparr>t_tag = TabTags, t_get = tags, t_upd = tags_update,
     t_uniq = (\<lambda>rs. distinct (map tag_ID rs)),
     t_res = RepoResourceTypeTag\<rparr>"

lemmas table_defs = T_workflows_def T_approvers_def T_approver_groups_def T_keys_def
  T_key_versions_def T_key_labels_def T_key_configurations_def T_systems_def T_groups_def
  T_events_def T_import_params_def T_system_properties_def T_tenant_configs_def T_tags_def

text \<open>every unique constraint of the schema holds\<close>

definition schema_uniq :: "schema \<Rightarrow> bool" where
  "schema_uniq d \<longleftrightarrow>
     t_uniq T_workflows (workflows d) \<and> t_uniq T_approvers (approvers d) \<and>
     t_uniq T_approver_groups (approver_groups d) \<and> t_uniq T_keys (keys d) \<and>
     t_uniq T_key_versions (key_versions d) \<and> t_uniq T_key_labels (key_labels d) \<and>
     t_uniq T_key_configurations (key_configurations d) \<and> t_uniq T_systems (systems d) \<and>
     t_uniq T_groups (groups d) \<and> t_uniq T_events (events d) \<and>
     t_uniq T_import_params (import_params d) \<and>
     t_uniq T_system_properties (system_properties d) \<and>
     t_uniq T_tenant_configs (tenant_configs d) \<and> t_uniq T_tags (tags d)"

subsection \<open>Foreign keys\<close>

text \<open>
  What the deletion of a row does to the rows that refer to it (src/migrations/tenant/schema):
  a key configuration keeps its administrating group alive, a label its key; approver groups,
  key versions and import parameters go with the row they belong to.
\<close>

definition group_refs :: "uuid \<Rightarrow> schema \<Rightarrow> schema option" where
  "group_refs i d =
     (if \<exists>kc \<in> set (key_configurations d). kc_AdminGroupID kc = i then None
      else Some (approver_groups_update (filter (\<lambda>r. wag_GroupID r \<noteq> i)) d))"

definition key_refs :: "uuid \<Rightarrow> schema \<Rightarrow> schema option" where
  "key_refs i d =
     (if \<exists>l \<in> set (key_labels d). kl_ResourceID l = i then None
      else Some (key_versions_update (filter (\<lambda>r. kv_KeyID r \<noteq> i))
                  (import_params_update (filter (\<lambda>r. ip_KeyID r \<noteq> i)) d)))"

text \<open>the model hooks \<open>BeforeDelete\<close>: a system goes with its properties, a workflow with its approvers\<close>

definition system_refs :: "uuid \<Rightarrow> schema \<Rightarrow> schema option" where
  "system_refs i d = Some (system_properties_update (filter (\<lambda>p. sp_ID p \<noteq> i)) d)"

text \<open>\<open>AfterSave\<close> of a system: its loaded properties are saved with it\<close>

definition System_AfterSave :: "uuid \<Rightarrow> (string \<times> string) list \<Rightarrow> schema \<Rightarrow> schema" where
  "System_AfterSave i props = system_properties_update (\<lambda>rs.
     foldl (\<lambda>rs (k, v). upsert (\<lambda>p. sp_ID p = i \<and> sp_Key p = k) \<lparr>sp_ID = i, sp_Key = k, sp_Value = v\<rparr> rs) rs props)"

definition workflow_refs :: "uuid \<Rightarrow> schema \<Rightarrow> schema option" where
  "workflow_refs i d = Some (approvers_update (filter (\<lambda>r. wa_WorkflowID r \<noteq> i))
     (approver_groups_update (filter (\<lambda>r. wag_WorkflowID r \<noteq> i)) d))"

section \<open>Statements\<close>

text \<open>
  What the function passed to \<open>WithTenant\<close> does: fail on the SQL level, return an error
  without an SQL failure (a record that was not found), or complete with a new schema.
\<close>

datatype 'a outcome = SqlErr gerror | Fail gerror | Done 'a schema

type_synonym 'a stmt = "schema \<Rightarrow> 'a outcome"

definition getSchemaFromCtx :: "env \<Rightarrow> ctx \<Rightarrow> string M" where
  "getSchemaFromCtx env ctx =
     bindC (wrapC ''repo.ErrWithTenant'' (liftC (ExtractTenantID ctx))) (\<lambda>tenant.
     bindC tick_of (\<lambda>n.
     case db_fault env n of
       Some m \<Rightarrow> throwC [E ''repo.ErrWithTenant'', Msg m]
     | None \<Rightarrow>
         bindC (getC tenants) (\<lambda>ts.
         case find (\<lambda>t. ten_ID t = tenant) ts of
           None \<Rightarrow> throwC [E ''repo.ErrTenantNotFound'']
         | Some existingTenant \<Rightarrow> returnC (ten_SchemaName existingTenant))))"

text \<open>inside an open transaction: \<open>UseTenant\<close>, then the statement\<close>

definition txStmt :: "env \<Rightarrow> string \<Rightarrow> (string \<Rightarrow> gerror) \<Rightarrow> 'a stmt \<Rightarrow> 'a M" where
  "txStmt env sn sqlErr stmt = bindC tick_of (\<lambda>n w.
     if aborted w
     then (Inl [E ''repo.ErrWithTenant'', Msg ''current transaction is aborted''], w)
     else case db_fault env n of
       Some m \<Rightarrow> (Inl (sqlErr m), w\<lparr>aborted := True\<rparr>)
     | None \<Rightarrow> (case stmt (schemas w sn) of
         SqlErr e \<Rightarrow> (Inl e, w\<lparr>aborted := True\<rparr>)
       | Fail e \<Rightarrow> (Inl e, w)
       | Done x d \<Rightarrow> (Inr x, w\<lparr>schemas := (schemas w)(sn := d)\<rparr>)))"

text \<open>
  in a transaction of its own: the outer error is the commit's; when the commit fails,
  the statement's error (if any) is wrapped in \<open>ErrTransaction\<close>
\<close>

definition ownStmt :: "env \<Rightarrow> string \<Rightarrow> (string \<Rightarrow> gerror) \<Rightarrow> 'a stmt \<Rightarrow> 'a M" where
  "ownStmt env sn sqlErr stmt =
     bindC tick_of (\<lambda>n. bindC tick_of (\<lambda>c w.
     case db_fault env n of
       Some m \<Rightarrow> (Inl (E ''repo.ErrTransaction'' # sqlErr m), w)
     | None \<Rightarrow> (case stmt (schemas w sn) of
         SqlErr e \<Rightarrow> (Inl (E ''repo.ErrTransaction'' # e), w)
       | Fail e \<Rightarrow> (Inl (if db_fault env c = None then e else E ''repo.ErrTransaction'' # e), w)
       | Done x d \<Rightarrow> (if db_fault env c = None
                      then (Inr x, w\<lparr>schemas := (schemas w)(sn := d)\<rparr>)
                      else (Inl [E ''repo.ErrTransaction''], w)))))"

definition WithTenant :: "env \<Rightarrow> ctx \<Rightarrow> (string \<Rightarrow> gerror) \<Rightarrow> 'a stmt \<Rightarrow> 'a M" where
  "WithTenant env ctx sqlErr stmt =
     bindC (getSchemaFromCtx env ctx) (\<lambda>schemaName.
     if ctx_tx ctx then txStmt env schemaName sqlErr stmt
     else ownStmt env schemaName sqlErr stmt)"

section \<open>Operations\<close>

definition DefaultLimit :: int where "DefaultLimit = 100"

definition applyPagination :: "int \<Rightarrow> int \<Rightarrow> 'r list \<Rightarrow> 'r list" where
  "applyPagination limit offset rows =
     (let limit = (if limit \<le> 0 then DefaultLimit else limit)
      in take (nat limit) (drop (nat offset) rows))"

definition sql_Create :: "env \<Rightarrow> ctx \<Rightarrow> 'r table \<Rightarrow> 'r \<Rightarrow> unit M" where
  "sql_Create env ctx T resource =
     WithTenant env ctx (\<lambda>m. [E ''repo.ErrCreateResource'', Msg m]) (\<lambda>d.
       if t_uniq T (t_get T d @ [resource])
       then Done () (t_upd T (\<lambda>rs. rs @ [resource]) d)
       else SqlErr [E ''repo.ErrUniqueConstraint''])"

definition sql_Count :: "env \<Rightarrow> ctx \<Rightarrow> 'r table \<Rightarrow> (schema \<Rightarrow> 'r \<Rightarrow> bool) \<Rightarrow> int M" where
  "sql_Count env ctx T query =
     WithTenant env ctx (\<lambda>m. [E ''repo.ErrGetResource'', Msg m]) (\<lambda>d.
       Done (int (length (filter (query d) (t_get T d)))) d)"

text \<open>\<open>arrange\<close> is the order clause of the query\<close>

definition sql_List_by ::
  "env \<Rightarrow> ctx \<Rightarrow> 'r table \<Rightarrow> ('r list \<Rightarrow> 'r list) \<Rightarrow> (schema \<Rightarrow> 'r \<Rightarrow> bool) \<Rightarrow> int \<Rightarrow> int \<Rightarrow> 'r list M" where
  "sql_List_by env ctx T arrange query limit offset =
     WithTenant env ctx (\<lambda>m. [Msg m]) (\<lambda>d.
       Done (applyPagination limit offset (arrange (filter (query d) (t_get T d)))) d)"

text \<open>\<open>hook\<close> is the model's \<open>BeforeDelete\<close>, run in the same statement block\<close>

text \<open>
  \<open>hook\<close> stands for what a deletion does besides: rows removed by gorm's hooks or by
  \<open>ON DELETE CASCADE\<close>, or \<open>None\<close> when a foreign key forbids it
\<close>

definition sql_Delete ::
  "env \<Rightarrow> ctx \<Rightarrow> 'r table \<Rightarrow> (schema \<Rightarrow> schema option) \<Rightarrow> ('r \<Rightarrow> bool) \<Rightarrow> bool M" where
  "sql_Delete env ctx T hook query =
     WithTenant env ctx (\<lambda>m. [E ''repo.ErrDeleteResource'', Msg m]) (\<lambda>d. case hook d of
         None \<Rightarrow> SqlErr [E ''repo.ErrDeleteResource'']
       | Some d' \<Rightarrow> Done (\<exists>r \<in> set (t_get T d). query r)
           (t_upd T (\<lambda>rs. filter (\<lambda>r. \<not> query r) rs) d'))"

definition sql_First :: "env \<Rightarrow> ctx \<Rightarrow> 'r table \<Rightarrow> (schema \<Rightarrow> 'r \<Rightarrow> bool) \<Rightarrow> 'r M" where
  "sql_First env ctx T query =
     WithTenant env ctx (\<lambda>m. [E ''repo.ErrGetResource'', Msg m]) (\<lambda>d.
       case find (query d) (t_get T d) of
         Some r \<Rightarrow> Done r d
       | None \<Rightarrow> Fail [E ''repo.ErrNotFound'', E ''gorm.ErrRecordNotFound''])"

text \<open>
  \<open>pk\<close> selects by the primary key of the patched resource, \<open>f\<close> writes the columns that
  gorm's \<open>Updates\<close> writes; the result tells whether a row was affected
\<close>

definition sql_Patch :: "env \<Rightarrow> ctx \<Rightarrow> 'r table \<Rightarrow> ('r \<Rightarrow> bool) \<Rightarrow> ('r \<Rightarrow> 'r) \<Rightarrow> bool M" where
  "sql_Patch env ctx T pk f = wrapC ''repo.ErrUpdateResource''
     (WithTenant env ctx (\<lambda>m. [Msg m]) (\<lambda>d.
       if t_uniq T (row_upd pk f (t_get T d))
       then Done (\<exists>r \<in> set (t_get T d). pk r) (t_upd T (row_upd pk f) d)
       else SqlErr [E ''repo.ErrUniqueConstraint'']))"

text \<open>\<open>after\<close> is the model's hook \<open>AfterSave\<close>, run in the same statement block\<close>

definition sql_Patch_after ::
  "env \<Rightarrow> ctx \<Rightarrow> 'r table \<Rightarrow> ('r \<Rightarrow> bool) \<Rightarrow> ('r \<Rightarrow> 'r) \<Rightarrow> (schema \<Rightarrow> schema) \<Rightarrow> bool M" where
  "sql_Patch_after env ctx T pk f after = wrapC ''repo.ErrUpdateResource''
     (WithTenant env ctx (\<lambda>m. [Msg m]) (\<lambda>d.
       if t_uniq T (row_upd pk f (t_get T d))
       then Done (\<exists>r \<in> set (t_get T d). pk r) (after (t_upd T (row_upd pk f) d))
       else SqlErr [E ''repo.ErrUniqueConstraint'']))"

text \<open>
  insert, or update the row with the same conflict columns (\<open>pk\<close>): \<open>upd\<close> writes the columns listed
  in the query, all of them by default
\<close>

definition sql_Set :: "env \<Rightarrow> ctx \<Rightarrow> 'r table \<Rightarrow> ('r \<Rightarrow> bool) \<Rightarrow> ('r \<Rightarrow> 'r) \<Rightarrow> 'r \<Rightarrow> unit M" where
  "sql_Set env ctx T pk upd resource =
     WithTenant env ctx (\<lambda>m. [E ''repo.ErrSetResource'', Msg m]) (\<lambda>d.
       let rs' = (if \<exists>r \<in> set (t_get T d). pk r then row_upd pk upd (t_get T d)
                  else t_get T d @ [resource])
       in if t_uniq T rs' then Done () (t_upd T (\<lambda>_. rs') d)
          else SqlErr [E ''repo.ErrSetResource''])"

text \<open>
  \<open>First\<close> with an order clause (\<open>arrange\<close>) and preloaded rows (\<open>pre\<close> reads them with the row)
\<close>

definition sql_First_full ::
  "env \<Rightarrow> ctx \<Rightarrow> 'r table \<Rightarrow> ('r list \<Rightarrow> 'r list) \<Rightarrow> (schema \<Rightarrow> 'r \<Rightarrow> 'a) \<Rightarrow> (schema \<Rightarrow> 'r \<Rightarrow> bool) \<Rightarrow> 'a M" where
  "sql_First_full env ctx T arrange pre query =
     WithTenant env ctx (\<lambda>m. [E ''repo.ErrGetResource'', Msg m]) (\<lambda>d.
       case arrange (filter (query d) (t_get T d)) of
         r # _ \<Rightarrow> Done (pre d r) d
       | [] \<Rightarrow> Fail [E ''repo.ErrNotFound'', E ''gorm.ErrRecordNotFound''])"

section \<open>Authorized operations\<close>

definition checkResourceAuthZ :: "env \<Rightarrow> ctx \<Rightarrow> RepoResourceType \<Rightarrow> RepoAction \<Rightarrow> unit M" where
  "checkResourceAuthZ env ctx resource action = bindC tick_of (\<lambda>n.
     case db_fault env n of
       Some m \<Rightarrow> throwC [E ''authz_loader.ErrLoadAuthzAllowList'', Msg m]
     | None \<Rightarrow>
         bindC (liftC (CheckAuthz (repoHandler (authz_keys env n)) ctx resource action)) (\<lambda>isAllowed.
         unlessC isAllowed [E ''authz_repo.ErrUnauthorized'']))"

text \<open>the tables a query joins are checked like the queried one\<close>

definition checkQueryAuthZ :: "env \<Rightarrow> ctx \<Rightarrow> RepoResourceType list \<Rightarrow> RepoAction \<Rightarrow> unit M" where
  "checkQueryAuthZ env ctx joins action =
     bindC (forC joins (\<lambda>j. checkResourceAuthZ env ctx j action)) (\<lambda>_. returnC ())"

definition Create :: "env \<Rightarrow> ctx \<Rightarrow> 'r table \<Rightarrow> 'r \<Rightarrow> unit M" where
  "Create env ctx T resource =
     bindC (checkResourceAuthZ env ctx (t_res T) RepoActionCreate) (\<lambda>_.
     sql_Create env ctx T resource)"

definition Count_join ::
  "env \<Rightarrow> ctx \<Rightarrow> 'r table \<Rightarrow> RepoResourceType list \<Rightarrow> (schema \<Rightarrow> 'r \<Rightarrow> bool) \<Rightarrow> int M" where
  "Count_join env ctx T joins query =
     bindC (checkResourceAuthZ env ctx (t_res T) RepoActionCount) (\<lambda>_.
     bindC (checkQueryAuthZ env ctx joins RepoActionCount) (\<lambda>_.
     sql_Count env ctx T query))"

abbreviation Count :: "env \<Rightarrow> ctx \<Rightarrow> 'r table \<Rightarrow> (schema \<Rightarrow> 'r \<Rightarrow> bool) \<Rightarrow> int M" where
  "Count env ctx T query \<equiv> Count_join env ctx T [] query"

definition List_join ::
  "env \<Rightarrow> ctx \<Rightarrow> 'r table \<Rightarrow> RepoResourceType list \<Rightarrow> ('r list \<Rightarrow> 'r list) \<Rightarrow>
   (schema \<Rightarrow> 'r \<Rightarrow> bool) \<Rightarrow> int \<Rightarrow> int \<Rightarrow> 'r list M" where
  "List_join env ctx T joins arrange query limit offset =
     bindC (checkResourceAuthZ env ctx (t_res T) RepoActionList) (\<lambda>_.
     bindC (checkQueryAuthZ env ctx joins RepoActionList) (\<lambda>_.
     sql_List_by env ctx T arrange query limit offset))"

abbreviation List ::
  "env \<Rightarrow> ctx \<Rightarrow> 'r table \<Rightarrow> (schema \<Rightarrow> 'r \<Rightarrow> bool) \<Rightarrow> int \<Rightarrow> int \<Rightarrow> 'r list M" where
  "List env ctx T query limit offset \<equiv> List_join env ctx T [] (\<lambda>rs. rs) query limit offset"

definition Delete ::
  "env \<Rightarrow> ctx \<Rightarrow> 'r table \<Rightarrow> (schema \<Rightarrow> schema option) \<Rightarrow> ('r \<Rightarrow> bool) \<Rightarrow> bool M" where
  "Delete env ctx T hook query =
     bindC (checkResourceAuthZ env ctx (t_res T) RepoActionDelete) (\<lambda>_.
     sql_Delete env ctx T hook query)"

definition First_join ::
  "env \<Rightarrow> ctx \<Rightarrow> 'r table \<Rightarrow> RepoResourceType list \<Rightarrow> (schema \<Rightarrow> 'r \<Rightarrow> bool) \<Rightarrow> 'r M" where
  "First_join env ctx T joins query =
     bindC (checkResourceAuthZ env ctx (t_res T) RepoActionFirst) (\<lambda>_.
     bindC (checkQueryAuthZ env ctx joins RepoActionFirst) (\<lambda>_.
     sql_First env ctx T query))"

abbreviation First :: "env \<Rightarrow> ctx \<Rightarrow> 'r table \<Rightarrow> (schema \<Rightarrow> 'r \<Rightarrow> bool) \<Rightarrow> 'r M" where
  "First env ctx T query \<equiv> First_join env ctx T [] query"

definition Patch :: "env \<Rightarrow> ctx \<Rightarrow> 'r table \<Rightarrow> ('r \<Rightarrow> bool) \<Rightarrow> ('r \<Rightarrow> 'r) \<Rightarrow> bool M" where
  "Patch env ctx T pk f =
     bindC (checkResourceAuthZ env ctx (t_res T) RepoActionUpdate) (\<lambda>_.
     sql_Patch env ctx T pk f)"

definition Patch_after ::
  "env \<Rightarrow> ctx \<Rightarrow> 'r table \<Rightarrow> ('r \<Rightarrow> bool) \<Rightarrow> ('r \<Rightarrow> 'r) \<Rightarrow> (schema \<Rightarrow> schema) \<Rightarrow> bool M" where
  "Patch_after env ctx T pk f after =
     bindC (checkResourceAuthZ env ctx (t_res T) RepoActionUpdate) (\<lambda>_.
     sql_Patch_after env ctx T pk f after)"

definition First_full ::
  "env \<Rightarrow> ctx \<Rightarrow> 'r table \<Rightarrow> RepoResourceType list \<Rightarrow> ('r list \<Rightarrow> 'r list) \<Rightarrow> (schema \<Rightarrow> 'r \<Rightarrow> 'a) \<Rightarrow>
   (schema \<Rightarrow> 'r \<Rightarrow> bool) \<Rightarrow> 'a M" where
  "First_full env ctx T joins arrange pre query =
     bindC (checkResourceAuthZ env ctx (t_res T) RepoActionFirst) (\<lambda>_.
     bindC (checkQueryAuthZ env ctx joins RepoActionFirst) (\<lambda>_.
     sql_First_full env ctx T arrange pre query))"

definition Set_by :: "env \<Rightarrow> ctx \<Rightarrow> 'r table \<Rightarrow> ('r \<Rightarrow> bool) \<Rightarrow> ('r \<Rightarrow> 'r) \<Rightarrow> 'r \<Rightarrow> unit M" where
  "Set_by env ctx T pk upd resource =
     bindC (checkResourceAuthZ env ctx (t_res T) RepoActionUpdate) (\<lambda>_.
     bindC (checkResourceAuthZ env ctx (t_res T) RepoActionCreate) (\<lambda>_.
     sql_Set env ctx T pk upd resource))"

abbreviation Set_row :: "env \<Rightarrow> ctx \<Rightarrow> 'r table \<Rightarrow> ('r \<Rightarrow> bool) \<Rightarrow> 'r \<Rightarrow> unit M" where
  "Set_row env ctx T pk resource \<equiv> Set_by env ctx T pk (\<lambda>_. resource) resource"

section \<open>Transactions\<close>

definition rollback :: "world \<Rightarrow> world \<Rightarrow> world" where
  "rollback w w' = w'\<lparr>tenants := tenants w, schemas := schemas w, aborted := False\<rparr>"

text \<open>the body of a fresh transaction, committed or rolled back\<close>

definition inTx :: "env \<Rightarrow> ctx \<Rightarrow> (ctx \<Rightarrow> 'a M) \<Rightarrow> 'a M" where
  "inTx env ctx txFunc w =
     (case txFunc (ctx\<lparr>ctx_tx := True\<rparr>) (w\<lparr>aborted := False\<rparr>) of
        (Inl e, w') \<Rightarrow> (Inl (E ''repo.ErrTransaction'' # e), rollback w w')
      | (Inr x, w') \<Rightarrow>
          (case tick_of w' of (_, w'') \<Rightarrow>
             if aborted w'' \<or> db_fault env (tick w') \<noteq> None
             then (Inl [E ''repo.ErrTransaction''], rollback w w'')
             else (Inr x, w'')))"

definition Transaction :: "env \<Rightarrow> ctx \<Rightarrow> (ctx \<Rightarrow> 'a M) \<Rightarrow> 'a M" where
  "Transaction env ctx txFunc =
     (if ctx_tx ctx then txFunc ctx
      else bindC tick_of (\<lambda>b. case db_fault env b of
          Some m \<Rightarrow> throwC [E ''repo.ErrTransaction'', Msg m]
        | None \<Rightarrow> inTx env ctx txFunc))"

end
