(* ===== verification/Repo_Laws.thy ===== *)
theory Repo_Laws
  imports Repo
begin

text \<open>
  What the managers rely on of the repository.

  \<^item> \<open>table_laws\<close>: independence of a table from the others, with its round trips; one
    interpretation per table.
  \<^item> Inversion lemmas for every operation over \<open>db ctx w\<close>, the schema of the context's
    tenant: what a successful run read and wrote.
  \<^item> \<open>world_frame\<close>: a relation between worlds that all repository operations under one
    tenant respect, with the composition rules for whole manager operations; interpreted
    for tenant isolation, for the call log and for the unique constraints.
\<close>

section \<open>Tables\<close>

text \<open>\<open>d'\<close> differs from \<open>d\<close> in tables of \<open>W\<close> only\<close>

definition changes :: "tab set \<Rightarrow> schema \<Rightarrow> schema \<Rightarrow> bool" where
  "changes W d d' \<longleftrightarrow>
     (TabWorkflows \<notin> W \<longrightarrow> workflows d' = workflows d) \<and>
     (TabApprovers \<notin> W \<longrightarrow> approvers d' = approvers d) \<and>
     (TabApproverGroups \<notin> W \<longrightarrow> approver_groups d' = approver_groups d) \<and>
     (TabKeys \<notin> W \<longrightarrow> keys d' = keys d) \<and>
     (TabKeyVersions \<notin> W \<longrightarrow> key_versions d' = key_versions d) \<and>
     (TabKeyLabels \<notin> W \<longrightarrow> key_labels d' = key_labels d) \<and>
     (TabKeyConfigurations \<notin> W \<longrightarrow> key_configurations d' = key_configurations d) \<and>
     (TabSystems \<notin> W \<longrightarrow> systems d' = systems d) \<and>
     (TabSystemProperties \<notin> W \<longrightarrow> system_properties d' = system_properties d) \<and>
     (TabGroups \<notin> W \<longrightarrow> groups d' = groups d) \<and>
     (TabEvents \<notin> W \<longrightarrow> events d' = events d) \<and>
     (TabImportParams \<notin> W \<longrightarrow> import_params d' = import_params d) \<and>
     (TabTenantConfigs \<notin> W \<longrightarrow> tenant_configs d' = tenant_configs d) \<and>
     (TabTags \<notin> W \<longrightarrow> tags d' = tags d)"

lemma changes_refl [simp]: "changes W d d"
  by (simp add: changes_def)

lemma changes_trans: "changes W d d' \<Longrightarrow> changes W d' d'' \<Longrightarrow> changes W d d''"
  by (simp add: changes_def)

lemma changes_UNIV [simp]: "changes UNIV d d'"
  by (simp add: changes_def)

locale table_laws =
  fixes T :: "'r table"
  assumes get_upd: "t_get T (t_upd T f d) = f (t_get T d)"
    and upd_upd: "t_upd T f (t_upd T g d) = t_upd T (\<lambda>rs. f (g rs)) d"
    and upd_same: "t_upd T (\<lambda>rs. rs) d = d"
    and uniq_get: "schema_uniq d \<Longrightarrow> t_uniq T (t_get T d)"
    and uniq_upd: "schema_uniq d \<Longrightarrow> t_uniq T (f (t_get T d)) \<Longrightarrow> schema_uniq (t_upd T f d)"
    and uniq_filter: "t_uniq T rs \<Longrightarrow> t_uniq T (filter p rs)"
    and changes_upd: "t_tag T \<in> W \<Longrightarrow> changes W d (t_upd T f d)"
begin

lemma uniq_delete: "schema_uniq d \<Longrightarrow> schema_uniq (t_upd T (filter p) d)"
  by (auto intro!: uniq_upd uniq_filter dest: uniq_get)

lemma changes_after: "t_tag T \<in> W \<Longrightarrow> changes W d d' \<Longrightarrow> changes W d (t_upd T f d')"
  by (rule changes_trans[OF _ changes_upd])

lemma find_after_create:
  "find q (t_get T d) = None \<Longrightarrow> q r \<Longrightarrow> find q (t_get T (t_upd T (\<lambda>rs. rs @ [r]) d)) = Some r"
  by (simp add: get_upd find_append)

lemma find_after_delete:
  "find q (t_get T (t_upd T (filter (\<lambda>r. \<not> q r)) d)) = None"
  by (simp add: get_upd find_None_iff)

end

lemma distinct_map_filter': "distinct (map f xs) \<Longrightarrow> distinct (map f (filter p xs))"
  by (induction xs) auto

interpretation workflows: table_laws T_workflows
  by unfold_locales (auto simp: table_defs schema_uniq_def changes_def distinct_map_filter')
interpretation approvers: table_laws T_approvers
  by unfold_locales (auto simp: table_defs schema_uniq_def changes_def distinct_map_filter')
interpretation approver_groups: table_laws T_approver_groups
  by unfold_locales (auto simp: table_defs schema_uniq_def changes_def distinct_map_filter')
interpretation keys: table_laws T_keys
  by unfold_locales (auto simp: table_defs schema_uniq_def changes_def distinct_map_filter')
interpretation key_versions: table_laws T_key_versions
  by unfold_locales (auto simp: table_defs schema_uniq_def changes_def distinct_map_filter')
interpretation key_labels: table_laws T_key_labels
  by unfold_locales (auto simp: table_defs schema_uniq_def changes_def distinct_map_filter')
interpretation key_configurations: table_laws T_key_configurations
  by unfold_locales (auto simp: table_defs schema_uniq_def changes_def distinct_map_filter')
interpretation systems: table_laws T_systems
  by unfold_locales (auto simp: table_defs schema_uniq_def changes_def distinct_map_filter')
interpretation groups: table_laws T_groups
  by unfold_locales (auto simp: table_defs schema_uniq_def changes_def distinct_map_filter')
interpretation events: table_laws T_events
  by unfold_locales (auto simp: table_defs schema_uniq_def changes_def distinct_map_filter')
interpretation import_params: table_laws T_import_params
  by unfold_locales (auto simp: table_defs schema_uniq_def changes_def distinct_map_filter')
interpretation tenant_configs: table_laws T_tenant_configs
  by unfold_locales (auto simp: table_defs schema_uniq_def changes_def intro: le_trans[OF length_filter_le])
interpretation system_properties: table_laws T_system_properties
  by unfold_locales (auto simp: table_defs schema_uniq_def changes_def distinct_map_filter')
interpretation tags: table_laws T_tags
  by unfold_locales (auto simp: table_defs schema_uniq_def changes_def distinct_map_filter')

lemma t_get_simps [simp]:
  "t_get T_workflows = workflows" "t_get T_approvers = approvers"
  "t_get T_approver_groups = approver_groups" "t_get T_keys = keys"
  "t_get T_key_versions = key_versions" "t_get T_key_labels = key_labels"
  "t_get T_key_configurations = key_configurations" "t_get T_systems = systems"
  "t_get T_groups = groups" "t_get T_events = events" "t_get T_import_params = import_params"
  "t_get T_system_properties = system_properties" "t_get T_tenant_configs = tenant_configs"
  "t_get T_tags = tags"
  by (simp_all add: table_defs)

lemma t_tag_simps [simp]:
  "t_tag T_workflows = TabWorkflows"
  "t_tag T_approvers = TabApprovers"
  "t_tag T_approver_groups = TabApproverGroups"
  "t_tag T_keys = TabKeys"
  "t_tag T_key_versions = TabKeyVersions"
  "t_tag T_key_labels = TabKeyLabels"
  "t_tag T_key_configurations = TabKeyConfigurations"
  "t_tag T_systems = TabSystems"
  "t_tag T_system_properties = TabSystemProperties"
  "t_tag T_groups = TabGroups"
  "t_tag T_events = TabEvents"
  "t_tag T_import_params = TabImportParams"
  "t_tag T_tenant_configs = TabTenantConfigs"
  "t_tag T_tags = TabTags"
  by (simp_all add: table_defs)

lemma t_tag_in [steps_intro]:
  "TabWorkflows \<in> W \<Longrightarrow> t_tag T_workflows \<in> W"
  "TabApprovers \<in> W \<Longrightarrow> t_tag T_approvers \<in> W"
  "TabApproverGroups \<in> W \<Longrightarrow> t_tag T_approver_groups \<in> W"
  "TabKeys \<in> W \<Longrightarrow> t_tag T_keys \<in> W"
  "TabKeyVersions \<in> W \<Longrightarrow> t_tag T_key_versions \<in> W"
  "TabKeyLabels \<in> W \<Longrightarrow> t_tag T_key_labels \<in> W"
  "TabKeyConfigurations \<in> W \<Longrightarrow> t_tag T_key_configurations \<in> W"
  "TabSystems \<in> W \<Longrightarrow> t_tag T_systems \<in> W"
  "TabSystemProperties \<in> W \<Longrightarrow> t_tag T_system_properties \<in> W"
  "TabGroups \<in> W \<Longrightarrow> t_tag T_groups \<in> W"
  "TabEvents \<in> W \<Longrightarrow> t_tag T_events \<in> W"
  "TabImportParams \<in> W \<Longrightarrow> t_tag T_import_params \<in> W"
  "TabTenantConfigs \<in> W \<Longrightarrow> t_tag T_tenant_configs \<in> W"
  "TabTags \<in> W \<Longrightarrow> t_tag T_tags \<in> W"
  by simp_all

lemma t_upd_simps [simp]:
  "t_upd T_workflows = workflows_update" "t_upd T_approvers = approvers_update"
  "t_upd T_approver_groups = approver_groups_update" "t_upd T_keys = keys_update"
  "t_upd T_key_versions = key_versions_update" "t_upd T_key_labels = key_labels_update"
  "t_upd T_key_configurations = key_configurations_update" "t_upd T_systems = systems_update"
  "t_upd T_groups = groups_update" "t_upd T_events = events_update"
  "t_upd T_import_params = import_params_update"
  "t_upd T_system_properties = system_properties_update"
  "t_upd T_tenant_configs = tenant_configs_update" "t_upd T_tags = tags_update"
  by (simp_all add: table_defs)

section \<open>The schema an operation works on\<close>

definition schema_in :: "ctx \<Rightarrow> Tenant list \<Rightarrow> string option" where
  "schema_in ctx ts = (case ExtractTenantID ctx of
       Inl _ \<Rightarrow> None
     | Inr tn \<Rightarrow> map_option ten_SchemaName (find (\<lambda>t. ten_ID t = tn) ts))"

definition tenant_schema :: "ctx \<Rightarrow> world \<Rightarrow> string option" where
  "tenant_schema ctx w = schema_in ctx (tenants w)"

definition db :: "ctx \<Rightarrow> world \<Rightarrow> schema" where
  "db ctx w = schemas w (the (tenant_schema ctx w))"

text \<open>the two worlds have the same data; the interaction counter may differ\<close>

definition same_db :: "world \<Rightarrow> world \<Rightarrow> bool" where
  "same_db w w' \<longleftrightarrow> tenants w' = tenants w \<and> schemas w' = schemas w \<and>
     calls w' = calls w \<and> aborted w' = aborted w"

text \<open>the same, up to the abortion of the running transaction\<close>

definition same_data :: "world \<Rightarrow> world \<Rightarrow> bool" where
  "same_data w w' \<longleftrightarrow> tenants w' = tenants w \<and> schemas w' = schemas w \<and> calls w' = calls w"

lemma same_db_data: "same_db w w' \<Longrightarrow> same_data w w'"
  by (simp add: same_db_def same_data_def)

text \<open>the second world is the first with the tenant's schema replaced\<close>

definition wrote :: "ctx \<Rightarrow> schema \<Rightarrow> world \<Rightarrow> world \<Rightarrow> bool" where
  "wrote ctx d w w' \<longleftrightarrow> (\<exists>sn. tenant_schema ctx w = Some sn \<and>
     tenants w' = tenants w \<and> schemas w' = (schemas w)(sn := d) \<and>
     calls w' = calls w \<and> aborted w' = aborted w)"

lemma tenant_schema_tx [simp]: "tenant_schema (ctx\<lparr>ctx_tx := b\<rparr>) w = tenant_schema ctx w"
  by (simp add: tenant_schema_def schema_in_def)

lemma db_tx [simp]: "db (ctx\<lparr>ctx_tx := b\<rparr>) w = db ctx w"
  by (simp add: db_def)

lemma db_aborted [simp]: "db ctx (w\<lparr>aborted := b\<rparr>) = db ctx w"
  by (simp add: db_def tenant_schema_def)

lemma db_tick [simp]: "db ctx (w\<lparr>tick := n\<rparr>) = db ctx w"
  by (simp add: db_def tenant_schema_def)

lemma same_db_refl [simp]: "same_db w w"
  by (simp add: same_db_def)

lemma same_db_trans: "same_db u v \<Longrightarrow> same_db v w \<Longrightarrow> same_db u w"
  by (simp add: same_db_def)

lemma same_db_db: "same_db w w' \<Longrightarrow> db ctx w' = db ctx w"
  by (simp add: same_db_def db_def tenant_schema_def)

lemma wrote_db: "wrote ctx d w w' \<Longrightarrow> db ctx w' = d"
  by (auto simp: wrote_def db_def tenant_schema_def)

lemma tick_of_run [run_simps]:
  "tick_of w = (r, w') \<longleftrightarrow> r = Inr (tick w) \<and> w' = w\<lparr>tick := Suc (tick w)\<rparr>"
  by (auto simp: tick_of_def)

lemma timeNow_run [run_simps]:
  "timeNow env w = (Inr n, w') \<longleftrightarrow> n = clock env (tick w) \<and> w' = w\<lparr>tick := Suc (tick w)\<rparr>"
  by (auto simp: timeNow_def run_simps)

lemma same_db_tick [simp]: "same_db w (w\<lparr>tick := n\<rparr>)"
  by (simp add: same_db_def)

lemma getSchemaFromCtx_run:
  assumes "getSchemaFromCtx env ctx w = (Inr sn, w')"
  shows "tenant_schema ctx w = Some sn \<and> w' = w\<lparr>tick := Suc (tick w)\<rparr>"
proof -
  obtain t where "ExtractTenantID ctx = Inr t"
    using assms by (auto simp: getSchemaFromCtx_def run_simps)
  then show ?thesis
    using assms by (auto simp: getSchemaFromCtx_def tenant_schema_def schema_in_def run_simps
        split: option.splits)
qed

lemma getSchemaFromCtx_same: "getSchemaFromCtx env ctx w = (r, w') \<Longrightarrow> same_db w w'"
  by (cases r)
    (auto simp: getSchemaFromCtx_def run_simps bindC_run_err wrapC_run_err split: option.splits)

lemma txStmt_run:
  assumes "txStmt env sn f stmt w = (r, w')"
  shows "(\<exists>x d. r = Inr x \<and> stmt (schemas w sn) = Done x d \<and>
            w' = w\<lparr>tick := Suc (tick w), schemas := (schemas w)(sn := d)\<rparr>) \<or>
         (\<exists>e. r = Inl e \<and> same_data w w')"
  using assms
  by (auto simp: txStmt_def bindC_def tick_of_def same_data_def
      split: if_splits option.splits outcome.splits)

lemma ownStmt_run:
  assumes "ownStmt env sn f stmt w = (r, w')"
  shows "(\<exists>x d. r = Inr x \<and> stmt (schemas w sn) = Done x d \<and>
            w' = w\<lparr>tick := Suc (Suc (tick w)), schemas := (schemas w)(sn := d)\<rparr>) \<or>
         (\<exists>e. r = Inl e \<and> same_db w w')"
  using assms
  by (auto simp: ownStmt_def bindC_def tick_of_def same_db_def
      split: if_splits option.splits outcome.splits)

text \<open>a successful operation applied its statement to the tenant's schema\<close>

lemma WithTenant_run:
  assumes "WithTenant env ctx f stmt w = (Inr x, w')"
  obtains d where "stmt (db ctx w) = Done x d" "wrote ctx d w w'"
proof -
  obtain sn w1 where a: "getSchemaFromCtx env ctx w = (Inr sn, w1)"
    "(if ctx_tx ctx then txStmt env sn f stmt else ownStmt env sn f stmt) w1 = (Inr x, w')"
    using assms by (auto simp: WithTenant_def run_simps)
  have ts: "tenant_schema ctx w = Some sn" and w1: "w1 = w\<lparr>tick := Suc (tick w)\<rparr>"
    using getSchemaFromCtx_run[OF a(1)] by auto
  obtain d n where "stmt (schemas w sn) = Done x d"
    "w' = w\<lparr>tick := n, schemas := (schemas w)(sn := d)\<rparr>"
    using a(2) w1 by (auto split: if_splits dest!: txStmt_run ownStmt_run)
  then show ?thesis
    using ts by (intro that[of d]) (auto simp: db_def wrote_def)
qed

text \<open>a failed operation wrote nothing\<close>

lemma WithTenant_err:
  assumes "WithTenant env ctx f stmt w = (Inl e, w')"
  shows "same_data w w'"
proof (cases "getSchemaFromCtx env ctx w")
  case (Pair r w1)
  then have w1: "same_db w w1"
    using getSchemaFromCtx_same by blast
  have "w' = w1 \<or> same_data w1 w'"
    using assms Pair
    by (auto simp: WithTenant_def bindC_def same_db_data split: sum.splits if_splits
        dest!: txStmt_run ownStmt_run)
  then show ?thesis
    using w1 by (auto dest!: same_db_data simp: same_data_def)
qed

section \<open>Successful operations\<close>

lemma wrote_self: "wrote ctx d w w' \<Longrightarrow> db ctx w' = d \<and> wrote ctx (db ctx w') w w'"
  by (simp add: wrote_db)

lemma wrote_same: "wrote ctx (db ctx w) w w' \<Longrightarrow> same_db w w'"
  by (auto simp: wrote_def same_db_def db_def)

lemma sql_First_run:
  assumes "sql_First env ctx T q w = (Inr r, w')"
  shows "find (q (db ctx w)) (t_get T (db ctx w)) = Some r \<and> same_db w w' \<and> db ctx w' = db ctx w"
  using assms unfolding sql_First_def
  by (rule WithTenant_run) (auto split: option.splits dest: wrote_same same_db_db)

lemma sql_First_full_run:
  assumes "sql_First_full env ctx T arr pre q w = (Inr x, w')"
  shows "same_db w w' \<and> db ctx w' = db ctx w \<and>
    (\<exists>r rs. arr (filter (q (db ctx w)) (t_get T (db ctx w))) = r # rs \<and> x = pre (db ctx w) r)"
  using assms unfolding sql_First_full_def
  by (rule WithTenant_run) (auto split: list.splits dest: wrote_same same_db_db)

lemma sql_First_found:
  assumes "sql_First env ctx T q w = (Inr r, w')"
  shows "r \<in> set (t_get T (db ctx w))" "q (db ctx w) r"
  using find_Some_in sql_First_run[OF assms] by metis+

lemma sql_Count_run:
  assumes "sql_Count env ctx T q w = (Inr n, w')"
  shows "n = int (length (filter (q (db ctx w)) (t_get T (db ctx w)))) \<and> same_db w w' \<and>
    db ctx w' = db ctx w"
  using assms unfolding sql_Count_def
  by (rule WithTenant_run) (auto dest: wrote_same same_db_db)

lemma sql_List_by_run:
  assumes "sql_List_by env ctx T arr q limit offset w = (Inr rs, w')"
  shows "rs = applyPagination limit offset (arr (filter (q (db ctx w)) (t_get T (db ctx w)))) \<and>
    same_db w w' \<and> db ctx w' = db ctx w"
  using assms unfolding sql_List_by_def
  by (rule WithTenant_run) (auto dest: wrote_same same_db_db)

lemma sql_Create_run:
  assumes "sql_Create env ctx T r w = (Inr u, w')"
  shows "t_uniq T (t_get T (db ctx w) @ [r]) \<and> wrote ctx (db ctx w') w w' \<and>
    db ctx w' = t_upd T (\<lambda>rs. rs @ [r]) (db ctx w)"
  using assms unfolding sql_Create_def
  by (rule WithTenant_run) (drule wrote_self, auto split: if_splits)

lemma sql_Delete_run:
  assumes "sql_Delete env ctx T hook q w = (Inr b, w')"
  shows "b = (\<exists>r \<in> set (t_get T (db ctx w)). q r) \<and> wrote ctx (db ctx w') w w' \<and>
    (\<exists>d. hook (db ctx w) = Some d \<and> db ctx w' = t_upd T (filter (\<lambda>r. \<not> q r)) d)"
  using assms unfolding sql_Delete_def
  by (rule WithTenant_run) (drule wrote_self, auto split: option.splits)

lemma sql_Patch_run:
  assumes "sql_Patch env ctx T pk f w = (Inr b, w')"
  shows "b = (\<exists>r \<in> set (t_get T (db ctx w)). pk r) \<and> wrote ctx (db ctx w') w w' \<and>
    db ctx w' = t_upd T (row_upd pk f) (db ctx w)"
proof -
  have "WithTenant env ctx (\<lambda>m. [Msg m]) (\<lambda>d. if t_uniq T (row_upd pk f (t_get T d))
       then Done (\<exists>r \<in> set (t_get T d). pk r) (t_upd T (row_upd pk f) d)
       else SqlErr [E ''repo.ErrUniqueConstraint'']) w = (Inr b, w')"
    using assms by (simp add: sql_Patch_def run_simps)
  then show ?thesis
    by (rule WithTenant_run) (drule wrote_self, auto split: if_splits)
qed

lemma sql_Patch_after_run:
  assumes "sql_Patch_after env ctx T pk f after w = (Inr b, w')"
  shows "b = (\<exists>r \<in> set (t_get T (db ctx w)). pk r) \<and> wrote ctx (db ctx w') w w' \<and>
    db ctx w' = after (t_upd T (row_upd pk f) (db ctx w))"
proof -
  have "WithTenant env ctx (\<lambda>m. [Msg m]) (\<lambda>d. if t_uniq T (row_upd pk f (t_get T d))
       then Done (\<exists>r \<in> set (t_get T d). pk r) (after (t_upd T (row_upd pk f) d))
       else SqlErr [E ''repo.ErrUniqueConstraint'']) w = (Inr b, w')"
    using assms by (simp add: sql_Patch_after_def run_simps)
  then show ?thesis
    by (rule WithTenant_run) (drule wrote_self, auto split: if_splits)
qed

lemma sql_Set_run:
  assumes "sql_Set env ctx T pk f r w = (Inr u, w')"
  shows "wrote ctx (db ctx w') w w' \<and>
    db ctx w' = t_upd T (\<lambda>_. if \<exists>r \<in> set (t_get T (db ctx w)). pk r
        then row_upd pk f (t_get T (db ctx w)) else t_get T (db ctx w) @ [r]) (db ctx w)"
  using assms unfolding sql_Set_def
  by (rule WithTenant_run) (drule wrote_self, auto simp: Let_def split: if_splits)

subsection \<open>With authorization\<close>

definition permitted :: "env \<Rightarrow> world \<Rightarrow> ctx \<Rightarrow> RepoResourceType \<Rightarrow> RepoAction \<Rightarrow> bool" where
  "permitted env w ctx resource action \<longleftrightarrow>
     CheckAuthz (repoHandler (authz_keys env (tick w))) ctx resource action = Inr True"

lemma wrote_after_same: "same_db w w1 \<Longrightarrow> wrote ctx d w1 w' \<Longrightarrow> wrote ctx d w w'"
  by (auto simp: same_db_def wrote_def tenant_schema_def)

lemma checkResourceAuthZ_run:
  "checkResourceAuthZ env ctx r a w = (Inr u, w') \<Longrightarrow>
     permitted env w ctx r a \<and> same_db w w' \<and> db ctx w' = db ctx w"
  by (auto simp: checkResourceAuthZ_def run_simps permitted_def split: option.splits)

lemma forC_same:
  assumes "forC xs f w = (Inr ys, w')"
    and "\<And>x w y w'. f x w = (Inr y, w') \<Longrightarrow> same_db w w'"
  shows "same_db w w'"
  using assms(1)
proof (induction xs arbitrary: w ys)
  case (Cons x xs)
  then show ?case
    by (auto simp: run_simps) (meson assms(2) same_db_trans)
qed (simp add: run_simps)

lemma checkQueryAuthZ_run:
  assumes "checkQueryAuthZ env ctx joins a w = (Inr u, w')"
  shows "same_db w w' \<and> db ctx w' = db ctx w"
proof -
  obtain us where "forC joins (\<lambda>j. checkResourceAuthZ env ctx j a) w = (Inr us, w')"
    using assms by (auto simp: checkQueryAuthZ_def run_simps)
  then have "same_db w w'"
    using forC_same checkResourceAuthZ_run by blast
  then show ?thesis by (simp add: same_db_db)
qed

lemma First_join_run:
  assumes "First_join env ctx T joins q w = (Inr r, w')"
  shows "find (q (db ctx w)) (t_get T (db ctx w)) = Some r \<and> same_db w w' \<and> db ctx w' = db ctx w"
  using assms
  by (auto simp: First_join_def run_simps
      dest!: checkResourceAuthZ_run checkQueryAuthZ_run sql_First_run intro: same_db_trans)

lemmas First_run = First_join_run[where joins = "[]"]

lemma First_full_run:
  assumes "First_full env ctx T joins arr pre q w = (Inr x, w')"
  shows "same_db w w' \<and> db ctx w' = db ctx w \<and>
    (\<exists>r rs. arr (filter (q (db ctx w)) (t_get T (db ctx w))) = r # rs \<and> x = pre (db ctx w) r)"
  using assms
  by (auto simp: First_full_def run_simps
      dest!: checkResourceAuthZ_run checkQueryAuthZ_run sql_First_full_run intro: same_db_trans)

lemma First_join_found:
  assumes "First_join env ctx T joins q w = (Inr r, w')"
  shows "r \<in> set (t_get T (db ctx w))" "q (db ctx w) r"
  using find_Some_in First_join_run[OF assms] by metis+

lemma Count_join_run:
  assumes "Count_join env ctx T joins q w = (Inr n, w')"
  shows "n = int (length (filter (q (db ctx w)) (t_get T (db ctx w)))) \<and> same_db w w' \<and>
    db ctx w' = db ctx w"
  using assms
  by (auto simp: Count_join_def run_simps
      dest!: checkResourceAuthZ_run checkQueryAuthZ_run sql_Count_run intro: same_db_trans)

lemmas Count_run = Count_join_run[where joins = "[]"]

lemma List_join_run:
  assumes "List_join env ctx T joins arr q limit offset w = (Inr rs, w')"
  shows "rs = applyPagination limit offset (arr (filter (q (db ctx w)) (t_get T (db ctx w)))) \<and>
    same_db w w' \<and> db ctx w' = db ctx w"
  using assms
  by (auto simp: List_join_def run_simps
      dest!: checkResourceAuthZ_run checkQueryAuthZ_run sql_List_by_run intro: same_db_trans)

lemma Create_run:
  assumes "Create env ctx T r w = (Inr u, w')"
  shows "permitted env w ctx (t_res T) RepoActionCreate \<and>
    t_uniq T (t_get T (db ctx w) @ [r]) \<and> wrote ctx (db ctx w') w w' \<and>
    db ctx w' = t_upd T (\<lambda>rs. rs @ [r]) (db ctx w)"
  using assms
  by (auto simp: Create_def run_simps dest!: checkResourceAuthZ_run sql_Create_run
      intro: wrote_after_same)

lemma Delete_run:
  assumes "Delete env ctx T hook q w = (Inr b, w')"
  shows "permitted env w ctx (t_res T) RepoActionDelete \<and>
    b = (\<exists>r \<in> set (t_get T (db ctx w)). q r) \<and> wrote ctx (db ctx w') w w' \<and>
    (\<exists>d. hook (db ctx w) = Some d \<and> db ctx w' = t_upd T (filter (\<lambda>r. \<not> q r)) d)"
proof -
  obtain w1 where w1: "checkResourceAuthZ env ctx (t_res T) RepoActionDelete w = (Inr (), w1)"
    "sql_Delete env ctx T hook q w1 = (Inr b, w')"
    using assms by (auto simp: Delete_def run_simps)
  show ?thesis
    using checkResourceAuthZ_run[OF w1(1)] sql_Delete_run[OF w1(2)] wrote_after_same by auto
qed

lemma Patch_run:
  assumes "Patch env ctx T pk f w = (Inr b, w')"
  shows "permitted env w ctx (t_res T) RepoActionUpdate \<and>
    b = (\<exists>r \<in> set (t_get T (db ctx w)). pk r) \<and> wrote ctx (db ctx w') w w' \<and>
    db ctx w' = t_upd T (row_upd pk f) (db ctx w)"
proof -
  obtain w1 where w1: "checkResourceAuthZ env ctx (t_res T) RepoActionUpdate w = (Inr (), w1)"
    "sql_Patch env ctx T pk f w1 = (Inr b, w')"
    using assms by (auto simp: Patch_def run_simps)
  show ?thesis
    using checkResourceAuthZ_run[OF w1(1)] sql_Patch_run[OF w1(2)] wrote_after_same by auto
qed

lemma Patch_after_run:
  assumes "Patch_after env ctx T pk f after w = (Inr b, w')"
  shows "permitted env w ctx (t_res T) RepoActionUpdate \<and>
    b = (\<exists>r \<in> set (t_get T (db ctx w)). pk r) \<and> wrote ctx (db ctx w') w w' \<and>
    db ctx w' = after (t_upd T (row_upd pk f) (db ctx w))"
proof -
  obtain w1 where w1: "checkResourceAuthZ env ctx (t_res T) RepoActionUpdate w = (Inr (), w1)"
    "sql_Patch_after env ctx T pk f after w1 = (Inr b, w')"
    using assms by (auto simp: Patch_after_def run_simps)
  show ?thesis
    using checkResourceAuthZ_run[OF w1(1)] sql_Patch_after_run[OF w1(2)] wrote_after_same by auto
qed

lemma Set_by_run:
  assumes "Set_by env ctx T pk f r w = (Inr u, w')"
  shows "permitted env w ctx (t_res T) RepoActionUpdate \<and> wrote ctx (db ctx w') w w' \<and>
    db ctx w' = t_upd T (\<lambda>_. if \<exists>r \<in> set (t_get T (db ctx w)). pk r
        then row_upd pk f (t_get T (db ctx w)) else t_get T (db ctx w) @ [r]) (db ctx w)"
proof -
  obtain w1 w2 where w1: "checkResourceAuthZ env ctx (t_res T) RepoActionUpdate w = (Inr (), w1)"
    "checkResourceAuthZ env ctx (t_res T) RepoActionCreate w1 = (Inr (), w2)"
    "sql_Set env ctx T pk f r w2 = (Inr u, w')"
    using assms by (auto simp: Set_by_def run_simps)
  then have sd: "same_db w w2" "db ctx w2 = db ctx w"
    using checkResourceAuthZ_run same_db_trans by metis+
  show ?thesis
    using checkResourceAuthZ_run[OF w1(1)] sql_Set_run[OF w1(3), unfolded sd(2)]
      wrote_after_same[OF sd(1)] by blast
qed

lemma Transaction_run:
  assumes "Transaction env ctx body w = (Inr x, w')" and "\<not> ctx_tx ctx"
  obtains w0 w1 where "w0 = w\<lparr>tick := Suc (tick w), aborted := False\<rparr>"
    "body (ctx\<lparr>ctx_tx := True\<rparr>) w0 = (Inr x, w1)" "\<not> aborted w1" "w' = w1\<lparr>tick := Suc (tick w1)\<rparr>"
  using assms
  by (auto simp: Transaction_def inTx_def bindC_run tick_of_run throwC_run tick_of_def
      split: option.splits prod.splits sum.splits if_splits)

lemma Transaction_nested: "ctx_tx ctx \<Longrightarrow> Transaction env ctx body = body ctx"
  by (simp add: Transaction_def)

text \<open>nested or not, a successful transaction ran its body on the caller's data\<close>

lemma Transaction_step:
  assumes "Transaction env ctx body w = (Inr x, w')"
  obtains w0 w1 where "same_data w w0" "body (ctx\<lparr>ctx_tx := True\<rparr>) w0 = (Inr x, w1)" "same_data w1 w'"
proof (cases "ctx_tx ctx")
  case True
  then have "ctx\<lparr>ctx_tx := True\<rparr> = ctx" by (cases ctx) simp
  with True assms show ?thesis
    by (intro that[of w w']) (simp_all only: Transaction_def if_True same_data_def)
next
  case False
  show ?thesis
    by (rule Transaction_run[OF assms False], rule that) (simp_all add: same_data_def)
qed

text \<open>a failed transaction leaves every table as it was\<close>

lemma Transaction_err:
  assumes "Transaction env ctx body w = (Inl e, w')" and "\<not> ctx_tx ctx"
  shows "schemas w' = schemas w" "tenants w' = tenants w"
  using assms
  by (auto simp: Transaction_def inTx_def bindC_def tick_of_def throwC_def rollback_def
      split: option.splits prod.splits sum.splits if_splits)

section \<open>Reading\<close>

text \<open>operations that change no data, whether they succeed or fail\<close>

lemma same_data_refl [simp]: "same_data w w"
  by (simp add: same_data_def)

lemma same_data_trans: "same_data u v \<Longrightarrow> same_data v w \<Longrightarrow> same_data u w"
  by (simp add: same_data_def)

lemma same_data_db: "same_data w w' \<Longrightarrow> db ctx w' = db ctx w"
  by (simp add: same_data_def db_def tenant_schema_def)

interpretation reads: frame same_data
  by unfold_locales (auto intro: same_data_trans)

lemma reads_tick_of [steps_intro]: "steps same_data tick_of"
  by (simp add: steps_def tick_of_def same_data_def)

lemma reads_timeNow [steps_intro]: "steps same_data (timeNow env)"
  unfolding timeNow_def by (intro steps_intro)

lemma reads_newUUID [steps_intro]: "steps same_data (newUUID env)"
  unfolding newUUID_def by (intro steps_intro)

lemma reads_WithTenant:
  assumes "\<And>d x d'. stmt d = Done x d' \<Longrightarrow> d' = d"
  shows "steps same_data (WithTenant env ctx f stmt)"
  unfolding steps_def
proof
  fix w
  obtain r w' where run: "WithTenant env ctx f stmt w = (r, w')" by (metis surj_pair)
  have "same_data w w'"
  proof (cases r)
    case (Inl e)
    then show ?thesis using run WithTenant_err by blast
  next
    case (Inr x)
    show ?thesis
    proof (rule WithTenant_run[OF run[unfolded Inr]])
      fix d assume "stmt (db ctx w) = Done x d" "wrote ctx d w w'"
      then show "same_data w w'"
        using assms wrote_same same_db_data by metis
    qed
  qed
  then show "same_data w (snd (WithTenant env ctx f stmt w))" by (simp add: run)
qed

lemma reads_checkResourceAuthZ [steps_intro]: "steps same_data (checkResourceAuthZ env ctx r a)"
  unfolding checkResourceAuthZ_def by (intro steps_intro)

lemma reads_checkQueryAuthZ [steps_intro]: "steps same_data (checkQueryAuthZ env ctx js a)"
  unfolding checkQueryAuthZ_def by (intro steps_intro)

lemma reads_First [steps_intro]: "steps same_data (First_join env ctx T joins q)"
  unfolding First_join_def sql_First_def
  by (intro steps_intro reads_WithTenant) (auto split: option.splits)

lemma reads_First_full [steps_intro]: "steps same_data (First_full env ctx T joins arr pre q)"
  unfolding First_full_def sql_First_full_def
  by (intro steps_intro reads_WithTenant) (auto split: list.splits)

lemma reads_Count [steps_intro]: "steps same_data (Count_join env ctx T joins q)"
  unfolding Count_join_def sql_Count_def by (intro steps_intro reads_WithTenant) auto

lemma reads_List [steps_intro]: "steps same_data (List_join env ctx T joins arr q l off)"
  unfolding List_join_def sql_List_by_def by (intro steps_intro reads_WithTenant) auto

lemma First_join_any:
  "First_join env ctx T joins q w = (r, w') \<Longrightarrow> same_data w w' \<and> db c w' = db c w"
  using steps_run[OF reads_First] same_data_db by blast

lemma First_full_any:
  "First_full env ctx T joins arr pre q w = (r, w') \<Longrightarrow> same_data w w' \<and> db c w' = db c w"
  using steps_run[OF reads_First_full] same_data_db by blast

lemma Count_join_any:
  "Count_join env ctx T joins q w = (r, w') \<Longrightarrow> same_data w w' \<and> db c w' = db c w"
  using steps_run[OF reads_Count] same_data_db by blast

lemma List_join_any:
  "List_join env ctx T joins arr q l off w = (r, w') \<Longrightarrow> same_data w w' \<and> db c w' = db c w"
  using steps_run[OF reads_List] same_data_db by blast

lemma wrote_calls: "wrote ctx d w w' \<Longrightarrow> calls w' = calls w"
  by (auto simp: wrote_def)

text \<open>a failed write changes no data\<close>

lemma write_err:
  "Create env ctx T r w = (Inl e, w') \<Longrightarrow> same_data w w'"
  "Patch env ctx T pk f w = (Inl e, w') \<Longrightarrow> same_data w w'"
  "Set_by env ctx T pk f r w = (Inl e, w') \<Longrightarrow> same_data w w'"
  "Delete env ctx T hook p w = (Inl e, w') \<Longrightarrow> same_data w w'"
  "Patch_after env ctx T pk f after w = (Inl e, w') \<Longrightarrow> same_data w w'"
  by (auto simp: Create_def Patch_after_def sql_Patch_after_def Patch_def Set_by_def Delete_def sql_Create_def sql_Patch_def sql_Set_def
      sql_Delete_def bindC_run_err wrapC_run_err run_simps
      dest!: WithTenant_err checkResourceAuthZ_run steps_run[OF reads_checkResourceAuthZ] same_db_data
      intro: same_data_trans)

lemma sql_write_err:
  "sql_Patch env ctx T pk f w = (Inl e, w') \<Longrightarrow> same_data w w'"
  "sql_Create env ctx T x w = (Inl e, w') \<Longrightarrow> same_data w w'"
  by (auto simp: sql_Create_def sql_Patch_def wrapC_run_err dest!: WithTenant_err)

lemma read_db: "steps same_data m \<Longrightarrow> m w = (r, w') \<Longrightarrow> db ctx w' = db ctx w"
  by (metis same_data_db steps_run)

section \<open>Frames over whole operations\<close>

text \<open>
  \<open>R\<close> relates the worlds before and after an operation run for tenant \<open>tn\<close>. The laws
  say that \<open>R\<close> tolerates the counter, the abort flag, additions to the call log, writes
  to the tenant's own schema that keep the unique constraints, and rolling back.
\<close>

definition stmt_ok :: "tab set \<Rightarrow> 'a stmt \<Rightarrow> bool" where
  "stmt_ok W stmt \<longleftrightarrow> (\<forall>d x d'. stmt d = Done x d' \<longrightarrow>
     changes W d d' \<and> (schema_uniq d \<longrightarrow> schema_uniq d'))"

text \<open>what a deletion does besides keeps the unique constraints and the tables outside \<open>W\<close>\<close>

definition hook_ok :: "tab set \<Rightarrow> (schema \<Rightarrow> schema option) \<Rightarrow> bool" where
  "hook_ok W hook \<longleftrightarrow> (\<forall>d d'. hook d = Some d' \<longrightarrow>
     changes W d d' \<and> (schema_uniq d \<longrightarrow> schema_uniq d'))"

locale world_frame = frame R for R :: "world \<Rightarrow> world \<Rightarrow> bool" +
  fixes tn :: string and W :: "tab set"
  assumes R_tick: "R w (w\<lparr>tick := n\<rparr>)"
    and R_abort: "R w (w\<lparr>aborted := b\<rparr>)"
    and R_calls: "R w (w\<lparr>calls := calls w @ cs\<rparr>)"
    and R_schema: "find (\<lambda>t. ten_ID t = tn) (tenants w) = Some t \<Longrightarrow> sn = ten_SchemaName t \<Longrightarrow>
        changes W (schemas w sn) d \<Longrightarrow> (schema_uniq (schemas w sn) \<Longrightarrow> schema_uniq d) \<Longrightarrow>
        R w (w\<lparr>schemas := (schemas w)(sn := d)\<rparr>)"
    and R_rollback: "R w w' \<Longrightarrow> R w (rollback w w')"
begin

lemma steps_tick_of [steps_intro]: "steps R tick_of"
  by (simp add: steps_def tick_of_def R_tick)

lemma steps_logCall [steps_intro]: "steps R (logCall c)"
  by (simp add: steps_def logCall_def modifyC_def R_calls)

lemma steps_timeNow [steps_intro]: "steps R (timeNow env)"
  by (auto simp: timeNow_def intro!: steps_intro)

lemma steps_newUUID [steps_intro]: "steps R (newUUID env)"
  by (auto simp: newUUID_def intro!: steps_intro)

lemma steps_same_data: "same_data w w' \<Longrightarrow> R w w'"
proof -
  assume "same_data w w'"
  then have "w' = w\<lparr>tick := tick w', aborted := aborted w'\<rparr>"
    by (simp add: same_data_def)
  then show ?thesis
    using R_trans[OF R_tick[of w "tick w'"] R_abort[of _ "aborted w'"]] by simp
qed

lemma steps_WithTenant:
  assumes ctx: "ctx_Tenant ctx = Some tn" and u: "stmt_ok W stmt"
  shows "steps R (WithTenant env ctx f stmt)"
  unfolding steps_def
proof
  fix w
  obtain r w' where run: "WithTenant env ctx f stmt w = (r, w')" by force
  show "R w (snd (WithTenant env ctx f stmt w))"
  proof (cases r)
    case (Inl e)
    then have "same_data w w'" using run WithTenant_err by blast
    then show ?thesis by (simp add: run steps_same_data)
  next
    case (Inr x)
    obtain d where d: "stmt (db ctx w) = Done x d" "wrote ctx d w w'"
      by (rule WithTenant_run[OF run[unfolded Inr]])
    then obtain sn where "tenant_schema ctx w = Some sn" by (auto simp: wrote_def)
    then obtain t where t: "find (\<lambda>t. ten_ID t = tn) (tenants w) = Some t"
      "tenant_schema ctx w = Some (ten_SchemaName t)"
      using ctx by (auto simp: tenant_schema_def schema_in_def ExtractTenantID_def
          nonempty_value_def split: if_splits)
    define w1 where "w1 = w\<lparr>schemas := (schemas w)(ten_SchemaName t := d)\<rparr>"
    have "R w w1"
      using t(1) u d(1) unfolding w1_def
      by (intro R_schema) (auto simp: stmt_ok_def db_def t(2))
    moreover have "same_data w1 w'"
      using d(2) t(2) by (auto simp: wrote_def same_data_def w1_def)
    ultimately show ?thesis
      using R_trans[OF _ steps_same_data] by (simp add: run)
  qed
qed

lemma steps_sql_First [steps_intro]: "ctx_Tenant ctx = Some tn \<Longrightarrow> steps R (sql_First env ctx T q)"
  unfolding sql_First_def
  by (rule steps_WithTenant) (auto simp: stmt_ok_def split: option.splits)

lemma steps_sql_First_full [steps_intro]:
  "ctx_Tenant ctx = Some tn \<Longrightarrow> steps R (sql_First_full env ctx T arr pre q)"
  unfolding sql_First_full_def
  by (rule steps_WithTenant) (auto simp: stmt_ok_def split: list.splits)

lemma steps_sql_Count [steps_intro]: "ctx_Tenant ctx = Some tn \<Longrightarrow> steps R (sql_Count env ctx T q)"
  unfolding sql_Count_def by (rule steps_WithTenant) (auto simp: stmt_ok_def)

lemma steps_sql_List_by [steps_intro]:
  "ctx_Tenant ctx = Some tn \<Longrightarrow> steps R (sql_List_by env ctx T arr q l off)"
  unfolding sql_List_by_def by (rule steps_WithTenant) (auto simp: stmt_ok_def)

lemma steps_sql_Create [steps_intro]:
  "table_laws T \<Longrightarrow> t_tag T \<in> W \<Longrightarrow> ctx_Tenant ctx = Some tn \<Longrightarrow> steps R (sql_Create env ctx T r)"
  unfolding sql_Create_def
  by (rule steps_WithTenant)
    (auto simp: stmt_ok_def table_laws.uniq_upd table_laws.changes_upd split: if_splits)

lemma steps_sql_Delete [steps_intro]:
  "table_laws T \<Longrightarrow> t_tag T \<in> W \<Longrightarrow> hook_ok W hook \<Longrightarrow>
     ctx_Tenant ctx = Some tn \<Longrightarrow> steps R (sql_Delete env ctx T hook q)"
  unfolding sql_Delete_def
  by (rule steps_WithTenant) (auto simp: stmt_ok_def hook_ok_def table_laws.uniq_delete
      table_laws.changes_after split: option.splits)

lemma steps_sql_Patch [steps_intro]:
  "table_laws T \<Longrightarrow> t_tag T \<in> W \<Longrightarrow> ctx_Tenant ctx = Some tn \<Longrightarrow> steps R (sql_Patch env ctx T pk f)"
  unfolding sql_Patch_def
  by (intro steps_wrap steps_WithTenant)
    (auto simp: stmt_ok_def table_laws.uniq_upd table_laws.changes_upd split: if_splits)

lemma steps_sql_Patch_after [steps_intro]:
  assumes "table_laws T" "t_tag T \<in> W" "hook_ok W (\<lambda>d. Some (after d))" "ctx_Tenant ctx = Some tn"
  shows "steps R (sql_Patch_after env ctx T pk f after)"
proof -
  have "changes W d (after (t_upd T (row_upd pk f) d)) \<and>
      (schema_uniq d \<longrightarrow> schema_uniq (after (t_upd T (row_upd pk f) d)))"
    if "t_uniq T (row_upd pk f (t_get T d))" for d
    using assms(2,3) that changes_trans[OF table_laws.changes_upd[OF assms(1), of W]]
      table_laws.uniq_upd[OF assms(1)]
    by (auto simp: hook_ok_def)
  then show ?thesis
    unfolding sql_Patch_after_def
    by (intro steps_wrap steps_WithTenant assms(4)) (auto simp: stmt_ok_def split: if_splits)
qed

lemma steps_sql_Set [steps_intro]:
  "table_laws T \<Longrightarrow> t_tag T \<in> W \<Longrightarrow> ctx_Tenant ctx = Some tn \<Longrightarrow> steps R (sql_Set env ctx T pk f r)"
  unfolding sql_Set_def
  by (rule steps_WithTenant)
    (auto simp: stmt_ok_def Let_def table_laws.uniq_upd table_laws.changes_upd split: if_splits)

lemma steps_checkResourceAuthZ [steps_intro]: "steps R (checkResourceAuthZ env ctx r a)"
  by (auto simp: checkResourceAuthZ_def intro!: steps_intro)

lemma steps_checkQueryAuthZ [steps_intro]: "steps R (checkQueryAuthZ env ctx js a)"
  by (auto simp: checkQueryAuthZ_def intro!: steps_intro)

lemma steps_First [steps_intro]:
  "ctx_Tenant ctx = Some tn \<Longrightarrow> steps R (First_join env ctx T joins q)"
  by (auto simp: First_join_def intro!: steps_intro)

lemma steps_First_full [steps_intro]:
  "ctx_Tenant ctx = Some tn \<Longrightarrow> steps R (First_full env ctx T joins arr pre q)"
  by (auto simp: First_full_def intro!: steps_intro)

lemma steps_Count [steps_intro]:
  "ctx_Tenant ctx = Some tn \<Longrightarrow> steps R (Count_join env ctx T joins q)"
  by (auto simp: Count_join_def intro!: steps_intro)

lemma steps_List [steps_intro]:
  "ctx_Tenant ctx = Some tn \<Longrightarrow> steps R (List_join env ctx T joins arr q l off)"
  by (auto simp: List_join_def intro!: steps_intro)

lemma steps_Create [steps_intro]:
  "table_laws T \<Longrightarrow> t_tag T \<in> W \<Longrightarrow> ctx_Tenant ctx = Some tn \<Longrightarrow> steps R (Create env ctx T r)"
  by (auto simp: Create_def intro!: steps_intro)

lemma steps_Delete [steps_intro]:
  "table_laws T \<Longrightarrow> t_tag T \<in> W \<Longrightarrow> hook_ok W hook \<Longrightarrow>
     ctx_Tenant ctx = Some tn \<Longrightarrow> steps R (Delete env ctx T hook q)"
  unfolding Delete_def by (intro steps_bind steps_checkResourceAuthZ steps_sql_Delete)

lemma steps_Patch [steps_intro]:
  "table_laws T \<Longrightarrow> t_tag T \<in> W \<Longrightarrow> ctx_Tenant ctx = Some tn \<Longrightarrow> steps R (Patch env ctx T pk f)"
  by (auto simp: Patch_def intro!: steps_intro)

lemma steps_Patch_after [steps_intro]:
  "table_laws T \<Longrightarrow> t_tag T \<in> W \<Longrightarrow> hook_ok W (\<lambda>d. Some (after d)) \<Longrightarrow>
     ctx_Tenant ctx = Some tn \<Longrightarrow> steps R (Patch_after env ctx T pk f after)"
  unfolding Patch_after_def by (intro steps_bind steps_checkResourceAuthZ steps_sql_Patch_after)

lemma steps_Set_by [steps_intro]:
  "table_laws T \<Longrightarrow> t_tag T \<in> W \<Longrightarrow> ctx_Tenant ctx = Some tn \<Longrightarrow> steps R (Set_by env ctx T pk f r)"
  by (auto simp: Set_by_def intro!: steps_intro)

lemma steps_inTx:
  assumes "steps R (body (ctx\<lparr>ctx_tx := True\<rparr>))"
  shows "steps R (inTx env ctx body)"
proof -
  have "R w (snd (inTx env ctx body w))" for w
  proof -
    have *: "R w (snd (body (ctx\<lparr>ctx_tx := True\<rparr>) (w\<lparr>aborted := False\<rparr>)))"
      using R_trans[OF R_abort[of w False]]
        assms[unfolded steps_def, rule_format, of "w\<lparr>aborted := False\<rparr>"] by blast
    show ?thesis
      using * R_trans[OF * R_tick]
      by (auto simp: inTx_def tick_of_def R_rollback split: prod.split sum.split)
  qed
  then show ?thesis by (simp add: steps_def)
qed

lemma steps_Transaction [steps_intro]:
  assumes "ctx_Tenant ctx = Some tn"
    and "\<And>c. ctx_Tenant c = Some tn \<Longrightarrow> steps R (body c)"
  shows "steps R (Transaction env ctx body)"
  using assms
  by (auto simp: Transaction_def
      intro!: steps_bind steps_tick_of steps_case_option steps_throw steps_inTx)

end

lemmas tables_laws [steps_intro] = UNIV_I workflows.table_laws_axioms approvers.table_laws_axioms
  approver_groups.table_laws_axioms keys.table_laws_axioms key_versions.table_laws_axioms
  key_labels.table_laws_axioms key_configurations.table_laws_axioms systems.table_laws_axioms
  groups.table_laws_axioms events.table_laws_axioms import_params.table_laws_axioms
  system_properties.table_laws_axioms tenant_configs.table_laws_axioms tags.table_laws_axioms


lemma hook_ok_Some [steps_intro]: "hook_ok W Some"
  by (simp add: hook_ok_def)

lemma hook_ok_group_refs [steps_intro]: "TabApproverGroups \<in> W \<Longrightarrow> hook_ok W (group_refs i)"
  using approver_groups.uniq_delete approver_groups.changes_upd
  by (auto simp: hook_ok_def group_refs_def)

lemma hook_ok_key_refs [steps_intro]:
  "TabKeyVersions \<in> W \<Longrightarrow> TabImportParams \<in> W \<Longrightarrow> hook_ok W (key_refs i)"
  using import_params.uniq_delete key_versions.uniq_delete
  by (auto simp: hook_ok_def key_refs_def changes_def)

lemma hook_ok_system_refs [steps_intro]: "TabSystemProperties \<in> W \<Longrightarrow> hook_ok W (system_refs i)"
  using system_properties.uniq_delete system_properties.changes_upd
  by (auto simp: hook_ok_def system_refs_def)

lemma upsert_property_uniq:
  assumes "t_uniq T_system_properties rs"
  shows "t_uniq T_system_properties
    (upsert (\<lambda>p. sp_ID p = i \<and> sp_Key p = k) \<lparr>sp_ID = i, sp_Key = k, sp_Value = v\<rparr> rs)"
proof -
  have "map (\<lambda>p. (sp_ID p, sp_Key p)) (row_upd (\<lambda>p. sp_ID p = i \<and> sp_Key p = k)
      (\<lambda>_. \<lparr>sp_ID = i, sp_Key = k, sp_Value = v\<rparr>) rs) = map (\<lambda>p. (sp_ID p, sp_Key p)) rs"
    by (auto simp: row_upd_def)
  then show ?thesis
    using assms by (auto simp: upsert_def T_system_properties_def)
qed

lemma hook_ok_AfterSave [steps_intro]:
  "props = [] \<or> TabSystemProperties \<in> W \<Longrightarrow> hook_ok W (\<lambda>d. Some (System_AfterSave i props d))"
proof -
  assume a: "props = [] \<or> TabSystemProperties \<in> W"
  have u: "t_uniq T_system_properties (foldl (\<lambda>rs (k, v). upsert (\<lambda>p. sp_ID p = i \<and> sp_Key p = k)
      \<lparr>sp_ID = i, sp_Key = k, sp_Value = v\<rparr> rs) rs props)" if "t_uniq T_system_properties rs" for rs
    using that by (induction props arbitrary: rs) (auto simp: upsert_property_uniq split: prod.splits)
  have "schema_uniq (System_AfterSave i props d)" if "schema_uniq d" for d
    using system_properties.uniq_upd[OF that] u system_properties.uniq_get[OF that]
    by (auto simp: System_AfterSave_def)
  moreover have "changes W d (System_AfterSave i props d)" for d
    using a by (auto simp: System_AfterSave_def changes_def)
  ultimately show ?thesis by (simp add: hook_ok_def)
qed

lemma System_AfterSave_Nil [simp]: "System_AfterSave i [] d = d"
  by (simp add: System_AfterSave_def)

lemma hook_ok_workflow_refs [steps_intro]:
  "TabApprovers \<in> W \<Longrightarrow> TabApproverGroups \<in> W \<Longrightarrow> hook_ok W (workflow_refs i)"
  using approvers.uniq_delete approver_groups.uniq_delete
  by (auto simp: hook_ok_def workflow_refs_def changes_def)

subsection \<open>Five frames\<close>

text \<open>nothing outside the schema of tenant \<open>tn\<close> changes\<close>

definition isolated :: "string \<Rightarrow> world \<Rightarrow> world \<Rightarrow> bool" where
  "isolated tn w w' \<longleftrightarrow> tenants w' = tenants w \<and>
     (\<forall>sn. find (\<lambda>t. ten_ID t = tn) (tenants w) = None \<or>
           sn \<noteq> ten_SchemaName (the (find (\<lambda>t. ten_ID t = tn) (tenants w))) \<longrightarrow>
           schemas w' sn = schemas w sn)"

interpretation iso: world_frame "isolated tn" tn UNIV for tn
  by unfold_locales (auto simp: isolated_def rollback_def)

text \<open>calls already made stay in the log\<close>

definition log_grows :: "world \<Rightarrow> world \<Rightarrow> bool" where
  "log_grows w w' \<longleftrightarrow> (\<exists>cs. calls w' = calls w @ cs)"

interpretation grows: world_frame log_grows tn UNIV for tn
  by unfold_locales (auto simp: log_grows_def rollback_def)

text \<open>the unique constraints of every schema are kept\<close>

definition keeps_uniq :: "world \<Rightarrow> world \<Rightarrow> bool" where
  "keeps_uniq w w' \<longleftrightarrow>
     ((\<forall>sn. schema_uniq (schemas w sn)) \<longrightarrow> (\<forall>sn. schema_uniq (schemas w' sn)))"

interpretation uniq: world_frame keeps_uniq tn UNIV for tn
  by unfold_locales (auto simp: keeps_uniq_def rollback_def)

text \<open>only the tables \<open>W\<close> of tenant \<open>tn\<close> change\<close>

definition only :: "tab set \<Rightarrow> string \<Rightarrow> world \<Rightarrow> world \<Rightarrow> bool" where
  "only W tn w w' \<longleftrightarrow> isolated tn w w' \<and>
     (\<forall>t. find (\<lambda>t. ten_ID t = tn) (tenants w) = Some t \<longrightarrow>
          changes W (schemas w (ten_SchemaName t)) (schemas w' (ten_SchemaName t)))"

interpretation tab: world_frame "only W tn" tn W for W tn
  by unfold_locales (auto simp: only_def isolated_def rollback_def intro: changes_trans)

lemma only_db:
  assumes "only W tn w w'"
  shows "changes W (db ctx w) (db ctx w')"
proof -
  have t: "tenants w' = tenants w" using assms by (simp add: only_def isolated_def)
  have "changes W (schemas w sn) (schemas w' sn)" for sn
  proof (cases "find (\<lambda>t. ten_ID t = tn) (tenants w)")
    case None
    then show ?thesis using assms by (simp add: only_def isolated_def)
  next
    case (Some t)
    then show ?thesis using assms by (cases "sn = ten_SchemaName t") (auto simp: only_def isolated_def)
  qed
  then show ?thesis by (simp add: db_def tenant_schema_def t)
qed

lemma only_run:
  assumes "steps (only W tn) m" and "m w = (r, w')"
  shows "changes W (db ctx w) (db ctx w')"
  by (rule only_db, rule steps_run, fact+)

text \<open>no table changes, whatever is logged\<close>

definition same_tables :: "world \<Rightarrow> world \<Rightarrow> bool" where
  "same_tables w w' \<longleftrightarrow> tenants w' = tenants w \<and> schemas w' = schemas w"

lemma changes_empty [simp]: "changes {} d d' \<longleftrightarrow> d' = d"
  by (auto simp: changes_def intro!: schema.equality)

interpretation ro: world_frame same_tables tn "{}" for tn
  by unfold_locales (auto simp: same_tables_def rollback_def)

lemma same_tables_db: "same_tables w w' \<Longrightarrow> db ctx w' = db ctx w"
  by (simp add: same_tables_def db_def tenant_schema_def)

lemma ro_run:
  assumes "steps same_tables m" and "m w = (r, w')"
  shows "db ctx w' = db ctx w"
  by (rule same_tables_db, rule steps_run, fact+)

end
