(* ===== verification/Tenant_Config.thy ===== *)
theory Tenant_Config
  imports Repo_Laws
begin

text \<open>
  Tenants and the workflow configuration of a tenant
  (src/internal/repo/repository.go, src/internal/manager/tenantconfigs.go).

  \<open>cfg_valid\<close> is what every stored configuration satisfies: \<open>SetWorkflowConfig\<close> is the only
  writer and checks it.
\<close>

section \<open>Reading the tenant\<close>

text \<open>\<open>First\<close> on the shared tenant table; reads of it need no permission\<close>

definition First_tenant :: "env \<Rightarrow> ctx \<Rightarrow> string \<Rightarrow> Tenant M" where
  "First_tenant env ctx tenantID = bindC tick_of (\<lambda>n w.
     if ctx_tx ctx \<and> aborted w
     then (Inl [E ''repo.ErrWithTenant'', Msg ''current transaction is aborted''], w)
     else case db_fault env n of
       Some m \<Rightarrow> (Inl [E ''repo.ErrGetResource'', Msg m],
                  if ctx_tx ctx then w\<lparr>aborted := True\<rparr> else w)
     | None \<Rightarrow> (case find (\<lambda>t. ten_ID t = tenantID) (tenants w) of
         None \<Rightarrow> (Inl [E ''repo.ErrNotFound'', E ''gorm.ErrRecordNotFound''], w)
       | Some t \<Rightarrow> (Inr t, w)))"

definition GetTenantByID :: "env \<Rightarrow> ctx \<Rightarrow> string \<Rightarrow> Tenant M" where
  "GetTenantByID env ctx tenantID =
     tryC (First_tenant env ctx tenantID) (\<lambda>res. case res of
       Inl err \<Rightarrow> if errs_Is err ''repo.ErrNotFound'' then throwC [E ''repo.ErrTenantNotFound'']
                  else throwC (Wrap [E ''repo.ErrGetResource''] (Some err))
     | Inr tenant \<Rightarrow> returnC tenant)"

definition GetTenant :: "env \<Rightarrow> ctx \<Rightarrow> Tenant M" where
  "GetTenant env ctx = bindC (liftC (ExtractTenantID ctx)) (\<lambda>tenantID. GetTenantByID env ctx tenantID)"

section \<open>Workflow configuration\<close>

definition minimumRetentionPeriodDays :: int where "minimumRetentionPeriodDays = 30"

definition applyDeploymentConfigOverrides :: "DeployWorkflow \<Rightarrow> WorkflowConfig \<Rightarrow> WorkflowConfig" where
  "applyDeploymentConfigOverrides dw c = c\<lparr>
     cfg_MinimumApprovals := (if dw_DefaultMinimumApprovals dw > 0
       then dw_DefaultMinimumApprovals dw else cfg_MinimumApprovals c),
     cfg_RetentionPeriodDays := (if dw_DefaultRetentionPeriodDays dw > 0
       then dw_DefaultRetentionPeriodDays dw else cfg_RetentionPeriodDays c),
     cfg_DefaultExpiryPeriodDays := (if dw_DefaultExpiryPeriodDays dw > 0
       then dw_DefaultExpiryPeriodDays dw else cfg_DefaultExpiryPeriodDays c),
     cfg_MaxExpiryPeriodDays := (if dw_DefaultMaxExpiryPeriodDays dw > 0
       then dw_DefaultMaxExpiryPeriodDays dw else cfg_MaxExpiryPeriodDays c)\<rparr>"

definition getDefaultWorkflowConfig :: "env \<Rightarrow> bool \<Rightarrow> WorkflowConfig" where
  "getDefaultWorkflowConfig env defaultEnabled =
     (let c = \<lparr>cfg_Enabled = defaultEnabled, cfg_MinimumApprovals = 2,
               cfg_RetentionPeriodDays = 30, cfg_DefaultExpiryPeriodDays = 7,
               cfg_MaxExpiryPeriodDays = 30\<rparr>
      in case cfg_Workflow env of None \<Rightarrow> c | Some dw \<Rightarrow> applyDeploymentConfigOverrides dw c)"

definition SetWorkflowConfig :: "env \<Rightarrow> ctx \<Rightarrow> WorkflowConfig option \<Rightarrow> WorkflowConfig M" where
  "SetWorkflowConfig env ctx workflowConfig =
     bindC (case workflowConfig of
         Some c \<Rightarrow> returnC c
       | None \<Rightarrow> bindC (GetTenant env ctx) (\<lambda>t.
           returnC (getDefaultWorkflowConfig env (ten_Role t = ''ROLE_LIVE'')))) (\<lambda>c.
     if cfg_RetentionPeriodDays c < minimumRetentionPeriodDays
     then throwC [E ''ErrSetWorkflowConfig'', E ''ErrRetentionLessThanMinimum'']
     else if cfg_DefaultExpiryPeriodDays c > cfg_MaxExpiryPeriodDays c
     then throwC [E ''ErrSetWorkflowConfig'', E ''ErrDefaultExpiryExceedsMax'']
     else if cfg_MinimumApprovals c < 2
     then throwC [E ''ErrSetWorkflowConfig'', E ''ErrMinimumApprovalsTooLow'']
     else bindC (wrapC ''ErrSetWorkflowConfig'' (Set_row env ctx T_tenant_configs (\<lambda>_. True) c)) (\<lambda>_.
          returnC c))"

definition GetWorkflowConfig :: "env \<Rightarrow> ctx \<Rightarrow> WorkflowConfig M" where
  "GetWorkflowConfig env ctx =
     tryC (First env ctx T_tenant_configs (\<lambda>_ _. True)) (\<lambda>res. case res of
       Inl err \<Rightarrow> if errs_Is err ''repo.ErrNotFound'' then SetWorkflowConfig env ctx None
                  else throwC (Wrap [E ''ErrGetWorkflowConfig''] (Some err))
     | Inr c \<Rightarrow> returnC c)"

record TenantWorkflowConfiguration =
  up_Enabled :: "bool option"
  up_MinimumApprovals :: "int option"
  up_RetentionPeriodDays :: "int option"
  up_DefaultExpiryPeriodDays :: "int option"
  up_MaxExpiryPeriodDays :: "int option"

definition mergeWorkflowConfig ::
  "WorkflowConfig \<Rightarrow> TenantWorkflowConfiguration option \<Rightarrow> WorkflowConfig" where
  "mergeWorkflowConfig existing update = (case update of
       None \<Rightarrow> existing
     | Some u \<Rightarrow> existing\<lparr>
         cfg_Enabled := (case up_Enabled u of None \<Rightarrow> cfg_Enabled existing | Some v \<Rightarrow> v),
         cfg_MinimumApprovals :=
           (case up_MinimumApprovals u of None \<Rightarrow> cfg_MinimumApprovals existing | Some v \<Rightarrow> v),
         cfg_RetentionPeriodDays :=
           (case up_RetentionPeriodDays u of None \<Rightarrow> cfg_RetentionPeriodDays existing | Some v \<Rightarrow> v),
         cfg_DefaultExpiryPeriodDays :=
           (case up_DefaultExpiryPeriodDays u of None \<Rightarrow> cfg_DefaultExpiryPeriodDays existing | Some v \<Rightarrow> v),
         cfg_MaxExpiryPeriodDays :=
           (case up_MaxExpiryPeriodDays u of None \<Rightarrow> cfg_MaxExpiryPeriodDays existing | Some v \<Rightarrow> v)\<rparr>)"

definition UpdateWorkflowConfig ::
  "env \<Rightarrow> ctx \<Rightarrow> TenantWorkflowConfiguration option \<Rightarrow> WorkflowConfig M" where
  "UpdateWorkflowConfig env ctx update =
     bindC (GetWorkflowConfig env ctx) (\<lambda>existingConfig.
     bindC (case update of
         Some u \<Rightarrow> (case up_Enabled u of
             Some e \<Rightarrow> if e \<noteq> cfg_Enabled existingConfig
               then bindC (GetTenant env ctx) (\<lambda>t.
                 unlessC (ten_Role t = ''ROLE_TEST'')
                   [E ''ErrSetWorkflowConfig'', E ''ErrWorkflowEnableDisableNotAllowed''])
               else returnC ()
           | None \<Rightarrow> returnC ())
       | None \<Rightarrow> returnC ()) (\<lambda>_.
     SetWorkflowConfig env ctx (Some (mergeWorkflowConfig existingConfig update))))"

section \<open>Laws\<close>

definition cfg_valid :: "WorkflowConfig \<Rightarrow> bool" where
  "cfg_valid c \<longleftrightarrow> cfg_RetentionPeriodDays c \<ge> 30 \<and>
     cfg_DefaultExpiryPeriodDays c \<le> cfg_MaxExpiryPeriodDays c \<and> cfg_MinimumApprovals c \<ge> 2"

definition configs_valid :: "schema \<Rightarrow> bool" where
  "configs_valid d \<longleftrightarrow> (\<forall>c \<in> set (tenant_configs d). cfg_valid c)"

lemma First_tenant_run:
  "First_tenant env ctx tid w = (Inr t, w') \<Longrightarrow>
     find (\<lambda>t. ten_ID t = tid) (tenants w) = Some t \<and> same_db w w' \<and> db ctx w' = db ctx w"
  by (auto simp: First_tenant_def bindC_def tick_of_def split: if_splits option.splits)

lemma GetTenant_run:
  assumes "GetTenant env ctx w = (Inr t, w')"
  shows "\<exists>tid. ctx_Tenant ctx = Some tid \<and> find (\<lambda>t. ten_ID t = tid) (tenants w) = Some t"
    "same_db w w'" "db ctx w' = db ctx w"
proof -
  obtain tid where tid: "ExtractTenantID ctx = Inr tid" "GetTenantByID env ctx tid w = (Inr t, w')"
    using assms by (auto simp: GetTenant_def run_simps)
  then have "First_tenant env ctx tid w = (Inr t, w')"
    by (auto simp: GetTenantByID_def run_simps split: if_splits)
  from First_tenant_run[OF this]
  show "\<exists>tid. ctx_Tenant ctx = Some tid \<and> find (\<lambda>t. ten_ID t = tid) (tenants w) = Some t"
    "same_db w w'" "db ctx w' = db ctx w"
    using tid(1) by (auto simp: ExtractTenantID_Inr)
qed

lemma SetWorkflowConfig_run:
  assumes "SetWorkflowConfig env ctx uc w = (Inr c, w')"
  shows "cfg_valid c \<and> (uc = Some c \<or> uc = None) \<and> tenants w' = tenants w \<and> calls w' = calls w \<and>
    (\<forall>x \<in> set (tenant_configs (db ctx w')). x = c) \<and> c \<in> set (tenant_configs (db ctx w'))"
proof -
  obtain w1 where w1: "Set_row env ctx T_tenant_configs (\<lambda>_. True) c w1 = (Inr (), w')"
    "cfg_valid c" "uc = Some c \<or> uc = None" "same_db w w1"
    using assms
    by (auto simp: SetWorkflowConfig_def run_simps cfg_valid_def minimumRetentionPeriodDays_def
        split: if_splits option.splits dest: GetTenant_run)
  show ?thesis
    using Set_by_run[OF w1(1)] w1(2-4)
    by (cases "tenant_configs (db ctx w1)") (auto simp: row_upd_def same_db_def wrote_def)
qed

lemma GetWorkflowConfig_run:
  assumes "GetWorkflowConfig env ctx w = (Inr c, w')"
  shows "(c \<in> set (tenant_configs (db ctx w)) \<and> db ctx w' = db ctx w) \<or> cfg_valid c"
  using assms
  by (auto simp: GetWorkflowConfig_def run_simps split: if_splits
      dest: SetWorkflowConfig_run First_join_found First_join_run)

text \<open>
  A configuration read from a tenant whose stored configuration is valid is valid, and the
  stored configurations stay valid.
\<close>

lemma SetWorkflowConfig_valid:
  "SetWorkflowConfig env ctx uc w = (Inr c, w') \<Longrightarrow> configs_valid (db ctx w')"
  using SetWorkflowConfig_run by (fastforce simp: configs_valid_def)

lemma GetWorkflowConfig_valid:
  assumes "GetWorkflowConfig env ctx w = (Inr c, w')" and "configs_valid (db ctx w)"
  shows "cfg_valid c \<and> configs_valid (db ctx w')"
  using assms
  by (auto simp: GetWorkflowConfig_def run_simps configs_valid_def split: if_splits
      dest: SetWorkflowConfig_run First_join_found First_join_run)

lemma UpdateWorkflowConfig_run:
  assumes "UpdateWorkflowConfig env ctx u w = (Inr c, w')"
  obtains ex w1 where "GetWorkflowConfig env ctx w = (Inr ex, w1)"
    "c = mergeWorkflowConfig ex u" "cfg_valid c" "configs_valid (db ctx w')"
    "cfg_Enabled c \<noteq> cfg_Enabled ex \<Longrightarrow>
       \<exists>tid t. ctx_Tenant ctx = Some tid \<and> find (\<lambda>t. ten_ID t = tid) (tenants w1) = Some t \<and>
               ten_Role t = ''ROLE_TEST''"
proof -
  obtain ex w1 w2 where a: "GetWorkflowConfig env ctx w = (Inr ex, w1)"
    "SetWorkflowConfig env ctx (Some (mergeWorkflowConfig ex u)) w2 = (Inr c, w')"
    and b: "cfg_Enabled (mergeWorkflowConfig ex u) \<noteq> cfg_Enabled ex \<Longrightarrow>
       \<exists>t w3. GetTenant env ctx w1 = (Inr t, w3) \<and> ten_Role t = ''ROLE_TEST''"
    using assms
    by (auto simp: UpdateWorkflowConfig_def run_simps mergeWorkflowConfig_def
        split: option.splits if_splits)
  have c: "c = mergeWorkflowConfig ex u" "cfg_valid c"
    using SetWorkflowConfig_run[OF a(2)] by auto
  show ?thesis
  proof (rule that[OF a(1) c])
    show "configs_valid (db ctx w')" using SetWorkflowConfig_valid[OF a(2)] .
    show "\<exists>tid t. ctx_Tenant ctx = Some tid \<and> find (\<lambda>t. ten_ID t = tid) (tenants w1) = Some t \<and>
               ten_Role t = ''ROLE_TEST''" if "cfg_Enabled c \<noteq> cfg_Enabled ex"
      using b that c GetTenant_run(1) by fastforce
  qed
qed

context world_frame
begin

lemma steps_First_tenant [steps_intro]: "steps R (First_tenant env ctx tid)"
  unfolding steps_def
proof
  fix w
  have "same_data w (snd (First_tenant env ctx tid w))"
    by (auto simp: First_tenant_def bindC_def tick_of_def same_data_def split: option.splits)
  then show "R w (snd (First_tenant env ctx tid w))" by (rule steps_same_data)
qed

lemma steps_GetTenantByID [steps_intro]: "steps R (GetTenantByID env ctx tid)"
  unfolding GetTenantByID_def by (intro steps_intro)

lemma steps_GetTenant [steps_intro]: "steps R (GetTenant env ctx)"
  unfolding GetTenant_def by (intro steps_intro)

lemma steps_SetWorkflowConfig [steps_intro]:
  "TabTenantConfigs \<in> W \<Longrightarrow> ctx_Tenant ctx = Some tn \<Longrightarrow> steps R (SetWorkflowConfig env ctx uc)"
  unfolding SetWorkflowConfig_def by (intro steps_intro)

lemma steps_GetWorkflowConfig [steps_intro]:
  "TabTenantConfigs \<in> W \<Longrightarrow> ctx_Tenant ctx = Some tn \<Longrightarrow> steps R (GetWorkflowConfig env ctx)"
  unfolding GetWorkflowConfig_def by (intro steps_intro)

lemma steps_UpdateWorkflowConfig [steps_intro]:
  "TabTenantConfigs \<in> W \<Longrightarrow> ctx_Tenant ctx = Some tn \<Longrightarrow> steps R (UpdateWorkflowConfig env ctx u)"
  unfolding UpdateWorkflowConfig_def by (intro steps_intro)

end

end
