(* ===== verification/User_Access.thy ===== *)
theory User_Access
  imports Tenant_Config
begin

text \<open>
  Access of users to keys, key configurations and systems (src/internal/manager/user.go).

  A caller is either an internal task, which bypasses the checks when its role is listed,
  or a business user, whose IAM groups determine one role and the key configurations the
  user administers. Group look-ups run under an internal context of the same tenant and
  outside the caller's transaction.
\<close>

section \<open>Operations\<close>

definition asInternal :: "env \<Rightarrow> ctx \<Rightarrow> string \<Rightarrow> (ctx \<Rightarrow> 'a M) \<Rightarrow> 'a M" where
  "asInternal env ctx role body = bindC (newUUID env) (\<lambda>u.
     case BusinessToInternalContext (uuid_String env u) ctx role of
       Inl err \<Rightarrow> throwC err
     | Inr authCtx \<Rightarrow> body authCtx)"

definition GetRoleFromIAM :: "env \<Rightarrow> ctx \<Rightarrow> string list \<Rightarrow> string M" where
  "GetRoleFromIAM env ctx iamIdentifiers =
     asInternal env ctx ''INTERNAL_BUSINESS_AUTH'' (\<lambda>authCtx.
     bindC (wrapC ''ErrGetGroups''
       (List env authCtx T_groups (\<lambda>_ g. grp_IAMIdentifier g \<in> set iamIdentifiers) 0 0)) (\<lambda>grps.
     if grps = [] then returnC []
     else case remdups (map grp_Role grps) of
         [r] \<Rightarrow> returnC r
       | _ \<Rightarrow> throwC [E ''ErrMultipleRolesInGroups'']))"

definition roleBypassesGroupFilter :: "string \<Rightarrow> APIResourceType \<Rightarrow> bool" where
  "roleBypassesGroupFilter role resource \<longleftrightarrow>
     role = TenantAuditorRole \<or>
     role = TenantAdminRole \<and> resource = APIResourceTypeUserGroup \<or>
     role = KeyAdminRole \<and> resource = APIResourceTypeSystem"

text \<open>
  the three outcomes of \<open>ensureBusinessUserOpsAllowed\<close>: bypass for a listed internal role,
  an error for any other internal role, or a business user
\<close>

datatype opsAllowed = InternalBypass | RoleNotSupported | BusinessOps

definition ensureBusinessUserOpsAllowed :: "ctx \<Rightarrow> string list \<Rightarrow> opsAllowed" where
  "ensureBusinessUserOpsAllowed ctx bypassRoles = (case CheckInternalUserRoles ctx bypassRoles of
       None \<Rightarrow> InternalBypass
     | Some err \<Rightarrow> if errs_Is err ''authz.ErrAuthzUnauthorized'' then RoleNotSupported
                   else BusinessOps)"

definition guarded :: "ctx \<Rightarrow> string list \<Rightarrow> 'a \<Rightarrow> 'a M \<Rightarrow> 'a M" where
  "guarded ctx bypassRoles zero body = (case ensureBusinessUserOpsAllowed ctx bypassRoles of
       InternalBypass \<Rightarrow> returnC zero
     | RoleNotSupported \<Rightarrow> throwC [E ''ErrInternalRoleNotSupported'']
     | BusinessOps \<Rightarrow> body)"

definition NeedsGroupFiltering :: "env \<Rightarrow> ctx \<Rightarrow> APIAction \<Rightarrow> APIResourceType \<Rightarrow> bool M" where
  "NeedsGroupFiltering env ctx action resource =
     guarded ctx [''INTERNAL_TASK_WORKFLOW_APPROVERS'', ''INTERNAL_TASK_WORKFLOW_EXPIRATION'',
                  ''INTERNAL_TENANT_PROVISIONING''] False
     (bindC (liftC (ExtractBusinessUserDataGroups ctx)) (\<lambda>iamIdentifiers.
      bindC (GetRoleFromIAM env ctx iamIdentifiers) (\<lambda>role.
      returnC (\<not> (action = APIActionRead \<and> roleBypassesGroupFilter role resource)))))"

definition isCreateKeyconfig :: "Group option \<Rightarrow> APIAction \<Rightarrow> APIResourceType \<Rightarrow> bool" where
  "isCreateKeyconfig adminGroup action resource \<longleftrightarrow>
     action = APIActionCreate \<and> resource = APIResourceTypeKeyConfiguration \<and> adminGroup \<noteq> None"

text \<open>a key configuration whose admin group is one of the given IAM groups\<close>

definition administers :: "schema \<Rightarrow> string list \<Rightarrow> KeyConfiguration \<Rightarrow> bool" where
  "administers d iamIdentifiers kc \<longleftrightarrow>
     (\<exists>g \<in> set (groups d). grp_ID g = kc_AdminGroupID kc \<and> grp_IAMIdentifier g \<in> set iamIdentifiers)"

definition hasKeyConfigAccess ::
  "env \<Rightarrow> ctx \<Rightarrow> uuid \<Rightarrow> Group option \<Rightarrow> APIAction \<Rightarrow> APIResourceType \<Rightarrow> bool M" where
  "hasKeyConfigAccess env ctx keyConfigID adminGroup action resource =
     bindC (liftC (ExtractBusinessUserDataGroups ctx)) (\<lambda>iamIdentifiers.
     bindC (GetRoleFromIAM env ctx iamIdentifiers) (\<lambda>role.
     if role = TenantAuditorRole \<and> action = APIActionRead then returnC True
     else if iamIdentifiers = [] then throwC [E ''ErrKeyConfigurationNotAllowed'']
     else if isCreateKeyconfig adminGroup action resource
     then returnC (grp_IAMIdentifier (the adminGroup) \<in> set iamIdentifiers)
     else asInternal env ctx ''INTERNAL_BUSINESS_AUTH'' (\<lambda>authCtx.
       bindC (wrapC ''ErrCheckKeyConfigManagedByIAMGroups''
         (Count_join env authCtx T_key_configurations [RepoResourceTypeGroup]
            (\<lambda>d kc. kc_ID kc = keyConfigID \<and> administers d iamIdentifiers kc))) (\<lambda>count.
       returnC (count > 0)))))"

definition sendUnauthorizedAccessAuditLog :: "APIResourceType \<Rightarrow> APIAction \<Rightarrow> unit M" where
  "sendUnauthorizedAccessAuditLog resource action = logCall (CallAudit ''unauthorizedRequest'' uuid_Nil)"

text \<open>authorization by key configuration, shared by keys, key configurations and systems\<close>

definition requireKeyConfigAccess ::
  "env \<Rightarrow> ctx \<Rightarrow> uuid \<Rightarrow> Group option \<Rightarrow> APIAction \<Rightarrow> APIResourceType \<Rightarrow> bool \<Rightarrow> bool M" where
  "requireKeyConfigAccess env ctx keyConfigID adminGroup action resource isGroupFiltered =
     bindC (wrapC ''ErrGettingKeyConfigByID''
       (hasKeyConfigAccess env ctx keyConfigID adminGroup action resource)) (\<lambda>isAuthorized.
     if \<not> isAuthorized
     then bindC (sendUnauthorizedAccessAuditLog resource action) (\<lambda>_.
            throwC [E ''ErrKeyConfigurationNotAllowed''])
     else returnC isGroupFiltered)"

definition HasKeyAccess :: "env \<Rightarrow> ctx \<Rightarrow> APIAction \<Rightarrow> uuid \<Rightarrow> bool M" where
  "HasKeyAccess env ctx action keyConfigID =
     guarded ctx [''INTERNAL_TASK_WORKFLOW_APPROVERS'', ''INTERNAL_TENANT_PROVISIONING'',
                  ''INTERNAL_TASK_PENDING_STATE_SYNC''] False
     (bindC (NeedsGroupFiltering env ctx action APIResourceTypeKey) (\<lambda>isGroupFiltered.
      requireKeyConfigAccess env ctx keyConfigID None action APIResourceTypeKey isGroupFiltered))"

text \<open>the key configuration is given by its id and, on creation, its admin group\<close>

definition HasKeyConfigAccess ::
  "env \<Rightarrow> ctx \<Rightarrow> APIAction \<Rightarrow> (uuid \<times> Group option) option \<Rightarrow> bool M" where
  "HasKeyConfigAccess env ctx action keyConfig =
     guarded ctx [''INTERNAL_TASK_WORKFLOW_APPROVERS'', ''INTERNAL_TENANT_PROVISIONING''] False
     (bindC (NeedsGroupFiltering env ctx action APIResourceTypeKeyConfiguration) (\<lambda>isGroupFiltered.
      case keyConfig of
        None \<Rightarrow> if action = APIActionRead then returnC isGroupFiltered
                else throwC [E ''ErrKeyConfigurationNotFound'']
      | Some (keyConfigID, adminGroup) \<Rightarrow>
          requireKeyConfigAccess env ctx keyConfigID adminGroup action
            APIResourceTypeKeyConfiguration isGroupFiltered))"

definition HasSystemAccess :: "env \<Rightarrow> ctx \<Rightarrow> APIAction \<Rightarrow> System \<Rightarrow> bool M" where
  "HasSystemAccess env ctx action system =
     guarded ctx [''INTERNAL_TASK_WORKFLOW_APPROVERS'', ''INTERNAL_TENANT_PROVISIONING''] False
     (case sys_KeyConfigurationID system of
        None \<Rightarrow> returnC False
      | Some keyConfigID \<Rightarrow>
          bindC (NeedsGroupFiltering env ctx action APIResourceTypeSystem) (\<lambda>isGroupFiltered.
          requireKeyConfigAccess env ctx keyConfigID None action APIResourceTypeSystem isGroupFiltered))"

text \<open>identifier and role; empty for a bypassing internal role\<close>

definition GetBusinessUserInfo :: "env \<Rightarrow> ctx \<Rightarrow> (string \<times> string) M" where
  "GetBusinessUserInfo env ctx =
     guarded ctx [''INTERNAL_TASK_WORKFLOW_APPROVERS'', ''INTERNAL_TASK_WORKFLOW_EXPIRATION'',
                  ''INTERNAL_TENANT_PROVISIONING''] ([], [])
     (bindC (liftC (ExtractBusinessUserData ctx)) (\<lambda>businessUserData.
      bindC (liftC (ExtractBusinessUserDataGroups ctx)) (\<lambda>grps.
      bindC (GetRoleFromIAM env ctx grps) (\<lambda>role.
      returnC (cd_Identifier businessUserData, role)))))"

definition HasTenantAccess :: "env \<Rightarrow> ctx \<Rightarrow> bool M" where
  "HasTenantAccess env ctx = (case ExtractBusinessUserDataGroups ctx of
       Inl _ \<Rightarrow> throwC [E ''ErrTenantNotAllowed'']
     | Inr iamIdentifiers \<Rightarrow>
         asInternal env ctx ''INTERNAL_BUSINESS_AUTH'' (\<lambda>authCtx.
         bindC (wrapC ''ErrCheckTenantHasIAMGroups''
           (Count env authCtx T_groups (\<lambda>_ g. grp_IAMIdentifier g \<in> set iamIdentifiers))) (\<lambda>count.
         returnC (count > 0))))"

section \<open>Laws\<close>

lemma newUUID_run [run_simps]:
  "newUUID env w = (Inr u, w') \<longleftrightarrow> u = fresh_uuid env (tick w) \<and> w' = w\<lparr>tick := Suc (tick w)\<rparr>"
  by (auto simp: newUUID_def run_simps)

lemma internal_same_tenant:
  "BusinessToInternalContext n ctx role = Inr c \<Longrightarrow> db c w = db ctx w"
  by (auto dest!: BusinessToInternalContext_result
      simp: db_def tenant_schema_def schema_in_def ExtractTenantID_def)

lemma asInternal_run:
  assumes "asInternal env ctx role body w = (Inr x, w')"
  obtains c w1 where "body c w1 = (Inr x, w')" "same_db w w1" "\<And>v. db c v = db ctx v"
    "db ctx w1 = db ctx w" "ctx_InternalUserData c = Some role" "ctx_UserType c = Some InternalUser"
proof -
  obtain c where c: "BusinessToInternalContext (uuid_String env (fresh_uuid env (tick w))) ctx role = Inr c"
    "body c (w\<lparr>tick := Suc (tick w)\<rparr>) = (Inr x, w')"
    using assms by (auto simp: asInternal_def run_simps split: sum.splits)
  show ?thesis
    by (rule that[OF c(2)])
      (use BusinessToInternalContext_result[OF c(1)] internal_same_tenant[OF c(1)] in auto)
qed

text \<open>the single role of the groups a user belongs to (among the first hundred)\<close>

lemma GetRoleFromIAM_run:
  assumes "GetRoleFromIAM env ctx ids w = (Inr r, w')"
  shows "same_db w w' \<and> db ctx w' = db ctx w \<and>
    (let gs = take 100 (filter (\<lambda>g. grp_IAMIdentifier g \<in> set ids) (groups (db ctx w)))
     in if gs = [] then r = [] else grp_Role ` set gs = {r})"
proof -
  obtain c w1 where c: "(bindC (wrapC ''ErrGetGroups''
       (List env c T_groups (\<lambda>_ g. grp_IAMIdentifier g \<in> set ids) 0 0)) (\<lambda>grps.
     if grps = [] then returnC []
     else case remdups (map grp_Role grps) of
         [r] \<Rightarrow> returnC r
       | _ \<Rightarrow> throwC [E ''ErrMultipleRolesInGroups''])) w1 = (Inr r, w')"
    "same_db w w1" "\<And>v. db c v = db ctx v" "db ctx w1 = db ctx w"
    by (rule asInternal_run[OF assms[unfolded GetRoleFromIAM_def]]) blast
  then obtain gs w2 where l: "List env c T_groups (\<lambda>_ g. grp_IAMIdentifier g \<in> set ids) 0 0 w1 = (Inr gs, w2)"
    "(if gs = [] then returnC []
     else case remdups (map grp_Role gs) of
         [r] \<Rightarrow> returnC r
       | _ \<Rightarrow> throwC [E ''ErrMultipleRolesInGroups'']) w2 = (Inr r, w')"
    by (auto simp: run_simps)
  have gs: "gs = take 100 (filter (\<lambda>g. grp_IAMIdentifier g \<in> set ids) (groups (db ctx w)))"
    and w2: "same_db w w2" "db ctx w2 = db ctx w"
    using List_join_run[OF l(1)] c(2-4)
    by (auto simp: applyPagination_def DefaultLimit_def intro: same_db_trans)
  show ?thesis
  proof (cases "remdups (map grp_Role gs)")
    case Nil
    then show ?thesis using l(2) gs w2 by (auto simp: run_simps Let_def)
  next
    case (Cons a rest)
    then have "set (remdups (map grp_Role gs)) = insert a (set rest)" by simp
    then have "grp_Role ` set gs = insert a (set rest)" by simp
    then show ?thesis
      using Cons l(2) gs w2 by (cases rest) (auto simp: run_simps Let_def)
  qed
qed

lemma hasKeyConfigAccess_run:
  assumes "hasKeyConfigAccess env ctx kid ag action res w = (Inr b, w')"
  obtains ids role w1 where "ExtractBusinessUserDataGroups ctx = Inr ids"
    "GetRoleFromIAM env ctx ids w = (Inr role, w1)" "same_db w w'" "db ctx w' = db ctx w"
    "b \<longleftrightarrow> role = TenantAuditorRole \<and> action = APIActionRead \<or>
      (if isCreateKeyconfig ag action res then grp_IAMIdentifier (the ag) \<in> set ids
       else (\<exists>kc \<in> set (key_configurations (db ctx w)). kc_ID kc = kid \<and> administers (db ctx w) ids kc))"
proof -
  obtain ids role w1 where a: "ExtractBusinessUserDataGroups ctx = Inr ids"
    "GetRoleFromIAM env ctx ids w = (Inr role, w1)"
    using assms by (auto simp: hasKeyConfigAccess_def run_simps)
  have w1: "same_db w w1" "db ctx w1 = db ctx w"
    using GetRoleFromIAM_run[OF a(2)] by auto
  define q where "q = (\<lambda>d kc. kc_ID kc = kid \<and> administers d ids kc)"
  define body where "body = (\<lambda>authCtx. bindC (wrapC ''ErrCheckKeyConfigManagedByIAMGroups''
         (Count_join env authCtx T_key_configurations [RepoResourceTypeGroup] q)) (\<lambda>count.
       returnC (count > 0)))"
  have rest: "(if role = TenantAuditorRole \<and> action = APIActionRead then returnC True
     else if ids = [] then throwC [E ''ErrKeyConfigurationNotAllowed'']
     else if isCreateKeyconfig ag action res then returnC (grp_IAMIdentifier (the ag) \<in> set ids)
     else asInternal env ctx ''INTERNAL_BUSINESS_AUTH'' body) w1 = (Inr b, w')"
    using assms a by (auto simp: hasKeyConfigAccess_def bindC_def liftC_def body_def q_def)
  show ?thesis
  proof (cases "role = TenantAuditorRole \<and> action = APIActionRead \<or> isCreateKeyconfig ag action res")
    case True
    then show ?thesis
      using rest w1 by (intro that[OF a]) (auto simp: run_simps isCreateKeyconfig_def split: if_splits)
  next
    case False
    then have "asInternal env ctx ''INTERNAL_BUSINESS_AUTH'' body w1 = (Inr b, w')"
      using rest by (auto simp: run_simps split: if_splits)
    then obtain c w2 where c: "body c w2 = (Inr b, w')" "same_db w1 w2" "\<And>v. db c v = db ctx v"
      "db ctx w2 = db ctx w1"
      by (rule asInternal_run) blast
    then obtain n where n: "Count_join env c T_key_configurations [RepoResourceTypeGroup] q w2 = (Inr n, w')"
      "b = (n > 0)"
      by (auto simp: body_def run_simps)
    have "b \<longleftrightarrow> (\<exists>kc \<in> set (key_configurations (db ctx w)). q (db ctx w) kc)"
      using Count_join_run[OF n(1)] n(2) c w1 by (auto simp: filter_empty_conv)
    then show ?thesis
      using Count_join_run[OF n(1)] c w1 False
      by (intro that[OF a]) (auto simp: q_def intro: same_db_trans)
  qed
qed

lemma guarded_run [run_simps]:
  "guarded ctx rs z m w = (Inr x, w') \<longleftrightarrow>
     ensureBusinessUserOpsAllowed ctx rs = InternalBypass \<and> x = z \<and> w' = w \<or>
     ensureBusinessUserOpsAllowed ctx rs = BusinessOps \<and> m w = (Inr x, w')"
  by (auto simp: guarded_def run_simps split: opsAllowed.split)

lemma NeedsGroupFiltering_run:
  assumes "NeedsGroupFiltering env ctx a r w = (Inr b, w')"
  shows "same_db w w' \<and> db ctx w' = db ctx w"
  using assms GetRoleFromIAM_run
  by (auto simp: NeedsGroupFiltering_def run_simps)

text \<open>the caller is a business user that may access the key configuration\<close>

definition kc_access :: "ctx \<Rightarrow> schema \<Rightarrow> APIAction \<Rightarrow> uuid \<Rightarrow> bool" where
  "kc_access ctx d action kid \<longleftrightarrow>
     (\<exists>ids. ExtractBusinessUserDataGroups ctx = Inr ids \<and>
        (action = APIActionRead \<and>
           TenantAuditorRole \<in> grp_Role ` {g \<in> set (groups d). grp_IAMIdentifier g \<in> set ids} \<or>
         (\<exists>kc \<in> set (key_configurations d). kc_ID kc = kid \<and> administers d ids kc)))"

lemma GetRoleFromIAM_role:
  assumes "GetRoleFromIAM env ctx ids w = (Inr r, w')" and "r \<noteq> []"
  shows "r \<in> grp_Role ` {g \<in> set (groups (db ctx w)). grp_IAMIdentifier g \<in> set ids}"
proof -
  define gs where "gs = take 100 (filter (\<lambda>g. grp_IAMIdentifier g \<in> set ids) (groups (db ctx w)))"
  have "grp_Role ` set gs = {r}"
    using GetRoleFromIAM_run[OF assms(1)] assms(2) by (auto simp: Let_def gs_def split: if_splits)
  moreover have "set gs \<subseteq> {g \<in> set (groups (db ctx w)). grp_IAMIdentifier g \<in> set ids}"
    unfolding gs_def by (auto dest: in_set_takeD)
  ultimately show ?thesis by blast
qed

lemma requireKeyConfigAccess_run:
  assumes "requireKeyConfigAccess env ctx kid None action res f w = (Inr b, w')"
  shows "same_db w w' \<and> db ctx w' = db ctx w \<and> kc_access ctx (db ctx w) action kid"
proof -
  have h: "hasKeyConfigAccess env ctx kid None action res w = (Inr True, w')"
    using assms by (auto simp: requireKeyConfigAccess_def run_simps split: if_splits)
  show ?thesis
  proof (rule hasKeyConfigAccess_run[OF h])
    fix ids role w1
    assume a: "ExtractBusinessUserDataGroups ctx = Inr ids" "GetRoleFromIAM env ctx ids w = (Inr role, w1)"
      "same_db w w'" "db ctx w' = db ctx w"
      "True \<longleftrightarrow> role = TenantAuditorRole \<and> action = APIActionRead \<or>
        (if isCreateKeyconfig None action res then grp_IAMIdentifier (the None) \<in> set ids
         else (\<exists>kc \<in> set (key_configurations (db ctx w)). kc_ID kc = kid \<and> administers (db ctx w) ids kc))"
    then have "role = TenantAuditorRole \<and> action = APIActionRead \<or>
       (\<exists>kc \<in> set (key_configurations (db ctx w)). kc_ID kc = kid \<and> administers (db ctx w) ids kc)"
      by (simp add: isCreateKeyconfig_def)
    then show ?thesis
      using a GetRoleFromIAM_role[OF a(2)]
      by (auto simp: kc_access_def TenantAuditorRole_def)
  qed
qed

lemma bypass_internal:
  "ensureBusinessUserOpsAllowed ctx rs = InternalBypass \<Longrightarrow> ctx_UserType ctx = Some InternalUser"
  by (auto simp: ensureBusinessUserOpsAllowed_def CheckInternalUserRoles_def ExtractInternalRole_def
      ExtractUserType_def split: option.splits sum.splits if_splits)

lemma HasKeyAccess_run:
  assumes "HasKeyAccess env ctx action kid w = (Inr b, w')"
  shows "same_db w w' \<and> db ctx w' = db ctx w \<and>
    (ctx_UserType ctx = Some InternalUser \<or> kc_access ctx (db ctx w) action kid)"
proof -
  consider (bypass) "ensureBusinessUserOpsAllowed ctx [''INTERNAL_TASK_WORKFLOW_APPROVERS'',
      ''INTERNAL_TENANT_PROVISIONING'', ''INTERNAL_TASK_PENDING_STATE_SYNC''] = InternalBypass" "w' = w"
    | (business) f w1 where "NeedsGroupFiltering env ctx action APIResourceTypeKey w = (Inr f, w1)"
        "requireKeyConfigAccess env ctx kid None action APIResourceTypeKey f w1 = (Inr b, w')"
    using assms unfolding HasKeyAccess_def by (auto simp: guarded_run bindC_run)
  then show ?thesis
  proof cases
    case bypass
    then show ?thesis by (auto dest: bypass_internal)
  next
    case business
    then show ?thesis
      using requireKeyConfigAccess_run[OF business(2)] NeedsGroupFiltering_run[OF business(1)]
      by (auto intro: same_db_trans)
  qed
qed

lemma HasSystemAccess_run:
  assumes "HasSystemAccess env ctx action sys w = (Inr b, w')"
  shows "same_db w w' \<and> db ctx w' = db ctx w \<and>
    (ctx_UserType ctx = Some InternalUser \<or> sys_KeyConfigurationID sys = None \<or>
     kc_access ctx (db ctx w) action (the (sys_KeyConfigurationID sys)))"
proof -
  consider (bypass) "ensureBusinessUserOpsAllowed ctx [''INTERNAL_TASK_WORKFLOW_APPROVERS'',
      ''INTERNAL_TENANT_PROVISIONING''] = InternalBypass" "w' = w"
    | (free) "sys_KeyConfigurationID sys = None" "w' = w"
    | (business) f w1 kid where "sys_KeyConfigurationID sys = Some kid"
        "NeedsGroupFiltering env ctx action APIResourceTypeSystem w = (Inr f, w1)"
        "requireKeyConfigAccess env ctx kid None action APIResourceTypeSystem f w1 = (Inr b, w')"
    using assms unfolding HasSystemAccess_def
    by (auto simp: guarded_run bindC_run returnC_run split: option.splits)
  then show ?thesis
  proof cases
    case bypass
    then show ?thesis by (auto dest: bypass_internal)
  next
    case business
    then show ?thesis
      using requireKeyConfigAccess_run[OF business(3)] NeedsGroupFiltering_run[OF business(2)]
      by (auto intro: same_db_trans)
  qed auto
qed

lemma HasKeyConfigAccess_run:
  assumes "HasKeyConfigAccess env ctx action (Some (kid, None)) w = (Inr b, w')"
  shows "same_db w w' \<and> db ctx w' = db ctx w \<and>
    (ctx_UserType ctx = Some InternalUser \<or> kc_access ctx (db ctx w) action kid)"
proof -
  consider (bypass) rs where "ensureBusinessUserOpsAllowed ctx rs = InternalBypass" "w' = w"
    | (business) f w1 where
        "NeedsGroupFiltering env ctx action APIResourceTypeKeyConfiguration w = (Inr f, w1)"
        "requireKeyConfigAccess env ctx kid None action APIResourceTypeKeyConfiguration f w1 = (Inr b, w')"
    using assms unfolding HasKeyConfigAccess_def by (auto simp: guarded_run bindC_run)
  then show ?thesis
  proof cases
    case bypass
    then show ?thesis by (auto dest: bypass_internal)
  next
    case business
    then show ?thesis
      using requireKeyConfigAccess_run[OF business(2)] NeedsGroupFiltering_run[OF business(1)]
      by (auto intro: same_db_trans)
  qed
qed

context world_frame
begin

lemma steps_asInternal [steps_intro]:
  assumes "ctx_Tenant ctx = Some tn" and "\<And>c. ctx_Tenant c = Some tn \<Longrightarrow> steps R (body c)"
  shows "steps R (asInternal env ctx role body)"
  unfolding asInternal_def
  by (intro steps_bind steps_newUUID)
    (use assms in \<open>auto split: sum.split intro: steps_throw dest!: BusinessToInternalContext_result\<close>)

lemma steps_guarded [steps_intro]: "steps R m \<Longrightarrow> steps R (guarded ctx rs z m)"
  by (simp add: guarded_def steps_return steps_throw split: opsAllowed.split)

lemma steps_GetRoleFromIAM [steps_intro]:
  "ctx_Tenant ctx = Some tn \<Longrightarrow> steps R (GetRoleFromIAM env ctx ids)"
  unfolding GetRoleFromIAM_def by (intro steps_intro)

lemma steps_NeedsGroupFiltering [steps_intro]:
  "ctx_Tenant ctx = Some tn \<Longrightarrow> steps R (NeedsGroupFiltering env ctx a r)"
  unfolding NeedsGroupFiltering_def by (intro steps_intro)

lemma steps_hasKeyConfigAccess [steps_intro]:
  "ctx_Tenant ctx = Some tn \<Longrightarrow> steps R (hasKeyConfigAccess env ctx kid ag a r)"
  unfolding hasKeyConfigAccess_def by (intro steps_intro)

lemma steps_requireKeyConfigAccess [steps_intro]:
  "ctx_Tenant ctx = Some tn \<Longrightarrow> steps R (requireKeyConfigAccess env ctx kid ag a r f)"
  unfolding requireKeyConfigAccess_def sendUnauthorizedAccessAuditLog_def by (intro steps_intro)

lemma steps_HasKeyAccess [steps_intro]:
  "ctx_Tenant ctx = Some tn \<Longrightarrow> steps R (HasKeyAccess env ctx a kid)"
  unfolding HasKeyAccess_def by (intro steps_intro)

lemma steps_HasKeyConfigAccess [steps_intro]:
  "ctx_Tenant ctx = Some tn \<Longrightarrow> steps R (HasKeyConfigAccess env ctx a kc)"
  unfolding HasKeyConfigAccess_def by (intro steps_intro)

lemma steps_HasSystemAccess [steps_intro]:
  "ctx_Tenant ctx = Some tn \<Longrightarrow> steps R (HasSystemAccess env ctx a s)"
  unfolding HasSystemAccess_def by (intro steps_intro)

lemma steps_GetBusinessUserInfo [steps_intro]:
  "ctx_Tenant ctx = Some tn \<Longrightarrow> steps R (GetBusinessUserInfo env ctx)"
  unfolding GetBusinessUserInfo_def by (intro steps_intro)

end

end
