(* ===== verification/Group_Manager.thy ===== *)
theory Group_Manager
  imports User_Access
begin

text \<open>
  User groups (src/internal/manager/group.go, src/internal/model/group.go) and the
  identity-management plugin.

  Names and IAM identifiers are validated by the \<open>BeforeSave\<close> hook; the two default groups
  of a tenant can be neither changed nor deleted, and a group that administers a key
  configuration cannot be deleted.
\<close>

section \<open>Model\<close>

definition TenantAdminGroup :: string where "TenantAdminGroup = ''TenantAdministrator''"
definition TenantAuditorGroup :: string where "TenantAuditorGroup = ''TenantAuditor''"

text \<open>the pattern \<open>^[a-zA-Z0-9 _-]+$\<close>\<close>

definition validTextChar :: "char \<Rightarrow> bool" where
  "validTextChar c \<longleftrightarrow> (let n = of_char c :: nat in
     97 \<le> n \<and> n \<le> 122 \<or> 65 \<le> n \<and> n \<le> 90 \<or> 48 \<le> n \<and> n \<le> 57 \<or> n = 32 \<or> n = 95 \<or> n = 45)"

definition ValidTextPattern :: "string \<Rightarrow> bool" where
  "ValidTextPattern s \<longleftrightarrow> s \<noteq> [] \<and> list_all validTextChar s"

definition Group_BeforeSave :: "Group \<Rightarrow> gerror option" where
  "Group_BeforeSave m =
     (if \<not> ValidTextPattern (grp_IAMIdentifier m) \<or> length (grp_IAMIdentifier m) > 128
      then Some [E ''model.ErrInvalidIAMIdentifier'']
      else if \<not> ValidTextPattern (grp_Name m) \<or> length (grp_Name m) > 64
      then Some [E ''model.ErrInvalidName''] else None)"

definition NewIAMIdentifier :: "string \<Rightarrow> string \<Rightarrow> string" where
  "NewIAMIdentifier name tenantID = ''KMS_'' @ name @ ''_'' @ tenantID"

text \<open>the columns \<open>Updates\<close> writes for a group: the non-empty ones\<close>

definition Group_merge :: "Group \<Rightarrow> Group \<Rightarrow> Group" where
  "Group_merge m row = row\<lparr>
     grp_Name := (if grp_Name m = [] then grp_Name row else grp_Name m),
     grp_Description := (if grp_Description m = [] then grp_Description row else grp_Description m),
     grp_Role := (if grp_Role m = [] then grp_Role row else grp_Role m),
     grp_IAMIdentifier :=
       (if grp_IAMIdentifier m = [] then grp_IAMIdentifier row else grp_IAMIdentifier m)\<rparr>"

definition isMandatoryGroup :: "string \<Rightarrow> bool" where
  "isMandatoryGroup name \<longleftrightarrow> name = TenantAdminGroup \<or> name = TenantAuditorGroup"

record GroupPatch =
  gp_Name :: "string option"
  gp_Description :: "string option"
  gp_IAMIdentifier :: "string option"

definition isReservedName :: "GroupPatch \<Rightarrow> bool" where
  "isReservedName p = (case gp_Name p of None \<Rightarrow> False | Some n \<Rightarrow> isMandatoryGroup n)"

definition isSupportedRole :: "Group \<Rightarrow> bool" where
  "isSupportedRole g \<longleftrightarrow> grp_Role g \<in> {TenantAdminRole, TenantAuditorRole, KeyAdminRole}"

section \<open>Operations\<close>

text \<open>the groups a filtered query may see: those of the caller\<close>

definition applyIAMGroupFilter :: "ctx \<Rightarrow> bool \<Rightarrow> Group \<Rightarrow> bool" where
  "applyIAMGroupFilter ctx isGroupFiltered g \<longleftrightarrow> \<not> isGroupFiltered \<or>
     (case ExtractBusinessUserDataGroups ctx of
        Inl _ \<Rightarrow> False | Inr ids \<Rightarrow> grp_IAMIdentifier g \<in> set ids)"

definition GetGroupByID :: "env \<Rightarrow> ctx \<Rightarrow> uuid \<Rightarrow> Group M" where
  "GetGroupByID env ctx i =
     bindC (NeedsGroupFiltering env ctx APIActionRead APIResourceTypeUserGroup) (\<lambda>isGroupFiltered.
     wrapC ''ErrGetGroups''
       (First env ctx T_groups (\<lambda>_ g. grp_ID g = i \<and> applyIAMGroupFilter ctx isGroupFiltered g)))"

definition CreateGroup :: "env \<Rightarrow> ctx \<Rightarrow> Group \<Rightarrow> Group M" where
  "CreateGroup env ctx g =
     (if \<not> isSupportedRole g then throwC [E ''ErrGroupRole'']
      else bindC (wrapC ''ErrCreateGroups''
        (bindC (checkResourceAuthZ env ctx RepoResourceTypeGroup RepoActionCreate) (\<lambda>_.
         case Group_BeforeSave g of
           Some err \<Rightarrow> throwC (Wrap [E ''repo.ErrCreateResource''] (Some err))
         | None \<Rightarrow> sql_Create env ctx T_groups g))) (\<lambda>_. returnC g))"

definition DeleteGroupByID :: "env \<Rightarrow> ctx \<Rightarrow> uuid \<Rightarrow> unit M" where
  "DeleteGroupByID env ctx i =
     bindC (wrapC ''ErrDeleteGroups'' (GetGroupByID env ctx i)) (\<lambda>g.
     if isMandatoryGroup (grp_Name g) then throwC [E ''ErrInvalidGroupDelete'']
     else tryC (First env ctx T_key_configurations (\<lambda>_ kc. kc_AdminGroupID kc = i)) (\<lambda>res.
       case res of
         Inr _ \<Rightarrow> throwC [E ''ErrInvalidGroupDelete'']
       | Inl err \<Rightarrow>
           if \<not> errs_Is err ''repo.ErrNotFound'' then throwC (Wrap [E ''ErrGetGroups''] (Some err))
           else bindC (wrapC ''ErrDeleteGroups''
                  (Delete env ctx T_groups (group_refs i) (\<lambda>r. grp_ID r = i))) (\<lambda>_. returnC ())))"

definition patchGroupFields :: "GroupPatch \<Rightarrow> Group \<Rightarrow> Group" where
  "patchGroupFields p g = g\<lparr>
     grp_Name := (case gp_Name p of None \<Rightarrow> grp_Name g | Some n \<Rightarrow> n),
     grp_Description := (case gp_Description p of None \<Rightarrow> grp_Description g | Some d \<Rightarrow> d),
     grp_IAMIdentifier := (case gp_IAMIdentifier p of None \<Rightarrow> grp_IAMIdentifier g | Some i \<Rightarrow> i)\<rparr>"

definition UpdateGroup :: "env \<Rightarrow> ctx \<Rightarrow> uuid \<Rightarrow> GroupPatch \<Rightarrow> Group M" where
  "UpdateGroup env ctx i p =
     bindC (GetGroupByID env ctx i) (\<lambda>g.
     if isMandatoryGroup (grp_Name g) \<or> isReservedName p then throwC [E ''ErrInvalidGroupUpdate'']
     else if gp_Name p = Some [] then throwC [E ''ErrNameCannotBeEmpty'']
     else let g' = patchGroupFields p g in
       bindC (wrapC ''ErrUpdateGroups''
         (bindC (checkResourceAuthZ env ctx RepoResourceTypeGroup RepoActionUpdate) (\<lambda>_.
          case Group_BeforeSave g' of
            Some err \<Rightarrow> throwC (Wrap [E ''repo.ErrUpdateResource''] (Some err))
          | None \<Rightarrow> sql_Patch env ctx T_groups (\<lambda>r. grp_ID r = grp_ID g') (Group_merge g')))) (\<lambda>_.
       returnC g'))"

definition createDefaultGroup :: "env \<Rightarrow> ctx \<Rightarrow> string \<Rightarrow> string \<Rightarrow> string \<Rightarrow> unit M" where
  "createDefaultGroup env ctx name role iam =
     bindC (newUUID env) (\<lambda>u.
     tryC (CreateGroup env ctx \<lparr>grp_ID = u, grp_Name = name, grp_Description = [],
             grp_Role = role, grp_IAMIdentifier = iam\<rparr>) (\<lambda>res.
     case res of
       Inr _ \<Rightarrow> returnC ()
     | Inl err \<Rightarrow> throwC (Wrap [E ''ErrCreatingGroups'']
         (Some (if errs_Is err ''repo.ErrUniqueConstraint''
                then Wrap [E ''ErrOnboardingInProgress''] (Some err) else err)))))"

definition CreateDefaultGroups :: "env \<Rightarrow> ctx \<Rightarrow> unit M" where
  "CreateDefaultGroups env ctx =
     bindC (wrapC ''ErrCreateGroups'' (liftC (ExtractTenantID ctx))) (\<lambda>tenantID.
     Transaction env ctx (\<lambda>ctx.
       bindC (createDefaultGroup env ctx TenantAdminGroup TenantAdminRole
                (NewIAMIdentifier TenantAdminGroup tenantID)) (\<lambda>_.
       createDefaultGroup env ctx TenantAuditorGroup TenantAuditorRole
                (NewIAMIdentifier TenantAuditorGroup tenantID))))"

definition BuildIAMIdentifier :: "string \<Rightarrow> string \<Rightarrow> gerror + string" where
  "BuildIAMIdentifier groupType tenantID =
     (if tenantID = [] then Inl [E ''ErrEmptyTenantID'']
      else if groupType \<noteq> TenantAdminGroup \<and> groupType \<noteq> TenantAuditorGroup
      then Inl [E ''ErrInvalidGroupType'']
      else Inr (NewIAMIdentifier groupType tenantID))"

definition GetIdentityManagementPlugin :: "env \<Rightarrow> unit M" where
  "GetIdentityManagementPlugin env = (case idm_plugin env of
       Some m \<Rightarrow> throwC [E ''ErrLoadIdentityManagementPlugin'', Msg m]
     | None \<Rightarrow> returnC ())"

definition idmErr :: "idm_error \<Rightarrow> gerror" where
  "idmErr e = (case e of IdmNotFound \<Rightarrow> [Msg ''NotFound''] | IdmFailure m \<Rightarrow> [Msg m])"

definition idmGetGroup :: "env \<Rightarrow> string \<Rightarrow> (idm_error + string) M" where
  "idmGetGroup env name = bindC tick_of (\<lambda>n. returnC (idm_GetGroup env n name))"

definition idmListGroupUsers :: "env \<Rightarrow> string \<Rightarrow> (idm_error + User list) M" where
  "idmListGroupUsers env gid = bindC tick_of (\<lambda>n. returnC (idm_ListGroupUsers env n gid))"

text \<open>the members of an IAM group: look the group up by name, then list its users\<close>

definition idmMembers :: "env \<Rightarrow> string \<Rightarrow> string \<Rightarrow> string list M" where
  "idmMembers env wrap iamIdentifier =
     bindC (idmGetGroup env iamIdentifier) (\<lambda>g. case g of
       Inl e \<Rightarrow> throwC (Wrap [E wrap] (Some (idmErr e)))
     | Inr gid \<Rightarrow> bindC (idmListGroupUsers env gid) (\<lambda>us. case us of
         Inl e \<Rightarrow> throwC (Wrap [E wrap] (Some (idmErr e)))
       | Inr users \<Rightarrow> returnC (map usr_ID users)))"

definition CheckIAMExistenceOfGroups :: "env \<Rightarrow> ctx \<Rightarrow> string list \<Rightarrow> (string \<times> bool) list M" where
  "CheckIAMExistenceOfGroups env ctx iamIdentifiers =
     bindC (wrapC ''ErrAutoAssignApprover'' (liftC (ExtractBusinessUserDataAuthContext ctx))) (\<lambda>_.
     bindC (GetIdentityManagementPlugin env) (\<lambda>_.
     forC iamIdentifiers (\<lambda>name. bindC (idmGetGroup env name) (\<lambda>g. case g of
       Inr _ \<Rightarrow> returnC (name, True)
     | Inl IdmNotFound \<Rightarrow> returnC (name, False)
     | Inl (IdmFailure m) \<Rightarrow> throwC [E ''ErrCheckIAMExistenceOfGroups'', Msg m]))))"

section \<open>Laws\<close>

definition group_valid :: "Group \<Rightarrow> bool" where
  "group_valid g \<longleftrightarrow> Group_BeforeSave g = None"

lemma group_valid_iff:
  "group_valid g \<longleftrightarrow> ValidTextPattern (grp_IAMIdentifier g) \<and> length (grp_IAMIdentifier g) \<le> 128 \<and>
     ValidTextPattern (grp_Name g) \<and> length (grp_Name g) \<le> 64"
  by (auto simp: group_valid_def Group_BeforeSave_def)

lemma Group_merge_valid: "group_valid m \<Longrightarrow> group_valid (Group_merge m row)"
  by (auto simp: group_valid_iff Group_merge_def ValidTextPattern_def)

lemma CreateGroup_run:
  assumes "CreateGroup env ctx g w = (Inr g', w')"
  shows "g' = g \<and> group_valid g \<and> isSupportedRole g \<and> wrote ctx (db ctx w') w w' \<and>
    db ctx w' = groups_update (\<lambda>rs. rs @ [g]) (db ctx w) \<and> t_uniq T_groups (groups (db ctx w) @ [g])"
proof -
  obtain w1 where w1: "checkResourceAuthZ env ctx RepoResourceTypeGroup RepoActionCreate w = (Inr (), w1)"
    "sql_Create env ctx T_groups g w1 = (Inr (), w')" "g' = g" "group_valid g" "isSupportedRole g"
    using assms by (auto simp: CreateGroup_def run_simps group_valid_def split: if_splits option.splits)
  show ?thesis
    using checkResourceAuthZ_run[OF w1(1)] sql_Create_run[OF w1(2)] w1(3-5) wrote_after_same by auto
qed


lemma GetGroupByID_run:
  assumes "GetGroupByID env ctx i w = (Inr g, w')"
  shows "g \<in> set (groups (db ctx w)) \<and> grp_ID g = i \<and> same_db w w' \<and> db ctx w' = db ctx w"
proof -
  obtain f w1 where "NeedsGroupFiltering env ctx APIActionRead APIResourceTypeUserGroup w = (Inr f, w1)"
    and a: "First env ctx T_groups (\<lambda>_ g. grp_ID g = i \<and> applyIAMGroupFilter ctx f g) w1 = (Inr g, w')"
    using assms by (auto simp: GetGroupByID_def run_simps)
  then have w1: "same_db w w1" "db ctx w1 = db ctx w"
    using NeedsGroupFiltering_run by auto
  show ?thesis
    using First_join_run[OF a] First_join_found[OF a] w1 by (auto intro: same_db_trans)
qed

text \<open>what a successful deletion removed, and why it was allowed\<close>

lemma DeleteGroupByID_run:
  assumes "DeleteGroupByID env ctx i w = (Inr u, w')"
  obtains g where "g \<in> set (groups (db ctx w))" "grp_ID g = i" "\<not> isMandatoryGroup (grp_Name g)"
    "groups (db ctx w') = filter (\<lambda>r. grp_ID r \<noteq> i) (groups (db ctx w))"
proof -
  obtain g w1 e w2 b where a: "GetGroupByID env ctx i w = (Inr g, w1)"
    "First env ctx T_key_configurations (\<lambda>_ kc. kc_AdminGroupID kc = i) w1 = (Inl e, w2)"
    "\<not> isMandatoryGroup (grp_Name g)"
    "Delete env ctx T_groups (group_refs i) (\<lambda>r. grp_ID r = i) w2 = (Inr b, w')"
    using assms by (auto simp: DeleteGroupByID_def run_simps split: if_splits)
  have "db ctx w1 = db ctx w" "g \<in> set (groups (db ctx w))" "grp_ID g = i"
    using GetGroupByID_run[OF a(1)] by auto
  moreover have "db ctx w2 = db ctx w1"
    using First_join_any[OF a(2)] by blast
  ultimately show ?thesis
    using Delete_run[OF a(4)] a(3) by (intro that[of g]) (auto simp: group_refs_def split: if_splits)
qed

context world_frame
begin

lemma steps_GetGroupByID [steps_intro]:
  "ctx_Tenant ctx = Some tn \<Longrightarrow> steps R (GetGroupByID env ctx i)"
  unfolding GetGroupByID_def by (intro steps_intro)

lemma steps_CreateGroup [steps_intro]:
  "TabGroups \<in> W \<Longrightarrow> ctx_Tenant ctx = Some tn \<Longrightarrow> steps R (CreateGroup env ctx g)"
  unfolding CreateGroup_def by (intro steps_intro)

lemma steps_DeleteGroupByID [steps_intro]:
  "TabApproverGroups \<in> W \<Longrightarrow> TabGroups \<in> W \<Longrightarrow> ctx_Tenant ctx = Some tn \<Longrightarrow> steps R (DeleteGroupByID env ctx i)"
  unfolding DeleteGroupByID_def by (intro steps_intro)

lemma steps_UpdateGroup [steps_intro]:
  "TabGroups \<in> W \<Longrightarrow> ctx_Tenant ctx = Some tn \<Longrightarrow> steps R (UpdateGroup env ctx i p)"
  unfolding UpdateGroup_def by (intro steps_intro)

lemma steps_CreateDefaultGroups [steps_intro]:
  "TabGroups \<in> W \<Longrightarrow> ctx_Tenant ctx = Some tn \<Longrightarrow> steps R (CreateDefaultGroups env ctx)"
  unfolding CreateDefaultGroups_def createDefaultGroup_def by (intro steps_intro)

lemma steps_GetIdentityManagementPlugin [steps_intro]: "steps R (GetIdentityManagementPlugin env)"
  unfolding GetIdentityManagementPlugin_def by (intro steps_intro)

lemma steps_idmMembers [steps_intro]: "steps R (idmMembers env wr iam)"
  unfolding idmMembers_def idmGetGroup_def idmListGroupUsers_def by (intro steps_intro)

end

section \<open>Every outcome\<close>

text \<open>the groups after an operation, whether or not it failed\<close>

lemma GetGroupByID_db:
  "GetGroupByID env ctx i w = (r, w') \<Longrightarrow> ctx_Tenant ctx = Some tn \<Longrightarrow> db ctx w' = db ctx w"
  by (rule same_tables_db[OF steps_run[OF ro.steps_GetGroupByID]])

lemma UpdateGroup_any:
  assumes run: "UpdateGroup env ctx i p w = (r, w')" and tn: "ctx_Tenant ctx = Some tn"
  shows "groups (db ctx w') = groups (db ctx w) \<or>
    (\<exists>g m. g \<in> set (groups (db ctx w)) \<and> grp_ID g = i \<and> \<not> isMandatoryGroup (grp_Name g) \<and> group_valid m \<and>
       groups (db ctx w') = row_upd (\<lambda>r. grp_ID r = i) (Group_merge m) (groups (db ctx w)))"
proof (cases "GetGroupByID env ctx i w")
  case (Pair x w1)
  note d1 = GetGroupByID_db[OF Pair tn]
  show ?thesis
  proof (cases x)
    case (Inr g)
    note g = GetGroupByID_run[OF Pair[unfolded Inr]]
    let ?m = "patchGroupFields p g"
    have m: "grp_ID ?m = i" using g by (simp add: patchGroupFields_def)
    show ?thesis
    proof (cases "\<not> isMandatoryGroup (grp_Name g) \<and> Group_BeforeSave ?m = None \<and> r = Inr ?m")
      case True
      with run Pair Inr obtain b w2 where a: "checkResourceAuthZ env ctx RepoResourceTypeGroup RepoActionUpdate w1 = (Inr (), w2)"
        "sql_Patch env ctx T_groups (\<lambda>r. grp_ID r = grp_ID ?m) (Group_merge ?m) w2 = (Inr b, w')"
        by (auto simp: UpdateGroup_def Let_def run_simps split: if_split_asm)
      then show ?thesis
        using checkResourceAuthZ_run[OF a(1)] sql_Patch_run[OF a(2)] d1 g m True
        by (intro disjI2 exI[of _ g] exI[of _ ?m]) (simp add: group_valid_def)
    next
      case False
      with run Pair Inr have "db ctx w' = db ctx w1"
        by (cases r) (auto simp: UpdateGroup_def Let_def run_simps bindC_run_err wrapC_run_err split: if_split_asm option.splits
            dest!: sql_write_err(1) checkResourceAuthZ_run read_db[OF reads_checkResourceAuthZ, where ctx = ctx]
            same_data_db[where ctx = ctx])
      then show ?thesis using d1 by simp
    qed
  qed (use run Pair d1 in \<open>auto simp: UpdateGroup_def bindC_def\<close>)
qed

lemma CreateGroup_any:
  assumes run: "CreateGroup env ctx g w = (r, w')"
  shows "groups (db ctx w') = groups (db ctx w) \<or> group_valid g \<and> groups (db ctx w') = groups (db ctx w) @ [g]"
proof (cases r)
  case (Inl e)
  with run have "db ctx w' = db ctx w"
    by (auto simp: CreateGroup_def run_simps bindC_run_err wrapC_run_err split: if_split_asm option.splits
        dest!: sql_write_err(2) checkResourceAuthZ_run read_db[OF reads_checkResourceAuthZ, where ctx = ctx]
        same_data_db[where ctx = ctx])
  then show ?thesis by simp
qed (use run CreateGroup_run in auto)

lemma DeleteGroupByID_any:
  assumes run: "DeleteGroupByID env ctx i w = (r, w')" and tn: "ctx_Tenant ctx = Some tn"
  shows "groups (db ctx w') = groups (db ctx w) \<or>
    (\<exists>g. g \<in> set (groups (db ctx w)) \<and> grp_ID g = i \<and> \<not> isMandatoryGroup (grp_Name g) \<and>
       groups (db ctx w') = filter (\<lambda>r. grp_ID r \<noteq> i) (groups (db ctx w)))"
proof (cases r)
  case (Inl e)
  with run have "db ctx w' = db ctx w"
    by (auto simp: DeleteGroupByID_def run_simps bindC_run_err wrapC_run_err tryC_run_err split: if_split_asm
        dest!: write_err(4) GetGroupByID_db[OF _ tn] GetGroupByID_run First_join_any[where c = ctx] same_data_db[where ctx = ctx])
  then show ?thesis by simp
qed (use run DeleteGroupByID_run in metis)

end
