(* ===== verification/Repo_Errors.thy ===== *)
theory Repo_Errors
  imports Repo_Laws
begin

text \<open>
  Where \<open>ErrNotFound\<close> comes from: callers of the repository decide on \<open>errors.Is(err, repo.ErrNotFound)\<close>
  that there is no such record. No other failure (authorization, context, database) carries this
  sentinel, so the decision is right.
\<close>

lemma ctx_err:
  "GetRequestID ctx = Inl e \<Longrightarrow> \<not> errs_Is e ''repo.ErrNotFound''"
  "ExtractTenantID ctx = Inl e \<Longrightarrow> \<not> errs_Is e ''repo.ErrNotFound''"
  "ExtractBusinessUserData ctx = Inl e \<Longrightarrow> \<not> errs_Is e ''repo.ErrNotFound''"
  "ExtractUserType ctx = Inl e \<Longrightarrow> \<not> errs_Is e ''repo.ErrNotFound''"
  "ExtractInternalRole ctx = Inl e \<Longrightarrow> \<not> errs_Is e ''repo.ErrNotFound''"
  by (auto simp: GetRequestID_def ExtractTenantID_def ExtractBusinessUserData_def ExtractUserType_def
     ExtractInternalRole_def nonempty_value_def split: option.splits if_splits sum.splits)

lemma request_err:
  "validBusinessRequest ctx tn u gs = Some e \<Longrightarrow> \<not> errs_Is e ''repo.ErrNotFound''"
  "validInternalRequest ctx r = Some e \<Longrightarrow> \<not> errs_Is e ''repo.ErrNotFound''"
  "NewRequest ctx b = Some e \<Longrightarrow> \<not> errs_Is e ''repo.ErrNotFound''"
  by (auto simp: validBusinessRequest_def validInternalRequest_def NewRequest_def
      split: if_splits sum.splits dest: ctx_err)

lemma allowed_err:
  "IsBusinessUserAllowed h ctx tn u gs r a = Inl e \<Longrightarrow> \<not> errs_Is e ''repo.ErrNotFound''"
  "IsInternalUserAllowed h ctx rl r a = Inl e \<Longrightarrow> \<not> errs_Is e ''repo.ErrNotFound''"
  by (auto simp: IsBusinessUserAllowed_def IsInternalUserAllowed_def split: if_splits option.splits
      dest: request_err)

lemma CheckAuthz_err: "CheckAuthz h ctx r a = Inl e \<Longrightarrow> \<not> errs_Is e ''repo.ErrNotFound''"
  by (auto simp: CheckAuthz_def checkBusinessUserAuthz_def checkInternalUserAuthz_def
      split: if_splits option.splits sum.splits dest: ctx_err request_err allowed_err)

lemma checkResourceAuthZ_err:
  "checkResourceAuthZ env ctx r a w = (Inl e, w') \<Longrightarrow> \<not> errs_Is e ''repo.ErrNotFound''"
  by (auto simp: checkResourceAuthZ_def unlessC_def bindC_run_err run_simps tick_of_def throwC_def
      split: option.splits if_splits dest: CheckAuthz_err)

lemma checkQueryAuthZ_err:
  assumes "checkQueryAuthZ env ctx js a w = (Inl e, w')"
  shows "\<not> errs_Is e ''repo.ErrNotFound''"
proof -
  have "forC js (\<lambda>j. checkResourceAuthZ env ctx j a) w = (Inl e, w')"
    using assms by (auto simp: checkQueryAuthZ_def bindC_run_err returnC_run)
  then show ?thesis
    by (induction js arbitrary: w)
      (auto simp: bindC_run_err returnC_run dest: checkResourceAuthZ_err)
qed

lemma WithTenant_notfound:
  assumes "WithTenant env ctx f stmt w = (Inl e, w')" and "errs_Is e ''repo.ErrNotFound''"
    and "\<And>m. \<not> errs_Is (f m) ''repo.ErrNotFound''" and "\<And>d e. stmt d \<noteq> SqlErr e"
  shows "\<exists>e. stmt (db ctx w) = Fail e"
proof (cases "getSchemaFromCtx env ctx w")
  case (Pair r w1)
  show ?thesis
  proof (cases r)
    case (Inl e')
    then have "\<not> errs_Is e' ''repo.ErrNotFound''"
      using Pair by (auto simp: getSchemaFromCtx_def bindC_run_err wrapC_run_err run_simps split: option.splits
          dest: ctx_err)
    then show ?thesis using assms(1,2) Pair Inl by (auto simp: WithTenant_def bindC_def)
  next
    case (Inr sn)
    then have "schemas w1 sn = db ctx w"
      using getSchemaFromCtx_run[OF Pair[unfolded Inr]] by (simp add: db_def)
    then show ?thesis
      using assms Pair Inr
      by (auto simp: WithTenant_def bindC_def txStmt_def ownStmt_def tick_of_def
          split: if_splits option.splits outcome.splits)
  qed
qed

lemma First_join_notfound:
  assumes "First_join env ctx T joins q w = (Inl e, w')" and "errs_Is e ''repo.ErrNotFound''"
  shows "find (q (db ctx w)) (t_get T (db ctx w)) = None"
proof -
  obtain w1 w2 where w: "checkResourceAuthZ env ctx (t_res T) RepoActionFirst w = (Inr (), w1)"
    "checkQueryAuthZ env ctx joins RepoActionFirst w1 = (Inr (), w2)" "sql_First env ctx T q w2 = (Inl e, w')"
    using assms by (auto simp: First_join_def bindC_run_err dest: checkResourceAuthZ_err checkQueryAuthZ_err)
  have "db ctx w2 = db ctx w"
    using checkResourceAuthZ_run[OF w(1)] checkQueryAuthZ_run[OF w(2)] by simp
  then show ?thesis
    using WithTenant_notfound[OF w(3)[unfolded sql_First_def] assms(2)]
    by (fastforce split: option.splits)
qed

end
