(* ===== verification/Batch.thy ===== *)
theory Batch
  imports Repo_Errors
begin

text \<open>
  Processing of large result sets in batches, and paginated listing
  (\<open>ProcessInBatchWithOptions\<close>, \<open>ProcessInBatch\<close>, \<open>ListAndCount\<close> and the existence checks of
  src/internal/repo/repository.go).

  The Go loop ends when a batch is empty or, outside delete mode, when the offset passes
  the number of matching rows. It may run forever when the processing function adds rows,
  or in delete mode when it keeps them; the model therefore takes fuel, two more than the
  number of rows of the table when the loop starts. \<open>batch_fuel_irrelevant\<close> shows that this is
  enough outside delete mode if the processing function adds no matching rows, and
  \<open>batch_complete\<close> that then every matching row has been processed, provided that the
  processing function keeps the matching rows in place.
\<close>

section \<open>The loop\<close>

record BatchProcessOptions =
  bo_DeleteMode :: bool
  bo_IgnoreFailMode :: bool

definition finish :: "gerror option \<Rightarrow> unit M" where
  "finish lastError = (case lastError of None \<Rightarrow> returnC () | Some err \<Rightarrow> throwC err)"

fun batchLoop ::
  "nat \<Rightarrow> env \<Rightarrow> ctx \<Rightarrow> 'r table \<Rightarrow> RepoResourceType list \<Rightarrow> (schema \<Rightarrow> 'r \<Rightarrow> bool) \<Rightarrow> int \<Rightarrow>
   BatchProcessOptions \<Rightarrow> ('r list \<Rightarrow> unit M) \<Rightarrow> int \<Rightarrow> gerror option \<Rightarrow> unit M" where
  "batchLoop 0 env ctx T joins query batchSize options processFunc offset lastError =
     throwC [Msg ''out of fuel'']"
| "batchLoop (Suc fuel) env ctx T joins query batchSize options processFunc offset lastError =
     bindC (List_join env ctx T joins (\<lambda>rs. rs) query batchSize offset) (\<lambda>items.
     tryC (processFunc items) (\<lambda>res.
     if isl res \<and> \<not> bo_IgnoreFailMode options then liftC res
     else
       let lastError' = (case res of Inl err \<Rightarrow> Some err | Inr _ \<Rightarrow> lastError) in
       if items = [] then finish lastError'
       else
         let offset' = (if bo_DeleteMode options then offset else offset + batchSize) in
         bindC (Count_join env ctx T joins query) (\<lambda>count.
         if \<not> bo_DeleteMode options \<and> offset' \<ge> count then finish lastError'
         else batchLoop fuel env ctx T joins query batchSize options processFunc offset' lastError')))"

definition ProcessInBatchWithOptions ::
  "env \<Rightarrow> ctx \<Rightarrow> 'r table \<Rightarrow> RepoResourceType list \<Rightarrow> (schema \<Rightarrow> 'r \<Rightarrow> bool) \<Rightarrow> int \<Rightarrow>
   BatchProcessOptions \<Rightarrow> ('r list \<Rightarrow> unit M) \<Rightarrow> unit M" where
  "ProcessInBatchWithOptions env ctx T joins query batchSize options processFunc =
     bindC (getC (\<lambda>w. length (t_get T (db ctx w)) + 2)) (\<lambda>fuel.
     batchLoop fuel env ctx T joins query batchSize options processFunc 0 None)"

definition ProcessInBatch ::
  "env \<Rightarrow> ctx \<Rightarrow> 'r table \<Rightarrow> RepoResourceType list \<Rightarrow> (schema \<Rightarrow> 'r \<Rightarrow> bool) \<Rightarrow> int \<Rightarrow>
   ('r list \<Rightarrow> unit M) \<Rightarrow> unit M" where
  "ProcessInBatch env ctx T joins query batchSize processFunc =
     ProcessInBatchWithOptions env ctx T joins query batchSize
       \<lparr>bo_DeleteMode = False, bo_IgnoreFailMode = False\<rparr> processFunc"

text \<open>
  \<open>ProcessInBatch\<close> with a processing function that assigns to a captured variable: the variable is
  passed from batch to batch and returned
\<close>

fun batchFold ::
  "nat \<Rightarrow> env \<Rightarrow> ctx \<Rightarrow> 'r table \<Rightarrow> RepoResourceType list \<Rightarrow> (schema \<Rightarrow> 'r \<Rightarrow> bool) \<Rightarrow> int \<Rightarrow>
   ('b \<Rightarrow> 'r list \<Rightarrow> 'b M) \<Rightarrow> int \<Rightarrow> 'b \<Rightarrow> 'b M" where
  "batchFold 0 env ctx T joins query batchSize processFunc offset acc = throwC [Msg ''out of fuel'']"
| "batchFold (Suc fuel) env ctx T joins query batchSize processFunc offset acc =
     bindC (List_join env ctx T joins (\<lambda>rs. rs) query batchSize offset) (\<lambda>items.
     bindC (processFunc acc items) (\<lambda>acc'.
     if items = [] then returnC acc'
     else
       bindC (Count_join env ctx T joins query) (\<lambda>count.
       if offset + batchSize \<ge> count then returnC acc'
       else batchFold fuel env ctx T joins query batchSize processFunc (offset + batchSize) acc')))"

definition ProcessInBatchFold ::
  "env \<Rightarrow> ctx \<Rightarrow> 'r table \<Rightarrow> RepoResourceType list \<Rightarrow> (schema \<Rightarrow> 'r \<Rightarrow> bool) \<Rightarrow> int \<Rightarrow>
   ('b \<Rightarrow> 'r list \<Rightarrow> 'b M) \<Rightarrow> 'b \<Rightarrow> 'b M" where
  "ProcessInBatchFold env ctx T joins query batchSize processFunc acc =
     bindC (getC (\<lambda>w. length (t_get T (db ctx w)) + 2)) (\<lambda>fuel.
     batchFold fuel env ctx T joins query batchSize processFunc 0 acc)"

section \<open>Listing and existence\<close>

record Pagination =
  pg_Skip :: int
  pg_Top :: int
  pg_Count :: bool

definition ListAndCount_by ::
  "env \<Rightarrow> ctx \<Rightarrow> 'r table \<Rightarrow> RepoResourceType list \<Rightarrow> ('r list \<Rightarrow> 'r list) \<Rightarrow>
   (schema \<Rightarrow> 'r \<Rightarrow> bool) \<Rightarrow> Pagination \<Rightarrow> ('r list \<times> int) M" where
  "ListAndCount_by env ctx T joins arrange query pagination =
     (let top = (if pg_Top pagination = 0 then DefaultLimit else pg_Top pagination) in
      bindC (wrapC ''repo.ErrListingItems''
        (List_join env ctx T joins arrange query top (pg_Skip pagination))) (\<lambda>res.
      if \<not> pg_Count pagination then returnC (res, 0)
      else bindC (wrapC ''repo.ErrCountingItem'' (Count_join env ctx T joins query)) (\<lambda>count.
           returnC (res, count))))"

abbreviation ListAndCount ::
  "env \<Rightarrow> ctx \<Rightarrow> 'r table \<Rightarrow> RepoResourceType list \<Rightarrow> (schema \<Rightarrow> 'r \<Rightarrow> bool) \<Rightarrow> Pagination \<Rightarrow>
   ('r list \<times> int) M" where
  "ListAndCount env ctx T joins query pagination \<equiv> ListAndCount_by env ctx T joins (\<lambda>rs. rs) query pagination"

definition HasConnectedKeys :: "env \<Rightarrow> ctx \<Rightarrow> uuid \<Rightarrow> bool M" where
  "HasConnectedKeys env ctx keyConfigID =
     bindC (Count env ctx T_keys (\<lambda>_ k. key_KeyConfigurationID k = keyConfigID)) (\<lambda>count.
     returnC (count > 0))"

definition HasConnectedSystems :: "env \<Rightarrow> ctx \<Rightarrow> uuid \<Rightarrow> bool M" where
  "HasConnectedSystems env ctx keyConfigID =
     bindC (Count env ctx T_systems (\<lambda>_ s. sys_KeyConfigurationID s = Some keyConfigID)) (\<lambda>count.
     returnC (count > 0))"

definition GetKeyConfigPrimaryKey :: "env \<Rightarrow> ctx \<Rightarrow> uuid \<Rightarrow> uuid option M" where
  "GetKeyConfigPrimaryKey env ctx keyConfigID =
     tryC (First env ctx T_key_configurations (\<lambda>_ kc. kc_ID kc = keyConfigID)) (\<lambda>res. case res of
       Inl err \<Rightarrow> if errs_Is err ''repo.ErrNotFound'' then returnC None else throwC err
     | Inr keyConfig \<Rightarrow> returnC (kc_PrimaryKeyID keyConfig))"

definition IsPrimaryKey :: "env \<Rightarrow> ctx \<Rightarrow> Key \<Rightarrow> bool M" where
  "IsPrimaryKey env ctx key =
     bindC (GetKeyConfigPrimaryKey env ctx (key_KeyConfigurationID key)) (\<lambda>pkeyID.
     returnC (pkeyID = Some (key_ID key)))"

section \<open>Laws\<close>

context world_frame
begin

lemma steps_finish [steps_intro]: "steps R (finish e)"
  unfolding finish_def by (intro steps_intro)

lemma steps_batchLoop [steps_intro]:
  "ctx_Tenant ctx = Some tn \<Longrightarrow> (\<And>items. steps R (f items)) \<Longrightarrow>
     steps R (batchLoop fuel env ctx T joins q b opts f off le)"
proof (induction fuel arbitrary: off le)
  case 0
  show ?case unfolding batchLoop.simps by (intro steps_intro)
next
  case (Suc fuel)
  show ?case unfolding batchLoop.simps by (intro steps_intro Suc)
qed

lemma steps_ProcessInBatchWithOptions [steps_intro]:
  "ctx_Tenant ctx = Some tn \<Longrightarrow> (\<And>items. steps R (f items)) \<Longrightarrow>
     steps R (ProcessInBatchWithOptions env ctx T joins q b opts f)"
  unfolding ProcessInBatchWithOptions_def by (intro steps_intro)

lemma steps_ProcessInBatch [steps_intro]:
  "ctx_Tenant ctx = Some tn \<Longrightarrow> (\<And>items. steps R (f items)) \<Longrightarrow>
     steps R (ProcessInBatch env ctx T joins q b f)"
  unfolding ProcessInBatch_def by (intro steps_intro)

lemma steps_batchFold [steps_intro]:
  "ctx_Tenant ctx = Some tn \<Longrightarrow> (\<And>acc items. steps R (f acc items)) \<Longrightarrow>
     steps R (batchFold fuel env ctx T joins q b f off acc)"
proof (induction fuel arbitrary: off acc)
  case 0
  show ?case unfolding batchFold.simps by (intro steps_intro)
next
  case (Suc fuel)
  show ?case unfolding batchFold.simps by (intro steps_intro Suc)
qed

lemma steps_ProcessInBatchFold [steps_intro]:
  "ctx_Tenant ctx = Some tn \<Longrightarrow> (\<And>acc items. steps R (f acc items)) \<Longrightarrow>
     steps R (ProcessInBatchFold env ctx T joins q b f acc)"
  unfolding ProcessInBatchFold_def by (intro steps_intro)

lemma steps_ListAndCount [steps_intro]:
  "ctx_Tenant ctx = Some tn \<Longrightarrow> steps R (ListAndCount_by env ctx T joins arr q p)"
  unfolding ListAndCount_by_def by (intro steps_intro)

lemma steps_HasConnectedKeys [steps_intro]:
  "ctx_Tenant ctx = Some tn \<Longrightarrow> steps R (HasConnectedKeys env ctx i)"
  unfolding HasConnectedKeys_def by (intro steps_intro)

lemma steps_HasConnectedSystems [steps_intro]:
  "ctx_Tenant ctx = Some tn \<Longrightarrow> steps R (HasConnectedSystems env ctx i)"
  unfolding HasConnectedSystems_def by (intro steps_intro)

lemma steps_GetKeyConfigPrimaryKey [steps_intro]:
  "ctx_Tenant ctx = Some tn \<Longrightarrow> steps R (GetKeyConfigPrimaryKey env ctx i)"
  unfolding GetKeyConfigPrimaryKey_def by (intro steps_intro)

lemma steps_IsPrimaryKey [steps_intro]:
  "ctx_Tenant ctx = Some tn \<Longrightarrow> steps R (IsPrimaryKey env ctx k)"
  unfolding IsPrimaryKey_def by (intro steps_intro)

end

lemma HasConnectedKeys_run:
  "HasConnectedKeys env ctx i w = (Inr b, w') \<Longrightarrow> same_db w w' \<and> db ctx w' = db ctx w \<and>
     (b \<longleftrightarrow> (\<exists>k \<in> set (keys (db ctx w)). key_KeyConfigurationID k = i))"
  by (auto simp: HasConnectedKeys_def run_simps filter_empty_conv dest!: Count_join_run)

lemma HasConnectedSystems_run:
  "HasConnectedSystems env ctx i w = (Inr b, w') \<Longrightarrow> same_db w w' \<and> db ctx w' = db ctx w \<and>
     (b \<longleftrightarrow> (\<exists>s \<in> set (systems (db ctx w)). sys_KeyConfigurationID s = Some i))"
  by (auto simp: HasConnectedSystems_def run_simps filter_empty_conv dest!: Count_join_run)

lemma GetKeyConfigPrimaryKey_run:
  assumes "GetKeyConfigPrimaryKey env ctx i w = (Inr p, w')"
  shows "same_data w w' \<and> db ctx w' = db ctx w \<and>
    (\<forall>k. p = Some k \<longrightarrow> (\<exists>kc \<in> set (key_configurations (db ctx w)). kc_ID kc = i \<and> kc_PrimaryKeyID kc = Some k))"
proof (cases "First env ctx T_key_configurations (\<lambda>_ kc. kc_ID kc = i) w")
  case (Pair r w1)
  note any = First_join_any[OF Pair, of ctx]
  show ?thesis
  proof (cases r)
    case (Inl err)
    then show ?thesis
      using assms Pair any by (auto simp: GetKeyConfigPrimaryKey_def tryC_def returnC_def throwC_def split: if_splits)
  next
    case (Inr kc)
    note found = First_join_found[OF Pair[unfolded Inr]]
    show ?thesis
      using assms Pair Inr any found by (auto simp: GetKeyConfigPrimaryKey_def tryC_def returnC_def)
  qed
qed

text \<open>the primary key of a key configuration, if there is such a configuration\<close>

definition primary_key :: "schema \<Rightarrow> uuid \<Rightarrow> uuid option" where
  "primary_key d kcID = Option.bind (find (\<lambda>kc. kc_ID kc = kcID) (key_configurations d)) kc_PrimaryKeyID"

lemma GetKeyConfigPrimaryKey_value:
  assumes "GetKeyConfigPrimaryKey env ctx i w = (Inr p, w')"
  shows "p = primary_key (db ctx w) i"
proof (cases "First env ctx T_key_configurations (\<lambda>_ kc. kc_ID kc = i) w")
  case (Pair r w1)
  show ?thesis
  proof (cases r)
    case (Inl err)
    then have "p = None" "errs_Is err ''repo.ErrNotFound''"
      using assms Pair by (auto simp: GetKeyConfigPrimaryKey_def tryC_def returnC_def throwC_def split: if_splits)
    then show ?thesis
      using First_join_notfound[OF Pair[unfolded Inl]] by (simp add: primary_key_def)
  next
    case (Inr kc)
    then show ?thesis
      using assms Pair First_join_run[OF Pair[unfolded Inr]]
      by (auto simp: GetKeyConfigPrimaryKey_def tryC_def returnC_def primary_key_def)
  qed
qed

lemma IsPrimaryKey_run:
  assumes "IsPrimaryKey env ctx key w = (Inr b, w')"
  shows "same_data w w' \<and> db ctx w' = db ctx w \<and>
    b = (primary_key (db ctx w) (key_KeyConfigurationID key) = Some (key_ID key))"
  using assms GetKeyConfigPrimaryKey_run GetKeyConfigPrimaryKey_value
  by (fastforce simp: IsPrimaryKey_def run_simps)

lemma ListAndCount_run:
  assumes "ListAndCount_by env ctx T joins arr q p w = (Inr (rs, n), w')"
  shows "rs = take (nat (if pg_Top p \<le> 0 then 100 else pg_Top p))
      (drop (nat (pg_Skip p)) (arr (filter (q (db ctx w)) (t_get T (db ctx w))))) \<and>
    n = (if pg_Count p then int (length (filter (q (db ctx w)) (t_get T (db ctx w)))) else 0) \<and>
    same_db w w'"
  using assms
  by (auto simp: ListAndCount_by_def run_simps Let_def applyPagination_def DefaultLimit_def
      split: if_splits dest!: List_join_run Count_join_run intro: same_db_trans)

section \<open>The loop reaches every row\<close>

text \<open>what holds after a loop over a list that keeps \<open>I\<close> and achieves \<open>Q x\<close> for each element\<close>

lemma forC_inv:
  assumes "forC xs f w = (Inr ys, w')" and "I w"
    and "\<And>x w y w'. x \<in> set xs \<Longrightarrow> I w \<Longrightarrow> f x w = (Inr y, w') \<Longrightarrow>
      I w' \<and> Q x w' \<and> (\<forall>z. Q z w \<longrightarrow> Q z w')"
  shows "I w' \<and> (\<forall>x \<in> set xs. Q x w') \<and> (\<forall>z. Q z w \<longrightarrow> Q z w')"
  using assms
proof (induction xs arbitrary: w ys)
  case (Cons x xs)
  then obtain y w1 ys' where a: "f x w = (Inr y, w1)" "forC xs f w1 = (Inr ys', w')"
    by (auto simp: run_simps)
  have x: "I w1 \<and> Q x w1 \<and> (\<forall>z. Q z w \<longrightarrow> Q z w1)"
    by (rule Cons.prems(3)[OF _ Cons.prems(2) a(1)]) simp
  have "I w' \<and> (\<forall>x \<in> set xs. Q x w') \<and> (\<forall>z. Q z w1 \<longrightarrow> Q z w')"
    by (rule Cons.IH[OF a(2) conjunct1[OF x]]) (rule Cons.prems(3), simp_all)
  with x show ?case by simp
qed (simp add: run_simps)

definition matching :: "'r table \<Rightarrow> (schema \<Rightarrow> 'r \<Rightarrow> bool) \<Rightarrow> schema \<Rightarrow> 'r list" where
  "matching T query d = filter (query d) (t_get T d)"

lemma batch_fuel_irrelevant:
  assumes "batchSize > 0" "\<not> bo_DeleteMode opts"
    and shrink: "\<And>items w r w'. f items w = (r, w') \<Longrightarrow>
      length (matching T q (db ctx w')) \<le> length (matching T q (db ctx w))"
    and "0 < n" "0 < n'" "int (length (matching T q (db ctx w))) - off < int n"
      "int (length (matching T q (db ctx w))) - off < int n'"
  shows "batchLoop n env ctx T joins q batchSize opts f off le w =
    batchLoop n' env ctx T joins q batchSize opts f off le w"
  using assms(4-)
proof (induction n arbitrary: n' off le w)
  case (Suc n)
  then obtain m where n': "n' = Suc m" by (cases n') auto
  have rest: "batchLoop n env ctx T joins q batchSize opts f (off + batchSize) le' w3 =
      batchLoop m env ctx T joins q batchSize opts f (off + batchSize) le' w3"
    if "f items w1 = (r, w2)" "db ctx w1 = db ctx w" "db ctx w3 = db ctx w2"
      "off + batchSize < int (length (matching T q (db ctx w2)))" for items w1 r w2 w3 le'
    using that shrink[OF that(1)] Suc.prems assms(1) n' by (intro Suc.IH) auto
  show ?case
    unfolding n' batchLoop.simps
  proof (intro bindC_same tryC_same, goal_cases)
    case (1 items w1 r w2)
    then show ?case
      using assms(2) List_join_any[OF 1(1), of ctx] rest[OF 1(2)]
      by (auto simp: Let_def matching_def intro!: bindC_same dest!: Count_join_run)
  qed
qed simp

text \<open>
  Rows are followed by a projection \<open>key\<close> (their identifier), so that the processing function may
  change a row as long as it still matches at its place.
\<close>

lemma batchLoop_done:
  fixes key :: "'r \<Rightarrow> 'k"
  assumes "batchLoop n env ctx T joins q batchSize opts f (int off) None w = (Inr u, w')"
    and "batchSize > 0" "\<not> bo_DeleteMode opts" "\<not> bo_IgnoreFailMode opts" and init: "I (db ctx w)"
    and step: "\<And>items w w'. I (db ctx w) \<Longrightarrow> set items \<subseteq> set (matching T q (db ctx w)) \<Longrightarrow>
      f items w = (Inr (), w') \<Longrightarrow>
      I (db ctx w') \<and> map key (matching T q (db ctx w')) = map key (matching T q (db ctx w)) \<and>
      (\<forall>r \<in> set items. P (key r) (db ctx w')) \<and> (\<forall>k. P k (db ctx w) \<longrightarrow> P k (db ctx w'))"
  shows "(\<forall>k \<in> set (drop off (map key (matching T q (db ctx w)))). P k (db ctx w')) \<and>
    (\<forall>k. P k (db ctx w) \<longrightarrow> P k (db ctx w')) \<and>
    I (db ctx w') \<and> map key (matching T q (db ctx w')) = map key (matching T q (db ctx w))"
  using assms(1) init
proof (induction n arbitrary: off w)
  case (Suc n)
  from Suc.prems(1) obtain items w1 w2 where
      list: "List_join env ctx T joins (\<lambda>rs. rs) q batchSize (int off) w = (Inr items, w1)"
    and f: "f items w1 = (Inr (), w2)"
    and rest: "(if items = [] then finish None else bindC (Count_join env ctx T joins q) (\<lambda>count.
       if int off + batchSize \<ge> count then finish None
       else batchLoop n env ctx T joins q batchSize opts f (int off + batchSize) None)) w2 = (Inr u, w')"
    using assms(3,4) by (auto simp: run_simps Let_def split: if_splits)
  let ?M = "map key (matching T q (db ctx w))"
  have items: "items = take (nat batchSize) (drop off (matching T q (db ctx w)))" "db ctx w1 = db ctx w"
    using List_join_run[OF list] assms(2) by (auto simp: applyPagination_def matching_def)
  have keys: "map key items = take (nat batchSize) (drop off ?M)"
    by (simp add: items(1) take_map drop_map)
  have all: "drop off ?M = map key items @ drop (off + nat batchSize) ?M"
    using append_take_drop_id[of "nat batchSize" "drop off ?M"]
    by (simp add: keys add.commute)
  have "set items \<subseteq> set (matching T q (db ctx w))"
    unfolding items(1) by (auto dest!: in_set_takeD in_set_dropD)
  then have st: "I (db ctx w2) \<and> map key (matching T q (db ctx w2)) = ?M \<and>
      (\<forall>r \<in> set items. P (key r) (db ctx w2)) \<and> (\<forall>k. P k (db ctx w) \<longrightarrow> P k (db ctx w2))"
    using step[OF _ _ f] Suc.prems(2) unfolding items(2) by blast
  have len: "length (matching T q (db ctx w2)) = length ?M"
    using arg_cong[OF conjunct1[OF conjunct2[OF st]], of length] by simp
  show ?case
  proof (cases "db ctx w' = db ctx w2 \<and> drop (off + nat batchSize) ?M = []")
    case True
    then show ?thesis unfolding all using st by simp
  next
    case False
    then have "\<exists>w3. db ctx w3 = db ctx w2 \<and>
        batchLoop n env ctx T joins q batchSize opts f (int (off + nat batchSize)) None w3 = (Inr u, w')"
      using rest assms(2) items(1) len
      by (auto simp: finish_def run_simps matching_def split: if_splits dest!: Count_join_run)
    then obtain w3 where "db ctx w3 = db ctx w2"
      "batchLoop n env ctx T joins q batchSize opts f (int (off + nat batchSize)) None w3 = (Inr u, w')"
      by blast
    then have "(\<forall>k \<in> set (drop (off + nat batchSize) ?M). P k (db ctx w')) \<and>
        (\<forall>k. P k (db ctx w2) \<longrightarrow> P k (db ctx w')) \<and> I (db ctx w') \<and>
        map key (matching T q (db ctx w')) = ?M"
      using Suc.IH[of "off + nat batchSize" w3] st by simp
    then show ?thesis unfolding all using st by auto
  qed
qed (simp add: run_simps)

lemma batch_complete:
  fixes key :: "'r \<Rightarrow> 'k"
  assumes "ProcessInBatch env ctx T joins q batchSize f w = (Inr u, w')" "batchSize > 0"
    and "I (db ctx w)"
    and "\<And>items w w'. I (db ctx w) \<Longrightarrow> set items \<subseteq> set (matching T q (db ctx w)) \<Longrightarrow>
      f items w = (Inr (), w') \<Longrightarrow>
      I (db ctx w') \<and> map key (matching T q (db ctx w')) = map key (matching T q (db ctx w)) \<and>
      (\<forall>r \<in> set items. P (key r) (db ctx w')) \<and> (\<forall>k. P k (db ctx w) \<longrightarrow> P k (db ctx w'))"
  shows "(\<forall>r \<in> set (matching T q (db ctx w)). P (key r) (db ctx w')) \<and> I (db ctx w') \<and>
    map key (matching T q (db ctx w')) = map key (matching T q (db ctx w))"
proof -
  from assms(1) obtain n where
    run: "batchLoop n env ctx T joins q batchSize \<lparr>bo_DeleteMode = False, bo_IgnoreFailMode = False\<rparr> f
      (int 0) None w = (Inr u, w')"
    by (auto simp: ProcessInBatch_def ProcessInBatchWithOptions_def run_simps simp del: batchLoop.simps)
  have "(\<forall>k \<in> set (drop 0 (map key (matching T q (db ctx w)))). P k (db ctx w')) \<and>
    (\<forall>k. P k (db ctx w) \<longrightarrow> P k (db ctx w')) \<and>
    I (db ctx w') \<and> map key (matching T q (db ctx w')) = map key (matching T q (db ctx w))"
    by (rule batchLoop_done[OF run assms(2)]) (simp_all add: assms(3), rule assms(4))
  then show ?thesis by simp
qed

text \<open>
  The other side of it: rows that stop matching move the remaining ones to the front, behind the
  offset. When no more than a batch of them is left after the first round, the loop ends there.
\<close>

lemma batch_first_round:
  assumes run: "ProcessInBatch env ctx T joins q batchSize f w = (Inr u, w')" and b: "batchSize > 0"
    and ne: "matching T q (db ctx w) \<noteq> []"
  obtains w1 w2 where "db ctx w1 = db ctx w"
    "f (take (nat batchSize) (matching T q (db ctx w))) w1 = (Inr (), w2)"
    "length (matching T q (db ctx w2)) \<le> nat batchSize \<Longrightarrow> db ctx w' = db ctx w2"
proof -
  let ?opts = "\<lparr>bo_DeleteMode = False, bo_IgnoreFailMode = False\<rparr>"
  obtain n where "batchLoop (Suc n) env ctx T joins q batchSize ?opts f 0 None w = (Inr u, w')"
    using run by (auto simp: ProcessInBatch_def ProcessInBatchWithOptions_def run_simps simp del: batchLoop.simps)
  then obtain items w1 w2 where
      list: "List_join env ctx T joins (\<lambda>rs. rs) q batchSize 0 w = (Inr items, w1)"
    and f: "f items w1 = (Inr (), w2)"
    and rest: "(if items = [] then finish None else bindC (Count_join env ctx T joins q) (\<lambda>count.
       if batchSize \<ge> count then finish None
       else batchLoop n env ctx T joins q batchSize ?opts f batchSize None)) w2 = (Inr u, w')"
    by (auto simp: run_simps Let_def split: if_splits)
  have items: "items = take (nat batchSize) (matching T q (db ctx w))" "db ctx w1 = db ctx w"
    using List_join_run[OF list] b by (auto simp: applyPagination_def matching_def)
  have "db ctx w' = db ctx w2" if len: "length (matching T q (db ctx w2)) \<le> nat batchSize"
    using rest len b items(1) ne
    by (auto simp: finish_def run_simps matching_def split: if_splits dest!: Count_join_run)
  then show thesis by (rule that[OF items(2) f[unfolded items(1)]])
qed

section \<open>Collecting over the batches\<close>

text \<open>without a captured variable, the two forms of the loop are the same\<close>

lemma batchFold_unit:
  "batchFold n env ctx T joins q b (\<lambda>_. f) off () =
   batchLoop n env ctx T joins q b \<lparr>bo_DeleteMode = False, bo_IgnoreFailMode = False\<rparr> f off None"
proof (induction n arbitrary: off)
  case (Suc n)
  have "tryC (f items) (\<lambda>res. if isl res then liftC res else g res) = bindC (f items) (\<lambda>_. g (Inr ()))"
    for items and g :: "gerror + unit \<Rightarrow> unit M"
    by (rule ext) (auto simp: bindC_def tryC_def liftC_def split: prod.splits sum.splits)
  then show ?case by (simp add: Suc finish_def Let_def cong: if_cong)
qed simp

text \<open>a loop that only reads folds its function over all matching rows\<close>

lemma batchFold_collect:
  assumes "batchFold n env ctx T joins q b (\<lambda>a items. returnC (foldl g a items)) (int off) acc w = (Inr x, w')"
    and "b > 0"
  shows "x = foldl g acc (drop off (matching T q (db ctx w))) \<and> same_data w w' \<and> db ctx w' = db ctx w"
  using assms(1)
proof (induction n arbitrary: off acc w)
  case (Suc n)
  let ?M = "matching T q (db ctx w)"
  from Suc.prems obtain items w1 where
      list: "List_join env ctx T joins (\<lambda>rs. rs) q b (int off) w = (Inr items, w1)"
    and rest: "(if items = [] then returnC (foldl g acc items) else bindC (Count_join env ctx T joins q) (\<lambda>count.
       if int off + b \<ge> count then returnC (foldl g acc items)
       else batchFold n env ctx T joins q b (\<lambda>a items. returnC (foldl g a items)) (int off + b) (foldl g acc items))) w1 = (Inr x, w')"
    by (auto simp: run_simps)
  have items: "items = take (nat b) (drop off ?M)" and w1: "same_data w w1" "db ctx w1 = db ctx w"
    using List_join_run[OF list] List_join_any[OF list] assms(2) by (auto simp: applyPagination_def matching_def)
  have all: "drop off ?M = items @ drop (off + nat b) ?M"
    using append_take_drop_id[of "nat b" "drop off ?M"] by (simp add: items add.commute)
  show ?case
  proof (cases "drop (off + nat b) ?M = []")
    case True
    then show ?thesis
      using rest w1 assms(2) all
      by (auto simp: run_simps matching_def split: if_splits
          dest!: Count_join_run same_db_data intro: same_data_trans)
  next
    case False
    then have "items \<noteq> []" using assms(2) by (auto simp: items)
    then obtain w2 where w2: "same_data w1 w2" "db ctx w2 = db ctx w1"
      "batchFold n env ctx T joins q b (\<lambda>a items. returnC (foldl g a items)) (int (off + nat b)) (foldl g acc items) w2 = (Inr x, w')"
      using rest False w1 assms(2)
      by (auto simp: run_simps matching_def split: if_splits dest!: Count_join_run same_db_data)
    then show ?thesis
      using Suc.IH[OF w2(3)] w1 all by (auto intro: same_data_trans)
  qed
qed (simp add: run_simps)

lemma ProcessInBatchFold_collect:
  assumes "ProcessInBatchFold env ctx T joins q b (\<lambda>a items. returnC (foldl g a items)) acc w = (Inr x, w')"
    and "b > 0"
  shows "x = foldl g acc (matching T q (db ctx w)) \<and> same_data w w' \<and> db ctx w' = db ctx w"
proof -
  obtain n where "batchFold n env ctx T joins q b (\<lambda>a items. returnC (foldl g a items)) (int 0) acc w = (Inr x, w')"
    using assms(1) by (auto simp: ProcessInBatchFold_def run_simps simp del: batchFold.simps)
  from batchFold_collect[OF this assms(2)] show ?thesis by simp
qed

section \<open>Loops that delete\<close>

text \<open>a loop that deletes what it has processed ends without error only when nothing is left\<close>

abbreviation deleting :: BatchProcessOptions where
  "deleting \<equiv> \<lparr>bo_DeleteMode = True, bo_IgnoreFailMode = False\<rparr>"

lemma batchLoop_delete_cases:
  assumes "batchLoop (Suc n) env ctx T joins q b deleting f 0 None w = (r, w')"
  obtains (list) e where "List_join env ctx T joins (\<lambda>rs. rs) q b 0 w = (Inl e, w')" "isl r"
  | (failed) items w1 e where "List_join env ctx T joins (\<lambda>rs. rs) q b 0 w = (Inr items, w1)"
      "f items w1 = (Inl e, w')" "isl r"
  | (finished) w1 where "List_join env ctx T joins (\<lambda>rs. rs) q b 0 w = (Inr [], w1)" "f [] w1 = (Inr (), w')"
  | (count) items w1 w2 e where "List_join env ctx T joins (\<lambda>rs. rs) q b 0 w = (Inr items, w1)"
      "f items w1 = (Inr (), w2)" "Count_join env ctx T joins q w2 = (Inl e, w')" "isl r"
  | (again) items w1 w2 c w3 where "List_join env ctx T joins (\<lambda>rs. rs) q b 0 w = (Inr items, w1)"
      "f items w1 = (Inr (), w2)" "Count_join env ctx T joins q w2 = (Inr c, w3)"
      "batchLoop n env ctx T joins q b deleting f 0 None w3 = (r, w')"
proof -
  obtain x w1 where l: "List_join env ctx T joins (\<lambda>rs. rs) q b 0 w = (x, w1)" by fastforce
  show thesis
  proof (cases x)
    case (Inl e)
    then show thesis using assms l list by (auto simp: bindC_def)
  next
    case (Inr items)
    obtain y w2 where f: "f items w1 = (y, w2)" by fastforce
    obtain c w3 where c: "Count_join env ctx T joins q w2 = (c, w3)" by fastforce
    show thesis
      using assms l Inr f c failed finished count again
      by (cases y; cases c; cases "items = []")
        (auto simp: bindC_def tryC_def liftC_def throwC_def finish_def returnC_def Let_def)
  qed
qed

lemma batchLoop_delete:
  assumes "batchLoop n env ctx T joins q b deleting f 0 None w = (r, w')" and b: "b > 0" and "I (db ctx w)"
    and step: "\<And>items w r w'. I (db ctx w) \<Longrightarrow> set items \<subseteq> set (matching T q (db ctx w)) \<Longrightarrow>
      f items w = (r, w') \<Longrightarrow> I (db ctx w')"
    and empty: "\<And>w r w'. f [] w = (r, w') \<Longrightarrow> db ctx w' = db ctx w"
  shows "I (db ctx w') \<and> (\<not> isl r \<longrightarrow> matching T q (db ctx w') = [])"
  using assms(1,3)
proof (induction n arbitrary: w)
  case (Suc n)
  have list: "db ctx w1 = db ctx w \<and> items = take (nat b) (matching T q (db ctx w))"
    if "List_join env ctx T joins (\<lambda>rs. rs) q b 0 w = (Inr items, w1)" for items w1
    using List_join_run[OF that] b by (simp add: applyPagination_def matching_def)
  have nxt: "I (db ctx w2)"
    if "List_join env ctx T joins (\<lambda>rs. rs) q b 0 w = (Inr items, w1)" "f items w1 = (y, w2)" for items w1 w2 y
    using step[OF _ _ that(2)] list[OF that(1)] Suc.prems(2) by (auto dest: in_set_takeD)
  show ?case
    using Suc.prems(1)
  proof (cases rule: batchLoop_delete_cases)
    case (list e)
    then show ?thesis using List_join_any[OF list(1), of ctx] Suc.prems(2) by simp
  next
    case (failed items w1 e)
    then show ?thesis using nxt by blast
  next
    case (finished w1)
    then have "matching T q (db ctx w') = []" using list[OF finished(1)] empty[OF finished(2)] b by simp
    then show ?thesis using nxt[OF finished] by simp
  next
    case (count items w1 w2 e)
    then show ?thesis using nxt[OF count(1,2)] Count_join_any[OF count(3), of ctx] by simp
  next
    case (again items w1 w2 c w3)
    show ?thesis using Suc.IH[OF again(4)] nxt[OF again(1,2)] Count_join_any[OF again(3), of ctx] by simp
  qed
qed (auto simp: throwC_def)

end
