(* ===== verification/Event_Factory.thy ===== *)
theory Event_Factory
  imports Repo_Laws
begin

text \<open>
  Creation of orbital jobs for system and key events
  (src/internal/event-processor/factory.go and types.go).

  The job manager \<open>orbital\<close> is not part of the repository: \<open>PrepareJob\<close> is the parameter
  \<open>orbital_PrepareJob\<close> of the environment, which answers with a job or an error, and every
  accepted job is recorded in the call log. Where a property needs it, \<open>orbital_ok\<close> states
  what the documentation promises: the prepared job keeps type, payload and external id.

  The Go code mutates the \<open>*model.System\<close> it is given; operations that do so return the
  changed system next to the job.
\<close>

section \<open>Jobs\<close>

definition orbital_ok :: "env \<Rightarrow> bool" where
  "orbital_ok env \<longleftrightarrow> (\<forall>n t d x j. orbital_PrepareJob env n t d x = Inr j \<longrightarrow>
     job_Type j = t \<and> job_Data j = d \<and> job_ExternalID j = x)"

definition CreateJob :: "env \<Rightarrow> JobType \<Rightarrow> JobData \<Rightarrow> string \<Rightarrow> Job M" where
  "CreateJob env typ data identifier =
     bindC tick_of (\<lambda>n. case orbital_PrepareJob env n typ data identifier of
       Inl err \<Rightarrow> throwC err
     | Inr job \<Rightarrow> bindC (logCall (CallPrepareJob job)) (\<lambda>_. returnC job))"

definition SendEvent :: "'a M \<Rightarrow> 'a M" where
  "SendEvent event = wrapC ''eventprocessor.ErrEventSendingFailed'' event"

definition GetLastEvent :: "env \<Rightarrow> ctx \<Rightarrow> string \<Rightarrow> Event M" where
  "GetLastEvent env ctx cmkItemID =
     tryC (First env ctx T_events (\<lambda>_ ev. ev_Identifier ev = cmkItemID)) (\<lambda>res. case res of
       Inl _ \<Rightarrow> throwC [E ''eventprocessor.ErrNoPreviousEvent'']
     | Inr event \<Rightarrow> returnC event)"

definition createKeyEventJob :: "env \<Rightarrow> ctx \<Rightarrow> string \<Rightarrow> JobType \<Rightarrow> Job M" where
  "createKeyEventJob env ctx keyID jobType =
     (if keyID = [] then throwC [E ''eventprocessor.ErrMissingKeyID'']
      else bindC (liftC (ExtractTenantID ctx)) (\<lambda>tenantID.
        CreateJob env jobType (KeyData tenantID keyID) keyID))"

definition KeyEnable :: "env \<Rightarrow> ctx \<Rightarrow> string \<Rightarrow> Job M" where
  "KeyEnable env ctx keyID = createKeyEventJob env ctx keyID JobTypeKeyEnable"

definition KeyDisable :: "env \<Rightarrow> ctx \<Rightarrow> string \<Rightarrow> Job M" where
  "KeyDisable env ctx keyID = createKeyEventJob env ctx keyID JobTypeKeyDisable"

definition KeyDetach :: "env \<Rightarrow> ctx \<Rightarrow> string \<Rightarrow> Job M" where
  "KeyDetach env ctx keyID = createKeyEventJob env ctx keyID JobTypeKeyDetach"

definition createSystemEventJob :: "env \<Rightarrow> ctx \<Rightarrow> JobType \<Rightarrow> SystemActionJobData \<Rightarrow> Job M" where
  "createSystemEventJob env ctx jobType data =
     bindC (liftC (ExtractTenantID ctx)) (\<lambda>tenantID.
     CreateJob env jobType (SystemData (data\<lparr>jd_TenantID := tenantID\<rparr>)) (jd_SystemID data))"

definition jobData :: "env \<Rightarrow> System \<Rightarrow> string \<Rightarrow> string \<Rightarrow> SystemActionJobData" where
  "jobData env system keyIDTo keyIDFrom =
     \<lparr>jd_SystemID = uuid_String env (sys_ID system), jd_TenantID = [], jd_KeyIDTo = keyIDTo,
      jd_KeyIDFrom = keyIDFrom, jd_Trigger = []\<rparr>"

text \<open>the event row stored after a job was prepared; a failure to store it is only logged\<close>

definition storeEvent :: "env \<Rightarrow> ctx \<Rightarrow> Job \<Rightarrow> SystemStatus \<Rightarrow> unit M" where
  "storeEvent env ctx job previousStatus =
     tryC (Set_row env ctx T_events (\<lambda>ev. ev_Identifier ev = job_ExternalID job)
       \<lparr>ev_Identifier = job_ExternalID job, ev_Type = job_Type job, ev_Data = job_Data job,
        ev_Status = job_Status job, ev_ErrorCode = [], ev_ErrorMessage = [],
        ev_PreviousItemStatus = previousStatus\<rparr>) (\<lambda>_. returnC ())"

section \<open>System events\<close>

text \<open>
  \<open>props\<close> are the loaded properties of the system, which the hook \<open>AfterSave\<close> saves with it
\<close>

definition setProcessing :: "env \<Rightarrow> ctx \<Rightarrow> System \<Rightarrow> (string \<times> string) list \<Rightarrow> System M" where
  "setProcessing env ctx system props =
     (let system' = system\<lparr>sys_Status := SystemStatusPROCESSING\<rparr> in
      bindC (Patch_after env ctx T_systems (\<lambda>s. sys_ID s = sys_ID system') (\<lambda>_. system')
        (System_AfterSave (sys_ID system') props)) (\<lambda>_.
      returnC system'))"

definition handleSystemStatus ::
  "env \<Rightarrow> ctx \<Rightarrow> System \<Rightarrow> (string \<times> string) list \<Rightarrow> Job M \<Rightarrow> (Job \<times> System) M" where
  "handleSystemStatus env ctx system props eventFn =
     bindC (Transaction env ctx (\<lambda>ctx.
       if sys_Status system = SystemStatusPROCESSING
       then throwC [E ''eventprocessor.ErrSystemProcessing'']
       else bindC (setProcessing env ctx system props) (\<lambda>system'.
            bindC eventFn (\<lambda>job. returnC (job, system'))))) (\<lambda>(job, system').
     bindC (storeEvent env ctx job (sys_Status system)) (\<lambda>_.
     returnC (job, system')))"

definition SystemLink ::
  "env \<Rightarrow> ctx \<Rightarrow> System \<Rightarrow> (string \<times> string) list \<Rightarrow> string \<Rightarrow> (Job \<times> System) M" where
  "SystemLink env ctx system props keyID = handleSystemStatus env ctx system props
     (createSystemEventJob env ctx JobTypeSystemLink (jobData env system keyID []))"

definition SystemUnlink ::
  "env \<Rightarrow> ctx \<Rightarrow> System \<Rightarrow> (string \<times> string) list \<Rightarrow> string \<Rightarrow> (Job \<times> System) M" where
  "SystemUnlink env ctx system props keyID = handleSystemStatus env ctx system props
     (createSystemEventJob env ctx JobTypeSystemUnlink (jobData env system [] keyID))"

definition SystemUnlinkDecommission ::
  "env \<Rightarrow> ctx \<Rightarrow> System \<Rightarrow> (string \<times> string) list \<Rightarrow> string \<Rightarrow> (Job \<times> System) M" where
  "SystemUnlinkDecommission env ctx system props keyID =
     (if sys_Status system = SystemStatusPROCESSING
      then throwC [E ''eventprocessor.ErrSystemProcessing'']
      else bindC (Transaction env ctx (\<lambda>ctx. setProcessing env ctx system props)) (\<lambda>system'.
           bindC (createSystemEventJob env ctx JobTypeSystemUnlinkDecommission
             (jobData env system [] keyID)) (\<lambda>job.
           returnC (job, system'))))"

definition SystemSwitch ::
  "env \<Rightarrow> ctx \<Rightarrow> System \<Rightarrow> (string \<times> string) list \<Rightarrow> string \<Rightarrow> string \<Rightarrow> (Job \<times> System) M" where
  "SystemSwitch env ctx system props keyIDTo keyIDFrom = handleSystemStatus env ctx system props
     (createSystemEventJob env ctx JobTypeSystemSwitch (jobData env system keyIDTo keyIDFrom))"

definition SystemSwitchNewPrimaryKey ::
  "env \<Rightarrow> ctx \<Rightarrow> System \<Rightarrow> (string \<times> string) list \<Rightarrow> string \<Rightarrow> string \<Rightarrow> (Job \<times> System) M" where
  "SystemSwitchNewPrimaryKey env ctx system props keyIDTo keyIDFrom = handleSystemStatus env ctx system props
     (createSystemEventJob env ctx JobTypeSystemSwitchNewPK (jobData env system keyIDTo keyIDFrom))"

definition SystemKeyRotate :: "env \<Rightarrow> ctx \<Rightarrow> System \<Rightarrow> string \<Rightarrow> Job M" where
  "SystemKeyRotate env ctx system keyID =
     bindC (createSystemEventJob env ctx JobTypeSystemKeyRotate (jobData env system keyID keyID)) (\<lambda>job.
     bindC (storeEvent env ctx job (sys_Status system)) (\<lambda>_.
     returnC job))"

section \<open>Laws\<close>

context world_frame
begin

lemma steps_CreateJob [steps_intro]: "steps R (CreateJob env t d x)"
  unfolding CreateJob_def by (intro steps_intro)

lemma steps_SendEvent [steps_intro]: "steps R ev \<Longrightarrow> steps R (SendEvent ev)"
  unfolding SendEvent_def by (intro steps_intro)

lemma steps_GetLastEvent [steps_intro]:
  "ctx_Tenant ctx = Some tn \<Longrightarrow> steps R (GetLastEvent env ctx i)"
  unfolding GetLastEvent_def by (intro steps_intro)

lemma steps_createKeyEventJob [steps_intro]: "steps R (createKeyEventJob env ctx i t)"
  unfolding createKeyEventJob_def by (intro steps_intro)

lemma steps_KeyEvents [steps_intro]:
  "steps R (KeyEnable env ctx i)" "steps R (KeyDisable env ctx i)" "steps R (KeyDetach env ctx i)"
  unfolding KeyEnable_def KeyDisable_def KeyDetach_def by (intro steps_intro)+

lemma steps_createSystemEventJob [steps_intro]: "steps R (createSystemEventJob env ctx t d)"
  unfolding createSystemEventJob_def by (intro steps_intro)

lemma steps_storeEvent [steps_intro]:
  "TabEvents \<in> W \<Longrightarrow> ctx_Tenant ctx = Some tn \<Longrightarrow> steps R (storeEvent env ctx j s)"
  unfolding storeEvent_def by (intro steps_intro)

lemma steps_setProcessing [steps_intro]:
  "TabSystems \<in> W \<Longrightarrow> props = [] \<or> TabSystemProperties \<in> W \<Longrightarrow> ctx_Tenant ctx = Some tn \<Longrightarrow> steps R (setProcessing env ctx s props)"
  unfolding setProcessing_def by (intro steps_intro)

lemma steps_handleSystemStatus [steps_intro]:
  "TabEvents \<in> W \<Longrightarrow> TabSystems \<in> W \<Longrightarrow> props = [] \<or> TabSystemProperties \<in> W \<Longrightarrow>
     ctx_Tenant ctx = Some tn \<Longrightarrow> steps R ev \<Longrightarrow> steps R (handleSystemStatus env ctx s props ev)"
  unfolding handleSystemStatus_def by (intro steps_intro; simp)

lemma steps_SystemKeyRotate [steps_intro]:
  "TabEvents \<in> W \<Longrightarrow> ctx_Tenant ctx = Some tn \<Longrightarrow> steps R (SystemKeyRotate env ctx s k)"
  unfolding SystemKeyRotate_def by (intro steps_intro)

lemma steps_SystemEvents [steps_intro]:
  assumes "ctx_Tenant ctx = Some tn" and "TabEvents \<in> W" "TabSystems \<in> W"
    "props = [] \<or> TabSystemProperties \<in> W"
  shows "steps R (SystemLink env ctx s props k)" "steps R (SystemUnlink env ctx s props k)"
    "steps R (SystemSwitch env ctx s props k k')" "steps R (SystemSwitchNewPrimaryKey env ctx s props k k')"
    "steps R (SystemUnlinkDecommission env ctx s props k)"
  unfolding SystemLink_def SystemUnlink_def SystemSwitch_def SystemSwitchNewPrimaryKey_def
    SystemUnlinkDecommission_def
  by (intro steps_intro assms; simp add: assms)+

end

text \<open>storing the event touches no other table, whether it succeeds or not\<close>

definition event_of :: "Job \<Rightarrow> SystemStatus \<Rightarrow> Event" where
  "event_of job st =
     \<lparr>ev_Identifier = job_ExternalID job, ev_Type = job_Type job, ev_Data = job_Data job,
      ev_Status = job_Status job, ev_ErrorCode = [], ev_ErrorMessage = [],
      ev_PreviousItemStatus = st\<rparr>"

lemma storeEvent_run:
  assumes "storeEvent env ctx job st w = (r, w')"
  shows "r = Inr () \<and> calls w' = calls w \<and> db ctx w' = (db ctx w)\<lparr>events := events (db ctx w')\<rparr> \<and>
    (events (db ctx w') = events (db ctx w) \<or> event_of job st \<in> set (events (db ctx w')))"
proof (cases "Set_row env ctx T_events (\<lambda>ev. ev_Identifier ev = job_ExternalID job) (event_of job st) w")
  case (Pair r1 w1)
  then have r: "r = Inr ()" "w' = w1"
    using assms by (auto simp: storeEvent_def event_of_def tryC_def returnC_def)
  show ?thesis
  proof (cases r1)
    case (Inl e)
    have "same_data w w1" by (rule write_err(3)[OF Pair[unfolded Inl]])
    then show ?thesis using r same_data_db[of w w1 ctx] by (auto simp: same_data_def)
  next
    case (Inr u)
    have "calls w1 = calls w" "db ctx w1 = events_update (\<lambda>_. if \<exists>ev \<in> set (events (db ctx w)).
        ev_Identifier ev = job_ExternalID job
      then row_upd (\<lambda>ev. ev_Identifier ev = job_ExternalID job) (\<lambda>_. event_of job st) (events (db ctx w))
      else events (db ctx w) @ [event_of job st]) (db ctx w)"
      using Set_by_run[OF Pair[unfolded Inr]] wrote_calls by auto
    then show ?thesis using r by (auto simp: set_row_upd)
  qed
qed

lemma db_calls [simp]: "db c (w\<lparr>calls := cs\<rparr>) = db c w"
  by (simp add: db_def tenant_schema_def)

lemma CreateJob_run:
  assumes "CreateJob env t d x w = (Inr job, w')"
  shows "calls w' = calls w @ [CallPrepareJob job] \<and> db c w' = db c w \<and>
    (orbital_ok env \<longrightarrow> job_Type job = t \<and> job_ExternalID job = x \<and> job_Data job = d)"
  using assms
  by (auto simp: CreateJob_def logCall_def run_simps orbital_ok_def split: sum.splits)

lemma createSystemEventJob_run:
  assumes "createSystemEventJob env ctx t d w = (Inr job, w')"
  shows "calls w' = calls w @ [CallPrepareJob job] \<and> db c w' = db c w \<and>
    (orbital_ok env \<longrightarrow> job_Type job = t \<and> job_ExternalID job = jd_SystemID d \<and>
      (\<exists>tid. ExtractTenantID ctx = Inr tid \<and> job_Data job = SystemData (d\<lparr>jd_TenantID := tid\<rparr>)))"
  using assms
  by (auto simp: createSystemEventJob_def run_simps dest!: CreateJob_run[where c = c])

lemma createKeyEventJob_run:
  assumes "createKeyEventJob env ctx k t w = (Inr job, w')"
  shows "k \<noteq> [] \<and> calls w' = calls w @ [CallPrepareJob job] \<and> db c w' = db c w \<and>
    (orbital_ok env \<longrightarrow> job_Type job = t \<and> job_ExternalID job = k \<and>
      (\<exists>tid. ExtractTenantID ctx = Inr tid \<and> job_Data job = KeyData tid k))"
  using assms
  by (auto simp: createKeyEventJob_def run_simps split: if_splits dest!: CreateJob_run[where c = c])

text \<open>
  A job for a system was prepared and the system is in state PROCESSING, which it was not
  before; nothing but the system's row and the event table changed.
\<close>

lemma handleSystemStatus_run:
  assumes run: "handleSystemStatus env ctx system props ev w = (Inr (job, system'), w')"
    and ev: "\<And>c w job w'. ev w = (Inr job, w') \<Longrightarrow>
      calls w' = calls w @ [CallPrepareJob job] \<and> db c w' = db c w"
  shows "sys_Status system \<noteq> SystemStatusPROCESSING"
    and "system' = system\<lparr>sys_Status := SystemStatusPROCESSING\<rparr>"
    and "calls w' = calls w @ [CallPrepareJob job]"
    and "db ctx w' = (System_AfterSave (sys_ID system) props (db ctx w))\<lparr>systems := row_upd (\<lambda>s. sys_ID s = sys_ID system) (\<lambda>_. system') (systems (db ctx w)),
      events := events (db ctx w')\<rparr>"
    and "\<exists>u v. ev u = (Inr job, v)"
proof -
  from run obtain w4 where tx: "Transaction env ctx (\<lambda>ctx.
       if sys_Status system = SystemStatusPROCESSING
       then throwC [E ''eventprocessor.ErrSystemProcessing'']
       else bindC (setProcessing env ctx system props) (\<lambda>system'.
            bindC ev (\<lambda>job. returnC (job, system')))) w = (Inr (job, system'), w4)"
    and store: "storeEvent env ctx job (sys_Status system) w4 = (Inr (), w')"
    by (auto simp: handleSystemStatus_def run_simps)
  obtain w0 w3 where t: "same_data w w0" "same_data w3 w4" and
    body: "(if sys_Status system = SystemStatusPROCESSING
       then throwC [E ''eventprocessor.ErrSystemProcessing'']
       else bindC (setProcessing env (ctx\<lparr>ctx_tx := True\<rparr>) system props) (\<lambda>system'.
            bindC ev (\<lambda>job. returnC (job, system')))) w0 = (Inr (job, system'), w3)"
    by (rule Transaction_step[OF tx])
  then obtain w1 where np: "sys_Status system \<noteq> SystemStatusPROCESSING"
    and p: "setProcessing env (ctx\<lparr>ctx_tx := True\<rparr>) system props w0 = (Inr system', w1)"
    and e: "ev w1 = (Inr job, w3)"
    by (auto simp: run_simps split: if_splits)
  have s': "system' = system\<lparr>sys_Status := SystemStatusPROCESSING\<rparr>"
    and d1: "db ctx w1 = (System_AfterSave (sys_ID system) props (db ctx w0))\<lparr>systems := row_upd (\<lambda>s. sys_ID s = sys_ID system) (\<lambda>_. system') (systems (db ctx w0))\<rparr>"
    and c1: "calls w1 = calls w0"
    using p by (auto simp: setProcessing_def run_simps Let_def dest!: Patch_after_run simp: System_AfterSave_def dest: wrote_calls)
  have d4: "db ctx w4 = (System_AfterSave (sys_ID system) props (db ctx w))\<lparr>systems := row_upd (\<lambda>s. sys_ID s = sys_ID system) (\<lambda>_. system') (systems (db ctx w))\<rparr>"
    using ev[OF e, of ctx] d1 t[THEN same_data_db, of ctx] by simp
  note st = storeEvent_run[OF store]
  show "sys_Status system \<noteq> SystemStatusPROCESSING"
    and "system' = system\<lparr>sys_Status := SystemStatusPROCESSING\<rparr>"
    and "\<exists>u v. ev u = (Inr job, v)"
    using np s' e by auto
  show "calls w' = calls w @ [CallPrepareJob job]"
    using ev[OF e, of ctx] c1 t st by (simp add: same_data_def)
  have "db ctx w' = (db ctx w4)\<lparr>events := events (db ctx w')\<rparr>" using st by blast
  then show "db ctx w' = (System_AfterSave (sys_ID system) props (db ctx w))\<lparr>systems := row_upd (\<lambda>s. sys_ID s = sys_ID system) (\<lambda>_. system') (systems (db ctx w)),
      events := events (db ctx w')\<rparr>"
    unfolding d4 .
qed

lemma systemEvent_run:
  assumes run: "handleSystemStatus env ctx system props (createSystemEventJob env c t d) w = (Inr (job, system'), w')"
  shows "sys_Status system \<noteq> SystemStatusPROCESSING"
    and "system' = system\<lparr>sys_Status := SystemStatusPROCESSING\<rparr>"
    and "calls w' = calls w @ [CallPrepareJob job]"
    and "db ctx w' = (System_AfterSave (sys_ID system) props (db ctx w))\<lparr>systems := row_upd (\<lambda>s. sys_ID s = sys_ID system)
        (\<lambda>_. system\<lparr>sys_Status := SystemStatusPROCESSING\<rparr>) (systems (db ctx w)),
      events := events (db ctx w')\<rparr>"
    and "orbital_ok env \<Longrightarrow> job_Type job = t \<and> job_ExternalID job = jd_SystemID d \<and>
      (\<exists>tid. ExtractTenantID c = Inr tid \<and> job_Data job = SystemData (d\<lparr>jd_TenantID := tid\<rparr>))"
proof -
  have ev: "calls w2 = calls w1 @ [CallPrepareJob k] \<and> db c' w2 = db c' w1"
    if "createSystemEventJob env c t d w1 = (Inr k, w2)" for c' w1 k w2
    using createSystemEventJob_run[OF that] by blast
  show "sys_Status system \<noteq> SystemStatusPROCESSING"
    by (rule handleSystemStatus_run(1)[OF run]) (rule ev)
  show s': "system' = system\<lparr>sys_Status := SystemStatusPROCESSING\<rparr>"
    by (rule handleSystemStatus_run(2)[OF run]) (rule ev)
  show "calls w' = calls w @ [CallPrepareJob job]"
    by (rule handleSystemStatus_run(3)[OF run]) (rule ev)
  show "db ctx w' = (System_AfterSave (sys_ID system) props (db ctx w))\<lparr>systems := row_upd (\<lambda>s. sys_ID s = sys_ID system)
        (\<lambda>_. system\<lparr>sys_Status := SystemStatusPROCESSING\<rparr>) (systems (db ctx w)),
      events := events (db ctx w')\<rparr>"
    unfolding s'[symmetric] by (rule handleSystemStatus_run(4)[OF run]) (rule ev)
  have "\<exists>u v. createSystemEventJob env c t d u = (Inr job, v)"
    by (rule handleSystemStatus_run(5)[OF run]) (rule ev)
  then show "orbital_ok env \<Longrightarrow> job_Type job = t \<and> job_ExternalID job = jd_SystemID d \<and>
      (\<exists>tid. ExtractTenantID c = Inr tid \<and> job_Data job = SystemData (d\<lparr>jd_TenantID := tid\<rparr>))"
    using createSystemEventJob_run by blast
qed

end
