(* ===== verification/Key_Config.thy ===== *)
theory Key_Config
  imports Group_Manager Batch Event_Factory
begin

text \<open>
  Tags (src/internal/manager/tag.go) and key configurations
  (src/internal/manager/keyconfiguration.go). Certificates are not part of this theory.

  \<open>KeyConfiguration_merge\<close> and \<open>Event_merge\<close> are what gorm's \<open>Updates\<close> does with a struct: columns
  whose value is Go's zero value keep what the row has.
\<close>

section \<open>Tags\<close>

definition DeleteTags :: "env \<Rightarrow> ctx \<Rightarrow> uuid \<Rightarrow> unit M" where
  "DeleteTags env ctx itemID =
     bindC (wrapC ''ErrDeletingTags'' (Delete env ctx T_tags Some (\<lambda>t. tag_ID t = itemID))) (\<lambda>_.
     returnC ())"

definition SetTags :: "env \<Rightarrow> ctx \<Rightarrow> uuid \<Rightarrow> string list \<Rightarrow> unit M" where
  "SetTags env ctx itemID vals =
     (if vals = [[]] then DeleteTags env ctx itemID
      else Set_row env ctx T_tags (\<lambda>t. tag_ID t = itemID) \<lparr>tag_ID = itemID, tag_Values = vals\<rparr>)"

text \<open>
  The test \<open>!errors.Is(err, err)\<close> of the source never holds, so an error other than
  \<open>ErrNotFound\<close> goes on to the decoding of an empty value, which fails.
\<close>

definition GetTags :: "env \<Rightarrow> ctx \<Rightarrow> uuid \<Rightarrow> string list M" where
  "GetTags env ctx itemID =
     tryC (First env ctx T_tags (\<lambda>_ t. tag_ID t = itemID)) (\<lambda>res. case res of
       Inl err \<Rightarrow> if errs_Is err ''repo.ErrNotFound'' then returnC []
                  else throwC [Msg ''unexpected end of JSON input'']
     | Inr tag \<Rightarrow> returnC (tag_Values tag))"

section \<open>Key configurations\<close>

record KeyConfigurationPatch =
  kcp_Name :: "string option"
  kcp_Description :: "string option"
  kcp_PrimaryKeyID :: "uuid option"

text \<open>\<open>strings.TrimSpace(s) == ""\<close>, for ASCII white space\<close>

definition TrimSpace_empty :: "string \<Rightarrow> bool" where
  "TrimSpace_empty s \<longleftrightarrow> list_all (\<lambda>c. c \<in> set [CHR '' '', CHR 0x09, CHR 0x0A, CHR 0x0B, CHR 0x0C, CHR 0x0D]) s"

definition CanConnectSystems :: "env \<Rightarrow> ctx \<Rightarrow> KeyConfiguration \<Rightarrow> bool M" where
  "CanConnectSystems env ctx keyConfig =
     (case kc_PrimaryKeyID keyConfig of
        None \<Rightarrow> throwC [E ''ErrConnectSystemNoPrimaryKey'']
      | Some pkeyID \<Rightarrow>
          if pkeyID = uuid_Nil then throwC [E ''ErrConnectSystemNoPrimaryKey'']
          else bindC (wrapC ''ErrGettingKeyByID'' (First env ctx T_keys (\<lambda>_ k. key_ID k = pkeyID))) (\<lambda>pKey.
               if key_State pKey \<noteq> KeyStateENABLED then throwC [E ''ErrConnectSystemNoPrimaryKey'']
               else returnC True))"

text \<open>the condition added to a query, or that the user has no groups\<close>

datatype keyConfigFilter = NoGroups | AllConfigs | OfGroups "string list"

definition applyIAMGroupFilter_kc :: "env \<Rightarrow> ctx \<Rightarrow> keyConfigFilter M" where
  "applyIAMGroupFilter_kc env ctx =
     bindC (liftC (ExtractBusinessUserDataGroups ctx)) (\<lambda>iamIdentifiers.
     bindC (HasKeyConfigAccess env ctx APIActionRead None) (\<lambda>isGroupFiltered.
     if \<not> isGroupFiltered then returnC AllConfigs
     else if iamIdentifiers = [] then returnC NoGroups
     else returnC (OfGroups iamIdentifiers)))"

definition GetKeyConfigurations :: "env \<Rightarrow> ctx \<Rightarrow> Pagination \<Rightarrow> (KeyConfiguration list \<times> int) M" where
  "GetKeyConfigurations env ctx pagination =
     bindC (applyIAMGroupFilter_kc env ctx) (\<lambda>flt. case flt of
       NoGroups \<Rightarrow> returnC ([], 0)
     | AllConfigs \<Rightarrow> ListAndCount env ctx T_key_configurations
         [RepoResourceTypeSystem, RepoResourceTypeKey] (\<lambda>_ _. True) pagination
     | OfGroups ids \<Rightarrow> ListAndCount env ctx T_key_configurations
         [RepoResourceTypeSystem, RepoResourceTypeKey, RepoResourceTypeGroup]
         (\<lambda>d kc. administers d ids kc) pagination)"

definition PostKeyConfigurations :: "env \<Rightarrow> ctx \<Rightarrow> KeyConfiguration \<Rightarrow> KeyConfiguration M" where
  "PostKeyConfigurations env ctx keyConfiguration =
     tryC (First env ctx T_groups (\<lambda>_ g. grp_ID g = kc_AdminGroupID keyConfiguration)) (\<lambda>res. case res of
       Inl _ \<Rightarrow> throwC [E ''ErrInvalidKeyAdminGroup'']
     | Inr grp \<Rightarrow>
         if grp_Role grp \<noteq> KeyAdminRole then throwC [E ''ErrInvalidKeyAdminGroup'']
         else bindC (HasKeyConfigAccess env ctx APIActionCreate
                (Some (kc_ID keyConfiguration, Some grp))) (\<lambda>_.
              if TrimSpace_empty (kc_Name keyConfiguration) then throwC [E ''ErrNameCannotBeEmpty'']
              else bindC (wrapC ''ErrCreateKeyConfiguration''
                     (Create env ctx T_key_configurations keyConfiguration)) (\<lambda>_.
                   returnC keyConfiguration)))"

definition DeleteKeyConfigurationByID :: "env \<Rightarrow> ctx \<Rightarrow> uuid \<Rightarrow> unit M" where
  "DeleteKeyConfigurationByID env ctx keyConfigID =
     bindC (HasKeyConfigAccess env ctx APIActionDelete (Some (keyConfigID, None))) (\<lambda>_.
     bindC (HasConnectedSystems env ctx keyConfigID) (\<lambda>exist.
     if exist then throwC [E ''ErrDeleteKeyConfiguration'', E ''ErrConnectedSystemToKeyConfig'']
     else bindC (HasConnectedKeys env ctx keyConfigID) (\<lambda>exist.
          if exist then throwC [E ''ErrDeleteKeyConfiguration'', E ''ErrConnectedKeysToKeyConfig'']
          else Transaction env ctx (\<lambda>ctx.
            bindC (wrapC ''ErrDeleteKeyConfiguration''
              (Delete env ctx T_key_configurations Some (\<lambda>kc. kc_ID kc = keyConfigID))) (\<lambda>_.
            DeleteTags env ctx keyConfigID)))))"

definition GetKeyConfigurationByID :: "env \<Rightarrow> ctx \<Rightarrow> uuid \<Rightarrow> KeyConfiguration M" where
  "GetKeyConfigurationByID env ctx keyConfigID =
     bindC (HasKeyConfigAccess env ctx APIActionRead (Some (keyConfigID, None))) (\<lambda>_.
     wrapC ''ErrGettingKeyConfigByID''
       (First_join env ctx T_key_configurations [RepoResourceTypeSystem, RepoResourceTypeKey]
         (\<lambda>_ kc. kc_ID kc = keyConfigID)))"

section \<open>Switching the primary key\<close>

definition validateKeyForPrimarySwitch :: "Key \<Rightarrow> gerror option" where
  "validateKeyForPrimarySwitch key =
     (if key_State key = KeyStateDELETED \<or> key_State key = KeyStatePENDINGDELETION
      then Some [E ''ErrKeyIsDeleted'']
      else if key_State key \<noteq> KeyStateENABLED then Some [E ''ErrKeyIsNotEnabled'']
      else None)"

definition Event_merge :: "Event \<Rightarrow> Event \<Rightarrow> Event" where
  "Event_merge m r = r\<lparr>ev_Type := ev_Type m, ev_Data := ev_Data m, ev_Status := ev_Status m,
     ev_ErrorCode := (if ev_ErrorCode m = [] then ev_ErrorCode r else ev_ErrorCode m),
     ev_ErrorMessage := (if ev_ErrorMessage m = [] then ev_ErrorMessage r else ev_ErrorMessage m),
     ev_PreviousItemStatus := ev_PreviousItemStatus m\<rparr>"

definition event_keyIDTo :: "Event \<Rightarrow> string option" where
  "event_keyIDTo e = (case ev_Data e of SystemData d \<Rightarrow> Some (jd_KeyIDTo d) | KeyData _ _ \<Rightarrow> None)"

definition retarget :: "string \<Rightarrow> Event \<Rightarrow> Event" where
  "retarget newPkey e = (case ev_Data e of
       SystemData d \<Rightarrow> e\<lparr>ev_Data := SystemData (d\<lparr>jd_KeyIDTo := newPkey\<rparr>)\<rparr>
     | KeyData _ _ \<Rightarrow> e)"

definition updatePrimaryKeySystemEvents :: "env \<Rightarrow> ctx \<Rightarrow> string \<Rightarrow> string \<Rightarrow> unit M" where
  "updatePrimaryKeySystemEvents env ctx oldPkey newPkey =
     ProcessInBatch env ctx T_events [] (\<lambda>_ e. event_keyIDTo e = Some oldPkey) DefaultLimit (\<lambda>evs.
       bindC (forC evs (\<lambda>e.
         Patch env ctx T_events (\<lambda>r. ev_Identifier r = ev_Identifier e) (Event_merge (retarget newPkey e))))
         (\<lambda>_. returnC ()))"

definition switchSystems :: "env \<Rightarrow> ctx \<Rightarrow> uuid \<Rightarrow> string \<Rightarrow> string \<Rightarrow> unit M" where
  "switchSystems env ctx keyConfigID keyIDTo keyIDFrom =
     ProcessInBatch env ctx T_systems [] (\<lambda>_ s. sys_KeyConfigurationID s = Some keyConfigID) DefaultLimit
       (\<lambda>syss. bindC (forC syss (\<lambda>s. SystemSwitchNewPrimaryKey env ctx s [] keyIDTo keyIDFrom)) (\<lambda>_. returnC ()))"

definition validatedKey :: "env \<Rightarrow> ctx \<Rightarrow> uuid \<Rightarrow> Key M" where
  "validatedKey env ctx keyID =
     bindC (First env ctx T_keys (\<lambda>_ k. key_ID k = keyID)) (\<lambda>key.
     case validateKeyForPrimarySwitch key of Some err \<Rightarrow> throwC err | None \<Rightarrow> returnC key)"

definition handleUpdatePrimaryKey :: "env \<Rightarrow> ctx \<Rightarrow> KeyConfiguration \<Rightarrow> uuid \<Rightarrow> unit M" where
  "handleUpdatePrimaryKey env ctx keyConfig primaryKeyID =
     bindC (validatedKey env ctx primaryKeyID) (\<lambda>_.
     case kc_PrimaryKeyID keyConfig of
       None \<Rightarrow> returnC ()
     | Some oldID \<Rightarrow>
         bindC (validatedKey env ctx oldID) (\<lambda>_.
         bindC (updatePrimaryKeySystemEvents env ctx (uuid_String env oldID) (uuid_String env primaryKeyID)) (\<lambda>_.
         switchSystems env ctx (kc_ID keyConfig) (uuid_String env primaryKeyID) (uuid_String env oldID))))"

definition KeyConfiguration_merge :: "KeyConfiguration \<Rightarrow> KeyConfiguration \<Rightarrow> KeyConfiguration" where
  "KeyConfiguration_merge m r = r\<lparr>
     kc_Name := (if kc_Name m = [] then kc_Name r else kc_Name m),
     kc_Description := (if kc_Description m = [] then kc_Description r else kc_Description m),
     kc_AdminGroupID := (if kc_AdminGroupID m = uuid_Nil then kc_AdminGroupID r else kc_AdminGroupID m),
     kc_CreatorID := (if kc_CreatorID m = [] then kc_CreatorID r else kc_CreatorID m),
     kc_PrimaryKeyID := (if kc_PrimaryKeyID m = None then kc_PrimaryKeyID r else kc_PrimaryKeyID m)\<rparr>"

definition KeyConfiguration_Patch :: "env \<Rightarrow> ctx \<Rightarrow> KeyConfiguration \<Rightarrow> bool M" where
  "KeyConfiguration_Patch env ctx m =
     Patch env ctx T_key_configurations (\<lambda>r. kc_ID r = kc_ID m) (KeyConfiguration_merge m)"

definition patchedFields :: "KeyConfigurationPatch \<Rightarrow> KeyConfiguration \<Rightarrow> KeyConfiguration" where
  "patchedFields p kc = kc\<lparr>
     kc_Name := (case kcp_Name p of None \<Rightarrow> kc_Name kc | Some n \<Rightarrow> n),
     kc_Description := (case kcp_Description p of None \<Rightarrow> kc_Description kc | Some s \<Rightarrow> s)\<rparr>"

text \<open>the function passed to \<open>Transaction\<close>\<close>

definition applyConfigPatch :: "env \<Rightarrow> KeyConfigurationPatch \<Rightarrow> KeyConfiguration \<Rightarrow> ctx \<Rightarrow> KeyConfiguration M" where
  "applyConfigPatch env p keyConfig ctx =
     bindC (case kcp_PrimaryKeyID p of
          None \<Rightarrow> returnC keyConfig
        | Some pid \<Rightarrow> bindC (wrapC ''ErrUpdateKeyConfiguration''
              (handleUpdatePrimaryKey env ctx keyConfig pid)) (\<lambda>_.
            returnC (keyConfig\<lparr>kc_PrimaryKeyID := Some pid\<rparr>))) (\<lambda>keyConfig.
     bindC (wrapC ''ErrUpdateKeyConfiguration'' (KeyConfiguration_Patch env ctx keyConfig)) (\<lambda>_.
     returnC keyConfig))"

definition UpdateKeyConfigurationByID :: "env \<Rightarrow> ctx \<Rightarrow> uuid \<Rightarrow> KeyConfigurationPatch \<Rightarrow> KeyConfiguration M" where
  "UpdateKeyConfigurationByID env ctx keyConfigID p =
     bindC (HasKeyConfigAccess env ctx APIActionUpdate (Some (keyConfigID, None))) (\<lambda>_.
     bindC (wrapC ''ErrGettingKeyConfigByID''
       (First env ctx T_key_configurations (\<lambda>_ kc. kc_ID kc = keyConfigID))) (\<lambda>keyConfig.
     if (case kcp_Name p of None \<Rightarrow> False | Some n \<Rightarrow> TrimSpace_empty n)
     then throwC [E ''ErrNameCannotBeEmpty'']
     else Transaction env ctx (applyConfigPatch env p (patchedFields p keyConfig))))"

section \<open>Frames\<close>

context world_frame
begin

lemma steps_DeleteTags [steps_intro]:
  "TabTags \<in> W \<Longrightarrow> ctx_Tenant ctx = Some tn \<Longrightarrow> steps R (DeleteTags env ctx i)"
  unfolding DeleteTags_def by (intro steps_intro)

lemma steps_SetTags [steps_intro]:
  "TabTags \<in> W \<Longrightarrow> ctx_Tenant ctx = Some tn \<Longrightarrow> steps R (SetTags env ctx i vs)"
  unfolding SetTags_def by (intro steps_intro)

lemma steps_GetTags [steps_intro]:
  "ctx_Tenant ctx = Some tn \<Longrightarrow> steps R (GetTags env ctx i)"
  unfolding GetTags_def by (intro steps_intro)

lemma steps_CanConnectSystems [steps_intro]:
  "ctx_Tenant ctx = Some tn \<Longrightarrow> steps R (CanConnectSystems env ctx kc)"
  unfolding CanConnectSystems_def by (intro steps_intro)

lemma steps_applyIAMGroupFilter_kc [steps_intro]:
  "ctx_Tenant ctx = Some tn \<Longrightarrow> steps R (applyIAMGroupFilter_kc env ctx)"
  unfolding applyIAMGroupFilter_kc_def by (intro steps_intro)

lemma steps_case_filter [steps_intro]:
  "steps R a \<Longrightarrow> steps R b \<Longrightarrow> (\<And>x. steps R (c x)) \<Longrightarrow>
     steps R (case f of NoGroups \<Rightarrow> a | AllConfigs \<Rightarrow> b | OfGroups x \<Rightarrow> c x)"
  by (cases f) auto

lemma steps_GetKeyConfigurations [steps_intro]:
  "ctx_Tenant ctx = Some tn \<Longrightarrow> steps R (GetKeyConfigurations env ctx p)"
  unfolding GetKeyConfigurations_def by (intro steps_intro)

lemma steps_PostKeyConfigurations [steps_intro]:
  "TabKeyConfigurations \<in> W \<Longrightarrow> ctx_Tenant ctx = Some tn \<Longrightarrow> steps R (PostKeyConfigurations env ctx kc)"
  unfolding PostKeyConfigurations_def by (intro steps_intro)

lemma steps_DeleteKeyConfigurationByID [steps_intro]:
  "TabKeyConfigurations \<in> W \<Longrightarrow> TabTags \<in> W \<Longrightarrow> ctx_Tenant ctx = Some tn \<Longrightarrow> steps R (DeleteKeyConfigurationByID env ctx i)"
  unfolding DeleteKeyConfigurationByID_def by (intro steps_intro)

lemma steps_GetKeyConfigurationByID [steps_intro]:
  "ctx_Tenant ctx = Some tn \<Longrightarrow> steps R (GetKeyConfigurationByID env ctx i)"
  unfolding GetKeyConfigurationByID_def by (intro steps_intro)

lemma steps_updatePrimaryKeySystemEvents [steps_intro]:
  "TabEvents \<in> W \<Longrightarrow> ctx_Tenant ctx = Some tn \<Longrightarrow> steps R (updatePrimaryKeySystemEvents env ctx a b)"
  unfolding updatePrimaryKeySystemEvents_def by (intro steps_intro)

lemma steps_switchSystems [steps_intro]:
  "TabEvents \<in> W \<Longrightarrow> TabSystems \<in> W \<Longrightarrow> ctx_Tenant ctx = Some tn \<Longrightarrow> steps R (switchSystems env ctx i a b)"
  unfolding switchSystems_def by (intro steps_intro disjI1 refl)

lemma steps_validatedKey [steps_intro]:
  "ctx_Tenant ctx = Some tn \<Longrightarrow> steps R (validatedKey env ctx i)"
  unfolding validatedKey_def by (intro steps_intro)

lemma steps_handleUpdatePrimaryKey [steps_intro]:
  "TabEvents \<in> W \<Longrightarrow> TabSystems \<in> W \<Longrightarrow> ctx_Tenant ctx = Some tn \<Longrightarrow> steps R (handleUpdatePrimaryKey env ctx kc i)"
  unfolding handleUpdatePrimaryKey_def by (intro steps_intro)

lemma steps_KeyConfiguration_Patch [steps_intro]:
  "TabKeyConfigurations \<in> W \<Longrightarrow> ctx_Tenant ctx = Some tn \<Longrightarrow> steps R (KeyConfiguration_Patch env ctx m)"
  unfolding KeyConfiguration_Patch_def by (intro steps_intro)

lemma steps_applyConfigPatch [steps_intro]:
  "TabEvents \<in> W \<Longrightarrow> TabKeyConfigurations \<in> W \<Longrightarrow> TabSystems \<in> W \<Longrightarrow> ctx_Tenant ctx = Some tn \<Longrightarrow> steps R (applyConfigPatch env p kc ctx)"
  unfolding applyConfigPatch_def by (intro steps_intro)

lemma steps_UpdateKeyConfigurationByID [steps_intro]:
  "TabEvents \<in> W \<Longrightarrow> TabKeyConfigurations \<in> W \<Longrightarrow> TabSystems \<in> W \<Longrightarrow> ctx_Tenant ctx = Some tn \<Longrightarrow> steps R (UpdateKeyConfigurationByID env ctx i p)"
  unfolding UpdateKeyConfigurationByID_def by (intro steps_intro)

end

end
