(* ===== verification/Key_Versions.thy ===== *)
theory Key_Versions
  imports Key_Config
begin

text \<open>
  What belongs to a key: its versions (src/internal/manager/keyversion.go), its labels
  (src/internal/manager/key_label.go) and the parameters for importing key material
  (src/internal/manager/importparams.go, src/utils/structreader).

  The time stamp that \<open>AutoTimeModel.BeforeCreate\<close> sets (src/internal/model/base.go) is taken from
  the clock right before the insertion.
\<close>

section \<open>Versions\<close>

definition newest_first :: "KeyVersion list \<Rightarrow> KeyVersion list" where
  "newest_first vs = sort_key (\<lambda>v. - kv_RotatedAt v) (sort_key (\<lambda>v. - kv_CreatedAt v) vs)"

definition GetKeyVersions :: "env \<Rightarrow> ctx \<Rightarrow> uuid \<Rightarrow> Pagination \<Rightarrow> (KeyVersion list \<times> int) M" where
  "GetKeyVersions env ctx keyID pagination =
     ListAndCount_by env ctx T_key_versions [] newest_first (\<lambda>_ v. kv_KeyID v = keyID) pagination"

definition GetLatestVersion :: "env \<Rightarrow> ctx \<Rightarrow> uuid \<Rightarrow> KeyVersion M" where
  "GetLatestVersion env ctx keyID =
     tryC (First_full env ctx T_key_versions [] newest_first (\<lambda>_ v. v) (\<lambda>_ v. kv_KeyID v = keyID))
       (\<lambda>res. case res of
         Inl err \<Rightarrow> if errs_Is err ''repo.ErrNotFound'' then throwC [E ''ErrNoKeyVersionsFound'']
                    else throwC (E ''ErrGetKeyVersionDB'' # err)
       | Inr version \<Rightarrow> returnC version)"

definition newKeyVersion :: "env \<Rightarrow> uuid \<Rightarrow> string \<Rightarrow> time \<Rightarrow> string \<Rightarrow> KeyVersion M" where
  "newKeyVersion env keyID nativeID rotatedAt status =
     bindC (newUUID env) (\<lambda>i. bindC (timeNow env) (\<lambda>now.
     returnC \<lparr>kv_ID = i, kv_NativeID = nativeID, kv_KeyID = keyID, kv_RotatedAt = rotatedAt,
       kv_Status = status, kv_CreatedAt = now\<rparr>))"

text \<open>an empty status is left to the column's default\<close>

definition CreateVersion :: "env \<Rightarrow> ctx \<Rightarrow> uuid \<Rightarrow> string \<Rightarrow> time option \<Rightarrow> KeyVersion M" where
  "CreateVersion env ctx keyID nativeID rotationTime =
     bindC (timeNow env) (\<lambda>now.
     bindC (newKeyVersion env keyID nativeID (case rotationTime of None \<Rightarrow> now | Some t \<Rightarrow> t) ''UNKNOWN'') (\<lambda>newVersion.
     tryC (Create env ctx T_key_versions newVersion) (\<lambda>res. case res of
       Inr _ \<Rightarrow> returnC newVersion
     | Inl err \<Rightarrow>
         if \<not> errs_Is err ''repo.ErrUniqueConstraint'' then throwC (E ''ErrCreateKeyVersionDB'' # err)
         else wrapC ''ErrGetKeyVersionDB''
                (First env ctx T_key_versions (\<lambda>_ v. kv_KeyID v = keyID \<and> kv_NativeID v = nativeID)))))"

text \<open>on a conflict of key and native id, only rotation time and status are written\<close>

definition upsertVersion :: "env \<Rightarrow> ctx \<Rightarrow> KeyVersion \<Rightarrow> unit M" where
  "upsertVersion env ctx v =
     Set_by env ctx T_key_versions (\<lambda>r. kv_KeyID r = kv_KeyID v \<and> kv_NativeID r = kv_NativeID v)
       (\<lambda>r. r\<lparr>kv_RotatedAt := kv_RotatedAt v, kv_Status := kv_Status v\<rparr>) v"

definition UpdateVersions :: "env \<Rightarrow> ctx \<Rightarrow> uuid \<Rightarrow> ProviderKeyVersion list \<Rightarrow> unit M" where
  "UpdateVersions env ctx keyID versions =
     bindC (forC versions (\<lambda>k.
       let status = (if pv_Status k = [] then ''UNKNOWN'' else pv_Status k) in
       case pv_CreationTime k of
         Some t \<Rightarrow> bindC (newKeyVersion env keyID (pv_ID k) t status) (\<lambda>v. upsertVersion env ctx v)
       | None \<Rightarrow> bindC (timeNow env) (\<lambda>t.
           bindC (newKeyVersion env keyID (pv_ID k) t status) (\<lambda>v.
           Create env ctx T_key_versions v)))) (\<lambda>_.
     returnC ())"

section \<open>Labels\<close>

definition DeleteLabel :: "env \<Rightarrow> ctx \<Rightarrow> uuid \<Rightarrow> string \<Rightarrow> bool M" where
  "DeleteLabel env ctx keyID labelName =
     (if labelName = [] then throwC [E ''ErrEmptyInputLabelDB'']
      else bindC (wrapC ''ErrGetKeyIDDB'' (First env ctx T_keys (\<lambda>_ k. key_ID k = keyID))) (\<lambda>_.
           wrapC ''ErrDeleteLabelDB''
             (Delete env ctx T_key_labels Some (\<lambda>l. kl_Key l = labelName \<and> kl_ResourceID l = keyID))))"

definition upsertLabel :: "env \<Rightarrow> ctx \<Rightarrow> uuid \<Rightarrow> KeyLabel \<Rightarrow> unit M" where
  "upsertLabel env ctx keyID label =
     tryC (First env ctx T_key_labels (\<lambda>_ l. kl_Key l = kl_Key label \<and> kl_ResourceID l = keyID)) (\<lambda>res.
     case res of
       Inl err \<Rightarrow> if \<not> errs_Is err ''repo.ErrNotFound'' then throwC (E ''ErrFetchLabel'' # err)
                  else wrapC ''ErrInsertLabel'' (Create env ctx T_key_labels label)
     | Inr l \<Rightarrow> bindC (wrapC ''ErrUpdateLabelDB'' (Patch env ctx T_key_labels (\<lambda>r. kl_ID r = kl_ID l)
                  (\<lambda>_. l\<lparr>kl_Value := kl_Value label\<rparr>))) (\<lambda>_. returnC ()))"

definition CreateOrUpdateLabel :: "env \<Rightarrow> ctx \<Rightarrow> uuid \<Rightarrow> KeyLabel list \<Rightarrow> unit M" where
  "CreateOrUpdateLabel env ctx keyID labels =
     bindC (wrapC ''ErrGettingKeyByID'' (First env ctx T_keys (\<lambda>_ k. key_ID k = keyID))) (\<lambda>_.
     wrapC ''ErrUpdateLabelDB'' (Transaction env ctx (\<lambda>ctx.
       bindC (forC labels (upsertLabel env ctx keyID)) (\<lambda>_. returnC ()))))"

definition GetKeyLabels :: "env \<Rightarrow> ctx \<Rightarrow> uuid \<Rightarrow> Pagination \<Rightarrow> (KeyLabel list \<times> int) M" where
  "GetKeyLabels env ctx keyID pagination =
     bindC (wrapC ''ErrGettingKeyByID'' (First env ctx T_keys (\<lambda>_ k. key_ID k = keyID))) (\<lambda>_.
     ListAndCount env ctx T_key_labels [] (\<lambda>_ l. kl_ResourceID l = keyID) pagination)"

section \<open>Import parameters\<close>

text \<open>fields of the answer of the key store, by name; other than string values are read as empty\<close>

definition GetOptionalString :: "(string \<rightharpoonup> string) \<Rightarrow> string \<Rightarrow> string option" where
  "GetOptionalString flds key = (case flds key of
       None \<Rightarrow> None
     | Some v \<Rightarrow> if v = [] then None else Some v)"

definition GetString :: "(string \<rightharpoonup> string) \<Rightarrow> string \<Rightarrow> gerror + string" where
  "GetString flds key = (case flds key of
       None \<Rightarrow> Inl [E ''structreader.ErrFieldMissing'']
     | Some v \<Rightarrow> if v = [] then Inl [E ''structreader.ErrFieldEmpty''] else Inr v)"

record CommonImportFields =
  cif_PublicKeyPEM :: string
  cif_WrappingAlgorithm :: string
  cif_HashFunction :: string

definition extractCommonFields :: "(string \<rightharpoonup> string) \<Rightarrow> gerror + CommonImportFields" where
  "extractCommonFields reader =
     (case GetString reader ''publicKey'' of
        Inl err \<Rightarrow> Inl (E ''ErrExtractCommonImportFields'' # err)
      | Inr publicKey \<Rightarrow>
     (case GetString reader ''wrappingAlgorithm'' of
        Inl err \<Rightarrow> Inl (E ''ErrExtractCommonImportFields'' # err)
      | Inr wrappingAlgorithm \<Rightarrow>
     (case GetString reader ''hashFunction'' of
        Inl err \<Rightarrow> Inl (E ''ErrExtractCommonImportFields'' # err)
      | Inr hashFunction \<Rightarrow>
          Inr \<lparr>cif_PublicKeyPEM = publicKey, cif_WrappingAlgorithm = wrappingAlgorithm,
               cif_HashFunction = hashFunction\<rparr>)))"

text \<open>the parameters handed back at import, and the time they expire\<close>

definition buildProviderParams ::
  "env \<Rightarrow> (string \<rightharpoonup> string) \<Rightarrow> gerror + (string \<times> string) list \<times> time option" where
  "buildProviderParams env reader =
     (case GetString reader ''providerParams'' of
        Inl err \<Rightarrow> Inl err
      | Inr providerParams \<Rightarrow>
          let params = (''providerParams'', providerParams) #
                (case GetOptionalString reader ''algorithm'' of None \<Rightarrow> [] | Some a \<Rightarrow> [(''algorithm'', a)])
          in case GetOptionalString reader ''validTo'' of
               None \<Rightarrow> Inr (params, None)
             | Some validTo \<Rightarrow> (case time_Parse env validTo of
                 None \<Rightarrow> Inl [Msg ''time.Parse'']
               | Some expires \<Rightarrow> Inr (params, Some expires)))"

definition BuildImportParamsFromAPI :: "env \<Rightarrow> Key \<Rightarrow> (string \<rightharpoonup> string) \<Rightarrow> gerror + ImportParams" where
  "BuildImportParamsFromAPI env key reader =
     (case extractCommonFields reader of
        Inl err \<Rightarrow> Inl (E ''ErrBuildImportParams'' # err)
      | Inr commonFields \<Rightarrow> (case buildProviderParams env reader of
          Inl err \<Rightarrow> Inl (E ''ErrBuildImportParams'' # err)
        | Inr (params, expires) \<Rightarrow>
            Inr \<lparr>ip_KeyID = key_ID key, ip_WrappingAlg = cif_WrappingAlgorithm commonFields,
                 ip_HashFunction = cif_HashFunction commonFields,
                 ip_PublicKeyPEM = cif_PublicKeyPEM commonFields, ip_Expires = expires,
                 ip_ProviderParameters = params\<rparr>))"

definition IsExpired :: "time \<Rightarrow> ImportParams \<Rightarrow> bool" where
  "IsExpired now p = (case ip_Expires p of None \<Rightarrow> False | Some t \<Rightarrow> now > t)"

section \<open>Frames\<close>

context world_frame
begin

lemma steps_newKeyVersion [steps_intro]: "steps R (newKeyVersion env i n t s)"
  unfolding newKeyVersion_def timeNow_def by (intro steps_intro)

lemma steps_GetKeyVersions [steps_intro]:
  "ctx_Tenant ctx = Some tn \<Longrightarrow> steps R (GetKeyVersions env ctx keyID pagination)"
  unfolding GetKeyVersions_def by (intro steps_intro)

lemma steps_GetLatestVersion [steps_intro]:
  "ctx_Tenant ctx = Some tn \<Longrightarrow> steps R (GetLatestVersion env ctx keyID)"
  unfolding GetLatestVersion_def by (intro steps_intro)

lemma steps_CreateVersion [steps_intro]:
  "TabKeyVersions \<in> W \<Longrightarrow> ctx_Tenant ctx = Some tn \<Longrightarrow> steps R (CreateVersion env ctx keyID nativeID rotationTime)"
  unfolding CreateVersion_def by (intro steps_intro)

lemma steps_upsertVersion [steps_intro]:
  "TabKeyVersions \<in> W \<Longrightarrow> ctx_Tenant ctx = Some tn \<Longrightarrow> steps R (upsertVersion env ctx v)"
  unfolding upsertVersion_def by (intro steps_intro)

lemma steps_UpdateVersions [steps_intro]:
  "TabKeyVersions \<in> W \<Longrightarrow> ctx_Tenant ctx = Some tn \<Longrightarrow> steps R (UpdateVersions env ctx keyID versions)"
  unfolding UpdateVersions_def by (intro steps_intro)

lemma steps_DeleteLabel [steps_intro]:
  "TabKeyLabels \<in> W \<Longrightarrow> ctx_Tenant ctx = Some tn \<Longrightarrow> steps R (DeleteLabel env ctx keyID labelName)"
  unfolding DeleteLabel_def by (intro steps_intro)

lemma steps_upsertLabel [steps_intro]:
  "TabKeyLabels \<in> W \<Longrightarrow> ctx_Tenant ctx = Some tn \<Longrightarrow> steps R (upsertLabel env ctx keyID label)"
  unfolding upsertLabel_def by (intro steps_intro)

lemma steps_CreateOrUpdateLabel [steps_intro]:
  "TabKeyLabels \<in> W \<Longrightarrow> ctx_Tenant ctx = Some tn \<Longrightarrow> steps R (CreateOrUpdateLabel env ctx keyID labels)"
  unfolding CreateOrUpdateLabel_def by (intro steps_intro)

lemma steps_GetKeyLabels [steps_intro]:
  "ctx_Tenant ctx = Some tn \<Longrightarrow> steps R (GetKeyLabels env ctx keyID pagination)"
  unfolding GetKeyLabels_def by (intro steps_intro)


end

end
