(* ===== verification/Key_Manager.thy ===== *)
theory Key_Manager
  imports Key_Versions
begin

text \<open>
  Keys (src/internal/manager/key.go), with the validation of access data by the key-management
  plugins (src/internal/api/transform/key/transformer/transformer.go).

  The Go functions change the \<open>*model.Key\<close> they are given; here they return the changed key.
  \<open>key_row\<close> drops the two fields that are not columns. Dereferencing a nil pointer is the error
  \<open>panic\<close>, which passes every place where the source only logs an error (\<open>onlyLogged\<close>). Clients
  of the key stores are reached through the environment; every call is logged.
\<close>

section \<open>Rows of keys\<close>

definition key_row :: "Key \<Rightarrow> Key" where
  "key_row key = key\<lparr>key_IsPrimary := False, key_EditableRegions := []\<rparr>"

text \<open>gorm's \<open>Updates\<close> with a struct: zero values keep what the row has\<close>

definition Key_merge :: "Key \<Rightarrow> Key \<Rightarrow> Key" where
  "Key_merge m r =
     \<lparr>key_ID = key_ID r,
      key_KeyConfigurationID = (if key_KeyConfigurationID m = uuid_Nil then key_KeyConfigurationID r else key_KeyConfigurationID m),
      key_Name = (if key_Name m = [] then key_Name r else key_Name m),
      key_KeyType = key_KeyType m,
      key_Description = (if key_Description m = [] then key_Description r else key_Description m),
      key_Algorithm = (if key_Algorithm m = [] then key_Algorithm r else key_Algorithm m),
      key_Provider = (if key_Provider m = [] then key_Provider r else key_Provider m),
      key_Region = (if key_Region m = [] then key_Region r else key_Region m),
      key_State = key_State m,
      key_NativeID = (if key_NativeID m = None then key_NativeID r else key_NativeID m),
      key_ManagementAccessData = (if key_ManagementAccessData m = None then key_ManagementAccessData r else key_ManagementAccessData m),
      key_CryptoAccessData = (if key_CryptoAccessData m = None then key_CryptoAccessData r else key_CryptoAccessData m),
      key_UnderWorkflow = (key_UnderWorkflow m \<or> key_UnderWorkflow r),
      key_ErrorDetail = (if key_ErrorDetail m = None then key_ErrorDetail r else key_ErrorDetail m),
      key_CreatedAt = (if key_CreatedAt m = 0 then key_CreatedAt r else key_CreatedAt m),
      key_IsPrimary = key_IsPrimary r, key_EditableRegions = key_EditableRegions r\<rparr>"

text \<open>\<open>Patch\<close> of a key, without and with \<open>UpdateAll\<close>, and its insertion\<close>

definition PatchKey :: "env \<Rightarrow> ctx \<Rightarrow> Key \<Rightarrow> unit M" where
  "PatchKey env ctx key =
     bindC (Patch env ctx T_keys (\<lambda>k. key_ID k = key_ID key) (Key_merge key)) (\<lambda>_. returnC ())"

definition SaveKey :: "env \<Rightarrow> ctx \<Rightarrow> Key \<Rightarrow> unit M" where
  "SaveKey env ctx key =
     bindC (Patch env ctx T_keys (\<lambda>k. key_ID k = key_ID key) (\<lambda>_. key_row key)) (\<lambda>_. returnC ())"

definition InsertKey :: "env \<Rightarrow> ctx \<Rightarrow> Key \<Rightarrow> Key M" where
  "InsertKey env ctx key = bindC (timeNow env) (\<lambda>now.
     let key' = (if key_CreatedAt key = 0 then key\<lparr>key_CreatedAt := now\<rparr> else key) in
     bindC (Create env ctx T_keys (key_row key')) (\<lambda>_. returnC key'))"

definition UnavailableKeyStates :: "KeyState list" where
  "UnavailableKeyStates = [KeyStatePENDINGDELETION, KeyStateDELETED, KeyStateFORBIDDEN,
     KeyStateUNKNOWN, KeyStatePENDINGCREATION, KeyStateERROR]"

definition IsUnavailableKeyState :: "KeyState \<Rightarrow> bool" where
  "IsUnavailableKeyState st \<longleftrightarrow> st \<in> set UnavailableKeyStates"

section \<open>Panics and errors that are only logged\<close>

definition deref :: "'a option \<Rightarrow> 'a M" where
  "deref p = (case p of None \<Rightarrow> throwC [E ''panic''] | Some x \<Rightarrow> returnC x)"

definition onlyLogged :: "'a M \<Rightarrow> unit M" where
  "onlyLogged m = tryC m (\<lambda>res. case res of
       Inl err \<Rightarrow> if errs_Is err ''panic'' then throwC err else returnC ()
     | Inr _ \<Rightarrow> returnC ())"

definition sendCreateAuditLog :: "Key \<Rightarrow> unit M" where
  "sendCreateAuditLog key = logCall (CallAudit ''CmkCreate'' (key_ID key))"

definition sendDeleteAuditLog :: "Key \<Rightarrow> unit M" where
  "sendDeleteAuditLog key = logCall (CallAudit ''CmkDelete'' (key_ID key))"

definition sendDisableAuditLog :: "Key \<Rightarrow> unit M" where
  "sendDisableAuditLog key = logCall (CallAudit ''CmkDisable'' (key_ID key))"

definition sendEnableAuditLog :: "Key \<Rightarrow> unit M" where
  "sendEnableAuditLog key = logCall (CallAudit ''CmkEnable'' (key_ID key))"

definition sendRotateAuditLog :: "Key \<Rightarrow> unit M" where
  "sendRotateAuditLog key = logCall (CallAudit ''CmkRotate'' (key_ID key))"

section \<open>Events of keys\<close>

text \<open>a job that exists already is as good as a new one\<close>

definition ifAbsent :: "Job M \<Rightarrow> unit M" where
  "ifAbsent ev = tryC ev (\<lambda>res. case res of
       Inl err \<Rightarrow> if errs_Is err ''orbital.ErrJobAlreadyExists'' then returnC () else throwC err
     | Inr _ \<Rightarrow> returnC ())"

definition sendEnableEvent :: "env \<Rightarrow> ctx \<Rightarrow> Key \<Rightarrow> unit M" where
  "sendEnableEvent env ctx key = SendEvent
     (ifAbsent (KeyEnable env ctx (uuid_String env (key_ID key))))"

definition sendDisableEvent :: "env \<Rightarrow> ctx \<Rightarrow> Key \<Rightarrow> unit M" where
  "sendDisableEvent env ctx key = SendEvent
     (ifAbsent (KeyDisable env ctx (uuid_String env (key_ID key))))"

definition sendDetachEvent :: "env \<Rightarrow> ctx \<Rightarrow> Key \<Rightarrow> unit M" where
  "sendDetachEvent env ctx key = SendEvent
     (ifAbsent (KeyDetach env ctx (uuid_String env (key_ID key))))"

section \<open>Key stores\<close>

text \<open>a failing statement during the initialisation aborts the open transaction\<close>

definition failing :: "ctx \<Rightarrow> gerror \<times> bool \<Rightarrow> 'a M" where
  "failing ctx = (\<lambda>(err, aborts) w.
     (Inl err, if aborts \<and> ctx_tx ctx then w\<lparr>aborted := True\<rparr> else w))"

definition GetOrInitProvider :: "env \<Rightarrow> ctx \<Rightarrow> Key \<Rightarrow> unit M" where
  "GetOrInitProvider env ctx key = bindC tick_of (\<lambda>n. case prov_init env n key of
       None \<Rightarrow> returnC ()
     | Some f \<Rightarrow> failing ctx f)"

definition isBYOKProvisioningNeeded :: "env \<Rightarrow> ctx \<Rightarrow> bool M" where
  "isBYOKProvisioningNeeded env ctx = bindC tick_of (\<lambda>n. case ks_NeedsProvisioning env n of
       Inr needed \<Rightarrow> returnC needed
     | Inl f \<Rightarrow> failing ctx f)"

text \<open>calls of a key-management plugin\<close>

definition pluginCall :: "string \<Rightarrow> string \<Rightarrow> (nat \<Rightarrow> gerror + 'a) \<Rightarrow> 'a M" where
  "pluginCall name arg answer = bindC tick_of (\<lambda>n.
     bindC (logCall (CallProvider name arg)) (\<lambda>_. liftC (answer n)))"

definition pluginCommand :: "env \<Rightarrow> string \<Rightarrow> string \<Rightarrow> unit M" where
  "pluginCommand env name arg = pluginCall name arg
     (\<lambda>n. case prov_Command env n name arg of None \<Rightarrow> Inr () | Some err \<Rightarrow> Inl err)"

definition getKeyFromProvider :: "env \<Rightarrow> bool \<Rightarrow> Key \<Rightarrow> ProviderKey M" where
  "getKeyFromProvider env hasProvider key =
     (if \<not> hasProvider then throwC [E ''ErrFailedToInitProvider'']
      else bindC (deref (key_NativeID key)) (\<lambda>nativeID.
           wrapC ''ErrGetProviderKey'' (pluginCall ''GetKey'' nativeID (\<lambda>n. prov_GetKey env n key nativeID))))"

definition getKeyVersionsFromProvider :: "env \<Rightarrow> Key \<Rightarrow> ProviderKeyVersion list M" where
  "getKeyVersionsFromProvider env key =
     bindC (deref (key_NativeID key)) (\<lambda>nativeID.
     wrapC ''ErrGetProviderKeyVersions''
       (pluginCall ''GetKeyVersions'' nativeID (\<lambda>n. prov_GetKeyVersions env n key nativeID)))"

definition reenableProviderKey :: "env \<Rightarrow> ctx \<Rightarrow> Key \<Rightarrow> unit M" where
  "reenableProviderKey env ctx key =
     bindC (wrapC ''ErrFailedToInitProvider'' (GetOrInitProvider env ctx key)) (\<lambda>_.
     bindC (deref (key_NativeID key)) (\<lambda>nativeID.
     wrapC ''ErrFailedToDisableProviderKey'' (pluginCommand env ''EnableKey'' nativeID)))"

definition disableProviderKey :: "env \<Rightarrow> ctx \<Rightarrow> Key \<Rightarrow> unit M" where
  "disableProviderKey env ctx key =
     bindC (wrapC ''ErrFailedToInitProvider'' (GetOrInitProvider env ctx key)) (\<lambda>_.
     bindC (deref (key_NativeID key)) (\<lambda>nativeID.
     wrapC ''ErrFailedToDisableProviderKey'' (pluginCommand env ''DisableKey'' nativeID)))"

text \<open>a key of a customer's own key store, or one that was never created, is not deleted there\<close>

definition deleteProviderKey :: "env \<Rightarrow> ctx \<Rightarrow> Key \<Rightarrow> unit M" where
  "deleteProviderKey env ctx key =
     (if key_KeyType key = KeyTypeHYOK \<or> key_State key = KeyStatePENDINGCREATION then returnC ()
      else bindC (wrapC ''ErrFailedToInitProvider'' (GetOrInitProvider env ctx key)) (\<lambda>_.
           case key_NativeID key of
             None \<Rightarrow> returnC ()
           | Some nativeID \<Rightarrow> wrapC ''ErrFailedToDeleteProvider'' (pluginCommand env ''DeleteKey'' nativeID)))"

text \<open>at most \<open>attempts\<close> calls, as long as the key store refuses the caller\<close>

fun retryCreateKey :: "nat \<Rightarrow> env \<Rightarrow> Key \<Rightarrow> ProviderKey M" where
  "retryCreateKey 0 env key = throwC []"
| "retryCreateKey (Suc attempts) env key =
     tryC (pluginCall ''CreateKey'' (uuid_String env (key_ID key)) (\<lambda>n. prov_CreateKey env n key)) (\<lambda>res.
     case res of
       Inr keyResp \<Rightarrow> returnC keyResp
     | Inl err \<Rightarrow>
         if errs_Is err ''keymanagement.ErrProviderAuthenticationFailed'' \<and> attempts > 0
         then retryCreateKey attempts env key else throwC err)"

definition createKeyRetryAttempts :: nat where "createKeyRetryAttempts = 5"

definition createManagedProviderKey :: "env \<Rightarrow> Key \<Rightarrow> Key M" where
  "createManagedProviderKey env key =
     bindC (wrapC ''ErrKeyCreationFailed'' (retryCreateKey createKeyRetryAttempts env key)) (\<lambda>keyResp.
     returnC (key\<lparr>key_NativeID := Some (pk_KeyID keyResp), key_State := pk_Status keyResp\<rparr>))"

definition recoverExistingProviderKey :: "env \<Rightarrow> Key \<Rightarrow> Key M" where
  "recoverExistingProviderKey env key =
     bindC (wrapC ''ErrKeyCreationFailed'' (pluginCall ''GetKey'' (uuid_String env (key_ID key))
       (\<lambda>n. prov_GetKey env n key (uuid_String env (key_ID key))))) (\<lambda>keyResp.
     returnC (key\<lparr>key_NativeID := Some (pk_KeyID keyResp), key_State := pk_Status keyResp\<rparr>))"

definition createOrRecoverProviderKey :: "env \<Rightarrow> Key \<Rightarrow> Key M" where
  "createOrRecoverProviderKey env key =
     tryC (createManagedProviderKey env key) (\<lambda>res. case res of
       Inr key' \<Rightarrow> returnC key'
     | Inl err \<Rightarrow> if \<not> errs_Is err ''codes.AlreadyExists'' then throwC err
                  else recoverExistingProviderKey env key)"

section \<open>Crypto access data\<close>

definition getCryptoCertificates :: "env \<Rightarrow> ctx \<Rightarrow> (string \<times> string) list M" where
  "getCryptoCertificates env ctx = (case cfg_CryptoCerts env of
       Inl err \<Rightarrow> throwC err
     | Inr certs \<Rightarrow> bindC (liftC (ExtractTenantID ctx)) (\<lambda>tenantID. returnC (certs tenantID)))"

definition withSubject :: "KeyAccessData \<Rightarrow> string \<times> string \<Rightarrow> KeyAccessData" where
  "withSubject data = (\<lambda>(name, subject). case map_of data name of
       None \<Rightarrow> data
     | Some accessData \<Rightarrow> aset name (accessData\<lparr>rg_CertificateSubject := Some subject\<rparr>) data)"

definition addCertificateSubjectToCryptoData :: "env \<Rightarrow> ctx \<Rightarrow> Key \<Rightarrow> Key M" where
  "addCertificateSubjectToCryptoData env ctx key =
     bindC (getCryptoCertificates env ctx) (\<lambda>cryptoCerts.
     case key_CryptoAccessData key of
       None \<Rightarrow> returnC key
     | Some cryptoAccessData \<Rightarrow>
         returnC (key\<lparr>key_CryptoAccessData := Some (foldl withSubject cryptoAccessData cryptoCerts)\<rparr>))"

definition newCryptoRegion ::
  "env \<Rightarrow> ctx \<Rightarrow> string \<Rightarrow> (string \<times> string) list \<Rightarrow> KeyAccessDetailsRegion M" where
  "newCryptoRegion env ctx region properties =
     bindC (getCryptoCertificates env ctx) (\<lambda>cryptoCerts.
     returnC \<lparr>rg_CertificateSubject = Some (if region \<in> fst ` set cryptoCerts then region else []),
       rg_AdditionalProperties = properties\<rparr>)"

text \<open>the access details of a request, and a patch of a key\<close>

record KeyAccessDetails =
  kad_Management :: "KeyAccessDetailsRegion option"
  kad_Crypto :: "KeyAccessData option"

record KeyPatch =
  kp_Name :: "string option"
  kp_Description :: "string option"
  kp_Enabled :: "bool option"
  kp_AccessDetails :: "KeyAccessDetails option"

definition isManagementDetailsUpdate :: "KeyPatch \<Rightarrow> bool" where
  "isManagementDetailsUpdate keyPatch = (case kp_AccessDetails keyPatch of
       None \<Rightarrow> False
     | Some details \<Rightarrow> kad_Management details \<noteq> None)"

definition NewPluginProviderTransformer :: "env \<Rightarrow> string \<Rightarrow> unit M" where
  "NewPluginProviderTransformer env provider =
     unlessC (km_plugin env provider) [E ''keyshared.ErrInvalidKeyProvider'', Msg provider]"

definition ValidateKeyAccessData ::
  "env \<Rightarrow> string \<Rightarrow> (string \<times> string) list \<Rightarrow> KeyAccessData \<Rightarrow> unit M" where
  "ValidateKeyAccessData env provider management crypto =
     tryC (pluginCall ''ValidateKeyAccessData'' provider
       (\<lambda>n. prov_ValidateKeyAccessData env n provider management crypto)) (\<lambda>res. case res of
       Inl err \<Rightarrow>
         if errs_Is err ''keystoreErrs.StatusInvalidKeyAccessData''
         then throwC [E ''transformer.ErrSerializeKeyAccessData'', E ''transformer.ErrGRPCInvalidAccessData'']
         else throwC (E ''transformer.ErrSerializeKeyAccessData'' # err)
     | Inr (isValid, message) \<Rightarrow>
         unlessC isValid [E ''transformer.ErrSerializeKeyAccessData'', Msg message])"

text \<open>equality of Go maps, and \<open>maps.Copy(dst, src)\<close>\<close>

definition maps_Equal :: "(string \<times> string) list \<Rightarrow> (string \<times> string) list \<Rightarrow> bool" where
  "maps_Equal a b \<longleftrightarrow> (\<forall>k \<in> set (map fst a @ map fst b). map_of a k = map_of b k)"

definition maps_Copy :: "(string \<times> string) list \<Rightarrow> (string \<times> string) list \<Rightarrow> (string \<times> string) list" where
  "maps_Copy dst src = foldl (\<lambda>m (k, v). aset k v m) dst src"

text \<open>
  one region of the patch: a region of the key that must not be edited may only be repeated, an
  editable one is extended, a new one is added. Writing to the map of a key without crypto access
  data is an assignment to a nil map.
\<close>

definition patchRegion ::
  "env \<Rightarrow> ctx \<Rightarrow> Key \<Rightarrow> KeyAccessData option \<Rightarrow> string \<times> KeyAccessDetailsRegion \<Rightarrow> KeyAccessData option M" where
  "patchRegion env ctx key keyCryptoData = (\<lambda>(region, patchValues).
     let current = (case keyCryptoData of None \<Rightarrow> None | Some data \<Rightarrow> map_of data region);
         properties = (case current of None \<Rightarrow> [] | Some d \<Rightarrow> rg_AdditionalProperties d)
     in case map_of (key_EditableRegions key) region of
          None \<Rightarrow>
            bindC (newCryptoRegion env ctx region (rg_AdditionalProperties patchValues)) (\<lambda>res.
            bindC (deref keyCryptoData) (\<lambda>data. returnC (Some (aset region res data))))
        | Some editable \<Rightarrow>
            if \<not> editable \<and> \<not> maps_Equal properties (rg_AdditionalProperties patchValues)
            then throwC [E ''ErrNonEditableCryptoRegionUpdate'']
            else bindC (deref keyCryptoData) (\<lambda>data.
              returnC (Some (aset region
                \<lparr>rg_CertificateSubject = (case current of None \<Rightarrow> None | Some d \<Rightarrow> rg_CertificateSubject d),
                 rg_AdditionalProperties = maps_Copy properties (rg_AdditionalProperties patchValues)\<rparr> data))))"

definition handleCryptoDetailsUpdate :: "env \<Rightarrow> ctx \<Rightarrow> KeyPatch \<Rightarrow> Key \<Rightarrow> Key M" where
  "handleCryptoDetailsUpdate env ctx keyPatch key =
     (case kp_AccessDetails keyPatch of
        None \<Rightarrow> returnC key
      | Some details \<Rightarrow> (case kad_Crypto details of
          None \<Rightarrow> returnC key
        | Some crypto \<Rightarrow>
            bindC (NewPluginProviderTransformer env (key_Provider key)) (\<lambda>_.
            bindC (ValidateKeyAccessData env (key_Provider key)
              (case key_ManagementAccessData key of None \<Rightarrow> [] | Some m \<Rightarrow> rg_AdditionalProperties m) crypto) (\<lambda>_.
            bindC (foldC crypto (key_CryptoAccessData key) (patchRegion env ctx key)) (\<lambda>data.
            returnC (key\<lparr>key_CryptoAccessData := data\<rparr>))))))"

section \<open>Synchronisation with the key store\<close>

definition handleSystemsOnKeyRotation :: "env \<Rightarrow> ctx \<Rightarrow> Key \<Rightarrow> unit M" where
  "handleSystemsOnKeyRotation env ctx key =
     ProcessInBatch env ctx T_systems [] (\<lambda>_ s. sys_KeyConfigurationID s = Some (key_KeyConfigurationID key))
       DefaultLimit (\<lambda>ss.
         bindC (forC ss (\<lambda>s. SystemKeyRotate env ctx s (uuid_String env (key_ID key)))) (\<lambda>_. returnC ()))"

definition handleNewKeyVersion :: "env \<Rightarrow> ctx \<Rightarrow> Key \<Rightarrow> ProviderKeyVersion list \<Rightarrow> unit M" where
  "handleNewKeyVersion env ctx key versions =
     bindC (UpdateVersions env ctx (key_ID key) versions) (\<lambda>_.
     bindC (sendRotateAuditLog key) (\<lambda>_.
     bindC (IsPrimaryKey env ctx key) (\<lambda>isPrimary.
     if isPrimary then onlyLogged (handleSystemsOnKeyRotation env ctx key) else returnC ())))"

definition syncKeyVersions :: "env \<Rightarrow> ctx \<Rightarrow> Key \<Rightarrow> unit M" where
  "syncKeyVersions env ctx key =
     bindC (getKeyVersionsFromProvider env key) (\<lambda>versions.
     if versions = [] then throwC [E ''ErrNoKeyVersionsFound'']
     else handleNewKeyVersion env ctx key versions)"

definition handleKeyStateTransition :: "env \<Rightarrow> ctx \<Rightarrow> Key \<Rightarrow> KeyState \<Rightarrow> unit M" where
  "handleKeyStateTransition env ctx key oldKeyState = (case key_State key of
       KeyStateENABLED \<Rightarrow>
         bindC (if IsUnavailableKeyState oldKeyState then returnC () else sendEnableAuditLog key) (\<lambda>_.
         sendEnableEvent env ctx key)
     | KeyStateDISABLED \<Rightarrow>
         bindC (if IsUnavailableKeyState oldKeyState then returnC () else sendDisableAuditLog key) (\<lambda>_.
         sendDisableEvent env ctx key)
     | _ \<Rightarrow> returnC ())"

definition getKeyStateOnSyncError :: "Key \<Rightarrow> gerror \<Rightarrow> KeyState" where
  "getKeyStateOnSyncError key err =
     (if errs_Is err ''keymanagement.ErrProviderAuthenticationFailed'' then KeyStateFORBIDDEN
      else if errs_Is err ''keymanagement.ErrHYOKKeyNotFound'' then KeyStateDELETED
      else if IsAnyError err [''ErrFailedToInitProvider'', ''ErrGetProviderKey''] then KeyStateUNKNOWN
      else key_State key)"

text \<open>the state the key store reports, or the one its error stands for\<close>

definition observeHYOKKey :: "env \<Rightarrow> ctx \<Rightarrow> Key \<Rightarrow> Key M" where
  "observeHYOKKey env ctx key =
     tryC (GetOrInitProvider env ctx key) (\<lambda>ini.
     tryC (getKeyFromProvider env (\<not> isl ini) key) (\<lambda>res. case res of
       Inl err \<Rightarrow> if errs_Is err ''panic'' then throwC err
                  else returnC (key\<lparr>key_State := getKeyStateOnSyncError key err\<rparr>)
     | Inr keyResp \<Rightarrow>
         let key' = key\<lparr>key_State := pk_Status keyResp\<rparr> in
         bindC (onlyLogged (syncKeyVersions env ctx key')) (\<lambda>_. returnC key')))"

definition syncHYOKKeyState :: "env \<Rightarrow> ctx \<Rightarrow> Key \<Rightarrow> Key M" where
  "syncHYOKKeyState env ctx key =
     (if key_KeyType key \<noteq> KeyTypeHYOK then throwC [E ''ErrInvalidKeyTypeForHYOKSync'']
      else bindC (observeHYOKKey env ctx key) (\<lambda>key'.
        if key_State key = key_State key' then returnC key'
        else bindC (wrapC ''ErrUpdateKeyDB'' (Transaction env ctx (\<lambda>ctx.
               bindC (PatchKey env ctx key') (\<lambda>_.
               handleKeyStateTransition env ctx key' (key_State key))))) (\<lambda>_.
             returnC key')))"

definition SyncHYOKKeys :: "env \<Rightarrow> ctx \<Rightarrow> unit M" where
  "SyncHYOKKeys env ctx =
     ProcessInBatch env ctx T_keys [] (\<lambda>_ k. key_KeyType k = KeyTypeHYOK) DefaultLimit (\<lambda>ks.
       bindC (forC ks (\<lambda>key. onlyLogged (syncHYOKKeyState env ctx key))) (\<lambda>_. returnC ()))"

definition setEditableStatus :: "env \<Rightarrow> ctx \<Rightarrow> Key \<Rightarrow> Key M" where
  "setEditableStatus env ctx key =
     (case key_CryptoAccessData key of
        None \<Rightarrow> returnC key
      | Some cryptoData \<Rightarrow>
          let editable = foldl (\<lambda>m (region, _). aset region (key_KeyType key = KeyTypeHYOK) m)
                (key_EditableRegions key) cryptoData
          in if \<not> key_IsPrimary key \<or> key_KeyType key \<noteq> KeyTypeHYOK
             then returnC (key\<lparr>key_EditableRegions := editable\<rparr>)
             else bindC (ProcessInBatchFold env ctx T_systems []
                    (\<lambda>_ s. sys_KeyConfigurationID s = Some (key_KeyConfigurationID key)) DefaultLimit
                    (\<lambda>m ss. returnC (foldl (\<lambda>m s. aset (sys_Region s) (sys_Status s = SystemStatusFAILED) m) m ss))
                    editable) (\<lambda>editable.
                  returnC (key\<lparr>key_EditableRegions := editable\<rparr>)))"

section \<open>Reading keys\<close>

definition Get :: "env \<Rightarrow> ctx \<Rightarrow> uuid \<Rightarrow> Key M" where
  "Get env ctx keyID =
     bindC (wrapC ''ErrGetKeyDB''
       (First_join env ctx T_keys [RepoResourceTypeKeyversion] (\<lambda>_ k. key_ID k = keyID))) (\<lambda>key.
     bindC (wrapC ''ErrGetKeyDB'' (IsPrimaryKey env ctx key)) (\<lambda>isPrimary.
     let key = (key_row key)\<lparr>key_IsPrimary := isPrimary\<rparr> in
     bindC (HasKeyAccess env ctx APIActionRead (key_KeyConfigurationID key)) (\<lambda>_.
     bindC (case key_KeyType key of
         KeyTypeBYOK \<Rightarrow> returnC key
       | KeyTypeHYOK \<Rightarrow> syncHYOKKeyState env ctx key) (\<lambda>key.
     setEditableStatus env ctx key))))"

definition GetKeys :: "env \<Rightarrow> ctx \<Rightarrow> uuid \<Rightarrow> Pagination \<Rightarrow> (Key list \<times> int) M" where
  "GetKeys env ctx keyConfigID pagination =
     bindC (HasKeyAccess env ctx APIActionRead keyConfigID) (\<lambda>_.
     bindC (GetKeyConfigPrimaryKey env ctx keyConfigID) (\<lambda>primaryKeyID.
     bindC (ListAndCount env ctx T_keys [] (\<lambda>_ k. key_KeyConfigurationID k = keyConfigID) pagination)
       (\<lambda>(ks, count).
     returnC (map (\<lambda>k. (key_row k)\<lparr>key_IsPrimary := (primaryKeyID = Some (key_ID k))\<rparr>) ks, count))))"

section \<open>Creating keys\<close>

definition validateKeyCreation :: "env \<Rightarrow> ctx \<Rightarrow> Key \<Rightarrow> unit M" where
  "validateKeyCreation env ctx key =
     bindC (HasKeyAccess env ctx APIActionCreate (key_KeyConfigurationID key)) (\<lambda>_.
     bindC (wrapC ''ErrGetConfiguration''
       (First env ctx T_key_configurations (\<lambda>_ kc. kc_ID kc = key_KeyConfigurationID key))) (\<lambda>_.
     returnC ()))"

text \<open>the first key of a key configuration becomes its primary key\<close>

definition setPrimaryIfFirstKey :: "env \<Rightarrow> ctx \<Rightarrow> Key \<Rightarrow> unit M" where
  "setPrimaryIfFirstKey env ctx key =
     tryC (First env ctx T_keys (\<lambda>_ k. key_KeyConfigurationID k = key_KeyConfigurationID key)) (\<lambda>res.
     case res of
       Inr _ \<Rightarrow> returnC ()
     | Inl err \<Rightarrow>
         if \<not> errs_Is err ''repo.ErrNotFound'' then throwC err
         else if key_State key = KeyStatePENDINGCREATION then returnC ()
         else if key_State key = KeyStateDISABLED then throwC [E ''ErrKeyIsNotEnabled'']
         else bindC (Patch env ctx T_key_configurations (\<lambda>kc. kc_ID kc = key_KeyConfigurationID key)
                (\<lambda>kc. kc\<lparr>kc_PrimaryKeyID := Some (key_ID key)\<rparr>)) (\<lambda>_. returnC ()))"

definition enqueuePendingStateSync :: "env \<Rightarrow> Key \<Rightarrow> unit M" where
  "enqueuePendingStateSync env key =
     (if \<not> async_client env then returnC ()
      else bindC tick_of (\<lambda>n. case queue_Enqueue env n of
          Some _ \<Rightarrow> returnC ()
        | None \<Rightarrow> logCall (CallEnqueue ''key:pending-state-sync'' (key_ID key))))"

text \<open>\<open>None\<close> when the key store is ready for the key\<close>

definition createPendingBYOKKeyIfNeeded :: "env \<Rightarrow> ctx \<Rightarrow> Key \<Rightarrow> Key option M" where
  "createPendingBYOKKeyIfNeeded env ctx key =
     bindC (isBYOKProvisioningNeeded env ctx) (\<lambda>needsProvisioning.
     if \<not> needsProvisioning then returnC None
     else bindC (wrapC ''ErrCreateKeyDB'' (Transaction env ctx (\<lambda>ctx.
            InsertKey env ctx (key\<lparr>key_State := KeyStatePENDINGCREATION, key_NativeID := None\<rparr>)))) (\<lambda>key'.
          bindC (sendCreateAuditLog key') (\<lambda>_.
          bindC (enqueuePendingStateSync env key') (\<lambda>_.
          returnC (Some key')))))"

definition registerHYOKKey :: "env \<Rightarrow> ctx \<Rightarrow> Key \<Rightarrow> Key M" where
  "registerHYOKKey env ctx key =
     bindC (deref (key_NativeID key)) (\<lambda>nativeID.
     bindC (wrapC ''ErrKeyRegistration''
       (pluginCall ''GetKey'' nativeID (\<lambda>n. prov_GetKey env n key nativeID))) (\<lambda>keyResp.
     bindC (wrapC ''ErrKeyRegistration'' (addCertificateSubjectToCryptoData env ctx key)) (\<lambda>key.
     if pk_Algorithm keyResp \<noteq> ''AES256''
     then throwC [E ''ErrUnsupportedKeyAlgorithm'', Msg (pk_Algorithm keyResp)]
     else if pk_Status keyResp \<noteq> KeyStateENABLED
     then throwC [E ''ErrInvalidKeyState'', Msg ''HYOK registration'']
     else returnC (key\<lparr>key_Algorithm := ''AES256'', key_State := KeyStateENABLED\<rparr>))))"

definition createOrRegisterProviderKey :: "env \<Rightarrow> ctx \<Rightarrow> Key \<Rightarrow> Key M" where
  "createOrRegisterProviderKey env ctx key = (case key_KeyType key of
       KeyTypeBYOK \<Rightarrow> createManagedProviderKey env key
     | KeyTypeHYOK \<Rightarrow> registerHYOKKey env ctx key)"

definition persistKeyTx :: "env \<Rightarrow> Key \<Rightarrow> ctx \<Rightarrow> Key M" where
  "persistKeyTx env key ctx =
     bindC (wrapC ''ErrUpdatePrimary'' (setPrimaryIfFirstKey env ctx key)) (\<lambda>_.
     bindC (wrapC ''ErrCreateKeyDB'' (InsertKey env ctx key)) (\<lambda>key'.
     if key_KeyType key = KeyTypeHYOK
     then bindC (wrapC ''ErrCreateKeyVersionDB'' (syncKeyVersions env ctx key')) (\<lambda>_. returnC key')
     else returnC key'))"

definition persistCreatedKey :: "env \<Rightarrow> ctx \<Rightarrow> Key \<Rightarrow> Key M" where
  "persistCreatedKey env ctx key = Transaction env ctx (persistKeyTx env key)"

definition Create_key :: "env \<Rightarrow> ctx \<Rightarrow> Key \<Rightarrow> Key M" where
  "Create_key env ctx key =
     bindC (validateKeyCreation env ctx key) (\<lambda>_.
     bindC (if key_KeyType key = KeyTypeBYOK then createPendingBYOKKeyIfNeeded env ctx key
            else returnC None) (\<lambda>pending. case pending of
       Some key' \<Rightarrow> returnC key'
     | None \<Rightarrow>
         bindC (wrapC ''ErrFailedToInitProvider'' (GetOrInitProvider env ctx key)) (\<lambda>_.
         bindC (createOrRegisterProviderKey env ctx key) (\<lambda>key.
         bindC (persistCreatedKey env ctx key) (\<lambda>key.
         bindC (sendCreateAuditLog key) (\<lambda>_.
         returnC key))))))"

section \<open>Changing and deleting keys\<close>

definition copyFieldsToModelKey :: "KeyPatch \<Rightarrow> Key \<Rightarrow> bool \<times> Key" where
  "copyFieldsToModelKey apiKey dbKey =
     (let dbKey = (case kp_Name apiKey of None \<Rightarrow> dbKey | Some n \<Rightarrow> dbKey\<lparr>key_Name := n\<rparr>);
          dbKey = (case kp_Description apiKey of None \<Rightarrow> dbKey | Some d \<Rightarrow> dbKey\<lparr>key_Description := d\<rparr>)
      in case kp_Enabled apiKey of
           None \<Rightarrow> (False, dbKey)
         | Some enabled \<Rightarrow>
             if enabled \<and> key_State dbKey \<noteq> KeyStateENABLED
             then (True, dbKey\<lparr>key_State := KeyStateENABLED\<rparr>)
             else if \<not> enabled \<and> key_State dbKey \<noteq> KeyStateDISABLED
             then (True, dbKey\<lparr>key_State := KeyStateDISABLED\<rparr>)
             else (False, dbKey))"

definition enableKey :: "env \<Rightarrow> ctx \<Rightarrow> Key \<Rightarrow> unit M" where
  "enableKey env ctx key =
     bindC (reenableProviderKey env ctx key) (\<lambda>_.
     bindC (sendEnableAuditLog key) (\<lambda>_.
     sendEnableEvent env ctx key))"

definition disableKey :: "env \<Rightarrow> ctx \<Rightarrow> Key \<Rightarrow> unit M" where
  "disableKey env ctx key =
     bindC (disableProviderKey env ctx key) (\<lambda>_.
     bindC (sendDisableAuditLog key) (\<lambda>_.
     sendDisableEvent env ctx key))"

definition applyKeyPatch :: "env \<Rightarrow> ctx \<Rightarrow> Key \<Rightarrow> KeyPatch \<Rightarrow> bool \<Rightarrow> unit M" where
  "applyKeyPatch env ctx key keyPatch enablementUpdated = Transaction env ctx (\<lambda>ctx.
     bindC (wrapC ''ErrUpdateKeyDB'' (SaveKey env ctx key)) (\<lambda>_.
     if \<not> enablementUpdated then returnC ()
     else if kp_Enabled keyPatch = Some True then enableKey env ctx key
     else disableKey env ctx key))"

definition UpdateKey :: "env \<Rightarrow> ctx \<Rightarrow> uuid \<Rightarrow> KeyPatch \<Rightarrow> Key M" where
  "UpdateKey env ctx keyID keyPatch =
     (if isManagementDetailsUpdate keyPatch then throwC [E ''ErrManagementDetailsUpdate'']
      else bindC (wrapC ''ErrGetKeyDB'' (Get env ctx keyID)) (\<lambda>key.
        if key_State key = KeyStatePENDINGCREATION \<and> kp_Enabled keyPatch \<noteq> None
        then throwC [E ''ErrKeyInPendingState'']
        else bindC (wrapC ''ErrCryptoDetailsUpdate'' (handleCryptoDetailsUpdate env ctx keyPatch key)) (\<lambda>key.
          if key_KeyType key = KeyTypeHYOK \<and> kp_Enabled keyPatch \<noteq> None
          then throwC [E ''ErrHYOKKeyActionNotAllowed'', Msg ''update key state'']
          else case copyFieldsToModelKey keyPatch key of (enablementUpdated, key) \<Rightarrow>
            bindC (wrapC ''ErrUpdateKeyDB'' (applyKeyPatch env ctx key keyPatch enablementUpdated)) (\<lambda>_.
            returnC key))))"

definition deleteKeyTx :: "env \<Rightarrow> uuid \<Rightarrow> ctx \<Rightarrow> unit M" where
  "deleteKeyTx env keyID ctx =
     bindC (wrapC ''ErrDeleteKeyDB'' (Delete env ctx T_key_versions Some (\<lambda>v. kv_KeyID v = keyID))) (\<lambda>_.
     bindC (wrapC ''ErrDeleteKeyDB'' (Delete env ctx T_keys (key_refs keyID) (\<lambda>k. key_ID k = keyID))) (\<lambda>_.
     returnC ()))"

definition Delete_key :: "env \<Rightarrow> ctx \<Rightarrow> uuid \<Rightarrow> unit M" where
  "Delete_key env ctx keyID =
     bindC (wrapC ''ErrGetKeyDB'' (Get env ctx keyID)) (\<lambda>key.
     bindC (if key_IsPrimary key then HasConnectedSystems env ctx (key_KeyConfigurationID key)
            else returnC False) (\<lambda>exist.
     if exist then throwC [E ''ErrDeleteKey'', E ''ErrConnectedSystemToKeyConfig'']
     else
       bindC (deleteProviderKey env ctx key) (\<lambda>_.
       bindC (wrapC ''ErrDeleteKey'' (Transaction env ctx (deleteKeyTx env keyID))) (\<lambda>_.
       sendDeleteAuditLog key))))"

definition Detach :: "env \<Rightarrow> ctx \<Rightarrow> Key \<Rightarrow> unit M" where
  "Detach env ctx key = Transaction env ctx (\<lambda>ctx.
     let key = key\<lparr>key_State := KeyStateDETACHING\<rparr> in
     bindC (PatchKey env ctx key) (\<lambda>_.
     sendDetachEvent env ctx key))"

section \<open>Importing key material\<close>

datatype BYOKAction = BYOKActionImportKeyMaterial | BYOKActionGetImportParams

definition validateBYOKKey :: "env \<Rightarrow> ctx \<Rightarrow> uuid \<Rightarrow> BYOKAction \<Rightarrow> (Key \<times> ImportParams option) M" where
  "validateBYOKKey env ctx keyID action =
     bindC (wrapC ''ErrGetKeyDB'' (First_full env ctx T_keys [] (\<lambda>rs. rs)
       (\<lambda>d k. (k, find (\<lambda>p. ip_KeyID p = key_ID k) (import_params d))) (\<lambda>_ k. key_ID k = keyID)))
       (\<lambda>(key, params).
     let (authzAction, badType, badState) = (case action of
           BYOKActionGetImportParams \<Rightarrow> (APIActionRead, ''ErrInvalidKeyTypeForImportParams'', ''ErrInvalidKeyStateForImportParams'')
         | BYOKActionImportKeyMaterial \<Rightarrow> (APIActionUpdate, ''ErrInvalidKeyTypeForImportKeyMaterial'', ''ErrInvalidKeyStateForImportKeyMaterial''))
     in if key_KeyType key \<noteq> KeyTypeBYOK then throwC [E badType, Msg ''key type'']
        else if key_State key \<noteq> KeyStatePENDINGIMPORT then throwC [E badState, Msg ''key state'']
        else bindC (HasKeyAccess env ctx authzAction (key_KeyConfigurationID key)) (\<lambda>_.
             returnC (key, params)))"

definition fetchImportParams :: "env \<Rightarrow> ctx \<Rightarrow> Key \<Rightarrow> ImportParams M" where
  "fetchImportParams env ctx key =
     bindC (wrapC ''ErrFailedToInitProvider'' (GetOrInitProvider env ctx key)) (\<lambda>_.
     bindC (deref (key_NativeID key)) (\<lambda>nativeID.
     bindC (wrapC ''ErrGetImportParamsFromProvider'' (pluginCall ''GetImportParameters'' nativeID
       (\<lambda>n. prov_GetImportParameters env n key nativeID))) (\<lambda>resp.
     bindC (liftC (BuildImportParamsFromAPI env key resp)) (\<lambda>params.
     bindC (Transaction env ctx (\<lambda>ctx.
       wrapC ''ErrSetImportParamsDB''
         (Set_row env ctx T_import_params (\<lambda>p. ip_KeyID p = ip_KeyID params) params))) (\<lambda>_.
     returnC params)))))"

definition GetImportParams :: "env \<Rightarrow> ctx \<Rightarrow> uuid \<Rightarrow> ImportParams M" where
  "GetImportParams env ctx keyID =
     bindC (validateBYOKKey env ctx keyID BYOKActionGetImportParams) (\<lambda>(key, params).
     case params of
       None \<Rightarrow> fetchImportParams env ctx key
     | Some p \<Rightarrow> bindC (timeNow env) (\<lambda>now.
         if IsExpired now p then fetchImportParams env ctx key else returnC p))"

definition importProviderKeyMaterial :: "env \<Rightarrow> ctx \<Rightarrow> Key \<Rightarrow> Key M" where
  "importProviderKeyMaterial env ctx key =
     bindC (wrapC ''ErrFailedToInitProvider'' (GetOrInitProvider env ctx key)) (\<lambda>_.
     bindC (deref (key_NativeID key)) (\<lambda>nativeID.
     bindC (wrapC ''ErrImportKeyMaterialsToProvider'' (pluginCommand env ''ImportKeyMaterial'' nativeID)) (\<lambda>_.
     bindC (wrapC ''ErrGetProviderKey''
       (pluginCall ''GetKey'' nativeID (\<lambda>n. prov_GetKey env n key nativeID))) (\<lambda>keyResp.
     returnC (key\<lparr>key_State := pk_Status keyResp\<rparr>)))))"

definition importKeyTx :: "env \<Rightarrow> Key \<Rightarrow> ctx \<Rightarrow> unit M" where
  "importKeyTx env key ctx =
     bindC (wrapC ''ErrUpdateKeyDB'' (PatchKey env ctx key)) (\<lambda>_.
     bindC (wrapC ''ErrDeleteImportParamsDB''
       (Delete env ctx T_import_params Some (\<lambda>p. ip_KeyID p = key_ID key))) (\<lambda>_.
     returnC ()))"

definition ImportKeyMaterial :: "env \<Rightarrow> ctx \<Rightarrow> uuid \<Rightarrow> string \<Rightarrow> Key M" where
  "ImportKeyMaterial env ctx keyID wrappedKeyMaterial =
     (if wrappedKeyMaterial = [] then throwC [E ''ErrEmptyKeyMaterial'']
      else if \<not> base64_ok env wrappedKeyMaterial then throwC [E ''ErrInvalidBase64KeyMaterial'']
      else bindC (validateBYOKKey env ctx keyID BYOKActionImportKeyMaterial) (\<lambda>(key, params).
        bindC (timeNow env) (\<lambda>now.
        if (case params of None \<Rightarrow> True | Some p \<Rightarrow> IsExpired now p)
        then throwC [E ''ErrMissingOrExpiredImportParams'']
        else bindC (importProviderKeyMaterial env ctx key) (\<lambda>key.
             bindC (Transaction env ctx (importKeyTx env key)) (\<lambda>_.
             returnC key)))))"

section \<open>Keys waiting for their key store\<close>

definition transitionPendingKeyToError :: "env \<Rightarrow> ctx \<Rightarrow> Key \<Rightarrow> string \<Rightarrow> unit M" where
  "transitionPendingKeyToError env ctx key code =
     wrapC ''ErrUpdateKeyDB'' (SaveKey env ctx
       (key\<lparr>key_State := KeyStateERROR, key_ErrorDetail := Some code\<rparr>))"

text \<open>whether there is a provider; without one the key is in its final state\<close>

definition initProviderForPendingKey :: "env \<Rightarrow> ctx \<Rightarrow> Key \<Rightarrow> bool M" where
  "initProviderForPendingKey env ctx key =
     tryC (GetOrInitProvider env ctx key) (\<lambda>res. case res of
       Inr _ \<Rightarrow> returnC True
     | Inl err \<Rightarrow>
         if errs_Is err ''ErrGrantTrustFailed'' then throwC err
         else if errs_Is err ''ErrPoolIsDrained''
         then bindC (transitionPendingKeyToError env ctx key ''KEYSTORE_POOL_DRAINED'') (\<lambda>_. returnC False)
         else throwC err)"

definition pendingCreationTimeout :: int where "pendingCreationTimeout = 15 * 60"

definition pendingKeyTx :: "env \<Rightarrow> Key \<Rightarrow> ctx \<Rightarrow> unit M" where
  "pendingKeyTx env key ctx =
     bindC (wrapC ''ErrUpdatePrimary'' (setPrimaryIfFirstKey env ctx key)) (\<lambda>_.
     wrapC ''ErrUpdateKeyDB'' (SaveKey env ctx key))"

definition syncPendingCreationKey :: "env \<Rightarrow> ctx \<Rightarrow> Key \<Rightarrow> unit M" where
  "syncPendingCreationKey env ctx key = bindC (timeNow env) (\<lambda>now.
     if now - key_CreatedAt key > pendingCreationTimeout
     then transitionPendingKeyToError env ctx key ''PROVISIONING_TIMEOUT''
     else bindC (initProviderForPendingKey env ctx key) (\<lambda>hasProvider.
       if \<not> hasProvider then returnC ()
       else bindC (createOrRecoverProviderKey env key) (\<lambda>key.
            Transaction env ctx (pendingKeyTx env key))))"

definition SyncPendingCreationKey :: "env \<Rightarrow> ctx \<Rightarrow> uuid \<Rightarrow> unit M" where
  "SyncPendingCreationKey env ctx keyID =
     tryC (Get env ctx keyID) (\<lambda>res. case res of
       Inl err \<Rightarrow> if errs_Is err ''repo.ErrNotFound'' then returnC () else throwC (E ''ErrGetKeyDB'' # err)
     | Inr key \<Rightarrow> if key_State key \<noteq> KeyStatePENDINGCREATION then returnC ()
                  else syncPendingCreationKey env ctx key)"

section \<open>Frames\<close>

context world_frame
begin

lemma steps_case_KeyType [steps_intro]:
  "steps R a \<Longrightarrow> steps R b \<Longrightarrow> steps R (case t of KeyTypeBYOK \<Rightarrow> a | KeyTypeHYOK \<Rightarrow> b)"
  by (cases t) simp_all

lemma steps_deref [steps_intro]: "steps R (deref p)"
  unfolding deref_def by (intro steps_intro)

lemma steps_onlyLogged [steps_intro]: "steps R m \<Longrightarrow> steps R (onlyLogged m)"
  unfolding onlyLogged_def by (intro steps_intro)

lemma steps_ifAbsent [steps_intro]: "steps R m \<Longrightarrow> steps R (ifAbsent m)"
  unfolding ifAbsent_def by (intro steps_intro)

lemma steps_failing [steps_intro]: "steps R (failing ctx f)"
  by (auto simp: failing_def steps_def R_refl R_abort split: prod.splits)

lemma steps_pluginCall [steps_intro]: "steps R (pluginCall name arg ans)"
  unfolding pluginCall_def by (intro steps_intro)

lemma steps_retryCreateKey [steps_intro]: "steps R (retryCreateKey n env key)"
proof (induction n)
  case 0
  show ?case unfolding retryCreateKey.simps by (intro steps_intro)
next
  case (Suc n)
  show ?case unfolding retryCreateKey.simps by (intro steps_intro Suc)
qed

lemma steps_PatchKey [steps_intro]:
  "TabKeys \<in> W \<Longrightarrow> ctx_Tenant ctx = Some tn \<Longrightarrow> steps R (PatchKey env ctx key)"
  unfolding PatchKey_def by (intro steps_intro)

lemma steps_SaveKey [steps_intro]:
  "TabKeys \<in> W \<Longrightarrow> ctx_Tenant ctx = Some tn \<Longrightarrow> steps R (SaveKey env ctx key)"
  unfolding SaveKey_def by (intro steps_intro)

lemma steps_InsertKey [steps_intro]:
  "TabKeys \<in> W \<Longrightarrow> ctx_Tenant ctx = Some tn \<Longrightarrow> steps R (InsertKey env ctx key)"
  unfolding InsertKey_def by (intro steps_intro)

lemma steps_sendCreateAuditLog [steps_intro]:
  "steps R (sendCreateAuditLog key)"
  unfolding sendCreateAuditLog_def by (intro steps_intro)

lemma steps_sendDeleteAuditLog [steps_intro]:
  "steps R (sendDeleteAuditLog key)"
  unfolding sendDeleteAuditLog_def by (intro steps_intro)

lemma steps_sendDisableAuditLog [steps_intro]:
  "steps R (sendDisableAuditLog key)"
  unfolding sendDisableAuditLog_def by (intro steps_intro)

lemma steps_sendEnableAuditLog [steps_intro]:
  "steps R (sendEnableAuditLog key)"
  unfolding sendEnableAuditLog_def by (intro steps_intro)

lemma steps_sendRotateAuditLog [steps_intro]:
  "steps R (sendRotateAuditLog key)"
  unfolding sendRotateAuditLog_def by (intro steps_intro)

lemma steps_sendEnableEvent [steps_intro]:
  "ctx_Tenant ctx = Some tn \<Longrightarrow> steps R (sendEnableEvent env ctx key)"
  unfolding sendEnableEvent_def by (intro steps_intro)

lemma steps_sendDisableEvent [steps_intro]:
  "ctx_Tenant ctx = Some tn \<Longrightarrow> steps R (sendDisableEvent env ctx key)"
  unfolding sendDisableEvent_def by (intro steps_intro)

lemma steps_sendDetachEvent [steps_intro]:
  "ctx_Tenant ctx = Some tn \<Longrightarrow> steps R (sendDetachEvent env ctx key)"
  unfolding sendDetachEvent_def by (intro steps_intro)

lemma steps_GetOrInitProvider [steps_intro]:
  "ctx_Tenant ctx = Some tn \<Longrightarrow> steps R (GetOrInitProvider env ctx key)"
  unfolding GetOrInitProvider_def by (intro steps_intro)

lemma steps_isBYOKProvisioningNeeded [steps_intro]:
  "ctx_Tenant ctx = Some tn \<Longrightarrow> steps R (isBYOKProvisioningNeeded env ctx)"
  unfolding isBYOKProvisioningNeeded_def by (intro steps_intro)

lemma steps_pluginCommand [steps_intro]:
  "steps R (pluginCommand env name arg)"
  unfolding pluginCommand_def by (intro steps_intro)

lemma steps_getKeyFromProvider [steps_intro]:
  "steps R (getKeyFromProvider env hasProvider key)"
  unfolding getKeyFromProvider_def by (intro steps_intro)

lemma steps_getKeyVersionsFromProvider [steps_intro]:
  "steps R (getKeyVersionsFromProvider env key)"
  unfolding getKeyVersionsFromProvider_def by (intro steps_intro)

lemma steps_reenableProviderKey [steps_intro]:
  "ctx_Tenant ctx = Some tn \<Longrightarrow> steps R (reenableProviderKey env ctx key)"
  unfolding reenableProviderKey_def by (intro steps_intro)

lemma steps_disableProviderKey [steps_intro]:
  "ctx_Tenant ctx = Some tn \<Longrightarrow> steps R (disableProviderKey env ctx key)"
  unfolding disableProviderKey_def by (intro steps_intro)

lemma steps_deleteProviderKey [steps_intro]:
  "ctx_Tenant ctx = Some tn \<Longrightarrow> steps R (deleteProviderKey env ctx key)"
  unfolding deleteProviderKey_def by (intro steps_intro)

lemma steps_createManagedProviderKey [steps_intro]:
  "steps R (createManagedProviderKey env key)"
  unfolding createManagedProviderKey_def by (intro steps_intro)

lemma steps_recoverExistingProviderKey [steps_intro]:
  "steps R (recoverExistingProviderKey env key)"
  unfolding recoverExistingProviderKey_def by (intro steps_intro)

lemma steps_createOrRecoverProviderKey [steps_intro]:
  "steps R (createOrRecoverProviderKey env key)"
  unfolding createOrRecoverProviderKey_def by (intro steps_intro)

lemma steps_getCryptoCertificates [steps_intro]:
  "ctx_Tenant ctx = Some tn \<Longrightarrow> steps R (getCryptoCertificates env ctx)"
  unfolding getCryptoCertificates_def by (intro steps_intro)

lemma steps_addCertificateSubjectToCryptoData [steps_intro]:
  "ctx_Tenant ctx = Some tn \<Longrightarrow> steps R (addCertificateSubjectToCryptoData env ctx key)"
  unfolding addCertificateSubjectToCryptoData_def by (intro steps_intro)

lemma steps_newCryptoRegion [steps_intro]:
  "ctx_Tenant ctx = Some tn \<Longrightarrow> steps R (newCryptoRegion env ctx region properties)"
  unfolding newCryptoRegion_def by (intro steps_intro)

lemma steps_NewPluginProviderTransformer [steps_intro]:
  "steps R (NewPluginProviderTransformer env provider)"
  unfolding NewPluginProviderTransformer_def by (intro steps_intro)

lemma steps_ValidateKeyAccessData [steps_intro]:
  "steps R (ValidateKeyAccessData env provider management crypto)"
  unfolding ValidateKeyAccessData_def by (intro steps_intro)

lemma steps_patchRegion [steps_intro]:
  "ctx_Tenant ctx = Some tn \<Longrightarrow> steps R (patchRegion env ctx key keyCryptoData p)"
  unfolding patchRegion_def by (intro steps_intro)

lemma steps_handleCryptoDetailsUpdate [steps_intro]:
  "ctx_Tenant ctx = Some tn \<Longrightarrow> steps R (handleCryptoDetailsUpdate env ctx keyPatch key)"
  unfolding handleCryptoDetailsUpdate_def by (intro steps_intro)

lemma steps_handleSystemsOnKeyRotation [steps_intro]:
  "TabEvents \<in> W \<Longrightarrow> ctx_Tenant ctx = Some tn \<Longrightarrow> steps R (handleSystemsOnKeyRotation env ctx key)"
  unfolding handleSystemsOnKeyRotation_def by (intro steps_intro)

lemma steps_handleNewKeyVersion [steps_intro]:
  "TabEvents \<in> W \<Longrightarrow> TabKeyVersions \<in> W \<Longrightarrow> ctx_Tenant ctx = Some tn \<Longrightarrow> steps R (handleNewKeyVersion env ctx key versions)"
  unfolding handleNewKeyVersion_def by (intro steps_intro)

lemma steps_syncKeyVersions [steps_intro]:
  "TabEvents \<in> W \<Longrightarrow> TabKeyVersions \<in> W \<Longrightarrow> ctx_Tenant ctx = Some tn \<Longrightarrow> steps R (syncKeyVersions env ctx key)"
  unfolding syncKeyVersions_def by (intro steps_intro)

lemma steps_handleKeyStateTransition [steps_intro]:
  "ctx_Tenant ctx = Some tn \<Longrightarrow> steps R (handleKeyStateTransition env ctx key oldKeyState)"
  unfolding handleKeyStateTransition_def by (cases "key_State key"; simp only: KeyState.case; intro steps_intro)

lemma steps_observeHYOKKey [steps_intro]:
  "TabEvents \<in> W \<Longrightarrow> TabKeyVersions \<in> W \<Longrightarrow> ctx_Tenant ctx = Some tn \<Longrightarrow> steps R (observeHYOKKey env ctx key)"
  unfolding observeHYOKKey_def by (intro steps_intro)

lemma steps_syncHYOKKeyState [steps_intro]:
  "TabEvents \<in> W \<Longrightarrow> TabKeyVersions \<in> W \<Longrightarrow> TabKeys \<in> W \<Longrightarrow> ctx_Tenant ctx = Some tn \<Longrightarrow> steps R (syncHYOKKeyState env ctx key)"
  unfolding syncHYOKKeyState_def by (intro steps_intro)

lemma steps_SyncHYOKKeys [steps_intro]:
  "TabEvents \<in> W \<Longrightarrow> TabKeyVersions \<in> W \<Longrightarrow> TabKeys \<in> W \<Longrightarrow> ctx_Tenant ctx = Some tn \<Longrightarrow> steps R (SyncHYOKKeys env ctx)"
  unfolding SyncHYOKKeys_def by (intro steps_intro)

lemma steps_setEditableStatus [steps_intro]:
  "ctx_Tenant ctx = Some tn \<Longrightarrow> steps R (setEditableStatus env ctx key)"
  unfolding setEditableStatus_def by (intro steps_intro)

lemma steps_Get [steps_intro]:
  "TabEvents \<in> W \<Longrightarrow> TabKeyVersions \<in> W \<Longrightarrow> TabKeys \<in> W \<Longrightarrow> ctx_Tenant ctx = Some tn \<Longrightarrow> steps R (Get env ctx keyID)"
  unfolding Get_def by (intro steps_intro)

lemma steps_GetKeys [steps_intro]:
  "ctx_Tenant ctx = Some tn \<Longrightarrow> steps R (GetKeys env ctx keyConfigID pagination)"
  unfolding GetKeys_def by (intro steps_intro)

lemma steps_validateKeyCreation [steps_intro]:
  "ctx_Tenant ctx = Some tn \<Longrightarrow> steps R (validateKeyCreation env ctx key)"
  unfolding validateKeyCreation_def by (intro steps_intro)

lemma steps_setPrimaryIfFirstKey [steps_intro]:
  "TabKeyConfigurations \<in> W \<Longrightarrow> ctx_Tenant ctx = Some tn \<Longrightarrow> steps R (setPrimaryIfFirstKey env ctx key)"
  unfolding setPrimaryIfFirstKey_def by (intro steps_intro)

lemma steps_enqueuePendingStateSync [steps_intro]:
  "steps R (enqueuePendingStateSync env key)"
  unfolding enqueuePendingStateSync_def by (intro steps_intro)

lemma steps_createPendingBYOKKeyIfNeeded [steps_intro]:
  "TabKeys \<in> W \<Longrightarrow> ctx_Tenant ctx = Some tn \<Longrightarrow> steps R (createPendingBYOKKeyIfNeeded env ctx key)"
  unfolding createPendingBYOKKeyIfNeeded_def by (intro steps_intro)

lemma steps_registerHYOKKey [steps_intro]:
  "ctx_Tenant ctx = Some tn \<Longrightarrow> steps R (registerHYOKKey env ctx key)"
  unfolding registerHYOKKey_def by (intro steps_intro)

lemma steps_createOrRegisterProviderKey [steps_intro]:
  "ctx_Tenant ctx = Some tn \<Longrightarrow> steps R (createOrRegisterProviderKey env ctx key)"
  unfolding createOrRegisterProviderKey_def by (intro steps_intro)

lemma steps_persistKeyTx [steps_intro]:
  "TabEvents \<in> W \<Longrightarrow> TabKeyConfigurations \<in> W \<Longrightarrow> TabKeyVersions \<in> W \<Longrightarrow> TabKeys \<in> W \<Longrightarrow> ctx_Tenant ctx = Some tn \<Longrightarrow> steps R (persistKeyTx env key ctx)"
  unfolding persistKeyTx_def by (intro steps_intro)

lemma steps_persistCreatedKey [steps_intro]:
  "TabEvents \<in> W \<Longrightarrow> TabKeyConfigurations \<in> W \<Longrightarrow> TabKeyVersions \<in> W \<Longrightarrow> TabKeys \<in> W \<Longrightarrow> ctx_Tenant ctx = Some tn \<Longrightarrow> steps R (persistCreatedKey env ctx key)"
  unfolding persistCreatedKey_def by (intro steps_intro)

lemma steps_Create_key [steps_intro]:
  "TabEvents \<in> W \<Longrightarrow> TabKeyConfigurations \<in> W \<Longrightarrow> TabKeyVersions \<in> W \<Longrightarrow> TabKeys \<in> W \<Longrightarrow> ctx_Tenant ctx = Some tn \<Longrightarrow> steps R (Create_key env ctx key)"
  unfolding Create_key_def by (intro steps_intro)

lemma steps_enableKey [steps_intro]:
  "ctx_Tenant ctx = Some tn \<Longrightarrow> steps R (enableKey env ctx key)"
  unfolding enableKey_def by (intro steps_intro)

lemma steps_disableKey [steps_intro]:
  "ctx_Tenant ctx = Some tn \<Longrightarrow> steps R (disableKey env ctx key)"
  unfolding disableKey_def by (intro steps_intro)

lemma steps_applyKeyPatch [steps_intro]:
  "TabKeys \<in> W \<Longrightarrow> ctx_Tenant ctx = Some tn \<Longrightarrow> steps R (applyKeyPatch env ctx key keyPatch enablementUpdated)"
  unfolding applyKeyPatch_def by (intro steps_intro)

lemma steps_UpdateKey [steps_intro]:
  "TabEvents \<in> W \<Longrightarrow> TabKeyVersions \<in> W \<Longrightarrow> TabKeys \<in> W \<Longrightarrow> ctx_Tenant ctx = Some tn \<Longrightarrow> steps R (UpdateKey env ctx keyID keyPatch)"
  unfolding UpdateKey_def by (intro steps_intro)

lemma steps_deleteKeyTx [steps_intro]:
  "TabImportParams \<in> W \<Longrightarrow> TabKeyVersions \<in> W \<Longrightarrow> TabKeys \<in> W \<Longrightarrow> ctx_Tenant ctx = Some tn \<Longrightarrow> steps R (deleteKeyTx env keyID ctx)"
  unfolding deleteKeyTx_def by (intro steps_intro)

lemma steps_Delete_key [steps_intro]:
  "TabEvents \<in> W \<Longrightarrow> TabImportParams \<in> W \<Longrightarrow> TabKeyVersions \<in> W \<Longrightarrow> TabKeys \<in> W \<Longrightarrow> ctx_Tenant ctx = Some tn \<Longrightarrow> steps R (Delete_key env ctx keyID)"
  unfolding Delete_key_def by (intro steps_intro)

lemma steps_Detach [steps_intro]:
  "TabKeys \<in> W \<Longrightarrow> ctx_Tenant ctx = Some tn \<Longrightarrow> steps R (Detach env ctx key)"
  unfolding Detach_def by (intro steps_intro)

lemma steps_validateBYOKKey [steps_intro]:
  "ctx_Tenant ctx = Some tn \<Longrightarrow> steps R (validateBYOKKey env ctx keyID action)"
  unfolding validateBYOKKey_def by (intro steps_intro)

lemma steps_fetchImportParams [steps_intro]:
  "TabImportParams \<in> W \<Longrightarrow> ctx_Tenant ctx = Some tn \<Longrightarrow> steps R (fetchImportParams env ctx key)"
  unfolding fetchImportParams_def by (intro steps_intro)

lemma steps_GetImportParams [steps_intro]:
  "TabImportParams \<in> W \<Longrightarrow> ctx_Tenant ctx = Some tn \<Longrightarrow> steps R (GetImportParams env ctx keyID)"
  unfolding GetImportParams_def by (intro steps_intro)

lemma steps_importProviderKeyMaterial [steps_intro]:
  "ctx_Tenant ctx = Some tn \<Longrightarrow> steps R (importProviderKeyMaterial env ctx key)"
  unfolding importProviderKeyMaterial_def by (intro steps_intro)

lemma steps_importKeyTx [steps_intro]:
  "TabImportParams \<in> W \<Longrightarrow> TabKeys \<in> W \<Longrightarrow> ctx_Tenant ctx = Some tn \<Longrightarrow> steps R (importKeyTx env key ctx)"
  unfolding importKeyTx_def by (intro steps_intro)

lemma steps_ImportKeyMaterial [steps_intro]:
  "TabImportParams \<in> W \<Longrightarrow> TabKeys \<in> W \<Longrightarrow> ctx_Tenant ctx = Some tn \<Longrightarrow> steps R (ImportKeyMaterial env ctx keyID wrappedKeyMaterial)"
  unfolding ImportKeyMaterial_def by (intro steps_intro)

lemma steps_transitionPendingKeyToError [steps_intro]:
  "TabKeys \<in> W \<Longrightarrow> ctx_Tenant ctx = Some tn \<Longrightarrow> steps R (transitionPendingKeyToError env ctx key code)"
  unfolding transitionPendingKeyToError_def by (intro steps_intro)

lemma steps_initProviderForPendingKey [steps_intro]:
  "TabKeys \<in> W \<Longrightarrow> ctx_Tenant ctx = Some tn \<Longrightarrow> steps R (initProviderForPendingKey env ctx key)"
  unfolding initProviderForPendingKey_def by (intro steps_intro)

lemma steps_pendingKeyTx [steps_intro]:
  "TabKeyConfigurations \<in> W \<Longrightarrow> TabKeys \<in> W \<Longrightarrow> ctx_Tenant ctx = Some tn \<Longrightarrow> steps R (pendingKeyTx env key ctx)"
  unfolding pendingKeyTx_def by (intro steps_intro)

lemma steps_syncPendingCreationKey [steps_intro]:
  "TabKeyConfigurations \<in> W \<Longrightarrow> TabKeys \<in> W \<Longrightarrow> ctx_Tenant ctx = Some tn \<Longrightarrow> steps R (syncPendingCreationKey env ctx key)"
  unfolding syncPendingCreationKey_def by (intro steps_intro)

lemma steps_SyncPendingCreationKey [steps_intro]:
  "TabEvents \<in> W \<Longrightarrow> TabKeyConfigurations \<in> W \<Longrightarrow> TabKeyVersions \<in> W \<Longrightarrow> TabKeys \<in> W \<Longrightarrow> ctx_Tenant ctx = Some tn \<Longrightarrow> steps R (SyncPendingCreationKey env ctx keyID)"
  unfolding SyncPendingCreationKey_def by (intro steps_intro)


end

end
