(* ===== verification/Key_Laws.thy ===== *)
theory Key_Laws
  imports Key_Manager
begin

text \<open>
  Correctness of the operations on keys, their versions, labels and import parameters.
\<close>

section \<open>Calls of the key store\<close>

lemma pluginCall_run [run_simps]:
  "pluginCall name arg ans w = (Inr x, w') \<longleftrightarrow>
     ans (tick w) = Inr x \<and> w' = w\<lparr>tick := Suc (tick w), calls := calls w @ [CallProvider name arg]\<rparr>"
  by (auto simp: pluginCall_def logCall_def run_simps)

lemma pluginCommand_run [run_simps]:
  "pluginCommand env name arg w = (Inr u, w') \<longleftrightarrow>
     prov_Command env (tick w) name arg = None \<and>
     w' = w\<lparr>tick := Suc (tick w), calls := calls w @ [CallProvider name arg]\<rparr>"
  by (auto simp: pluginCommand_def run_simps split: option.splits)

lemma deref_run [run_simps]: "deref p w = (Inr x, w') \<longleftrightarrow> p = Some x \<and> w' = w"
  by (auto simp: deref_def run_simps split: option.splits)

lemma GetOrInitProvider_run [run_simps]:
  "GetOrInitProvider env ctx key w = (Inr u, w') \<longleftrightarrow>
     prov_init env (tick w) key = None \<and> w' = w\<lparr>tick := Suc (tick w)\<rparr>"
  by (auto simp: GetOrInitProvider_def failing_def run_simps split: option.splits prod.splits)

text \<open>the number of attempts to create a key is bounded\<close>

lemma retryCreateKey_calls:
  assumes "retryCreateKey n env key w = (r, w')"
  shows "\<exists>k \<le> n. (n > 0 \<longrightarrow> k > 0) \<and> tick w' = tick w + k \<and> calls w' = calls w @ replicate k
    (CallProvider ''CreateKey'' (uuid_String env (key_ID key)))"
  using assms
proof (induction n arbitrary: w)
  case 0
  then show ?case by (simp add: throwC_def)
next
  case (Suc n)
  define c where "c = CallProvider ''CreateKey'' (uuid_String env (key_ID key))"
  define w1 where "w1 = w\<lparr>tick := Suc (tick w), calls := calls w @ [c]\<rparr>"
  have p: "pluginCall ''CreateKey'' (uuid_String env (key_ID key)) (\<lambda>n. prov_CreateKey env n key) w =
      (prov_CreateKey env (tick w) key, w1)"
    by (simp add: pluginCall_def logCall_def comp_defs tick_of_def w1_def c_def)
  consider "w' = w1" | "retryCreateKey n env key w1 = (r, w')" "n > 0"
    using Suc.prems p by (auto simp: tryC_def returnC_def throwC_def split: sum.splits if_splits)
  then show ?case
  proof cases
    case 1
    then show ?thesis by (intro exI[of _ 1]) (auto simp: w1_def c_def)
  next
    case 2
    from Suc.IH[OF this(1)] 2(2) obtain k where "k \<le> n" "k > 0" "tick w' = tick w1 + k"
      "calls w' = calls w1 @ replicate k c" by (auto simp: c_def)
    then show ?thesis by (intro exI[of _ "Suc k"]) (simp add: w1_def c_def)
  qed
qed

section \<open>Rows of keys\<close>

lemma PatchKey_run:
  assumes "PatchKey env ctx key w = (Inr u, w')"
  shows "calls w' = calls w \<and> db ctx w' = (db ctx w)\<lparr>keys := row_upd (\<lambda>k. key_ID k = key_ID key) (Key_merge key) (keys (db ctx w))\<rparr>"
  using assms by (auto simp: PatchKey_def run_simps dest!: Patch_run dest: wrote_calls)

lemma SaveKey_run:
  assumes "SaveKey env ctx key w = (Inr u, w')"
  shows "calls w' = calls w \<and> db ctx w' = (db ctx w)\<lparr>keys := row_upd (\<lambda>k. key_ID k = key_ID key) (\<lambda>_. key_row key) (keys (db ctx w))\<rparr>"
  using assms by (auto simp: SaveKey_def run_simps dest!: Patch_run dest: wrote_calls)

lemma InsertKey_run:
  assumes "InsertKey env ctx key w = (Inr key', w')"
  shows "calls w' = calls w" "db ctx w' = (db ctx w)\<lparr>keys := keys (db ctx w) @ [key_row key']\<rparr>"
    "key' = key\<lparr>key_CreatedAt := key_CreatedAt key'\<rparr>"
    "key_ID key \<notin> key_ID ` set (keys (db ctx w))"
  using assms
  by (auto simp: InsertKey_def run_simps Let_def T_keys_def key_row_def split: if_splits
      dest!: Create_run dest: wrote_calls)

lemma Key_merge_simps [simp]:
  "key_ID (Key_merge m r) = key_ID r" "key_State (Key_merge m r) = key_State m"
  "key_KeyType (Key_merge m r) = key_KeyType m"
  by (simp_all add: Key_merge_def)

lemma key_row_simps [simp]:
  "key_ID (key_row k) = key_ID k" "key_State (key_row k) = key_State k"
  "key_KeyType (key_row k) = key_KeyType k" "key_KeyConfigurationID (key_row k) = key_KeyConfigurationID k"
  "key_NativeID (key_row k) = key_NativeID k" "key_CryptoAccessData (key_row k) = key_CryptoAccessData k"
  "key_row (key_row k) = key_row k" "key_Provider (key_row k) = key_Provider k" "key_CreatedAt (key_row k) = key_CreatedAt k"
  by (simp_all add: key_row_def)

section \<open>The state of keys in a customer's key store\<close>

text \<open>
  What a synchronisation may find: the state the key store reports, or one of three states that
  stand for the ways it can fail. The state before the synchronisation is never kept on a failure.
\<close>

lemma observeHYOKKey_run:
  assumes "observeHYOKKey env ctx key w = (Inr key', w')"
  shows "key' = key\<lparr>key_State := key_State key'\<rparr> \<and>
    (key_State key' \<in> {KeyStateFORBIDDEN, KeyStateDELETED, KeyStateUNKNOWN} \<or>
     (\<exists>n nid pk. key_NativeID key = Some nid \<and> prov_GetKey env n key nid = Inr pk \<and> key_State key' = pk_Status pk))"
proof -
  obtain ini w1 where i: "GetOrInitProvider env ctx key w = (ini, w1)" by fastforce
  show ?thesis
  proof (cases "getKeyFromProvider env (\<not> isl ini) key w1")
    case (Pair r w2)
    show ?thesis
    proof (cases r)
      case (Inl err)
      then have k: "key' = key\<lparr>key_State := getKeyStateOnSyncError key err\<rparr>" "\<not> errs_Is err ''panic''"
        using assms i Pair by (auto simp: observeHYOKKey_def tryC_def returnC_def throwC_def split: if_splits)
      have "IsAnyError err [''ErrFailedToInitProvider'', ''ErrGetProviderKey'']"
        using Pair Inl k(2)
        by (auto simp: getKeyFromProvider_def deref_def IsAnyError_def throwC_def bindC_run_err wrapC_run_err run_simps
            split: if_splits option.splits)
      then show ?thesis using k by (auto simp: getKeyStateOnSyncError_def)
    next
      case (Inr pk)
      then obtain nid where "key_NativeID key = Some nid" "prov_GetKey env (tick w1) key nid = Inr pk"
        using Pair by (auto simp: getKeyFromProvider_def run_simps split: if_splits)
      moreover have "key' = key\<lparr>key_State := pk_Status pk\<rparr>"
        using assms i Pair Inr by (auto simp: observeHYOKKey_def tryC_def Let_def run_simps)
      ultimately show ?thesis by auto
    qed
  qed
qed

lemma syncHYOKKeyState_run:
  assumes run: "syncHYOKKeyState env ctx key w = (Inr key', w')" and tn: "ctx_Tenant ctx = Some tn"
  shows "key_KeyType key = KeyTypeHYOK" "key' = key\<lparr>key_State := key_State key'\<rparr>"
    "\<exists>u v. observeHYOKKey env ctx key u = (Inr key', v)"
    "keys (db ctx w') = (if key_State key' = key_State key then keys (db ctx w)
       else row_upd (\<lambda>k. key_ID k = key_ID key) (Key_merge key') (keys (db ctx w)))"
    "changes {TabKeys, TabKeyVersions, TabEvents} (db ctx w) (db ctx w')"
proof -
  show hyok: "key_KeyType key = KeyTypeHYOK"
    using run by (auto simp: syncHYOKKeyState_def run_simps split: if_splits)
  obtain w1 where o: "observeHYOKKey env ctx key w = (Inr key', w1)"
    and rest: "w' = w1 \<and> key_State key = key_State key' \<or> key_State key \<noteq> key_State key' \<and>
      Transaction env ctx (\<lambda>ctx. bindC (PatchKey env ctx key') (\<lambda>_.
        handleKeyStateTransition env ctx key' (key_State key))) w1 = (Inr (), w')"
    using run hyok by (auto simp: syncHYOKKeyState_def run_simps split: if_splits)
  show k: "key' = key\<lparr>key_State := key_State key'\<rparr>" using observeHYOKKey_run[OF o] by blast
  then have i: "key_ID key' = key_ID key" by (metis Key.select_convs(1) Key.surjective Key.update_convs(9))
  show "\<exists>u v. observeHYOKKey env ctx key u = (Inr key', v)" using o by blast
  have ch1: "changes {TabKeyVersions, TabEvents} (db ctx w) (db ctx w1)"
    by (rule only_run[OF tab.steps_observeHYOKKey o]) (simp_all add: tn)
  have "changes {TabKeys, TabKeyVersions, TabEvents} (db ctx w) (db ctx w')"
    by (rule only_run[OF tab.steps_syncHYOKKeyState run]) (simp_all add: tn)
  then show "changes {TabKeys, TabKeyVersions, TabEvents} (db ctx w) (db ctx w')" .
  show "keys (db ctx w') = (if key_State key' = key_State key then keys (db ctx w)
       else row_upd (\<lambda>k. key_ID k = key_ID key) (Key_merge key') (keys (db ctx w)))"
  proof (cases "key_State key' = key_State key")
    case True
    then show ?thesis using rest ch1 by (simp add: changes_def)
  next
    case False
    then have tx: "Transaction env ctx (\<lambda>ctx. bindC (PatchKey env ctx key') (\<lambda>_.
        handleKeyStateTransition env ctx key' (key_State key))) w1 = (Inr (), w')" using rest by simp
    obtain w2 w3 w4 where t: "same_data w1 w2" "same_data w4 w'"
      and p: "PatchKey env (ctx\<lparr>ctx_tx := True\<rparr>) key' w2 = (Inr (), w3)"
      and h: "handleKeyStateTransition env (ctx\<lparr>ctx_tx := True\<rparr>) key' (key_State key) w3 = (Inr (), w4)"
      by (rule Transaction_step[OF tx]) (auto simp: run_simps)
    have "db ctx w4 = db ctx w3"
      by (rule ro_run[OF ro.steps_handleKeyStateTransition h]) (simp add: tn)
    then show ?thesis
      using PatchKey_run[OF p] t[THEN same_data_db, of ctx] False ch1 i by (simp add: changes_def)
  qed
qed

section \<open>Reading a key\<close>

text \<open>the regions of the crypto access data that may be edited\<close>

lemma foldl_aset:
  "map_of (foldl (\<lambda>m x. aset (f x) (g x) m) m xs) r =
     (case filter (\<lambda>x. f x = r) xs of [] \<Rightarrow> map_of m r | _ \<Rightarrow> Some (g (last (filter (\<lambda>x. f x = r) xs))))"
  by (induction xs arbitrary: m) (auto split: list.splits)

lemma static_regions:
  "map_of (foldl (\<lambda>m (region, _). aset region b m) m data) r =
     (if r \<in> fst ` set data then Some b else map_of m r)"
  by (induction data arbitrary: m) auto

lemma setEditableStatus_cases:
  assumes "setEditableStatus env ctx key w = (Inr key', w')"
  obtains (none) "key_CryptoAccessData key = None" "key' = key" "same_data w w'"
    | (static) data where "key_CryptoAccessData key = Some data"
        "\<not> key_IsPrimary key \<or> key_KeyType key \<noteq> KeyTypeHYOK"
        "key' = key\<lparr>key_EditableRegions := foldl (\<lambda>m (region, _). aset region (key_KeyType key = KeyTypeHYOK) m)
          (key_EditableRegions key) data\<rparr>" "same_data w w'"
    | (loop) data where "key_CryptoAccessData key = Some data" "key_IsPrimary key" "key_KeyType key = KeyTypeHYOK"
        "key' = key\<lparr>key_EditableRegions := foldl (\<lambda>m s. aset (sys_Region s) (sys_Status s = SystemStatusFAILED) m)
          (foldl (\<lambda>m (region, _). aset region True m) (key_EditableRegions key) data)
          (filter (\<lambda>s. sys_KeyConfigurationID s = Some (key_KeyConfigurationID key)) (systems (db ctx w)))\<rparr>"
        "same_data w w'"
proof (cases "key_CryptoAccessData key")
  case None
  then show ?thesis using assms by (intro none) (auto simp: setEditableStatus_def run_simps)
next
  case (Some data)
  show ?thesis
  proof (cases "key_IsPrimary key \<and> key_KeyType key = KeyTypeHYOK")
    case False
    then show ?thesis
      using assms Some by (intro static[OF Some]) (auto simp: setEditableStatus_def run_simps Let_def)
  next
    case True
    then obtain e where e: "ProcessInBatchFold env ctx T_systems []
         (\<lambda>_ s. sys_KeyConfigurationID s = Some (key_KeyConfigurationID key)) DefaultLimit
         (\<lambda>m ss. returnC (foldl (\<lambda>m s. aset (sys_Region s) (sys_Status s = SystemStatusFAILED) m) m ss))
         (foldl (\<lambda>m (region, _). aset region True m) (key_EditableRegions key) data) w = (Inr e, w')"
      "key' = key\<lparr>key_EditableRegions := e\<rparr>"
      using assms Some by (auto simp: setEditableStatus_def bindC_run returnC_run Let_def)
    show ?thesis
      using ProcessInBatchFold_collect[OF e(1)] e(2) True
      by (intro loop[OF Some]) (simp_all add: DefaultLimit_def matching_def)
  qed
qed

lemma setEditableStatus_run:
  assumes "setEditableStatus env ctx key w = (Inr key', w')"
  shows "same_data w w' \<and> key' = key\<lparr>key_EditableRegions := key_EditableRegions key'\<rparr>"
  using assms by (cases rule: setEditableStatus_cases) simp_all

lemma setEditableStatus_regions:
  assumes "setEditableStatus env ctx key w = (Inr key', w')"
    and data: "key_CryptoAccessData key = Some data" "key_EditableRegions key = []"
  defines "ss r \<equiv> filter (\<lambda>s. sys_KeyConfigurationID s = Some (key_KeyConfigurationID key) \<and> sys_Region s = r)
    (systems (db ctx w))"
  shows "map_of (key_EditableRegions key') r =
      (if key_IsPrimary key \<and> key_KeyType key = KeyTypeHYOK \<and> ss r \<noteq> []
       then Some (sys_Status (last (ss r)) = SystemStatusFAILED)
       else if r \<in> fst ` set data then Some (key_KeyType key = KeyTypeHYOK) else None)"
  using assms(1)
proof (cases rule: setEditableStatus_cases)
  case (loop data')
  have "filter (\<lambda>s. sys_Region s = r) (filter (\<lambda>s. sys_KeyConfigurationID s = Some (key_KeyConfigurationID key))
      (systems (db ctx w))) = ss r"
    by (simp add: ss_def conj_commute)
  then show ?thesis
    using loop data by (auto simp: foldl_aset static_regions split: list.split)
next
  case (static data')
  then show ?thesis using data by (auto simp: static_regions)
qed (use data in simp)

text \<open>the state of a key in a customer's key store is refreshed when the key is read\<close>

lemma refresh_run:
  assumes s: "(case key_KeyType k of KeyTypeBYOK \<Rightarrow> returnC ((key_row k)\<lparr>key_IsPrimary := prim\<rparr>)
       | KeyTypeHYOK \<Rightarrow> syncHYOKKeyState env ctx ((key_row k)\<lparr>key_IsPrimary := prim\<rparr>)) w = (Inr key, w')"
    and tn: "ctx_Tenant ctx = Some tn"
  shows "key_row key = (key_row k)\<lparr>key_State := key_State key\<rparr>" "key_IsPrimary key = prim"
    "key_EditableRegions key = []" "key_CryptoAccessData key = key_CryptoAccessData k"
    "changes {TabKeys, TabKeyVersions, TabEvents} (db ctx w) (db ctx w')"
    "map key_ID (keys (db ctx w')) = map key_ID (keys (db ctx w))"
    "key_KeyType k = KeyTypeBYOK \<Longrightarrow> key_State key = key_State k \<and> w' = w"
proof -
  have *: "key = (key_row k)\<lparr>key_IsPrimary := prim, key_State := key_State key\<rparr> \<and>
      changes {TabKeys, TabKeyVersions, TabEvents} (db ctx w) (db ctx w') \<and>
      map key_ID (keys (db ctx w')) = map key_ID (keys (db ctx w)) \<and>
      (key_KeyType k = KeyTypeBYOK \<longrightarrow> key_State key = key_State k \<and> w' = w)"
  proof (cases "key_KeyType k")
    case KeyTypeBYOK
    then show ?thesis using s by (auto simp: run_simps)
  next
    case KeyTypeHYOK
    then have y: "syncHYOKKeyState env ctx ((key_row k)\<lparr>key_IsPrimary := prim\<rparr>) w = (Inr key, w')"
      using s by simp
    show ?thesis using syncHYOKKeyState_run(2,4,5)[OF y tn] KeyTypeHYOK by (auto simp: row_upd_def)
  qed
  show "key_row key = (key_row k)\<lparr>key_State := key_State key\<rparr>"
    by (subst *[THEN conjunct1]) (simp add: key_row_def)
  show "key_IsPrimary key = prim" "key_EditableRegions key = []" "key_CryptoAccessData key = key_CryptoAccessData k"
    by (subst *[THEN conjunct1], simp add: key_row_def)+
  show "changes {TabKeys, TabKeyVersions, TabEvents} (db ctx w) (db ctx w')"
    "map key_ID (keys (db ctx w')) = map key_ID (keys (db ctx w))"
    "key_KeyType k = KeyTypeBYOK \<Longrightarrow> key_State key = key_State k \<and> w' = w"
    using * by simp_all
qed

lemma Get_run:
  assumes run: "Get env ctx i w = (Inr key, w')" and tn: "ctx_Tenant ctx = Some tn"
  obtains k where "k \<in> set (keys (db ctx w))" "key_ID k = i" "find (\<lambda>k. key_ID k = i) (keys (db ctx w)) = Some k"
    "key_row key = (key_row k)\<lparr>key_State := key_State key\<rparr>"
    "key_IsPrimary key \<longleftrightarrow> primary_key (db ctx w) (key_KeyConfigurationID k) = Some i"
    "ctx_UserType ctx = Some InternalUser \<or> kc_access ctx (db ctx w) APIActionRead (key_KeyConfigurationID k)"
    "key_KeyType k = KeyTypeBYOK \<Longrightarrow> key_State key = key_State k \<and> db ctx w' = db ctx w \<and> calls w' = calls w"
    "changes {TabKeys, TabKeyVersions, TabEvents} (db ctx w) (db ctx w')"
    "map key_ID (keys (db ctx w')) = map key_ID (keys (db ctx w))"
    "key_CryptoAccessData k = None \<Longrightarrow> key_EditableRegions key = []"
proof -
  obtain k w1 prim w2 b w3 key1 w4 where
      f: "First_join env ctx T_keys [RepoResourceTypeKeyversion] (\<lambda>_ k. key_ID k = i) w = (Inr k, w1)"
    and p: "IsPrimaryKey env ctx k w1 = (Inr prim, w2)"
    and a: "HasKeyAccess env ctx APIActionRead (key_KeyConfigurationID k) w2 = (Inr b, w3)"
    and s: "(case key_KeyType k of KeyTypeBYOK \<Rightarrow> returnC ((key_row k)\<lparr>key_IsPrimary := prim\<rparr>)
       | KeyTypeHYOK \<Rightarrow> syncHYOKKeyState env ctx ((key_row k)\<lparr>key_IsPrimary := prim\<rparr>)) w3 = (Inr key1, w4)"
    and e: "setEditableStatus env ctx key1 w4 = (Inr key, w')"
    using run by (auto simp: Get_def bindC_run wrapC_run Let_def)
  note f' = First_join_run[OF f] and fk = First_join_found[OF f] and p' = IsPrimaryKey_run[OF p]
    and a' = HasKeyAccess_run[OF a] and e' = setEditableStatus_run[OF e] and s' = refresh_run[OF s tn]
  have d3: "db ctx w3 = db ctx w" "calls w3 = calls w" using f' p' a' by (auto simp: same_db_def same_data_def)
  have dw: "db ctx w' = db ctx w4" "calls w' = calls w4"
    using e' same_data_db[of w4 w' ctx] by (auto simp: same_data_def)
  have key: "key_row key = key_row key1 \<and> key_State key = key_State key1 \<and> key_IsPrimary key = key_IsPrimary key1"
    using e' by (metis (no_types, lifting) Key.ext_inject Key.surjective Key.update_convs(17) key_row_def Key.update_convs(16))
  show ?thesis
  proof (rule that[of k])
    show "key_CryptoAccessData k = None \<Longrightarrow> key_EditableRegions key = []"
      using s' e by (auto simp: setEditableStatus_def returnC_def)
    show "changes {TabKeys, TabKeyVersions, TabEvents} (db ctx w) (db ctx w')"
      "map key_ID (keys (db ctx w')) = map key_ID (keys (db ctx w))"
      unfolding dw(1) using s'(5,6) d3 by simp_all
    show "key_KeyType k = KeyTypeBYOK \<Longrightarrow> key_State key = key_State k \<and> db ctx w' = db ctx w \<and> calls w' = calls w"
      unfolding dw using s'(7) d3 key by simp
  qed (use fk f' a' p' key s' in simp_all)
qed

section \<open>Deleting a key\<close>

lemma deleteKeyTx_run:
  assumes "deleteKeyTx env i ctx w = (Inr u, w')"
  shows "\<not> (\<exists>l \<in> set (key_labels (db ctx w)). kl_ResourceID l = i)" "calls w' = calls w"
    "db ctx w' = (db ctx w)\<lparr>keys := filter (\<lambda>k. key_ID k \<noteq> i) (keys (db ctx w)),
       key_versions := filter (\<lambda>v. kv_KeyID v \<noteq> i) (key_versions (db ctx w)),
       import_params := filter (\<lambda>p. ip_KeyID p \<noteq> i) (import_params (db ctx w))\<rparr>"
proof -
  obtain b w1 b' where v: "Delete env ctx T_key_versions Some (\<lambda>v. kv_KeyID v = i) w = (Inr b, w1)"
    and k: "Delete env ctx T_keys (key_refs i) (\<lambda>k. key_ID k = i) w1 = (Inr b', w')"
    using assms by (auto simp: deleteKeyTx_def run_simps)
  have d1: "db ctx w1 = (db ctx w)\<lparr>key_versions := filter (\<lambda>v. kv_KeyID v \<noteq> i) (key_versions (db ctx w))\<rparr>"
    using Delete_run[OF v] by auto
  obtain d where d: "key_refs i (db ctx w1) = Some d" "db ctx w' = keys_update (filter (\<lambda>k. key_ID k \<noteq> i)) d"
    using Delete_run[OF k] by auto
  show "\<not> (\<exists>l \<in> set (key_labels (db ctx w)). kl_ResourceID l = i)"
    using d(1) d1 by (auto simp: key_refs_def split: if_splits)
  show "calls w' = calls w"
    using Delete_run[OF v] Delete_run[OF k] by (auto dest!: wrote_calls)
  show "db ctx w' = (db ctx w)\<lparr>keys := filter (\<lambda>k. key_ID k \<noteq> i) (keys (db ctx w)),
       key_versions := filter (\<lambda>v. kv_KeyID v \<noteq> i) (key_versions (db ctx w)),
       import_params := filter (\<lambda>p. ip_KeyID p \<noteq> i) (import_params (db ctx w))\<rparr>"
    using d d1 by (auto simp: key_refs_def split: if_splits)
qed

text \<open>the stages of a successful deletion: reading, the guard, the transaction, the audit log\<close>

lemma Delete_key_stages:
  assumes run: "Delete_key env ctx i w = (Inr u, w')" and tn: "ctx_Tenant ctx = Some tn"
  obtains key w1 v v' where "Get env ctx i w = (Inr key, w1)" "db ctx v = db ctx w1"
    "key_IsPrimary key \<Longrightarrow> \<not> (\<exists>s \<in> set (systems (db ctx w1)). sys_KeyConfigurationID s = Some (key_KeyConfigurationID key))"
    "deleteKeyTx env i (ctx\<lparr>ctx_tx := True\<rparr>) v = (Inr (), v')" "db ctx w' = db ctx v'"
    "calls w' = calls v' @ [CallAudit ''CmkDelete'' (key_ID key)]"
proof -
  obtain key w1 ex w2 where g: "Get env ctx i w = (Inr key, w1)"
    and c: "(if key_IsPrimary key then HasConnectedSystems env ctx (key_KeyConfigurationID key)
            else returnC False) w1 = (Inr ex, w2)"
    and r: "(if ex then throwC [E ''ErrDeleteKey'', E ''ErrConnectedSystemToKeyConfig'']
     else bindC (deleteProviderKey env ctx key) (\<lambda>_.
       bindC (wrapC ''ErrDeleteKey'' (Transaction env ctx (deleteKeyTx env i))) (\<lambda>_.
       sendDeleteAuditLog key))) w2 = (Inr u, w')"
    using run by (auto simp: Delete_key_def bindC_run wrapC_run)
  obtain w3 w4 where ex: "\<not> ex" and p: "deleteProviderKey env ctx key w2 = (Inr (), w3)"
    and t: "Transaction env ctx (deleteKeyTx env i) w3 = (Inr (), w4)"
    and l: "sendDeleteAuditLog key w4 = (Inr u, w')"
    using r by (auto simp: bindC_run wrapC_run throwC_run split: if_split_asm)
  have d2: "db ctx w2 = db ctx w1" and guard: "key_IsPrimary key \<Longrightarrow>
      \<not> (\<exists>s \<in> set (systems (db ctx w1)). sys_KeyConfigurationID s = Some (key_KeyConfigurationID key))"
    using c ex by (auto simp: returnC_run split: if_split_asm dest!: HasConnectedSystems_run)
  have d3: "db ctx w3 = db ctx w2" by (rule ro_run[OF ro.steps_deleteProviderKey[OF tn] p])
  obtain v v' where t': "same_data w3 v" "same_data v' w4"
    and tx: "deleteKeyTx env i (ctx\<lparr>ctx_tx := True\<rparr>) v = (Inr (), v')"
    by (rule Transaction_step[OF t])
  show ?thesis
    by (rule that[OF g _ guard tx])
      (use l t'[THEN same_data_db, of ctx] d2 d3 t'(2) in
        \<open>auto simp: sendDeleteAuditLog_def logCall_def run_simps same_data_def\<close>)
qed

text \<open>a successful deletion: what was allowed, and what is left\<close>

lemma Delete_key_run:
  assumes run: "Delete_key env ctx i w = (Inr u, w')" and tn: "ctx_Tenant ctx = Some tn"
  obtains k where "k \<in> set (keys (db ctx w))" "key_ID k = i"
    "ctx_UserType ctx = Some InternalUser \<or> kc_access ctx (db ctx w) APIActionRead (key_KeyConfigurationID k)"
    "primary_key (db ctx w) (key_KeyConfigurationID k) = Some i \<Longrightarrow>
      \<not> (\<exists>s \<in> set (systems (db ctx w)). sys_KeyConfigurationID s = Some (key_KeyConfigurationID k))"
    "\<not> (\<exists>l \<in> set (key_labels (db ctx w)). kl_ResourceID l = i)"
    "map key_ID (keys (db ctx w')) = filter (\<lambda>j. j \<noteq> i) (map key_ID (keys (db ctx w)))"
    "\<forall>v \<in> set (key_versions (db ctx w')). kv_KeyID v \<noteq> i" "\<forall>p \<in> set (import_params (db ctx w')). ip_KeyID p \<noteq> i"
    "changes {TabKeys, TabKeyVersions, TabImportParams, TabEvents} (db ctx w) (db ctx w')"
    "CallAudit ''CmkDelete'' i \<in> set (calls w')"
proof -
  obtain key w1 v v' where g: "Get env ctx i w = (Inr key, w1)" and dv: "db ctx v = db ctx w1"
    and guard: "key_IsPrimary key \<Longrightarrow>
      \<not> (\<exists>s \<in> set (systems (db ctx w1)). sys_KeyConfigurationID s = Some (key_KeyConfigurationID key))"
    and tx: "deleteKeyTx env i (ctx\<lparr>ctx_tx := True\<rparr>) v = (Inr (), v')" and d': "db ctx w' = db ctx v'"
    and l: "calls w' = calls v' @ [CallAudit ''CmkDelete'' (key_ID key)]"
    by (rule Delete_key_stages[OF run tn]) blast
  obtain k where k: "k \<in> set (keys (db ctx w))" "key_ID k = i"
    "key_row key = (key_row k)\<lparr>key_State := key_State key\<rparr>"
    "key_IsPrimary key \<longleftrightarrow> primary_key (db ctx w) (key_KeyConfigurationID k) = Some i"
    "ctx_UserType ctx = Some InternalUser \<or> kc_access ctx (db ctx w) APIActionRead (key_KeyConfigurationID k)"
    "changes {TabKeys, TabKeyVersions, TabEvents} (db ctx w) (db ctx w1)"
    "map key_ID (keys (db ctx w1)) = map key_ID (keys (db ctx w))"
    by (rule Get_run[OF g tn]) blast
  have i: "key_ID key = i" and kc: "key_KeyConfigurationID key = key_KeyConfigurationID k"
    using arg_cong[OF k(3), of key_ID] arg_cong[OF k(3), of key_KeyConfigurationID] k(2) by simp_all
  note dt = deleteKeyTx_run[OF tx]
  show ?thesis
  proof (rule that[OF k(1,2,5)])
    show "\<not> (\<exists>s \<in> set (systems (db ctx w)). sys_KeyConfigurationID s = Some (key_KeyConfigurationID k))"
      if "primary_key (db ctx w) (key_KeyConfigurationID k) = Some i"
      using that guard k(4,6) kc by (simp add: changes_def)
    show "\<not> (\<exists>l \<in> set (key_labels (db ctx w)). kl_ResourceID l = i)"
      using dt(1) dv k(6) by (simp add: changes_def)
    show "map key_ID (keys (db ctx w')) = filter (\<lambda>j. j \<noteq> i) (map key_ID (keys (db ctx w)))"
      using dt(3) d' dv by (simp add: filter_map comp_def k(7)[symmetric])
    show "changes {TabKeys, TabKeyVersions, TabImportParams, TabEvents} (db ctx w) (db ctx w')"
      using dt(3) d' dv k(6) by (simp add: changes_def)
  qed (use dt(3) d' l i in auto)
qed

section \<open>Creating a key\<close>

text \<open>only the first key of a key configuration becomes its primary key\<close>

lemma setPrimaryIfFirstKey_run:
  assumes "setPrimaryIfFirstKey env ctx key w = (Inr u, w')"
  shows "calls w' = calls w"
    "db ctx w' = (if (\<exists>k \<in> set (keys (db ctx w)). key_KeyConfigurationID k = key_KeyConfigurationID key) \<or>
         key_State key = KeyStatePENDINGCREATION then db ctx w
       else (db ctx w)\<lparr>key_configurations := row_upd (\<lambda>kc. kc_ID kc = key_KeyConfigurationID key)
         (\<lambda>kc. kc\<lparr>kc_PrimaryKeyID := Some (key_ID key)\<rparr>) (key_configurations (db ctx w))\<rparr>)"
    "(\<exists>k \<in> set (keys (db ctx w)). key_KeyConfigurationID k = key_KeyConfigurationID key) \<or>
       key_State key \<noteq> KeyStateDISABLED"
proof -
  let ?q = "\<lambda>_ k. key_KeyConfigurationID k = key_KeyConfigurationID key"
  obtain r w1 where f: "First env ctx T_keys ?q w = (r, w1)" by fastforce
  note any = First_join_any[OF f, of ctx]
  have "calls w' = calls w \<and> db ctx w' = (if (\<exists>k \<in> set (keys (db ctx w)). ?q () k) \<or>
         key_State key = KeyStatePENDINGCREATION then db ctx w
       else (db ctx w)\<lparr>key_configurations := row_upd (\<lambda>kc. kc_ID kc = key_KeyConfigurationID key)
         (\<lambda>kc. kc\<lparr>kc_PrimaryKeyID := Some (key_ID key)\<rparr>) (key_configurations (db ctx w))\<rparr>) \<and>
       ((\<exists>k \<in> set (keys (db ctx w)). ?q () k) \<or> key_State key \<noteq> KeyStateDISABLED)"
  proof (cases r)
    case (Inr k)
    then have "w' = w1" using assms f by (auto simp: setPrimaryIfFirstKey_def tryC_def returnC_def)
    then show ?thesis using any First_join_found[OF f[unfolded Inr]] by (auto simp: same_data_def)
  next
    case (Inl e)
    then have nf: "errs_Is e ''repo.ErrNotFound''"
      using assms f by (auto simp: setPrimaryIfFirstKey_def tryC_def throwC_def split: if_splits)
    then have none: "\<not> (\<exists>k \<in> set (keys (db ctx w)). ?q () k)"
      using First_join_notfound[OF f[unfolded Inl]] by (auto simp: find_None_iff)
    show ?thesis
      using assms f Inl nf none any
      by (auto simp: setPrimaryIfFirstKey_def tryC_def run_simps same_data_def split: if_split_asm
          dest!: Patch_run dest: wrote_calls)
  qed
  then show "calls w' = calls w"
    "db ctx w' = (if (\<exists>k \<in> set (keys (db ctx w)). ?q () k) \<or> key_State key = KeyStatePENDINGCREATION then db ctx w
       else (db ctx w)\<lparr>key_configurations := row_upd (\<lambda>kc. kc_ID kc = key_KeyConfigurationID key)
         (\<lambda>kc. kc\<lparr>kc_PrimaryKeyID := Some (key_ID key)\<rparr>) (key_configurations (db ctx w))\<rparr>)"
    "(\<exists>k \<in> set (keys (db ctx w)). ?q () k) \<or> key_State key \<noteq> KeyStateDISABLED" by simp_all
qed

text \<open>
  A key that was inserted while its key store was being prepared is never made primary: when its
  creation is completed, the key itself is found as a key of the configuration.
\<close>

lemma createOrRecoverProviderKey_run:
  assumes "createOrRecoverProviderKey env key w = (Inr key', w')"
  shows "db c w' = db c w"
    "key' = key\<lparr>key_NativeID := key_NativeID key', key_State := key_State key'\<rparr>" "key_NativeID key' \<noteq> None"
  using ro_run[OF ro.steps_createOrRecoverProviderKey assms] assms
  by (auto simp: createOrRecoverProviderKey_def createManagedProviderKey_def
      recoverExistingProviderKey_def tryC_run bindC_run wrapC_run returnC_run throwC_run split: if_split_asm)

lemma pendingKeyTx_run:
  assumes run: "Transaction env ctx (pendingKeyTx env key) w = (Inr u, w')"
    and row: "\<exists>k \<in> set (keys (db ctx w)). key_KeyConfigurationID k = key_KeyConfigurationID key"
  shows "db ctx w' = (db ctx w)\<lparr>keys := row_upd (\<lambda>k. key_ID k = key_ID key) (\<lambda>_. key_row key) (keys (db ctx w))\<rparr>"
proof -
  obtain v v1 v' where t: "same_data w v" "same_data v' w'"
    and sp: "setPrimaryIfFirstKey env (ctx\<lparr>ctx_tx := True\<rparr>) key v = (Inr (), v1)"
    and sv: "SaveKey env (ctx\<lparr>ctx_tx := True\<rparr>) key v1 = (Inr u, v')"
    by (rule Transaction_step[OF run]) (auto simp: pendingKeyTx_def run_simps)
  have "db ctx v1 = db ctx w"
    using setPrimaryIfFirstKey_run(2)[OF sp] row t(1)[THEN same_data_db, of ctx] by simp
  then show ?thesis using SaveKey_run[OF sv] t(2)[THEN same_data_db, of ctx] by simp
qed

lemma syncPendingCreationKey_run:
  assumes run: "syncPendingCreationKey env ctx key w = (Inr u, w')" and tn: "ctx_Tenant ctx = Some tn"
    and row: "\<exists>k \<in> set (keys (db ctx w)). key_KeyConfigurationID k = key_KeyConfigurationID key"
  shows "key_configurations (db ctx w') = key_configurations (db ctx w)"
proof -
  define w1 where "w1 = w\<lparr>tick := Suc (tick w)\<rparr>"
  have d1: "db ctx w1 = db ctx w" by (simp add: w1_def)
  show ?thesis
  proof (cases "clock env (tick w) - key_CreatedAt key > pendingCreationTimeout")
    case True
    then have "transitionPendingKeyToError env ctx key ''PROVISIONING_TIMEOUT'' w1 = (Inr u, w')"
      using run by (auto simp: syncPendingCreationKey_def bindC_run timeNow_run w1_def)
    from only_run[OF tab.steps_transitionPendingKeyToError this, of "{TabKeys}" tn ctx] show ?thesis
      by (simp add: tn d1 changes_def)
  next
    case False
    then obtain b w2 where i: "initProviderForPendingKey env ctx key w1 = (Inr b, w2)"
      and r: "(if \<not> b then returnC () else bindC (createOrRecoverProviderKey env key) (\<lambda>key.
            Transaction env ctx (pendingKeyTx env key))) w2 = (Inr u, w')"
      using run by (auto simp: syncPendingCreationKey_def bindC_run timeNow_run w1_def)
    have c2: "changes {TabKeys} (db ctx w) (db ctx w2)"
      using only_run[OF tab.steps_initProviderForPendingKey i, of "{TabKeys}" tn ctx] by (simp add: tn d1)
    show ?thesis
    proof (cases b)
      case False
      then show ?thesis using r c2 by (simp add: returnC_run changes_def)
    next
      case True
      have d2: "db ctx w2 = db ctx w"
        using i True d1 by (auto simp: initProviderForPendingKey_def tryC_run returnC_run throwC_run bindC_run
            GetOrInitProvider_run split: if_split_asm)
      obtain key' w3 where c: "createOrRecoverProviderKey env key w2 = (Inr key', w3)"
        and t: "Transaction env ctx (pendingKeyTx env key') w3 = (Inr u, w')"
        using r True by (auto simp: bindC_run)
      have "key_KeyConfigurationID key' = key_KeyConfigurationID key" "db ctx w3 = db ctx w"
        using arg_cong[OF createOrRecoverProviderKey_run(2)[OF c], of key_KeyConfigurationID]
          createOrRecoverProviderKey_run(1)[OF c, of ctx] d2 by simp_all
      then show ?thesis using pendingKeyTx_run[OF t] row by simp
    qed
  qed
qed

text \<open>the key configurations after the insertion of a key\<close>

definition with_first_key :: "Key \<Rightarrow> schema \<Rightarrow> KeyConfiguration list" where
  "with_first_key key d =
     (if (\<exists>k \<in> set (keys d). key_KeyConfigurationID k = key_KeyConfigurationID key) \<or>
         key_State key = KeyStatePENDINGCREATION then key_configurations d
      else row_upd (\<lambda>kc. kc_ID kc = key_KeyConfigurationID key)
        (\<lambda>kc. kc\<lparr>kc_PrimaryKeyID := Some (key_ID key)\<rparr>) (key_configurations d))"

definition inserted :: "Key \<Rightarrow> Key \<Rightarrow> schema \<Rightarrow> schema \<Rightarrow> bool" where
  "inserted key key' d d' \<longleftrightarrow> key' = key\<lparr>key_CreatedAt := key_CreatedAt key'\<rparr> \<and>
     key_ID key \<notin> key_ID ` set (keys d) \<and> keys d' = keys d @ [key_row key'] \<and>
     key_configurations d' = with_first_key key d \<and>
     changes {TabKeys, TabKeyConfigurations, TabKeyVersions, TabEvents} d d'"

lemma persistKeyTx_run:
  assumes run: "persistKeyTx env key ctx w = (Inr key', w')" and tn: "ctx_Tenant ctx = Some tn"
  shows "inserted key key' (db ctx w) (db ctx w')"
proof -
  obtain w1 w2 where sp: "setPrimaryIfFirstKey env ctx key w = (Inr (), w1)"
    and ik: "InsertKey env ctx key w1 = (Inr key', w2)"
    and rest: "w' = w2 \<or> syncKeyVersions env ctx key' w2 = (Inr (), w')"
    using run by (auto simp: persistKeyTx_def bindC_run wrapC_run returnC_run split: if_split_asm)
  have "changes {TabKeyVersions, TabEvents} (db ctx w2) (db ctx w')"
    using rest
  proof
    assume s: "syncKeyVersions env ctx key' w2 = (Inr (), w')"
    show ?thesis by (rule only_run[OF tab.steps_syncKeyVersions s]) (simp_all add: tn)
  qed simp
  then show ?thesis
    using setPrimaryIfFirstKey_run(2)[OF sp] InsertKey_run[OF ik]
    by (auto simp: inserted_def with_first_key_def changes_def)
qed

text \<open>\<open>Transaction\<close> passes on what its body achieves on the caller's data\<close>

lemma Transaction_rel:
  assumes "Transaction env ctx body w = (Inr x, w')"
    and "\<And>v v'. body (ctx\<lparr>ctx_tx := True\<rparr>) v = (Inr x, v') \<Longrightarrow> P (db (ctx\<lparr>ctx_tx := True\<rparr>) v) (db (ctx\<lparr>ctx_tx := True\<rparr>) v')"
  shows "P (db ctx w) (db ctx w')"
proof (rule Transaction_step[OF assms(1)])
  fix v v' assume "same_data w v" "body (ctx\<lparr>ctx_tx := True\<rparr>) v = (Inr x, v')" "same_data v' w'"
  then show ?thesis using assms(2)[of v v'] same_data_db[of w v ctx] same_data_db[of v' w' ctx] by simp
qed

lemma validateKeyCreation_run:
  assumes "validateKeyCreation env ctx key w = (Inr u, w')"
  shows "same_db w w' \<and> db ctx w' = db ctx w \<and>
    (\<exists>kc \<in> set (key_configurations (db ctx w)). kc_ID kc = key_KeyConfigurationID key) \<and>
    (ctx_UserType ctx = Some InternalUser \<or> kc_access ctx (db ctx w) APIActionCreate (key_KeyConfigurationID key))"
proof -
  obtain b w1 kc where a: "HasKeyAccess env ctx APIActionCreate (key_KeyConfigurationID key) w = (Inr b, w1)"
    "First env ctx T_key_configurations (\<lambda>_ kc. kc_ID kc = key_KeyConfigurationID key) w1 = (Inr kc, w')"
    using assms by (auto simp: validateKeyCreation_def run_simps)
  then show ?thesis
    using HasKeyAccess_run[OF a(1)] First_join_run[OF a(2)] First_join_found[OF a(2)]
    by (auto intro: same_db_trans)
qed

lemma createPending_run:
  assumes "createPendingBYOKKeyIfNeeded env ctx key w = (Inr (Some key'), w')"
  shows "inserted (key\<lparr>key_State := KeyStatePENDINGCREATION, key_NativeID := None\<rparr>) key' (db ctx w) (db ctx w')"
proof -
  let ?k = "key\<lparr>key_State := KeyStatePENDINGCREATION, key_NativeID := None\<rparr>"
  obtain b w1 where i: "isBYOKProvisioningNeeded env ctx w = (Inr b, w1)"
    and r: "(if \<not> b then returnC None
     else bindC (wrapC ''ErrCreateKeyDB'' (Transaction env ctx (\<lambda>ctx. InsertKey env ctx ?k))) (\<lambda>key'.
          bindC (sendCreateAuditLog key') (\<lambda>_.
          bindC (enqueuePendingStateSync env key') (\<lambda>_. returnC (Some key'))))) w1 = (Inr (Some key'), w')"
    using assms by (auto simp: createPendingBYOKKeyIfNeeded_def bindC_run)
  obtain w2 w3 where t: "Transaction env ctx (\<lambda>ctx. InsertKey env ctx ?k) w1 = (Inr key', w2)"
    and l: "sendCreateAuditLog key' w2 = (Inr (), w3)" "enqueuePendingStateSync env key' w3 = (Inr (), w')"
    using r by (auto simp: bindC_run wrapC_run returnC_run split: if_split_asm)
  have d: "db ctx w1 = db ctx w" "db ctx w' = db ctx w2"
    using i ro_run[OF ro.steps_sendCreateAuditLog l(1), of ctx] ro_run[OF ro.steps_enqueuePendingStateSync l(2), of ctx]
    by (auto simp: isBYOKProvisioningNeeded_def failing_def run_simps split: sum.splits prod.splits)
  show ?thesis
    unfolding d(2) d(1)[symmetric]
  proof (rule Transaction_rel[OF t])
    fix v v' assume "InsertKey env (ctx\<lparr>ctx_tx := True\<rparr>) ?k v = (Inr key', v')"
    from InsertKey_run[OF this] show "inserted ?k key' (db (ctx\<lparr>ctx_tx := True\<rparr>) v) (db (ctx\<lparr>ctx_tx := True\<rparr>) v')"
      by (auto simp: inserted_def with_first_key_def changes_def)
  qed
qed

lemma createPending_none:
  "createPendingBYOKKeyIfNeeded env ctx key w = (Inr None, w') \<Longrightarrow> db ctx w' = db ctx w"
  by (auto simp: createPendingBYOKKeyIfNeeded_def isBYOKProvisioningNeeded_def failing_def run_simps
      split: if_split_asm sum.splits prod.splits)

lemma createOrRegisterProviderKey_run:
  assumes "createOrRegisterProviderKey env ctx key w = (Inr key', w')"
  shows "key_ID key' = key_ID key" "key_KeyConfigurationID key' = key_KeyConfigurationID key"
    "key_KeyType key' = key_KeyType key" "key_Name key' = key_Name key" "key_NativeID key' \<noteq> None"
    "key_KeyType key = KeyTypeHYOK \<Longrightarrow> key_State key' = KeyStateENABLED \<and> key_Algorithm key' = ''AES256''"
  using assms
  by (auto simp: createOrRegisterProviderKey_def createManagedProviderKey_def registerHYOKKey_def
      addCertificateSubjectToCryptoData_def run_simps split: KeyType.splits if_split_asm option.splits)

lemma Create_key_run:
  assumes run: "Create_key env ctx key w = (Inr key', w')" and tn: "ctx_Tenant ctx = Some tn"
  shows "\<exists>key0. inserted key0 key' (db ctx w) (db ctx w') \<and> key_ID key0 = key_ID key \<and> key_Name key0 = key_Name key \<and>
      key_KeyConfigurationID key0 = key_KeyConfigurationID key \<and> key_KeyType key0 = key_KeyType key \<and>
      (if key_State key0 = KeyStatePENDINGCREATION \<and> key_NativeID key0 = None then key_KeyType key = KeyTypeBYOK
       else key_NativeID key0 \<noteq> None) \<and>
      (key_KeyType key = KeyTypeHYOK \<longrightarrow> key_State key0 = KeyStateENABLED \<and> key_Algorithm key0 = ''AES256'')"
    "\<exists>kc \<in> set (key_configurations (db ctx w)). kc_ID kc = key_KeyConfigurationID key"
    "ctx_UserType ctx = Some InternalUser \<or> kc_access ctx (db ctx w) APIActionCreate (key_KeyConfigurationID key)"
proof -
  obtain w1 p w2 where v: "validateKeyCreation env ctx key w = (Inr (), w1)"
    and p: "(if key_KeyType key = KeyTypeBYOK then createPendingBYOKKeyIfNeeded env ctx key else returnC None) w1
      = (Inr p, w2)"
    and r: "(case p of Some key' \<Rightarrow> returnC key' | None \<Rightarrow>
         bindC (wrapC ''ErrFailedToInitProvider'' (GetOrInitProvider env ctx key)) (\<lambda>_.
         bindC (createOrRegisterProviderKey env ctx key) (\<lambda>key.
         bindC (persistCreatedKey env ctx key) (\<lambda>key.
         bindC (sendCreateAuditLog key) (\<lambda>_. returnC key))))) w2 = (Inr key', w')"
    using run by (auto simp: Create_key_def bindC_run)
  note v' = validateKeyCreation_run[OF v]
  then show "\<exists>kc \<in> set (key_configurations (db ctx w)). kc_ID kc = key_KeyConfigurationID key"
    "ctx_UserType ctx = Some InternalUser \<or> kc_access ctx (db ctx w) APIActionCreate (key_KeyConfigurationID key)"
    by auto
  show "\<exists>key0. inserted key0 key' (db ctx w) (db ctx w') \<and> key_ID key0 = key_ID key \<and> key_Name key0 = key_Name key \<and>
      key_KeyConfigurationID key0 = key_KeyConfigurationID key \<and> key_KeyType key0 = key_KeyType key \<and>
      (if key_State key0 = KeyStatePENDINGCREATION \<and> key_NativeID key0 = None then key_KeyType key = KeyTypeBYOK
       else key_NativeID key0 \<noteq> None) \<and>
      (key_KeyType key = KeyTypeHYOK \<longrightarrow> key_State key0 = KeyStateENABLED \<and> key_Algorithm key0 = ''AES256'')"
  proof (cases p)
    case (Some k)
    then have k: "key' = k" "w' = w2" "key_KeyType key = KeyTypeBYOK"
      and c: "createPendingBYOKKeyIfNeeded env ctx key w1 = (Inr (Some k), w2)"
      using r p by (auto simp: returnC_run split: if_split_asm)
    show ?thesis using createPending_run[OF c] k v' by (intro exI[of _ "key\<lparr>key_State := KeyStatePENDINGCREATION, key_NativeID := None\<rparr>"]) simp
  next
    case None
    then obtain w3 key1 w4 w5 where c: "createOrRegisterProviderKey env ctx key w3 = (Inr key1, w4)"
      and w3: "db ctx w3 = db ctx w2" and pk: "persistCreatedKey env ctx key1 w4 = (Inr key', w5)" "db ctx w' = db ctx w5"
      using r by (auto simp: run_simps sendCreateAuditLog_def logCall_def)
    have w2: "db ctx w2 = db ctx w1"
      using p None by (auto simp: returnC_run split: if_split_asm dest: createPending_none)
    have w4: "db ctx w4 = db ctx w3" by (rule ro_run[OF ro.steps_createOrRegisterProviderKey[OF tn] c])
    have "inserted key1 key' (db ctx w4) (db ctx w5)"
      by (rule Transaction_rel[OF pk(1)[unfolded persistCreatedKey_def]], rule persistKeyTx_run) (simp_all add: tn)
    then show ?thesis
      using createOrRegisterProviderKey_run[OF c] w2 w3 w4 pk(2) v' by (intro exI[of _ key1]) auto
  qed
qed

section \<open>Changing a key\<close>

lemma foldC_pure:
  assumes "foldC xs acc f w = (Inr y, w')" and "\<And>a x w y w'. f a x w = (Inr y, w') \<Longrightarrow> w' = w"
  shows "w' = w"
  using assms(1) by (induction xs arbitrary: acc w) (auto simp: run_simps dest: assms(2))

lemma patchRegion_same: "patchRegion env ctx key data p w = (Inr y, w') \<Longrightarrow> w' = w"
  by (auto simp: patchRegion_def newCryptoRegion_def getCryptoCertificates_def run_simps Let_def
      split: prod.splits option.splits if_split_asm sum.splits)

lemma handleCryptoDetailsUpdate_run:
  assumes "handleCryptoDetailsUpdate env ctx keyPatch key w = (Inr key', w')"
  shows "db c w' = db c w" "key' = key\<lparr>key_CryptoAccessData := key_CryptoAccessData key'\<rparr>"
    "set (calls w) \<subseteq> set (calls w')"
  using assms
  by (auto simp: handleCryptoDetailsUpdate_def NewPluginProviderTransformer_def ValidateKeyAccessData_def run_simps
      split: option.splits prod.splits if_split_asm dest!: foldC_pure[OF _ patchRegion_same])

lemma copyFieldsToModelKey_result:
  assumes "copyFieldsToModelKey p key = (upd, key')"
  shows "key_ID key' = key_ID key" "key_KeyType key' = key_KeyType key" "key_NativeID key' = key_NativeID key"
    "key_KeyConfigurationID key' = key_KeyConfigurationID key" "upd \<longleftrightarrow> key_State key' \<noteq> key_State key"
    "key_State key' = (case kp_Enabled p of None \<Rightarrow> key_State key
       | Some b \<Rightarrow> if b then KeyStateENABLED else KeyStateDISABLED)"
    "key_Name key' = (case kp_Name p of None \<Rightarrow> key_Name key | Some n \<Rightarrow> n)"
    "key_Description key' = (case kp_Description p of None \<Rightarrow> key_Description key | Some d \<Rightarrow> d)"
    "key_CryptoAccessData key' = key_CryptoAccessData key" "key_UnderWorkflow key' = key_UnderWorkflow key"
  using assms by (auto simp: copyFieldsToModelKey_def Let_def split: option.splits if_splits)

lemma ifAbsent_run:
  assumes "ifAbsent (createKeyEventJob env ctx k t) w = (Inr u, w')"
  shows "db c w' = db c w \<and> (\<exists>cs. calls w' = calls w @ cs)"
  using ro_run[OF ro.steps_ifAbsent[OF ro.steps_createKeyEventJob] assms]
    steps_run[OF grows.steps_ifAbsent[OF grows.steps_createKeyEventJob] assms]
  by (simp add: log_grows_def)

text \<open>the key store is told before the audit log and the systems\<close>

lemma enableKey_run:
  assumes "enableKey env ctx key w = (Inr u, w')"
  shows "db c w' = db c w \<and> (\<exists>nid cs. key_NativeID key = Some nid \<and>
    calls w' = calls w @ [CallProvider ''EnableKey'' nid, CallAudit ''CmkEnable'' (key_ID key)] @ cs)"
  using assms
  by (auto simp: enableKey_def reenableProviderKey_def sendEnableAuditLog_def sendEnableEvent_def SendEvent_def
      KeyEnable_def logCall_def run_simps dest!: ifAbsent_run[where c = c])

lemma disableKey_run:
  assumes "disableKey env ctx key w = (Inr u, w')"
  shows "db c w' = db c w \<and> (\<exists>nid cs. key_NativeID key = Some nid \<and>
    calls w' = calls w @ [CallProvider ''DisableKey'' nid, CallAudit ''CmkDisable'' (key_ID key)] @ cs)"
  using assms
  by (auto simp: disableKey_def disableProviderKey_def sendDisableAuditLog_def sendDisableEvent_def SendEvent_def
      KeyDisable_def logCall_def run_simps dest!: ifAbsent_run[where c = c])

lemma applyKeyPatch_run:
  assumes "applyKeyPatch env ctx key p upd w = (Inr u, w')"
  shows "db ctx w' = (db ctx w)\<lparr>keys := row_upd (\<lambda>k. key_ID k = key_ID key) (\<lambda>_. key_row key) (keys (db ctx w))\<rparr>"
    "upd \<Longrightarrow> \<exists>nid cs. key_NativeID key = Some nid \<and> calls w' = calls w @
      (if kp_Enabled p = Some True
       then [CallProvider ''EnableKey'' nid, CallAudit ''CmkEnable'' (key_ID key)]
       else [CallProvider ''DisableKey'' nid, CallAudit ''CmkDisable'' (key_ID key)]) @ cs"
proof -
  obtain v v1 v' where t: "same_data w v" "same_data v' w'"
    and s: "SaveKey env (ctx\<lparr>ctx_tx := True\<rparr>) key v = (Inr (), v1)"
    and r: "(if \<not> upd then returnC () else if kp_Enabled p = Some True then enableKey env (ctx\<lparr>ctx_tx := True\<rparr>) key
      else disableKey env (ctx\<lparr>ctx_tx := True\<rparr>) key) v1 = (Inr u, v')"
    by (rule Transaction_step[OF assms[unfolded applyKeyPatch_def]]) (auto simp: bindC_run wrapC_run)
  have d: "db ctx v' = db ctx v1"
    using r by (auto simp: returnC_run split: if_split_asm dest: enableKey_run[where c = ctx] disableKey_run[where c = ctx])
  then show "db ctx w' = (db ctx w)\<lparr>keys := row_upd (\<lambda>k. key_ID k = key_ID key) (\<lambda>_. key_row key) (keys (db ctx w))\<rparr>"
    using SaveKey_run[OF s] t[THEN same_data_db, of ctx] by simp
  assume upd
  then show "\<exists>nid cs. key_NativeID key = Some nid \<and> calls w' = calls w @
      (if kp_Enabled p = Some True
       then [CallProvider ''EnableKey'' nid, CallAudit ''CmkEnable'' (key_ID key)]
       else [CallProvider ''DisableKey'' nid, CallAudit ''CmkDisable'' (key_ID key)]) @ cs"
    using r t SaveKey_run[OF s]
    by (auto simp: same_data_def split: if_split_asm dest: enableKey_run[where c = ctx] disableKey_run[where c = ctx])
qed

lemma UpdateKey_run:
  assumes run: "UpdateKey env ctx i p w = (Inr key', w')" and tn: "ctx_Tenant ctx = Some tn"
  obtains key w1 where "Get env ctx i w = (Inr key, w1)" "\<not> isManagementDetailsUpdate p"
    "key_ID key = i" "key_ID key' = i" "key_KeyType key' = key_KeyType key"
    "kp_Enabled p \<noteq> None \<Longrightarrow> key_KeyType key = KeyTypeBYOK \<and> key_State key \<noteq> KeyStatePENDINGCREATION"
    "key_State key' = (case kp_Enabled p of None \<Rightarrow> key_State key
       | Some b \<Rightarrow> if b then KeyStateENABLED else KeyStateDISABLED)"
    "key_Name key' = (case kp_Name p of None \<Rightarrow> key_Name key | Some n \<Rightarrow> n)"
    "db ctx w' = (db ctx w1)\<lparr>keys := row_upd (\<lambda>k. key_ID k = i) (\<lambda>_. key_row key') (keys (db ctx w1))\<rparr>"
    "key_State key' \<noteq> key_State key \<Longrightarrow> \<exists>nid. key_NativeID key = Some nid \<and>
      CallProvider (if key_State key' = KeyStateENABLED then ''EnableKey'' else ''DisableKey'') nid \<in> set (calls w')"
proof -
  obtain key w1 key1 w2 where m: "\<not> isManagementDetailsUpdate p" and g: "Get env ctx i w = (Inr key, w1)"
    and pend: "\<not> (key_State key = KeyStatePENDINGCREATION \<and> kp_Enabled p \<noteq> None)"
    and c: "handleCryptoDetailsUpdate env ctx p key w1 = (Inr key1, w2)"
    and hyok: "\<not> (key_KeyType key1 = KeyTypeHYOK \<and> kp_Enabled p \<noteq> None)"
    and r: "(case copyFieldsToModelKey p key1 of (upd, key) \<Rightarrow>
            bindC (wrapC ''ErrUpdateKeyDB'' (applyKeyPatch env ctx key p upd)) (\<lambda>_. returnC key)) w2 = (Inr key', w')"
    using run by (auto simp: UpdateKey_def bindC_run wrapC_run throwC_run split: if_split_asm)
  obtain upd where cp: "copyFieldsToModelKey p key1 = (upd, key')" and a: "applyKeyPatch env ctx key' p upd w2 = (Inr (), w')"
    using r by (auto simp: bindC_run wrapC_run returnC_run split: prod.splits)
  obtain k where k: "key_ID k = i" "key_row key = (key_row k)\<lparr>key_State := key_State key\<rparr>"
    by (rule Get_run[OF g tn]) blast
  have i: "key_ID key = i" using arg_cong[OF k(2), of key_ID] k(1) by simp
  note c' = handleCryptoDetailsUpdate_run[OF c] and a' = applyKeyPatch_run[OF a]
  have k1: "key_ID key1 = key_ID key" "key_KeyType key1 = key_KeyType key" "key_State key1 = key_State key"
    "key_NativeID key1 = key_NativeID key" "key_Name key1 = key_Name key"
    by (subst c'(2), simp)+
  note cp' = copyFieldsToModelKey_result[OF cp, unfolded k1]
  show ?thesis
  proof (rule that[OF g m i])
    show "kp_Enabled p \<noteq> None \<Longrightarrow> key_KeyType key = KeyTypeBYOK \<and> key_State key \<noteq> KeyStatePENDINGCREATION"
      using hyok pend k1(2) by (cases "key_KeyType key") auto
    show "\<exists>nid. key_NativeID key = Some nid \<and>
      CallProvider (if key_State key' = KeyStateENABLED then ''EnableKey'' else ''DisableKey'') nid \<in> set (calls w')"
      if "key_State key' \<noteq> key_State key"
      using that a'(2) cp'(3,5,6) k1 by (auto split: option.splits if_splits)
  qed (use cp' k1 i a'(1) c'(1)[of ctx] in simp_all)
qed

end
