(* ===== verification/Lifecycle.thy ===== *)
theory Lifecycle
  imports Repo_Laws
begin

text \<open>
  The workflow life cycle (src/internal/workflow): the state machine of an approval
  workflow, validation of the acting user, vote counting, and the execution of the
  approved action.

  The state machine runs on github.com/looplab/fsm, which is the parameter \<open>fsm_dest\<close>;
  \<open>fsm_ok\<close> states its documented behaviour. The managers that execute the action are the
  record \<open>actions\<close>, one field per method of the Go interfaces \<open>KeyActions\<close>,
  \<open>KeyConfigurationActions\<close> and \<open>SystemActions\<close>.
\<close>

section \<open>State\<close>

record actions =
  act_GetKey :: "ctx \<Rightarrow> uuid \<Rightarrow> Key M"
  act_UpdateKeyEnabled :: "ctx \<Rightarrow> uuid \<Rightarrow> bool \<Rightarrow> Key M"
  act_DeleteKey :: "ctx \<Rightarrow> uuid \<Rightarrow> unit M"
  act_DeleteKeyConfigurationByID :: "ctx \<Rightarrow> uuid \<Rightarrow> unit M"
  act_UpdatePrimaryKeyID :: "ctx \<Rightarrow> uuid \<Rightarrow> uuid \<Rightarrow> KeyConfiguration M"
  act_LinkSystemAction :: "ctx \<Rightarrow> uuid \<Rightarrow> uuid \<Rightarrow> System M"
  act_UnlinkSystemAction :: "ctx \<Rightarrow> uuid \<Rightarrow> string \<Rightarrow> unit M"

text \<open>
  \<open>EligibleApproverIDs\<close> and \<open>ActorApproverGroupIDs\<close> are optional: \<open>None\<close> is Go's nil
\<close>

record Lifecycle =
  l_Workflow :: Workflow
  l_Current :: WorkflowState
  l_ActorID :: string
  l_MinimumApproverCount :: int
  l_EligibleApproverIDs :: "string list option"
  l_ActorApproverGroupIDs :: "uuid list option"

definition convertEvent :: "Transition \<Rightarrow> WorkflowState list \<Rightarrow> WorkflowState \<Rightarrow> EventDesc" where
  "convertEvent transition sourceStates destinationState =
     \<lparr>ed_Name = transition, ed_Src = sourceStates, ed_Dst = destinationState\<rparr>"

definition lifecycle_events :: "EventDesc list" where
  "lifecycle_events =
     [convertEvent TransitionCreate [WorkflowStateInitial] WorkflowStateWaitApproval,
      convertEvent TransitionApprove [WorkflowStateWaitApproval] WorkflowStateWaitConfirmation,
      convertEvent TransitionReject [WorkflowStateWaitApproval] WorkflowStateRejected,
      convertEvent TransitionRevoke
        [WorkflowStateWaitApproval, WorkflowStateWaitConfirmation] WorkflowStateRevoked,
      convertEvent TransitionConfirm [WorkflowStateWaitConfirmation] WorkflowStateExecuting,
      convertEvent TransitionExpire
        [WorkflowStateWaitApproval, WorkflowStateWaitConfirmation, WorkflowStateExecuting]
        WorkflowStateExpired,
      convertEvent TransitionFail [WorkflowStateExecuting] WorkflowStateFailed,
      convertEvent TransitionExecute [WorkflowStateExecuting] WorkflowStateSuccessful]"

definition NewLifecycle :: "Workflow \<Rightarrow> string \<Rightarrow> int \<Rightarrow> Lifecycle" where
  "NewLifecycle workflow actorID minimumApproverCount =
     \<lparr>l_Workflow = workflow, l_Current = wf_State workflow, l_ActorID = actorID,
      l_MinimumApproverCount = (if minimumApproverCount = 0 then 2 else minimumApproverCount),
      l_EligibleApproverIDs = None, l_ActorApproverGroupIDs = None\<rparr>"

definition Transitions :: "Transition list" where
  "Transitions = [TransitionCreate, TransitionRevoke, TransitionReject, TransitionExpire,
     TransitionApprove, TransitionConfirm, TransitionExecute, TransitionFail]"

section \<open>Errors\<close>

definition NewInvalidEventActorError :: "string \<Rightarrow> string \<Rightarrow> gerror" where
  "NewInvalidEventActorError userID expectedRole =
     Wrapf [E ''workflow.ErrInvalidEventActor'']
       (''user '' @ userID @ '' is not the '' @ expectedRole @ '' of the workflow'')"

definition NewTransitionError :: "Transition \<Rightarrow> gerror" where
  "NewTransitionError transition = [E ''workflow.ErrTransitionExecution'']"

definition NewInsufficientApproverCountError :: "int \<Rightarrow> int \<Rightarrow> gerror" where
  "NewInsufficientApproverCountError currentCount requiredCount =
     [E ''workflow.ErrInsufficientApproverCount'']"

definition NewInsufficientApproversError :: "int \<Rightarrow> int \<Rightarrow> gerror" where
  "NewInsufficientApproversError required actual =
     [E ''workflow.InsufficientApproversError'', E ''workflow.ErrWorkflowGroupNotSufficientMembers'']"

definition NewApproverNoLongerEligibleError :: "string \<Rightarrow> gerror" where
  "NewApproverNoLongerEligibleError userID =
     Wrapf [E ''workflow.ErrApproverNoLongerEligible'']
       (''approver '' @ userID @ '' has been removed from the admin group and cannot vote'')"

text \<open>the text of an error chain, as stored in \<open>FailureReason\<close>\<close>

fun errs_text :: "gerror \<Rightarrow> string" where
  "errs_text [] = []"
| "errs_text (E n # e) = n @ '': '' @ errs_text e"
| "errs_text (Msg m # e) = m @ '': '' @ errs_text e"

section \<open>State machine\<close>

definition fsm_Can :: "env \<Rightarrow> Lifecycle \<Rightarrow> Transition \<Rightarrow> bool" where
  "fsm_Can env l transition \<longleftrightarrow> fsm_dest env lifecycle_events (l_Current l) transition \<noteq> None"

definition fsm_Event :: "env \<Rightarrow> Lifecycle \<Rightarrow> Transition \<Rightarrow> Lifecycle M" where
  "fsm_Event env l transition =
     (case fsm_dest env lifecycle_events (l_Current l) transition of
        None \<Rightarrow> throwC (Wrap (NewTransitionError transition) (Some [Msg ''inappropriate event'']))
      | Some s \<Rightarrow> returnC (l\<lparr>l_Current := s\<rparr>))"

definition CanTransition :: "env \<Rightarrow> Lifecycle \<Rightarrow> Transition \<Rightarrow> bool" where
  "CanTransition env l transition = fsm_Can env l transition"

definition CanExpire :: "env \<Rightarrow> Lifecycle \<Rightarrow> bool" where
  "CanExpire env l = fsm_Can env l TransitionExpire"

section \<open>Votes\<close>

record voteCounts =
  approvals :: int
  rejections :: int
  pending :: int

definition noVotes :: voteCounts where
  "noVotes = \<lparr>approvals = 0, rejections = 0, pending = 0\<rparr>"

definition applyCurrentVote :: "voteCounts \<Rightarrow> Transition \<Rightarrow> gerror + voteCounts" where
  "applyCurrentVote counts transition = (case transition of
       TransitionApprove \<Rightarrow> Inr (counts\<lparr>approvals := approvals counts + 1\<rparr>)
     | TransitionReject \<Rightarrow> Inr (counts\<lparr>rejections := rejections counts + 1\<rparr>)
     | _ \<Rightarrow> Inl [E ''workflow.ErrInvalidVotingTransition''])"

definition countExistingVote :: "voteCounts \<Rightarrow> WorkflowApprover \<Rightarrow> voteCounts" where
  "countExistingVote counts approver = (case wa_Approved approver of
       None \<Rightarrow> counts\<lparr>pending := pending counts + 1\<rparr>
     | Some b \<Rightarrow> if b then counts\<lparr>approvals := approvals counts + 1\<rparr>
                 else counts\<lparr>rejections := rejections counts + 1\<rparr>)"

fun voteLoop ::
  "string \<Rightarrow> Transition \<Rightarrow> voteCounts \<Rightarrow> WorkflowApprover list \<Rightarrow> gerror + voteCounts" where
  "voteLoop actor transition counts [] = Inr counts"
| "voteLoop actor transition counts (approver # rest) =
     (if wa_UserID approver = actor
      then (case applyCurrentVote counts transition of
              Inl err \<Rightarrow> Inl err
            | Inr counts' \<Rightarrow> voteLoop actor transition counts' rest)
      else voteLoop actor transition (countExistingVote counts approver) rest)"

definition calculateVoteCounts ::
  "Lifecycle \<Rightarrow> WorkflowApprover list \<Rightarrow> Transition \<Rightarrow> gerror + voteCounts" where
  "calculateVoteCounts l allApprovers transition =
     voteLoop (l_ActorID l) transition noVotes allApprovers"

definition shouldTransition :: "Lifecycle \<Rightarrow> voteCounts \<Rightarrow> Transition \<Rightarrow> gerror + bool" where
  "shouldTransition l counts transition =
     (let score = approvals counts - rejections counts;
          maxPossibleScore = score + pending counts
      in case transition of
           TransitionApprove \<Rightarrow> Inr (score \<ge> l_MinimumApproverCount l)
         | TransitionReject \<Rightarrow> Inr (maxPossibleScore < l_MinimumApproverCount l)
         | _ \<Rightarrow> Inl [E ''workflow.ErrInvalidVotingTransition''])"

definition filterEligibleApprovers ::
  "Lifecycle \<Rightarrow> WorkflowApprover list \<Rightarrow> WorkflowApprover list" where
  "filterEligibleApprovers l aps = (case l_EligibleApproverIDs l of
       None \<Rightarrow> aps
     | Some ids \<Rightarrow> filter (\<lambda>a. wa_UserID a \<in> set ids \<or> wa_Approved a \<noteq> None) aps)"

text \<open>the current number of approvals and of eligible approvers that have not voted\<close>

definition CheckInsufficientApprovers :: "Lifecycle \<Rightarrow> WorkflowApprover list \<Rightarrow> bool" where
  "CheckInsufficientApprovers l eligibleApprovers =
     (let currentApprovals = int (length (filter (\<lambda>a. wa_Approved a = Some True) eligibleApprovers));
          eligiblePending = int (length (filter (\<lambda>a. wa_Approved a = None) eligibleApprovers));
          maxPossibleApprovals = currentApprovals + eligiblePending
      in maxPossibleApprovals < l_MinimumApproverCount l)"

definition GetAllApprovers :: "env \<Rightarrow> ctx \<Rightarrow> Lifecycle \<Rightarrow> WorkflowApprover list M" where
  "GetAllApprovers env ctx l = wrapC ''workflow.ErrCheckApproverDecision''
     (List env ctx T_approvers (\<lambda>_ a. wa_WorkflowID a = wf_ID (l_Workflow l)) 0 0)"

definition checkVotingScore :: "env \<Rightarrow> ctx \<Rightarrow> Lifecycle \<Rightarrow> Transition \<Rightarrow> bool M" where
  "checkVotingScore env ctx l transition =
     (if \<not> fsm_Can env l transition
      then throwC (Wrap (NewTransitionError transition) (Some [Msg ''inappropriate event'']))
      else
        bindC (GetAllApprovers env ctx l) (\<lambda>allApprovers.
        bindC (liftC (calculateVoteCounts l (filterEligibleApprovers l allApprovers) transition))
          (\<lambda>counts. liftC (shouldTransition l counts transition))))"

text \<open>\<open>ApprovalSummary\<close>, its mechanism always the target score\<close>

definition GetApprovalSummary :: "env \<Rightarrow> ctx \<Rightarrow> Lifecycle \<Rightarrow> (voteCounts \<times> int) M" where
  "GetApprovalSummary env ctx l =
     bindC (GetAllApprovers env ctx l) (\<lambda>allApprovers.
     returnC (foldl countExistingVote noVotes allApprovers, l_MinimumApproverCount l))"

section \<open>The acting user\<close>

definition validateUserIsInitiator :: "Lifecycle \<Rightarrow> bool" where
  "validateUserIsInitiator l \<longleftrightarrow> l_ActorID l = wf_InitiatorID (l_Workflow l)"

definition validateActorGroupMembership :: "Lifecycle \<Rightarrow> Transition \<Rightarrow> gerror option" where
  "validateActorGroupMembership l transition = (case l_ActorApproverGroupIDs l of
       None \<Rightarrow> None
     | Some gids \<Rightarrow>
         if transition \<in> {TransitionConfirm, TransitionRevoke, TransitionApprove, TransitionReject}
            \<and> gids = []
         then Some [E ''workflow.ErrUserRemovedFromApproverGroup''] else None)"

definition validateUserIsApprover :: "env \<Rightarrow> ctx \<Rightarrow> Lifecycle \<Rightarrow> bool M" where
  "validateUserIsApprover env ctx l =
     bindC (wrapC ''workflow.ErrCheckApprovers''
       (Count env ctx T_approvers
          (\<lambda>_ a. wa_WorkflowID a = wf_ID (l_Workflow l) \<and> wa_UserID a = l_ActorID l)))
       (\<lambda>count. returnC (count > 0))"

definition validateInternalTransition :: "ctx \<Rightarrow> string \<Rightarrow> gerror option" where
  "validateInternalTransition ctx role = (case ExtractUserType ctx of
       Inl err \<Rightarrow> Some (Wrapf err ''failed to validate automated transition'')
     | Inr source \<Rightarrow>
         if source = BusinessUser then Some [E ''workflow.ErrAutomatedTransition'']
         else (case CheckInternalUserRole ctx role of
                 Some err \<Rightarrow> Some (Wrapf err ''failed to validate automated transition'')
               | None \<Rightarrow> None))"

definition raiseC :: "gerror option \<Rightarrow> unit M" where
  "raiseC v = (case v of None \<Rightarrow> returnC () | Some err \<Rightarrow> throwC err)"

definition ValidateActor :: "env \<Rightarrow> ctx \<Rightarrow> Lifecycle \<Rightarrow> Transition \<Rightarrow> unit M" where
  "ValidateActor env ctx l transition =
     bindC (raiseC (validateActorGroupMembership l transition)) (\<lambda>_.
     if transition \<in> {TransitionCreate, TransitionRevoke, TransitionConfirm}
     then unlessC (validateUserIsInitiator l) (NewInvalidEventActorError (l_ActorID l) ''initiator'')
     else if transition \<in> {TransitionApprove, TransitionReject}
     then bindC (validateUserIsApprover env ctx l) (\<lambda>valid.
            unlessC valid (NewInvalidEventActorError (l_ActorID l) ''approver''))
     else if transition = TransitionExpire
     then raiseC (validateInternalTransition ctx ''INTERNAL_TASK_WORKFLOW_EXPIRATION'')
     else raiseC (validateInternalTransition ctx ''INTERNAL_TASK_WORKFLOW_APPROVERS''))"

section \<open>Execution of the approved action\<close>

definition updateKeyState :: "actions \<Rightarrow> ctx \<Rightarrow> Workflow \<Rightarrow> unit M" where
  "updateKeyState acts ctx wkf = wrapC ''workflow.ErrWorkflowExecution''
     (bindC (act_GetKey acts ctx (wf_ArtifactID wkf)) (\<lambda>dbKey.
      if wf_Parameters wkf = ''ENABLED'' \<or> wf_Parameters wkf = ''DISABLED''
      then bindC (act_UpdateKeyEnabled acts ctx (wf_ArtifactID wkf) (wf_Parameters wkf = ''ENABLED''))
             (\<lambda>_. returnC ())
      else throwC [Msg ''invalid key state'']))"

definition deleteKey :: "actions \<Rightarrow> ctx \<Rightarrow> Workflow \<Rightarrow> unit M" where
  "deleteKey acts ctx wkf = wrapC ''workflow.ErrWorkflowExecution''
     (act_DeleteKey acts ctx (wf_ArtifactID wkf))"

definition deleteKeyConfiguration :: "actions \<Rightarrow> ctx \<Rightarrow> Workflow \<Rightarrow> unit M" where
  "deleteKeyConfiguration acts ctx wkf = wrapC ''workflow.ErrWorkflowExecution''
     (act_DeleteKeyConfigurationByID acts ctx (wf_ArtifactID wkf))"

definition parseParam :: "env \<Rightarrow> string \<Rightarrow> uuid M" where
  "parseParam env s = (case uuid_Parse env s of
       None \<Rightarrow> throwC [Msg ''invalid UUID''] | Some u \<Rightarrow> returnC u)"

definition updatePrimaryKey :: "env \<Rightarrow> actions \<Rightarrow> ctx \<Rightarrow> Workflow \<Rightarrow> unit M" where
  "updatePrimaryKey env acts ctx wkf = wrapC ''workflow.ErrWorkflowExecution''
     (bindC (parseParam env (wf_Parameters wkf)) (\<lambda>keyID.
      bindC (act_UpdatePrimaryKeyID acts ctx (wf_ArtifactID wkf) keyID) (\<lambda>_. returnC ())))"

definition systemLinkOrSwitch :: "env \<Rightarrow> actions \<Rightarrow> ctx \<Rightarrow> Workflow \<Rightarrow> unit M" where
  "systemLinkOrSwitch env acts ctx wkf = wrapC ''workflow.ErrWorkflowExecution''
     (bindC (parseParam env (wf_Parameters wkf)) (\<lambda>keyConfigurationID.
      bindC (act_LinkSystemAction acts ctx (wf_ArtifactID wkf) keyConfigurationID) (\<lambda>_. returnC ())))"

definition systemUnlink :: "actions \<Rightarrow> ctx \<Rightarrow> Workflow \<Rightarrow> unit M" where
  "systemUnlink acts ctx wkf = wrapC ''workflow.ErrWorkflowExecution''
     (act_UnlinkSystemAction acts ctx (wf_ArtifactID wkf) [])"

definition executeWorkflowAction :: "env \<Rightarrow> actions \<Rightarrow> ctx \<Rightarrow> Workflow \<Rightarrow> unit M" where
  "executeWorkflowAction env acts ctx wkf =
     (let unknown = throwC (Wrapf [E ''workflow.ErrWorkflowExecution''] ''unknown action type'')
      in case wf_ArtifactType wkf of
        WorkflowArtifactTypeKey \<Rightarrow> (case wf_ActionType wkf of
            WorkflowActionTypeUpdateState \<Rightarrow> updateKeyState acts ctx wkf
          | WorkflowActionTypeDelete \<Rightarrow> deleteKey acts ctx wkf
          | _ \<Rightarrow> unknown)
      | WorkflowArtifactTypeKeyConfiguration \<Rightarrow> (case wf_ActionType wkf of
            WorkflowActionTypeDelete \<Rightarrow> deleteKeyConfiguration acts ctx wkf
          | WorkflowActionTypeUpdatePrimary \<Rightarrow> updatePrimaryKey env acts ctx wkf
          | _ \<Rightarrow> unknown)
      | WorkflowArtifactTypeSystem \<Rightarrow> (case wf_ActionType wkf of
            WorkflowActionTypeLink \<Rightarrow> systemLinkOrSwitch env acts ctx wkf
          | WorkflowActionTypeUnlink \<Rightarrow> systemUnlink acts ctx wkf
          | WorkflowActionTypeSwitch \<Rightarrow> systemLinkOrSwitch env acts ctx wkf
          | _ \<Rightarrow> unknown))"

section \<open>Transitions\<close>

definition getNumberOfApprovers :: "env \<Rightarrow> ctx \<Rightarrow> Lifecycle \<Rightarrow> int M" where
  "getNumberOfApprovers env ctx l = wrapC ''workflow.ErrListApprovers''
     (bindC (First env ctx T_workflows (\<lambda>_ r. wf_ID r = wf_ID (l_Workflow l))) (\<lambda>_.
      Count env ctx T_approvers (\<lambda>_ a. wa_WorkflowID a = wf_ID (l_Workflow l))))"

text \<open>\<open>True\<close> means that the transition is skipped\<close>

definition transitionPrecheck :: "env \<Rightarrow> ctx \<Rightarrow> Lifecycle \<Rightarrow> Transition \<Rightarrow> bool M" where
  "transitionPrecheck env ctx l transition = (case transition of
       TransitionCreate \<Rightarrow>
         bindC (getNumberOfApprovers env ctx l) (\<lambda>approversCount.
         if approversCount < l_MinimumApproverCount l
         then throwC (NewInsufficientApproverCountError approversCount (l_MinimumApproverCount l))
         else returnC False)
     | TransitionApprove \<Rightarrow>
         bindC (checkVotingScore env ctx l transition) (\<lambda>canTransition. returnC (\<not> canTransition))
     | TransitionReject \<Rightarrow>
         bindC (checkVotingScore env ctx l transition) (\<lambda>canTransition. returnC (\<not> canTransition))
     | TransitionExecute \<Rightarrow> throwC (Wrapf (NewTransitionError transition) ''automated transition'')
     | TransitionFail \<Rightarrow> throwC (Wrapf (NewTransitionError transition) ''automated transition'')
     | TransitionExpire \<Rightarrow> throwC (Wrapf (NewTransitionError transition) ''automated transition'')
     | TransitionConfirm \<Rightarrow> returnC False
     | TransitionRevoke \<Rightarrow> returnC False)"

definition transitionExecute :: "env \<Rightarrow> actions \<Rightarrow> ctx \<Rightarrow> Lifecycle \<Rightarrow> Lifecycle M" where
  "transitionExecute env acts ctx l =
     tryC (executeWorkflowAction env acts ctx (l_Workflow l)) (\<lambda>res.
     case res of
       Inl executionErr \<Rightarrow>
         fsm_Event env
           (l\<lparr>l_Workflow := (l_Workflow l)\<lparr>wf_FailureReason := errs_text executionErr\<rparr>\<rparr>) TransitionFail
     | Inr _ \<Rightarrow> fsm_Event env l TransitionExecute)"

text \<open>
  the columns \<open>Updates\<close> writes: the non-zero fields of the workflow struct; the hook
  \<open>BeforeSave\<close> fills a missing expiry date
\<close>

definition Workflow_merge :: "Workflow \<Rightarrow> Workflow \<Rightarrow> Workflow" where
  "Workflow_merge m row = row\<lparr>
     wf_State := wf_State m,
     wf_InitiatorID := (if wf_InitiatorID m = [] then wf_InitiatorID row else wf_InitiatorID m),
     wf_ApproverGroupIDs := (case wf_ApproverGroupIDs m of None \<Rightarrow> wf_ApproverGroupIDs row | v \<Rightarrow> v),
     wf_ArtifactType := wf_ArtifactType m,
     wf_ArtifactID := (if wf_ArtifactID m = uuid_Nil then wf_ArtifactID row else wf_ArtifactID m),
     wf_ArtifactName := (case wf_ArtifactName m of None \<Rightarrow> wf_ArtifactName row | v \<Rightarrow> v),
     wf_ActionType := wf_ActionType m,
     wf_Parameters := (if wf_Parameters m = [] then wf_Parameters row else wf_Parameters m),
     wf_ParametersResourceName :=
       (case wf_ParametersResourceName m of None \<Rightarrow> wf_ParametersResourceName row | v \<Rightarrow> v),
     wf_ParametersResourceType :=
       (case wf_ParametersResourceType m of None \<Rightarrow> wf_ParametersResourceType row | v \<Rightarrow> v),
     wf_FailureReason := (if wf_FailureReason m = [] then wf_FailureReason row else wf_FailureReason m),
     wf_ExpiryDate := (case wf_ExpiryDate m of None \<Rightarrow> wf_ExpiryDate row | v \<Rightarrow> v),
     wf_MinimumApprovalCount :=
       (if wf_MinimumApprovalCount m = 0 then wf_MinimumApprovalCount row else wf_MinimumApprovalCount m)\<rparr>"

definition DefaultExpiryPeriodDays :: int where "DefaultExpiryPeriodDays = 7"

definition AddDays :: "time \<Rightarrow> int \<Rightarrow> time" where
  "AddDays t days = t + days * 86400"

definition Workflow_BeforeSave :: "time \<Rightarrow> Workflow \<Rightarrow> Workflow" where
  "Workflow_BeforeSave now m = (case wf_ExpiryDate m of
       None \<Rightarrow> m\<lparr>wf_ExpiryDate := Some (AddDays now DefaultExpiryPeriodDays)\<rparr>
     | Some _ \<Rightarrow> m)"

definition Workflow_Patch :: "env \<Rightarrow> ctx \<Rightarrow> Workflow \<Rightarrow> Workflow M" where
  "Workflow_Patch env ctx wkf = bindC (timeNow env) (\<lambda>now.
     let wkf' = Workflow_BeforeSave now wkf in
     bindC (Patch env ctx T_workflows (\<lambda>r. wf_ID r = wf_ID wkf') (Workflow_merge wkf')) (\<lambda>_.
     returnC wkf'))"

definition saveState :: "env \<Rightarrow> ctx \<Rightarrow> Lifecycle \<Rightarrow> Lifecycle M" where
  "saveState env ctx l =
     bindC (wrapC ''workflow.ErrUpdateWorkflowState''
       (Workflow_Patch env ctx ((l_Workflow l)\<lparr>wf_State := l_Current l\<rparr>))) (\<lambda>wkf.
     returnC (l\<lparr>l_Workflow := wkf\<rparr>))"

definition ApplyTransition :: "env \<Rightarrow> actions \<Rightarrow> ctx \<Rightarrow> Lifecycle \<Rightarrow> Transition \<Rightarrow> Lifecycle M" where
  "ApplyTransition env acts ctx l transition =
     bindC (transitionPrecheck env ctx l transition) (\<lambda>skip.
     if skip then returnC l
     else
       bindC (fsm_Event env l transition) (\<lambda>l1.
       bindC (if l_Current l1 = WorkflowStateExecuting then transitionExecute env acts ctx l1
              else returnC l1) (\<lambda>l2.
       saveState env ctx l2)))"

definition ValidateAndApplyTransition ::
  "env \<Rightarrow> actions \<Rightarrow> ctx \<Rightarrow> Lifecycle \<Rightarrow> Transition \<Rightarrow> Lifecycle M" where
  "ValidateAndApplyTransition env acts ctx l transition =
     bindC (ValidateActor env ctx l transition) (\<lambda>_. ApplyTransition env acts ctx l transition)"

definition Expire :: "env \<Rightarrow> ctx \<Rightarrow> Lifecycle \<Rightarrow> Lifecycle M" where
  "Expire env ctx l = bindC (fsm_Event env l TransitionExpire) (\<lambda>l1. saveState env ctx l1)"

section \<open>Available transitions\<close>

definition getInitiatorAvailableActions :: "Lifecycle \<Rightarrow> Transition list" where
  "getInitiatorAvailableActions l = (case wf_State (l_Workflow l) of
       WorkflowStateWaitApproval \<Rightarrow> [TransitionRevoke]
     | WorkflowStateWaitConfirmation \<Rightarrow> [TransitionRevoke, TransitionConfirm]
     | _ \<Rightarrow> [])"

definition getApproverAvailableActions :: "env \<Rightarrow> ctx \<Rightarrow> Lifecycle \<Rightarrow> Transition list M" where
  "getApproverAvailableActions env ctx l =
     (if wf_State (l_Workflow l) \<noteq> WorkflowStateWaitApproval then returnC []
      else tryC (GetAllApprovers env ctx l) (\<lambda>res. case res of
          Inl _ \<Rightarrow> returnC []
        | Inr aps \<Rightarrow>
            returnC (if \<exists>a \<in> set aps. wa_UserID a = l_ActorID l \<and> wa_Approved a = None
                     then [TransitionApprove, TransitionReject] else [])))"

definition AvailableBusinessUserTransitions :: "env \<Rightarrow> ctx \<Rightarrow> Lifecycle \<Rightarrow> Transition list M" where
  "AvailableBusinessUserTransitions env ctx l =
     (if filter (fsm_Can env l) Transitions = [] then returnC []
      else if validateUserIsInitiator l then returnC (getInitiatorAvailableActions l)
      else getApproverAvailableActions env ctx l)"

end
