(* ===== verification/Lifecycle_Laws.thy ===== *)
theory Lifecycle_Laws
  imports Lifecycle
begin

text \<open>
  Correctness of the workflow life cycle.

  \<open>wf_next\<close> is the specified transition function; \<open>fsm_table\<close> shows that the event table
  handed to the state-machine library denotes it. Vote counting is related to the numbers
  of approving, rejecting and undecided approvers, the outcome of a transition is
  characterised on every branch, and the workflow states that can be stored are shown to
  follow \<open>wf_move\<close>, an abstract step relation without the transient state EXECUTING.
\<close>

section \<open>The specified state machine\<close>

fun wf_next :: "WorkflowState \<Rightarrow> Transition \<Rightarrow> WorkflowState option" where
  "wf_next WorkflowStateInitial TransitionCreate = Some WorkflowStateWaitApproval"
| "wf_next WorkflowStateWaitApproval TransitionApprove = Some WorkflowStateWaitConfirmation"
| "wf_next WorkflowStateWaitApproval TransitionReject = Some WorkflowStateRejected"
| "wf_next WorkflowStateWaitApproval TransitionRevoke = Some WorkflowStateRevoked"
| "wf_next WorkflowStateWaitApproval TransitionExpire = Some WorkflowStateExpired"
| "wf_next WorkflowStateWaitConfirmation TransitionRevoke = Some WorkflowStateRevoked"
| "wf_next WorkflowStateWaitConfirmation TransitionConfirm = Some WorkflowStateExecuting"
| "wf_next WorkflowStateWaitConfirmation TransitionExpire = Some WorkflowStateExpired"
| "wf_next WorkflowStateExecuting TransitionExpire = Some WorkflowStateExpired"
| "wf_next WorkflowStateExecuting TransitionFail = Some WorkflowStateFailed"
| "wf_next WorkflowStateExecuting TransitionExecute = Some WorkflowStateSuccessful"
| "wf_next _ _ = None"

text \<open>
  The library's contract: with one event description per event name, an event leads from
  a state to the destination of its description exactly when the state is a source of it.
\<close>

definition fsm_ok :: "env \<Rightarrow> bool" where
  "fsm_ok env \<longleftrightarrow> (\<forall>evs s t d. distinct (map ed_Name evs) \<longrightarrow>
     (fsm_dest env evs s t = Some d \<longleftrightarrow>
      (\<exists>e \<in> set evs. ed_Name e = t \<and> s \<in> set (ed_Src e) \<and> ed_Dst e = d)))"

definition fsm_find :: "EventDesc list \<Rightarrow> WorkflowState \<Rightarrow> Transition \<Rightarrow> WorkflowState option" where
  "fsm_find evs s t =
     map_option ed_Dst (find (\<lambda>e. ed_Name e = t \<and> s \<in> set (ed_Src e)) evs)"

lemma fsm_find_ok: "fsm_dest env = fsm_find \<Longrightarrow> fsm_ok env"
proof -
  assume a: "fsm_dest env = fsm_find"
  have "fsm_find evs s t = Some d \<longleftrightarrow>
      (\<exists>e \<in> set evs. ed_Name e = t \<and> s \<in> set (ed_Src e) \<and> ed_Dst e = d)"
    if "distinct (map ed_Name evs)" for evs s t d
    using that by (induction evs) (auto simp: fsm_find_def split: if_splits)
  then show ?thesis by (simp add: fsm_ok_def a)
qed

lemma fsm_table:
  assumes "fsm_ok env"
  shows "fsm_dest env lifecycle_events s t = wf_next s t"
proof -
  have "distinct (map ed_Name lifecycle_events)"
    by (simp add: lifecycle_events_def convertEvent_def)
  then have "fsm_dest env lifecycle_events s t = Some d \<longleftrightarrow>
      (\<exists>e \<in> set lifecycle_events. ed_Name e = t \<and> s \<in> set (ed_Src e) \<and> ed_Dst e = d)" for d
    using assms by (simp add: fsm_ok_def)
  moreover have "wf_next s t = Some d \<longleftrightarrow>
      (\<exists>e \<in> set lifecycle_events. ed_Name e = t \<and> s \<in> set (ed_Src e) \<and> ed_Dst e = d)" for d
    by (cases s; cases t; cases d) (simp_all add: lifecycle_events_def convertEvent_def)
  ultimately show ?thesis
    by (metis option.exhaust)
qed

lemma wf_next_terminal: "s \<in> set WorkflowTerminalStates \<longleftrightarrow> (\<forall>t. wf_next s t = None)"
proof -
  have "s \<in> set WorkflowTerminalStates \<Longrightarrow> wf_next s t = None" for t
    by (cases s; cases t) (simp_all add: WorkflowTerminalStates_def)
  moreover have "s \<notin> set WorkflowTerminalStates \<Longrightarrow> \<exists>t. wf_next s t \<noteq> None"
  proof (cases s)
    case WorkflowStateInitial
    then show ?thesis by (intro exI[of _ TransitionCreate]) simp
  next
    case WorkflowStateWaitApproval
    then show ?thesis by (intro exI[of _ TransitionRevoke]) simp
  next
    case WorkflowStateWaitConfirmation
    then show ?thesis by (intro exI[of _ TransitionRevoke]) simp
  next
    case WorkflowStateExecuting
    then show ?thesis by (intro exI[of _ TransitionFail]) simp
  qed (simp_all add: WorkflowTerminalStates_def)
  ultimately show ?thesis by metis
qed

text \<open>what one stored change of a workflow's state may be\<close>

inductive wf_move :: "WorkflowState \<Rightarrow> WorkflowState \<Rightarrow> bool" where
  submit: "wf_move WorkflowStateInitial WorkflowStateWaitApproval"
| approve: "wf_move WorkflowStateWaitApproval WorkflowStateWaitConfirmation"
| reject: "wf_move WorkflowStateWaitApproval WorkflowStateRejected"
| revoke: "wf_move WorkflowStateWaitApproval WorkflowStateRevoked"
| revoke_late: "wf_move WorkflowStateWaitConfirmation WorkflowStateRevoked"
| expire: "wf_move WorkflowStateWaitApproval WorkflowStateExpired"
| expire_late: "wf_move WorkflowStateWaitConfirmation WorkflowStateExpired"
| executed: "wf_move WorkflowStateWaitConfirmation WorkflowStateSuccessful"
| failed: "wf_move WorkflowStateWaitConfirmation WorkflowStateFailed"

inductive_cases wf_move_fromE: "wf_move s s'"

lemma wf_move_nonterminal: "wf_move s s' \<Longrightarrow> s \<notin> set WorkflowTerminalStates"
  by (auto simp: WorkflowTerminalStates_def elim: wf_move.cases)

lemma wf_move_executed:
  "wf_move\<^sup>*\<^sup>* WorkflowStateInitial s \<Longrightarrow> s \<in> {WorkflowStateSuccessful, WorkflowStateFailed} \<Longrightarrow>
     wf_move\<^sup>*\<^sup>* WorkflowStateInitial WorkflowStateWaitConfirmation \<and>
     wf_move WorkflowStateWaitConfirmation s"
  by (erule rtranclp.cases) (auto elim!: wf_move_fromE intro: wf_move.intros)

section \<open>Votes\<close>

definition n_approved :: "WorkflowApprover list \<Rightarrow> int" where
  "n_approved aps = int (length (filter (\<lambda>a. wa_Approved a = Some True) aps))"

definition n_rejected :: "WorkflowApprover list \<Rightarrow> int" where
  "n_rejected aps = int (length (filter (\<lambda>a. wa_Approved a = Some False) aps))"

definition n_pending :: "WorkflowApprover list \<Rightarrow> int" where
  "n_pending aps = int (length (filter (\<lambda>a. wa_Approved a = None) aps))"

lemmas vote_numbers = n_approved_def n_rejected_def n_pending_def

text \<open>the approvers with the actor's vote cast\<close>

definition cast_vote :: "string \<Rightarrow> bool \<Rightarrow> WorkflowApprover list \<Rightarrow> WorkflowApprover list" where
  "cast_vote actor b = row_upd (\<lambda>a. wa_UserID a = actor) (\<lambda>a. a\<lparr>wa_Approved := Some b\<rparr>)"

lemma votes_total: "n_approved aps + n_rejected aps + n_pending aps = int (length aps)"
proof (induction aps)
  case (Cons a aps)
  then show ?case
    by (cases "wa_Approved a" rule: option.exhaust; cases "the (wa_Approved a)")
      (auto simp: vote_numbers)
qed (simp add: vote_numbers)

lemma foldl_countExistingVote:
  "foldl countExistingVote c aps =
     \<lparr>approvals = approvals c + n_approved aps, rejections = rejections c + n_rejected aps,
      pending = pending c + n_pending aps\<rparr>"
proof (induction aps arbitrary: c)
  case (Cons a aps)
  then show ?case
    by (auto simp: countExistingVote_def vote_numbers split: option.splits)
qed (simp add: vote_numbers)

lemma voteLoop_vote:
  assumes "t = (if b then TransitionApprove else TransitionReject)"
  shows "voteLoop actor t c aps = Inr (foldl countExistingVote c (cast_vote actor b aps))"
  using assms
proof (induction aps arbitrary: c)
  case (Cons a aps)
  then show ?case
    by (auto simp: cast_vote_def row_upd_def applyCurrentVote_def countExistingVote_def)
qed (simp add: cast_vote_def row_upd_def)

lemma calculateVoteCounts_vote:
  "t = (if b then TransitionApprove else TransitionReject) \<Longrightarrow>
   calculateVoteCounts l aps t =
     (let v = cast_vote (l_ActorID l) b aps in
      Inr \<lparr>approvals = n_approved v, rejections = n_rejected v, pending = n_pending v\<rparr>)"
  by (simp add: calculateVoteCounts_def voteLoop_vote foldl_countExistingVote noVotes_def Let_def)

section \<open>Outcome of a transition\<close>

text \<open>the approvers that a vote of this life cycle counts\<close>

definition counted :: "ctx \<Rightarrow> world \<Rightarrow> Lifecycle \<Rightarrow> WorkflowApprover list" where
  "counted ctx w l = filterEligibleApprovers l
     (take 100 (filter (\<lambda>a. wa_WorkflowID a = wf_ID (l_Workflow l)) (approvers (db ctx w))))"

lemma GetAllApprovers_run:
  "GetAllApprovers env ctx l w = (Inr aps, w') \<Longrightarrow>
     aps = take 100 (filter (\<lambda>a. wa_WorkflowID a = wf_ID (l_Workflow l)) (approvers (db ctx w))) \<and>
     same_db w w' \<and> db ctx w' = db ctx w"
  by (auto simp: GetAllApprovers_def run_simps applyPagination_def DefaultLimit_def
      dest!: List_join_run)

lemma checkVotingScore_run:
  assumes "checkVotingScore env ctx l t w = (Inr go, w')"
    and "t = (if b then TransitionApprove else TransitionReject)"
  defines "v \<equiv> cast_vote (l_ActorID l) b (counted ctx w l)"
  shows "fsm_Can env l t \<and> same_db w w' \<and> db ctx w' = db ctx w \<and>
    (go \<longleftrightarrow> (if b then n_approved v - n_rejected v \<ge> l_MinimumApproverCount l
             else n_approved v - n_rejected v + n_pending v < l_MinimumApproverCount l))"
proof -
  have can: "fsm_Can env l t"
    using assms(1) by (auto simp: checkVotingScore_def run_simps split: if_splits)
  then obtain aps where "GetAllApprovers env ctx l w = (Inr aps, w')"
    "Inr go = shouldTransition l \<lparr>approvals = n_approved (cast_vote (l_ActorID l) b (filterEligibleApprovers l aps)),
       rejections = n_rejected (cast_vote (l_ActorID l) b (filterEligibleApprovers l aps)),
       pending = n_pending (cast_vote (l_ActorID l) b (filterEligibleApprovers l aps))\<rparr> t"
    using assms(1,2)
    by (auto simp: checkVotingScore_def run_simps calculateVoteCounts_vote Let_def)
  then show ?thesis
    using can assms(2) GetAllApprovers_run
    by (cases b) (auto simp: shouldTransition_def Let_def v_def counted_def)
qed


lemma fsm_Event_run:
  "fsm_ok env \<Longrightarrow> fsm_Event env l t w = (Inr l', w') \<longleftrightarrow>
     w' = w \<and> (\<exists>s. wf_next (l_Current l) t = Some s \<and> l' = l\<lparr>l_Current := s\<rparr>)"
  by (auto simp: fsm_Event_def fsm_table run_simps split: option.splits)

lemma Workflow_BeforeSave_simps [simp]:
  "wf_ID (Workflow_BeforeSave now m) = wf_ID m"
  "wf_State (Workflow_BeforeSave now m) = wf_State m"
  "wf_InitiatorID (Workflow_BeforeSave now m) = wf_InitiatorID m"
  "wf_ArtifactID (Workflow_BeforeSave now m) = wf_ArtifactID m"
  "wf_ArtifactType (Workflow_BeforeSave now m) = wf_ArtifactType m"
  "wf_ActionType (Workflow_BeforeSave now m) = wf_ActionType m"
  by (simp_all add: Workflow_BeforeSave_def split: option.splits)

lemma Workflow_merge_simps [simp]:
  "wf_ID (Workflow_merge m row) = wf_ID row"
  "wf_State (Workflow_merge m row) = wf_State m"
  "wf_ArtifactType (Workflow_merge m row) = wf_ArtifactType m"
  "wf_ActionType (Workflow_merge m row) = wf_ActionType m"
  by (simp_all add: Workflow_merge_def)

text \<open>the stored rows of a workflow all carry the given state\<close>

definition stored_state :: "ctx \<Rightarrow> world \<Rightarrow> uuid \<Rightarrow> WorkflowState \<Rightarrow> bool" where
  "stored_state ctx w i s \<longleftrightarrow> (\<forall>r \<in> set (workflows (db ctx w)). wf_ID r = i \<longrightarrow> wf_State r = s)"

lemma Workflow_Patch_run:
  assumes "Workflow_Patch env ctx m w = (Inr m', w')"
  shows "m' = Workflow_BeforeSave (clock env (tick w)) m \<and>
    db ctx w' = workflows_update (row_upd (\<lambda>r. wf_ID r = wf_ID m) (Workflow_merge m')) (db ctx w) \<and>
    tenants w' = tenants w \<and> calls w' = calls w"
  using assms
  by (auto simp: Workflow_Patch_def run_simps Let_def dest!: Patch_run simp: wrote_def)

lemma saveState_run:
  assumes "saveState env ctx l w = (Inr l', w')"
  shows "wf_State (l_Workflow l') = l_Current l \<and> l_Current l' = l_Current l \<and>
    wf_ID (l_Workflow l') = wf_ID (l_Workflow l) \<and>
    stored_state ctx w' (wf_ID (l_Workflow l)) (l_Current l)"
  using assms
  by (auto simp: saveState_def run_simps stored_state_def row_upd_def dest!: Workflow_Patch_run)

lemma transitionExecute_run:
  assumes "fsm_ok env" and "transitionExecute env acts ctx l w = (Inr l', w')"
    and "l_Current l = WorkflowStateExecuting"
  shows "l_Current l' \<in> {WorkflowStateSuccessful, WorkflowStateFailed} \<and>
    wf_ID (l_Workflow l') = wf_ID (l_Workflow l) \<and>
    (\<exists>r. executeWorkflowAction env acts ctx (l_Workflow l) w = (r, w') \<and>
         (l_Current l' = WorkflowStateSuccessful \<longleftrightarrow> r = Inr ()))"
proof -
  obtain r w1 where e: "executeWorkflowAction env acts ctx (l_Workflow l) w = (r, w1)"
    by (metis surj_pair)
  show ?thesis
    using assms e by (cases r) (auto simp: transitionExecute_def run_simps fsm_Event_run)
qed

text \<open>
  The outcome of \<open>ApplyTransition\<close> by transition: the state it needs, the state it
  leaves, and the vote that decides it.
\<close>

lemma getNumberOfApprovers_run:
  "getNumberOfApprovers env ctx l w = (Inr n, w') \<Longrightarrow>
     n = int (length (filter (\<lambda>a. wa_WorkflowID a = wf_ID (l_Workflow l)) (approvers (db ctx w)))) \<and>
     same_db w w' \<and> db ctx w' = db ctx w"
  by (auto simp: getNumberOfApprovers_def run_simps dest!: First_run Count_run
      intro: same_db_trans)

lemma transitionPrecheck_vote:
  assumes "transitionPrecheck env ctx l t w = (Inr skip, w')"
    and "t = (if b then TransitionApprove else TransitionReject)"
  shows "checkVotingScore env ctx l t w = (Inr (\<not> skip), w')"
  using assms by (cases b) (auto simp: transitionPrecheck_def run_simps)

lemma transitionPrecheck_allowed:
  "transitionPrecheck env ctx l t w = (Inr skip, w') \<Longrightarrow>
     t \<notin> {TransitionExecute, TransitionFail, TransitionExpire} \<and>
     (skip \<longrightarrow> t \<in> {TransitionApprove, TransitionReject}) \<and>
     (t = TransitionCreate \<longrightarrow>
        int (length (filter (\<lambda>a. wa_WorkflowID a = wf_ID (l_Workflow l)) (approvers (db ctx w))))
          \<ge> l_MinimumApproverCount l)"
  by (cases t) (auto simp: transitionPrecheck_def run_simps
      split: if_splits dest!: getNumberOfApprovers_run)

lemma ApplyTransition_run:
  assumes "ApplyTransition env acts ctx l t w = (Inr l', w')"
  obtains (skipped) w1 where "transitionPrecheck env ctx l t w = (Inr True, w1)" "l' = l" "w' = w1"
  | (moved) w1 s l2 w2 where "transitionPrecheck env ctx l t w = (Inr False, w1)"
      "fsm_Event env l t w1 = (Inr (l\<lparr>l_Current := s\<rparr>), w1)"
      "(if s = WorkflowStateExecuting then transitionExecute env acts ctx (l\<lparr>l_Current := s\<rparr>)
        else returnC (l\<lparr>l_Current := s\<rparr>)) w1 = (Inr l2, w2)"
      "saveState env ctx l2 w2 = (Inr l', w')"
proof -
  obtain skip w1 where p: "transitionPrecheck env ctx l t w = (Inr skip, w1)"
    using assms by (auto simp: ApplyTransition_def run_simps)
  show ?thesis
  proof (cases skip)
    case True
    then show ?thesis
      using assms p by (intro skipped) (auto simp: ApplyTransition_def run_simps)
  next
    case False
    then obtain l1 l2 w2 w3 where q: "fsm_Event env l t w1 = (Inr l1, w3)"
      "(if l_Current l1 = WorkflowStateExecuting then transitionExecute env acts ctx l1
        else returnC l1) w3 = (Inr l2, w2)" "saveState env ctx l2 w2 = (Inr l', w')"
      using assms p by (auto simp: ApplyTransition_def run_simps)
    then obtain s where "l1 = l\<lparr>l_Current := s\<rparr>" "w3 = w1"
      by (auto simp: fsm_Event_def run_simps split: option.splits)
    then show ?thesis
      using p q False by (intro moved[of w1 s l2 w2]) auto
  qed
qed

text \<open>the state a transition leads to, once the votes and the action are known\<close>

lemma ApplyTransition_moved:
  assumes ok: "fsm_ok env" and run: "ApplyTransition env acts ctx l t w = (Inr l', w')"
    and moved: "transitionPrecheck env ctx l t w = (Inr False, w1)"
  shows "(\<exists>s. wf_next (l_Current l) t = Some s \<and>
      (if s = WorkflowStateExecuting
       then wf_State (l_Workflow l') \<in> {WorkflowStateSuccessful, WorkflowStateFailed}
       else wf_State (l_Workflow l') = s)) \<and>
    stored_state ctx w' (wf_ID (l_Workflow l)) (wf_State (l_Workflow l'))"
  using run
proof (cases rule: ApplyTransition_run)
  case skipped
  then show ?thesis using moved by simp
next
  case (moved w1 s l2 w2)
  have s: "wf_next (l_Current l) t = Some s"
    using moved(2) ok by (auto simp: fsm_Event_run dest!: arg_cong[of _ _ l_Current])
  have save: "wf_State (l_Workflow l') = l_Current l2"
    "stored_state ctx w' (wf_ID (l_Workflow l2)) (l_Current l2)"
    using saveState_run[OF moved(4)] by auto
  show ?thesis
  proof (cases "s = WorkflowStateExecuting")
    case True
    then show ?thesis
      using transitionExecute_run[OF ok, of acts ctx "l\<lparr>l_Current := s\<rparr>" w1 l2 w2] moved(3) s save
      by auto
  next
    case False
    then show ?thesis
      using moved(3) s save by (auto simp: run_simps)
  qed
qed

end
