(* ===== verification/Key_Config_Laws.thy ===== *)
theory Key_Config_Laws
  imports Key_Config
begin

text \<open>
  What the operations on key configurations achieve: a deletion had no systems and keys left, and
  a switch of the primary key sent every system of the configuration a job.
\<close>

section \<open>The systems of a key configuration change their key\<close>

definition processing :: "System \<Rightarrow> System" where
  "processing s = s\<lparr>sys_Status := SystemStatusPROCESSING\<rparr>"

text \<open>\<open>d\<close> differs from \<open>d0\<close> at most in the status of systems and in the events\<close>

definition only_status :: "schema \<Rightarrow> schema \<Rightarrow> bool" where
  "only_status d0 d \<longleftrightarrow> (\<exists>ss es. d = d0\<lparr>systems := ss, events := es\<rparr>) \<and>
     map processing (systems d) = map processing (systems d0)"

lemma only_status_refl [simp]: "only_status d d"
  unfolding only_status_def by (intro conjI exI[of _ "systems d"] exI[of _ "events d"]) simp_all

lemma processing_fields [simp]:
  "sys_ID (processing s) = sys_ID s" "sys_KeyConfigurationID (processing s) = sys_KeyConfigurationID s"
  "sys_Status (processing s) = SystemStatusPROCESSING" "processing (processing s) = processing s"
  by (simp_all add: processing_def)

lemma processing_ids: "map processing ss = map processing ss' \<Longrightarrow> map sys_ID ss = map sys_ID ss'"
  by (drule arg_cong[of _ _ "map sys_ID"]) (simp add: comp_def)

lemma processing_matching:
  "map processing ss = map processing ss' \<Longrightarrow>
     map sys_ID (filter (\<lambda>s. sys_KeyConfigurationID s = k) ss) =
     map sys_ID (filter (\<lambda>s. sys_KeyConfigurationID s = k) ss')"
proof (induction ss arbitrary: ss')
  case (Cons s ss)
  then obtain t ts where t: "ss' = t # ts" "processing s = processing t" "map processing ss = map processing ts"
    by (cases ss') auto
  have "sys_ID s = sys_ID t" "sys_KeyConfigurationID s = sys_KeyConfigurationID t"
    using arg_cong[OF t(2), of sys_ID] arg_cong[OF t(2), of sys_KeyConfigurationID] by simp_all
  then show ?case using Cons.IH[OF t(3)] t(1) by simp
qed simp

lemma row_upd_processing:
  assumes "distinct (map sys_ID ss)" "processing s \<in> processing ` set ss"
  shows "map processing (row_upd (\<lambda>r. sys_ID r = sys_ID s) (\<lambda>_. processing s) ss) = map processing ss"
proof -
  obtain r0 where r0: "r0 \<in> set ss" "processing s = processing r0"
    using assms(2) by blast
  have i: "sys_ID r0 = sys_ID s"
    using arg_cong[OF r0(2), of sys_ID] by simp
  have "processing s = processing r" if r: "r \<in> set ss" "sys_ID r = sys_ID s" for r
  proof -
    have "inj_on sys_ID (set ss)" using assms(1) by (simp add: distinct_map)
    then have "r = r0" by (rule inj_onD) (simp_all add: r r0(1) i)
    then show ?thesis using r0(2) by simp
  qed
  then show ?thesis by (simp add: row_upd_def)
qed

lemma SystemSwitchNewPrimaryKey_run:
  assumes "SystemSwitchNewPrimaryKey env ctx s [] a b w = (Inr js, w')"
  shows "db ctx w' = (db ctx w)\<lparr>systems := row_upd (\<lambda>r. sys_ID r = sys_ID s) (\<lambda>_. processing s) (systems (db ctx w)),
       events := events (db ctx w')\<rparr>"
proof -
  obtain job s' where j: "js = (job, s')" by (cases js)
  show ?thesis
    using systemEvent_run(4)[OF assms[unfolded SystemSwitchNewPrimaryKey_def j]]
    unfolding processing_def System_AfterSave_Nil .
qed

text \<open>one batch: every system of it is being processed, and no row changed otherwise\<close>

lemma switch_batch:
  assumes "bindC (forC syss (\<lambda>s. SystemSwitchNewPrimaryKey env ctx s [] a b)) (\<lambda>_. returnC ()) w = (Inr (), w')"
    and "only_status d0 (db ctx w)" "distinct (map sys_ID (systems d0))"
    and "set syss \<subseteq> set (systems (db ctx w))"
  shows "only_status d0 (db ctx w') \<and>
    (\<forall>s \<in> set syss. \<forall>r \<in> set (systems (db ctx w')). sys_ID r = sys_ID s \<longrightarrow> sys_Status r = SystemStatusPROCESSING) \<and>
    (\<forall>i. (\<forall>r \<in> set (systems (db ctx w)). sys_ID r = i \<longrightarrow> sys_Status r = SystemStatusPROCESSING) \<longrightarrow>
         (\<forall>r \<in> set (systems (db ctx w')). sys_ID r = i \<longrightarrow> sys_Status r = SystemStatusPROCESSING))"
proof -
  define Q where "Q i w \<longleftrightarrow> (\<forall>r \<in> set (systems (db ctx w)). sys_ID r = i \<longrightarrow> sys_Status r = SystemStatusPROCESSING)"
    for i w
  obtain ys where run: "forC syss (\<lambda>s. SystemSwitchNewPrimaryKey env ctx s [] a b) w = (Inr ys, w')"
    using assms(1) by (auto simp: run_simps)
  have sub: "processing ` set syss \<subseteq> processing ` set (systems d0)"
    using assms(2,4) unfolding only_status_def by (metis image_mono list.set_map)
  have "only_status d0 (db ctx w') \<and> (\<forall>s \<in> set syss. Q (sys_ID s) w') \<and> (\<forall>s :: System. Q (sys_ID s) w \<longrightarrow> Q (sys_ID s) w')"
  proof (rule forC_inv[where I = "\<lambda>w. only_status d0 (db ctx w)" and Q = "\<lambda>s w. Q (sys_ID s) w", OF run assms(2)], goal_cases)
    case (1 s w y w')
    note r = SystemSwitchNewPrimaryKey_run[OF 1(3)]
    have ids: "map processing (systems (db ctx w)) = map processing (systems d0)"
      using 1(2) by (simp add: only_status_def)
    have "processing s \<in> processing ` set (systems (db ctx w))"
      using 1(1) sub ids by (metis image_subset_iff list.set_map)
    moreover have "distinct (map sys_ID (systems (db ctx w)))"
      using assms(3) processing_ids[OF ids] by simp
    ultimately have "map processing (systems (db ctx w')) = map processing (systems d0)"
      using row_upd_processing ids arg_cong[OF r, of systems] by simp
    moreover have "\<exists>ss es. db ctx w' = d0\<lparr>systems := ss, events := es\<rparr>"
      using 1(2) r by (force simp: only_status_def)
    moreover have "Q (sys_ID s) w'" "\<forall>z. Q (sys_ID z) w \<longrightarrow> Q (sys_ID z) w'"
      using arg_cong[OF r, of systems] by (auto simp: Q_def set_row_upd)
    ultimately show ?case by (simp add: only_status_def)
  qed
  moreover have "\<exists>s :: System. sys_ID s = i" for i by (rule exI[of _ "undefined\<lparr>sys_ID := i\<rparr>"]) simp
  ultimately show ?thesis unfolding Q_def by blast
qed

text \<open>all systems of the configuration are being processed after the switch\<close>

lemma switchSystems_run:
  assumes run: "switchSystems env ctx kid a b w = (Inr u, w')"
    and uniq: "distinct (map sys_ID (systems (db ctx w)))"
  shows "only_status (db ctx w) (db ctx w') \<and>
    (\<forall>s \<in> set (systems (db ctx w')). sys_KeyConfigurationID s = Some kid \<longrightarrow> sys_Status s = SystemStatusPROCESSING)"
proof -
  let ?q = "\<lambda>(_ :: schema) s. sys_KeyConfigurationID s = Some kid"
  let ?P = "\<lambda>i d. \<forall>r \<in> set (systems d). sys_ID r = i \<longrightarrow> sys_Status r = SystemStatusPROCESSING"
  have b: "(\<forall>s \<in> set (matching T_systems ?q (db ctx w)). ?P (sys_ID s) (db ctx w')) \<and>
      only_status (db ctx w) (db ctx w') \<and>
      map sys_ID (matching T_systems ?q (db ctx w')) = map sys_ID (matching T_systems ?q (db ctx w))"
    using run unfolding switchSystems_def
  proof (rule batch_complete[where I = "only_status (db ctx w)" and P = ?P and key = sys_ID], goal_cases)
    case (3 items v v')
    then have "set items \<subseteq> set (systems (db ctx v))" by (auto simp: matching_def)
    note sb = switch_batch[OF 3(3) 3(1) uniq this]
    then have p: "map processing (systems (db ctx v')) = map processing (systems (db ctx v))"
      using 3(1) by (simp add: only_status_def)
    have "map sys_ID (matching T_systems ?q (db ctx v')) = map sys_ID (matching T_systems ?q (db ctx v))"
      unfolding matching_def t_get_simps by (rule processing_matching[OF p])
    then show ?case using sb by (intro conjI) blast+
  qed (simp_all add: DefaultLimit_def)
  then have all: "\<forall>s \<in> set (matching T_systems ?q (db ctx w)). ?P (sys_ID s) (db ctx w')"
    and ids: "sys_ID ` set (matching T_systems ?q (db ctx w')) = sys_ID ` set (matching T_systems ?q (db ctx w))"
    by (blast, metis list.set_map)
  have "sys_Status s = SystemStatusPROCESSING" if s: "s \<in> set (systems (db ctx w'))" "?q (db ctx w') s" for s
  proof -
    have "s \<in> set (matching T_systems ?q (db ctx w'))"
      using s by (simp add: matching_def)
    then have "sys_ID s \<in> sys_ID ` set (matching T_systems ?q (db ctx w))"
      unfolding ids[symmetric] by (rule imageI)
    then show ?thesis using all s(1) by blast
  qed
  then show ?thesis using b by blast
qed

section \<open>Deleting a key configuration\<close>

lemma DeleteTags_run:
  assumes "DeleteTags env ctx i w = (Inr u, w')"
  shows "db ctx w' = tags_update (filter (\<lambda>t. tag_ID t \<noteq> i)) (db ctx w)"
  using assms by (auto simp: DeleteTags_def run_simps dest!: Delete_run)

lemma DeleteKeyConfigurationByID_run:
  assumes "DeleteKeyConfigurationByID env ctx i w = (Inr u, w')"
  shows "ctx_UserType ctx = Some InternalUser \<or> kc_access ctx (db ctx w) APIActionDelete i"
    and "\<forall>s \<in> set (systems (db ctx w)). sys_KeyConfigurationID s \<noteq> Some i"
    and "\<forall>k \<in> set (keys (db ctx w)). key_KeyConfigurationID k \<noteq> i"
    and "db ctx w' = (db ctx w)\<lparr>key_configurations := filter (\<lambda>kc. kc_ID kc \<noteq> i) (key_configurations (db ctx w)),
      tags := filter (\<lambda>t. tag_ID t \<noteq> i) (tags (db ctx w))\<rparr>"
proof -
  obtain b w1 w2 w3 where a: "HasKeyConfigAccess env ctx APIActionDelete (Some (i, None)) w = (Inr b, w1)"
    and s: "HasConnectedSystems env ctx i w1 = (Inr False, w2)"
    and k: "HasConnectedKeys env ctx i w2 = (Inr False, w3)"
    and tx: "Transaction env ctx (\<lambda>ctx. bindC (wrapC ''ErrDeleteKeyConfiguration''
              (Delete env ctx T_key_configurations Some (\<lambda>kc. kc_ID kc = i))) (\<lambda>_.
            DeleteTags env ctx i)) w3 = (Inr u, w')"
    using assms by (auto simp: DeleteKeyConfigurationByID_def run_simps split: if_splits)
  note r = HasKeyConfigAccess_run[OF a] HasConnectedSystems_run[OF s] HasConnectedKeys_run[OF k]
  show "ctx_UserType ctx = Some InternalUser \<or> kc_access ctx (db ctx w) APIActionDelete i"
    using r(1) by blast
  show "\<forall>s \<in> set (systems (db ctx w)). sys_KeyConfigurationID s \<noteq> Some i"
    using r(1,2) by auto
  show "\<forall>k \<in> set (keys (db ctx w)). key_KeyConfigurationID k \<noteq> i"
    using r by auto
  obtain v v' where v: "same_data w3 v" "same_data v' w'"
    and body: "bindC (wrapC ''ErrDeleteKeyConfiguration''
              (Delete env (ctx\<lparr>ctx_tx := True\<rparr>) T_key_configurations Some (\<lambda>kc. kc_ID kc = i))) (\<lambda>_.
            DeleteTags env (ctx\<lparr>ctx_tx := True\<rparr>) i) v = (Inr u, v')"
    by (rule Transaction_step[OF tx])
  have "db ctx v' = (db ctx v)\<lparr>key_configurations := filter (\<lambda>kc. kc_ID kc \<noteq> i) (key_configurations (db ctx v)),
      tags := filter (\<lambda>t. tag_ID t \<noteq> i) (tags (db ctx v))\<rparr>"
    using body by (auto simp: run_simps dest!: Delete_run DeleteTags_run)
  then show "db ctx w' = (db ctx w)\<lparr>key_configurations := filter (\<lambda>kc. kc_ID kc \<noteq> i) (key_configurations (db ctx w)),
      tags := filter (\<lambda>t. tag_ID t \<noteq> i) (tags (db ctx w))\<rparr>"
    using v[THEN same_data_db, of ctx] r by simp
qed

section \<open>Switching the primary key\<close>

lemma validatedKey_run:
  assumes "validatedKey env ctx i w = (Inr k, w')"
  shows "k \<in> set (keys (db ctx w)) \<and> key_ID k = i \<and> key_State k = KeyStateENABLED \<and> db ctx w' = db ctx w"
proof -
  have f: "First env ctx T_keys (\<lambda>_ k. key_ID k = i) w = (Inr k, w')" "key_State k = KeyStateENABLED"
    using assms by (auto simp: validatedKey_def run_simps validateKeyForPrimarySwitch_def split: if_splits)
  show ?thesis using First_join_found[OF f(1)] First_join_any[OF f(1), of ctx] f(2) by auto
qed

lemma updatePrimaryKeySystemEvents_tables:
  assumes "updatePrimaryKeySystemEvents env ctx a b w = (r, w')" "ctx_Tenant ctx = Some tn"
  shows "changes {TabEvents} (db ctx w) (db ctx w')"
  by (rule only_run[OF tab.steps_updatePrimaryKeySystemEvents assms(1)]) (simp_all add: assms(2))

text \<open>
  After a switch the new key was enabled and so was the old one, if there was one; then every
  system of the configuration is being processed.
\<close>

lemma handleUpdatePrimaryKey_run:
  assumes run: "handleUpdatePrimaryKey env ctx kc i w = (Inr u, w')"
    and tn: "ctx_Tenant ctx = Some tn" and uniq: "distinct (map sys_ID (systems (db ctx w)))"
  shows "\<exists>k \<in> set (keys (db ctx w)). key_ID k = i \<and> key_State k = KeyStateENABLED"
    and "\<forall>j. kc_PrimaryKeyID kc = Some j \<longrightarrow>
      (\<exists>k \<in> set (keys (db ctx w)). key_ID k = j \<and> key_State k = KeyStateENABLED) \<and>
      (\<forall>s \<in> set (systems (db ctx w')). sys_KeyConfigurationID s = Some (kc_ID kc) \<longrightarrow>
        sys_Status s = SystemStatusPROCESSING)"
    and "changes {TabEvents, TabSystems} (db ctx w) (db ctx w')"
proof -
  obtain k w1 where k: "validatedKey env ctx i w = (Inr k, w1)"
    using run by (auto simp: handleUpdatePrimaryKey_def run_simps)
  note vk = validatedKey_run[OF k]
  then show "\<exists>k \<in> set (keys (db ctx w)). key_ID k = i \<and> key_State k = KeyStateENABLED" by blast
  show "changes {TabEvents, TabSystems} (db ctx w) (db ctx w')"
    by (rule only_run[OF tab.steps_handleUpdatePrimaryKey run]) (simp_all add: tn)
  show "\<forall>j. kc_PrimaryKeyID kc = Some j \<longrightarrow>
      (\<exists>k \<in> set (keys (db ctx w)). key_ID k = j \<and> key_State k = KeyStateENABLED) \<and>
      (\<forall>s \<in> set (systems (db ctx w')). sys_KeyConfigurationID s = Some (kc_ID kc) \<longrightarrow>
        sys_Status s = SystemStatusPROCESSING)"
  proof (intro allI impI)
    fix j assume j: "kc_PrimaryKeyID kc = Some j"
    obtain k' w2 u' w3 where v2: "validatedKey env ctx j w1 = (Inr k', w2)"
      and ev: "updatePrimaryKeySystemEvents env ctx (uuid_String env j) (uuid_String env i) w2 = (Inr u', w3)"
      and sw: "switchSystems env ctx (kc_ID kc) (uuid_String env i) (uuid_String env j) w3 = (Inr u, w')"
      using run k j by (auto simp: handleUpdatePrimaryKey_def run_simps)
    have "systems (db ctx w3) = systems (db ctx w2)"
      using updatePrimaryKeySystemEvents_tables[OF ev tn] by (simp add: changes_def)
    then show "(\<exists>k \<in> set (keys (db ctx w)). key_ID k = j \<and> key_State k = KeyStateENABLED) \<and>
      (\<forall>s \<in> set (systems (db ctx w')). sys_KeyConfigurationID s = Some (kc_ID kc) \<longrightarrow>
        sys_Status s = SystemStatusPROCESSING)"
      using validatedKey_run[OF v2] vk switchSystems_run[OF sw] uniq by auto
  qed
qed

text \<open>a primary key that no longer exists blocks every further switch\<close>

lemma handleUpdatePrimaryKey_dangling:
  assumes "kc_PrimaryKeyID kc = Some j" "\<forall>k \<in> set (keys (db ctx w)). key_ID k \<noteq> j"
  shows "\<exists>e w'. handleUpdatePrimaryKey env ctx kc i w = (Inl e, w')"
proof (cases "handleUpdatePrimaryKey env ctx kc i w")
  case (Pair r w')
  have False if r: "r = Inr u" for u
  proof -
    obtain k w1 k' w2 where "validatedKey env ctx i w = (Inr k, w1)" "validatedKey env ctx j w1 = (Inr k', w2)"
      using Pair[unfolded r] assms(1) by (auto simp: handleUpdatePrimaryKey_def run_simps)
    then show False using assms(2) by (auto dest!: validatedKey_run)
  qed
  then show ?thesis using Pair by (cases r) auto
qed

lemma applyConfigPatch_run:
  assumes run: "applyConfigPatch env p kc ctx w = (Inr kc', w')"
    and tn: "ctx_Tenant ctx = Some tn" and uniq: "distinct (map sys_ID (systems (db ctx w)))"
    and pid: "kcp_PrimaryKeyID p = Some pid"
  shows "\<exists>k \<in> set (keys (db ctx w)). key_ID k = pid \<and> key_State k = KeyStateENABLED"
    and "\<forall>r \<in> set (key_configurations (db ctx w')). kc_ID r = kc_ID kc \<longrightarrow> kc_PrimaryKeyID r = Some pid"
    and "kc_PrimaryKeyID kc \<noteq> None \<Longrightarrow> \<forall>s \<in> set (systems (db ctx w')).
      sys_KeyConfigurationID s = Some (kc_ID kc) \<longrightarrow> sys_Status s = SystemStatusPROCESSING"
    and "\<forall>j. kc_PrimaryKeyID kc = Some j \<longrightarrow> (\<exists>k \<in> set (keys (db ctx w)). key_ID k = j)"
proof -
  obtain u w1 b where h: "handleUpdatePrimaryKey env ctx kc pid w = (Inr u, w1)"
    and pt: "KeyConfiguration_Patch env ctx (kc\<lparr>kc_PrimaryKeyID := Some pid\<rparr>) w1 = (Inr b, w')"
    using run pid by (auto simp: applyConfigPatch_def run_simps)
  note hr = handleUpdatePrimaryKey_run[OF h tn uniq]
  have d': "db ctx w' = key_configurations_update (row_upd (\<lambda>r. kc_ID r = kc_ID kc)
      (KeyConfiguration_merge (kc\<lparr>kc_PrimaryKeyID := Some pid\<rparr>))) (db ctx w1)"
    using pt by (auto simp: KeyConfiguration_Patch_def dest!: Patch_run)
  show "\<exists>k \<in> set (keys (db ctx w)). key_ID k = pid \<and> key_State k = KeyStateENABLED" by (rule hr(1))
  show "\<forall>r \<in> set (key_configurations (db ctx w')). kc_ID r = kc_ID kc \<longrightarrow> kc_PrimaryKeyID r = Some pid"
    unfolding d' by (auto simp: set_row_upd KeyConfiguration_merge_def)
  show "\<forall>s \<in> set (systems (db ctx w')). sys_KeyConfigurationID s = Some (kc_ID kc) \<longrightarrow>
      sys_Status s = SystemStatusPROCESSING" if "kc_PrimaryKeyID kc \<noteq> None"
    unfolding d' using that hr(2) by auto
  show "\<forall>j. kc_PrimaryKeyID kc = Some j \<longrightarrow> (\<exists>k \<in> set (keys (db ctx w)). key_ID k = j)"
    using hr(2) by blast
qed

lemma UpdateKeyConfigurationByID_run:
  assumes run: "UpdateKeyConfigurationByID env ctx i p w = (Inr kc', w')"
    and tn: "ctx_Tenant ctx = Some tn" and uniq: "distinct (map sys_ID (systems (db ctx w)))"
    and pid: "kcp_PrimaryKeyID p = Some pid"
  obtains kc where "kc \<in> set (key_configurations (db ctx w))" "kc_ID kc = i"
    "ctx_UserType ctx = Some InternalUser \<or> kc_access ctx (db ctx w) APIActionUpdate i"
    "\<exists>k \<in> set (keys (db ctx w)). key_ID k = pid \<and> key_State k = KeyStateENABLED"
    "\<forall>r \<in> set (key_configurations (db ctx w')). kc_ID r = i \<longrightarrow> kc_PrimaryKeyID r = Some pid"
    "kc_PrimaryKeyID kc \<noteq> None \<Longrightarrow> \<forall>s \<in> set (systems (db ctx w')). sys_KeyConfigurationID s = Some i \<longrightarrow>
        sys_Status s = SystemStatusPROCESSING"
    "\<forall>j. kc_PrimaryKeyID kc = Some j \<longrightarrow> (\<exists>k \<in> set (keys (db ctx w)). key_ID k = j)"
proof -
  obtain b w1 kc w2 where a: "HasKeyConfigAccess env ctx APIActionUpdate (Some (i, None)) w = (Inr b, w1)"
    and f: "First env ctx T_key_configurations (\<lambda>_ kc. kc_ID kc = i) w1 = (Inr kc, w2)"
    and tx: "Transaction env ctx (applyConfigPatch env p (patchedFields p kc)) w2 = (Inr kc', w')"
    using run by (auto simp: UpdateKeyConfigurationByID_def bindC_run wrapC_run throwC_run split: if_split_asm)
  note ac = HasKeyConfigAccess_run[OF a]
  have kc: "kc \<in> set (key_configurations (db ctx w))" "kc_ID kc = i" "db ctx w2 = db ctx w"
    using First_join_found[OF f] First_join_any[OF f, of ctx] ac by auto
  obtain v v' where v: "same_data w2 v" "same_data v' w'" and
    body: "applyConfigPatch env p (patchedFields p kc) (ctx\<lparr>ctx_tx := True\<rparr>) v = (Inr kc', v')"
    by (rule Transaction_step[OF tx])
  have dv: "db ctx v = db ctx w" "db ctx v' = db ctx w'"
    using v[THEN same_data_db, of ctx] kc(3) by auto
  have pf: "kc_PrimaryKeyID (patchedFields p kc) = kc_PrimaryKeyID kc" "kc_ID (patchedFields p kc) = i"
    using kc(2) by (simp_all add: patchedFields_def)
  have "ctx_Tenant (ctx\<lparr>ctx_tx := True\<rparr>) = Some tn"
    "distinct (map sys_ID (systems (db (ctx\<lparr>ctx_tx := True\<rparr>) v)))"
    using tn uniq dv(1) by simp_all
  note r = applyConfigPatch_run[OF body this pid, unfolded db_tx dv pf]
  show thesis
    using ac by (intro that[OF kc(1,2) _ r]) blast+
qed

section \<open>Events that keep the old key\<close>

abbreviation targets :: "string \<Rightarrow> schema \<Rightarrow> Event \<Rightarrow> bool" where
  "targets k \<equiv> \<lambda>_ e. event_keyIDTo e = Some k"

text \<open>one batch moves exactly its own events to the new key\<close>

lemma retarget_batch:
  assumes run: "bindC (forC evs (\<lambda>e. Patch env ctx T_events (\<lambda>r. ev_Identifier r = ev_Identifier e)
      (Event_merge (retarget new e)))) (\<lambda>_. returnC ()) w = (Inr (), w')"
    and evs: "\<forall>e \<in> set evs. event_keyIDTo e = Some old" and "new \<noteq> old"
  defines "ids \<equiv> ev_Identifier ` set evs"
  shows "map ev_Identifier (events (db ctx w')) = map ev_Identifier (events (db ctx w))"
    and "\<forall>e. ev_Identifier e \<notin> ids \<longrightarrow> (e \<in> set (events (db ctx w')) \<longleftrightarrow> e \<in> set (events (db ctx w)))"
    and "\<forall>e \<in> set (events (db ctx w')). ev_Identifier e \<in> ids \<longrightarrow> event_keyIDTo e \<noteq> Some old"
proof -
  define I where "I v \<longleftrightarrow> map ev_Identifier (events (db ctx v)) = map ev_Identifier (events (db ctx w)) \<and>
    (\<forall>e. ev_Identifier e \<notin> ids \<longrightarrow> (e \<in> set (events (db ctx v)) \<longleftrightarrow> e \<in> set (events (db ctx w))))" for v
  define Q where "Q x v \<longleftrightarrow> (\<forall>e \<in> set (events (db ctx v)). ev_Identifier e = ev_Identifier x \<longrightarrow>
    event_keyIDTo e \<noteq> Some old)" for x :: Event and v
  obtain ys where f: "forC evs (\<lambda>e. Patch env ctx T_events (\<lambda>r. ev_Identifier r = ev_Identifier e)
      (Event_merge (retarget new e))) w = (Inr ys, w')"
    using run by (auto simp: run_simps)
  have "I w' \<and> (\<forall>x \<in> set evs. Q x w') \<and> (\<forall>z. Q z w \<longrightarrow> Q z w')"
  proof (rule forC_inv[where I = I and Q = Q, OF f], goal_cases)
    case (2 x v y v')
    have d: "events (db ctx v') = row_upd (\<lambda>r. ev_Identifier r = ev_Identifier x)
        (Event_merge (retarget new x)) (events (db ctx v))"
      using 2(3) by (auto dest!: Patch_run)
    have "event_keyIDTo (Event_merge (retarget new x) r) = Some new" for r
      using evs 2(1) by (auto simp: event_keyIDTo_def Event_merge_def retarget_def split: JobData.splits)
    moreover have "ev_Identifier (Event_merge m r) = ev_Identifier r" for m r
      by (simp add: Event_merge_def)
    moreover have "ev_Identifier x \<in> ids" using 2(1) by (simp add: ids_def)
    moreover have "map ev_Identifier (row_upd p (Event_merge m) rs) = map ev_Identifier rs" for p m rs
      by (simp add: row_upd_def comp_def Event_merge_def if_distrib cong: if_cong)
    ultimately show ?case
      using 2(2) assms(3) unfolding I_def Q_def d by (auto simp: set_row_upd image_iff)
  qed (simp add: I_def)
  then show "map ev_Identifier (events (db ctx w')) = map ev_Identifier (events (db ctx w))"
    "\<forall>e. ev_Identifier e \<notin> ids \<longrightarrow> (e \<in> set (events (db ctx w')) \<longleftrightarrow> e \<in> set (events (db ctx w)))"
    "\<forall>e \<in> set (events (db ctx w')). ev_Identifier e \<in> ids \<longrightarrow> event_keyIDTo e \<noteq> Some old"
    unfolding I_def Q_def ids_def by auto
qed

text \<open>with more than one and at most two batches of events, those of the second batch keep the old key\<close>

lemma updatePrimaryKeySystemEvents_skips:
  assumes run: "updatePrimaryKeySystemEvents env ctx old new w = (Inr u, w')" and "new \<noteq> old"
    and uniq: "distinct (map ev_Identifier (events (db ctx w)))"
    and n: "100 < length (matching T_events (targets old) (db ctx w))"
      "length (matching T_events (targets old) (db ctx w)) \<le> 200"
  shows "\<forall>e \<in> set (drop 100 (matching T_events (targets old) (db ctx w))). e \<in> set (events (db ctx w'))"
proof -
  let ?M = "matching T_events (targets old) (db ctx w)"
  have dM: "distinct (map ev_Identifier ?M)"
    using uniq by (simp add: matching_def distinct_map_filter')
  have ne: "?M \<noteq> []" using n by auto
  obtain w1 w2 where w1: "db ctx w1 = db ctx w"
    and f: "bindC (forC (take 100 ?M) (\<lambda>e. Patch env ctx T_events (\<lambda>r. ev_Identifier r = ev_Identifier e)
      (Event_merge (retarget new e)))) (\<lambda>_. returnC ()) w1 = (Inr (), w2)"
    and stop: "length (matching T_events (targets old) (db ctx w2)) \<le> 100 \<Longrightarrow> db ctx w' = db ctx w2"
    by (rule batch_first_round[OF run[unfolded updatePrimaryKeySystemEvents_def] _ ne])
      (simp_all add: DefaultLimit_def)
  have old: "\<forall>e \<in> set (take 100 ?M). event_keyIDTo e = Some old"
    by (auto simp: matching_def dest!: in_set_takeD)
  note rb = retarget_batch[OF f old assms(2), unfolded w1]
  have split: "set (take 100 ?M) \<union> set (drop 100 ?M) = set ?M"
    by (metis append_take_drop_id set_append)
  have out: "ev_Identifier e \<notin> ev_Identifier ` set (take 100 ?M)" if "e \<in> set (drop 100 ?M)" for e
    using set_take_disj_set_drop_if_distinct[OF dM, of 100 100] that
    by (auto simp: take_map drop_map)
  have sub: "set (matching T_events (targets old) (db ctx w2)) \<subseteq> set (drop 100 ?M)"
  proof
    fix e assume e: "e \<in> set (matching T_events (targets old) (db ctx w2))"
    then have "ev_Identifier e \<notin> ev_Identifier ` set (take 100 ?M)"
      using rb(3) by (auto simp: matching_def)
    then have "e \<in> set ?M" "e \<notin> set (take 100 ?M)" using rb(2) e by (auto simp: matching_def)
    then show "e \<in> set (drop 100 ?M)" using split by blast
  qed
  have "distinct (matching T_events (targets old) (db ctx w2))"
    using uniq[folded rb(1)] by (simp add: matching_def distinct_map)
  then have "length (matching T_events (targets old) (db ctx w2)) = card (set (matching T_events (targets old) (db ctx w2)))"
    by (rule distinct_card[symmetric])
  also have "\<dots> \<le> card (set (drop 100 ?M))" by (rule card_mono[OF finite_set sub])
  also have "\<dots> \<le> length (drop 100 ?M)" by (rule card_length)
  finally have "length (matching T_events (targets old) (db ctx w2)) \<le> 100" using n by simp
  then have d: "db ctx w' = db ctx w2" by (rule stop)
  show ?thesis
    unfolding d using rb(2) out split by (auto simp: matching_def)
qed

end
