(* ===== verification/Error_Mapper.thy ===== *)
theory Error_Mapper
  imports Prelude
begin

text \<open>
  Translation of internal errors to the errors shown outside (src/internal/errs/mapper.go).

  A mapper is a list of entries, each with the sentinels that must all be in an error's chain and the
  error to expose, and a list of priority entries, of which one sentinel is enough. The entry with the
  most sentinels wins, and the first one among equals; \<open>Transform_best\<close> and \<open>Transform_cases\<close>
  say so. The context that an entry may attach
  to the exposed error is left out.
\<close>

section \<open>The mapper\<close>

record 'a ExposedErrors =
  ee_InternalErrorChain :: "string list"
  ee_ExposedError :: 'a

record 'a ErrorMapper =
  em_Errors :: "'a ExposedErrors list"
  em_PriorityErrors :: "'a ExposedErrors list"

definition countMatchingErrors :: "gerror \<Rightarrow> string list \<Rightarrow> nat" where
  "countMatchingErrors err candidates = length (filter (errs_Is err) candidates)"

definition containsAsPriority :: "'a ErrorMapper \<Rightarrow> gerror \<Rightarrow> 'a option" where
  "containsAsPriority m err = map_option ee_ExposedError
     (find (\<lambda>e. countMatchingErrors err (ee_InternalErrorChain e) > 0) (em_PriorityErrors m))"

text \<open>the loop of \<open>getBestMatches\<close>: the highest count so far and the entries that have it\<close>

fun bestMatches ::
  "gerror \<Rightarrow> nat \<Rightarrow> 'a ExposedErrors list \<Rightarrow> 'a ExposedErrors list \<Rightarrow> 'a ExposedErrors list" where
  "bestMatches err minCount result [] = result"
| "bestMatches err minCount result (mErr # rest) =
     (let count = countMatchingErrors err (ee_InternalErrorChain mErr) in
      if length (ee_InternalErrorChain mErr) > count then bestMatches err minCount result rest
      else if count = minCount then bestMatches err minCount (result @ [mErr]) rest
      else if count > minCount then bestMatches err count [mErr] rest
      else bestMatches err minCount result rest)"

definition getBestMatches :: "'a ErrorMapper \<Rightarrow> gerror \<Rightarrow> 'a ExposedErrors list" where
  "getBestMatches m err = bestMatches err 1 [] (em_Errors m)"

definition Transform :: "'a ErrorMapper \<Rightarrow> 'a \<Rightarrow> gerror \<Rightarrow> 'a" where
  "Transform m defaultError internalErr = (case containsAsPriority m internalErr of
       Some e \<Rightarrow> e
     | None \<Rightarrow> (case getBestMatches m internalErr of
         [] \<Rightarrow> defaultError
       | selected # _ \<Rightarrow> ee_ExposedError selected))"

section \<open>The best match\<close>

text \<open>all sentinels of the entry are in the error's chain\<close>

definition covered :: "gerror \<Rightarrow> 'a ExposedErrors \<Rightarrow> bool" where
  "covered err e \<longleftrightarrow> (\<forall>s \<in> set (ee_InternalErrorChain e). errs_Is err s)"

abbreviation weight :: "'a ExposedErrors \<Rightarrow> nat" where
  "weight e \<equiv> length (ee_InternalErrorChain e)"

lemma countMatchingErrors_covered:
  "length cs \<le> countMatchingErrors err cs \<longleftrightarrow> (\<forall>s \<in> set cs. errs_Is err s)"
  "countMatchingErrors err cs \<le> length cs"
proof -
  show le: "countMatchingErrors err cs \<le> length cs" by (simp add: countMatchingErrors_def)
  show "length cs \<le> countMatchingErrors err cs \<longleftrightarrow> (\<forall>s \<in> set cs. errs_Is err s)"
    unfolding countMatchingErrors_def
    by (metis (full_types) filter_True length_filter_le length_filter_less linorder_not_less)
qed

lemma count_weight: "covered err e \<Longrightarrow> countMatchingErrors err (ee_InternalErrorChain e) = weight e"
  using countMatchingErrors_covered[where err = err and cs = "ee_InternalErrorChain e"] by (simp add: covered_def)

lemma not_covered: "weight e > countMatchingErrors err (ee_InternalErrorChain e) \<longleftrightarrow> \<not> covered err e"
  using countMatchingErrors_covered[where err = err and cs = "ee_InternalErrorChain e"] by (auto simp: covered_def)

text \<open>the entries that match with the greatest weight, in the order of the table\<close>

definition heaviest :: "gerror \<Rightarrow> nat \<Rightarrow> 'a ExposedErrors list \<Rightarrow> nat" where
  "heaviest err n es = foldl max n (map weight (filter (covered err) es))"

lemma heaviest_ge: "n \<le> heaviest err n es"
proof (induction es arbitrary: n)
  case (Cons e es)
  have "n \<le> max n (weight e)" by simp
  also have "\<dots> \<le> heaviest err (max n (weight e)) es" by (rule Cons.IH)
  finally show ?case using Cons.IH by (simp add: heaviest_def)
qed (simp add: heaviest_def)

lemma heaviest_Cons:
  "heaviest err n (e # es) = heaviest err (if covered err e then max n (weight e) else n) es"
  by (simp add: heaviest_def)

lemma bestMatches_eq:
  "bestMatches err n acc es = (if heaviest err n es > n then [] else acc) @
     filter (\<lambda>e. covered err e \<and> weight e = heaviest err n es) es"
proof (induction es arbitrary: n acc)
  case (Cons e es)
  show ?case
  proof (cases "covered err e")
    case False
    then show ?thesis using Cons.IH by (simp add: Let_def not_covered heaviest_Cons)
  next
    case True
    note c = count_weight[OF True]
    have h: "heaviest err n (e # es) = heaviest err (max n (weight e)) es"
      using True by (simp add: heaviest_Cons)
    consider "weight e = n" | "weight e > n" | "weight e < n" by linarith
    then show ?thesis
    proof cases
      case 1
      moreover have "heaviest err n es \<ge> n" by (rule heaviest_ge)
      ultimately show ?thesis using Cons.IH c True h by (auto simp: Let_def)
    next
      case 2
      moreover have "heaviest err (weight e) es \<ge> weight e" by (rule heaviest_ge)
      ultimately show ?thesis using Cons.IH c True h by (auto simp: Let_def max_def)
    next
      case 3
      moreover have "heaviest err n es \<ge> n" by (rule heaviest_ge)
      ultimately show ?thesis using Cons.IH c True h by (auto simp: Let_def max_def)
    qed
  qed
qed (simp add: heaviest_def)

lemma heaviest_max:
  assumes "\<forall>e \<in> set es. covered err e \<longrightarrow> weight e \<le> k" and "n \<le> k"
  shows "heaviest err n es \<le> k"
  using assms by (induction es arbitrary: n) (auto simp: heaviest_Cons, simp add: heaviest_def)

lemma heaviest_mem:
  assumes "e \<in> set es" "covered err e"
  shows "weight e \<le> heaviest err n es"
  using assms
proof (induction es arbitrary: n)
  case (Cons a es)
  then show ?case
    using heaviest_ge[of "max n (weight e)" err es] by (auto simp: heaviest_Cons)
qed simp

text \<open>an entry none of whose predecessors weighs as much and none of whose successors weighs more is chosen\<close>

lemma Transform_best:
  assumes m: "em_Errors m = xs @ e # ys" and "containsAsPriority m err = None"
    and "covered err e" "weight e \<ge> 1"
    and "\<forall>x \<in> set xs. covered err x \<longrightarrow> weight x < weight e"
    and "\<forall>y \<in> set ys. covered err y \<longrightarrow> weight y \<le> weight e"
  shows "Transform m dflt err = ee_ExposedError e"
proof -
  have h: "heaviest err 1 (em_Errors m) = weight e"
  proof (rule antisym)
    show "heaviest err 1 (em_Errors m) \<le> weight e"
      using assms by (intro heaviest_max) (auto simp: m intro: less_imp_le)
    show "weight e \<le> heaviest err 1 (em_Errors m)"
      using assms(3) by (intro heaviest_mem) (auto simp: m)
  qed
  have "filter (\<lambda>x. covered err x \<and> weight x = weight e) xs = []"
    using assms(5) by (auto simp: filter_empty_conv)
  then have "bestMatches err 1 [] (em_Errors m) = e # filter (\<lambda>x. covered err x \<and> weight x = weight e) ys"
    unfolding bestMatches_eq h using assms(3) by (simp add: m)
  then show ?thesis
    using assms(2) by (simp add: Transform_def getBestMatches_def)
qed

lemma Transform_default:
  "Transform m dflt err = dflt"
  if "containsAsPriority m err = None" "\<forall>e \<in> set (em_Errors m). weight e \<ge> 1 \<and> \<not> covered err e"
proof -
  have "filter (covered err) (em_Errors m) = []" using that(2) by (auto simp: filter_empty_conv)
  then have "bestMatches err 1 [] (em_Errors m) = []"
    unfolding bestMatches_eq by (auto simp: filter_empty_conv heaviest_def)
  then show ?thesis using that(1) by (simp add: Transform_def getBestMatches_def)
qed

lemma heaviest_attained:
  "heaviest err n es = n \<or> (\<exists>e \<in> set es. covered err e \<and> weight e = heaviest err n es)"
proof (induction es arbitrary: n)
  case (Cons a es)
  show ?case using Cons.IH[of "max n (weight a)"] Cons.IH[of n] by (auto simp: heaviest_Cons max_def split: if_splits)
qed (simp add: heaviest_def)

text \<open>an entry is chosen, by priority or by weight, or nothing matches\<close>

lemma Transform_cases:
  assumes "\<forall>e \<in> set (em_Errors m). weight e \<ge> 1"
  obtains (priority) e where "e \<in> set (em_PriorityErrors m)" "\<exists>s \<in> set (ee_InternalErrorChain e). errs_Is err s"
      "Transform m dflt err = ee_ExposedError e"
  | (best) e where "e \<in> set (em_Errors m)" "covered err e" "\<forall>x \<in> set (em_Errors m). covered err x \<longrightarrow> weight x \<le> weight e"
      "Transform m dflt err = ee_ExposedError e"
  | (none) "\<forall>e \<in> set (em_Errors m). \<not> covered err e" "Transform m dflt err = dflt"
proof (cases "containsAsPriority m err")
  case (Some x)
  then obtain e where "find (\<lambda>e. countMatchingErrors err (ee_InternalErrorChain e) > 0) (em_PriorityErrors m) = Some e"
    "x = ee_ExposedError e" by (auto simp: containsAsPriority_def)
  then show thesis
    using Some find_Some_in[of _ "em_PriorityErrors m" e]
    by (intro priority[of e]) (auto simp: Transform_def countMatchingErrors_def filter_empty_conv)
next
  case None
  let ?h = "heaviest err 1 (em_Errors m)"
  have b: "getBestMatches m err = filter (\<lambda>e. covered err e \<and> weight e = ?h) (em_Errors m)"
    by (simp add: getBestMatches_def bestMatches_eq)
  show thesis
  proof (cases "getBestMatches m err")
    case Nil
    have "\<not> covered err e" if "e \<in> set (em_Errors m)" for e
    proof
      assume c: "covered err e"
      have "1 \<le> weight e" "weight e \<le> ?h" using that assms heaviest_mem[OF that c] by auto
      then have "\<exists>x \<in> set (em_Errors m). covered err x \<and> weight x = ?h"
        using heaviest_attained[of err 1 "em_Errors m"] that c by force
      moreover have "filter (\<lambda>e. covered err e \<and> weight e = ?h) (em_Errors m) = []" using b Nil by simp
      ultimately show False unfolding filter_empty_conv by blast
    qed
    with None Nil show thesis by (intro none) (auto simp: Transform_def)
  next
    case (Cons e es)
    then have "e \<in> set (filter (\<lambda>e. covered err e \<and> weight e = ?h) (em_Errors m))" unfolding b[symmetric] by simp
    with None Cons show thesis by (intro best[of e]) (auto simp: Transform_def intro: heaviest_mem)
  qed
qed

end
