(* ===== verification/Api_Errors.thy ===== *)
theory Api_Errors
  imports Error_Mapper
begin

text \<open>
  The errors of the HTTP API (src/internal/apierrors): one table per resource, concatenated in the order
  of mapping.go. Sentinels of the manager package are named without a prefix, the others with their
  package.
\<close>

section \<open>Tables\<close>

record APIError =
  api_Code :: string
  api_Message :: string
  api_Status :: int

definition exposed :: "string list \<Rightarrow> string \<Rightarrow> string \<Rightarrow> int \<Rightarrow> APIError ExposedErrors" where
  "exposed chain code msg status = \<lparr>ee_InternalErrorChain = chain,
     ee_ExposedError = \<lparr>api_Code = code, api_Message = msg, api_Status = status\<rparr>\<rparr>"

definition InternalServerErrorMessage :: APIError where
  "InternalServerErrorMessage = \<lparr>api_Code = ''INTERNAL_SERVER_ERROR'', api_Message = ''Internal server error'',
     api_Status = 500\<rparr>"

definition keyConfiguration_errors :: "APIError ExposedErrors list" where
  "keyConfiguration_errors =
     [exposed [''ErrInvalidKeyAdminGroup''] ''INVALID_KEY_CONFIG_ADMIN_GROUP''
         ''invalid keyconfig admin group'' 400,
      exposed [''ErrConnectedSystemToKeyConfig''] ''INVALID_KEY_CONFIG_DELETE''
         ''failed to delete keyconfig with connected systems'' 400,
      exposed [''ErrGettingKeyConfigByID''] ''KEY_CONFIGURATION_NOT_FOUND''
         ''Key configuration not found or insufficient access permissions'' 404,
      exposed [''ErrKeyConfigurationNotAllowed''] ''KEY_CONFIGURATION_NOT_FOUND''
         ''Key configuration not found or insufficient access permissions'' 404,
      exposed [''ErrQueryKeyConfigurationList''] ''QUERY_KEY_CONFIGURATION_LIST''
         ''failed to query key configuration list'' 500,
      exposed [''apierrors.ErrTransformKeyConfigurationList''] ''TRANSFORM_KEY_CONFIGURATION_LIST''
         ''failed to transform key configuration list'' 500,
      exposed [''apierrors.ErrTransformKeyConfigurationFromAPI''] ''TRANSFORM_KEY_CONFIGURATION_FROM_API''
         ''failed to transform key configuration'' 400,
      exposed [''ErrDeleteKeyConfiguration''] ''DELETE_KEY_CONFIGURATION''
         ''failed to delete key configuration'' 500,
      exposed [''ErrDeleteKeyConfiguration'', ''ErrConnectedKeysToKeyConfig''] ''DELETE_KEY_CONFIGURATION_WITH_KEYS''
         ''cannot delete key configuration with existing keys'' 400,
      exposed [''ErrDeleteKeyConfiguration'', ''ErrConnectSystemNoPrimaryKey''] ''DELETE_KEY_CONFIGURATION_WITH_SYSTEMS''
         ''cannot delete key configuration with connected systems'' 400,
      exposed [''ErrNameCannotBeEmpty''] ''INVALID_PROPERTY''
         ''name field cannot be empty'' 400,
      exposed [''ErrUpdateKeyConfiguration''] ''UPDATE_KEY_CONFIGURATION''
         ''failed to update key configuration'' 500,
      exposed [''ErrUpdateKeyConfiguration'', ''repo.ErrUniqueConstraint''] ''UNIQUE_ERROR''
         ''failed to update key configuration because of unique constraint'' 409,
      exposed [''ErrCreateKeyConfiguration''] ''CREATE_KEY_CONFIGURATION''
         ''failed to create key configuration'' 500,
      exposed [''ErrCreateKeyConfiguration'', ''repo.ErrUniqueConstraint''] ''UNIQUE_ERROR''
         ''failed to create key configuration because of unique constraint'' 409,
      exposed [''apierrors.ErrGetClientCertificates''] ''GET_CLIENT_CERTIFICATES''
         ''Failed to get client certificates'' 500]"

definition keyVersion_errors :: "APIError ExposedErrors list" where
  "keyVersion_errors =
     [exposed [''ErrUpdateKeyVersionDisabled''] ''KEY_DISABLED''
         ''key must be enabled before attempting to update version'' 400,
      exposed [''ErrNoBodyForCustomerHeldDB''] ''NO_BODY_FOR_CUSTOMER_HELD''
         ''body must be provided for customer held key rotation'' 400,
      exposed [''apierrors.ErrQueryKeyVersionList''] ''QUERY_KEY_VERSION_LIST''
         ''failed to query key version list'' 500,
      exposed [''apierrors.ErrTransformKeyVersionList''] ''TRANSFORM_KEY_VERSION_LIST''
         ''failed to transform key version list'' 500,
      exposed [''ErrCreateKeyVersionDB''] ''CREATE_KEY_VERSION''
         ''failed to create key version'' 500,
      exposed [''apierrors.ErrTransformKeyVersionToAPI''] ''TRANSFORM_KEY_VERSION''
         ''failed to transform key version'' 500,
      exposed [''apierrors.ErrGettingKeyVersionByNumber''] ''GET_KEY_VERSION_NUMBER''
         ''failed to get key version by number'' 404,
      exposed [''ErrUpdateKeyVersionDB''] ''UPDATE_KEY_VERSION''
         ''failed to update key version'' 500]"

definition workflow_errors1 :: "APIError ExposedErrors list" where
  "workflow_errors1 =
     [exposed [''ErrWorkflowCreationNotAllowed''] ''FORBIDDEN_WORKFLOW_CREATION''
         ''Workflow creation unauthorized (may not be keyadmin or in correct group)'' 403,
      exposed [''ErrCheckWorkflow''] ''CHECK_WORKFLOW''
         ''failed to check artifacts of workflow'' 500,
      exposed [''ErrGetWorkflowDB''] ''GET_WORKFLOW''
         ''failed to get workflow'' 500,
      exposed [''ErrCheckWorkflowEligibility''] ''CHECK_WORKFLOW_ELIGIBILITY''
         ''failed to check workflow eligibility from identity management'' 500,
      exposed [''ErrWorkflowNotAllowed''] ''WORKFLOW_NOT_FOUND''
         ''Workflow not found or insufficient access permissions'' 404,
      exposed [''ErrGetWorkflowDB'', ''repo.ErrNotFound''] ''GET_WORKFLOW''
         ''Workflow not found or insufficient access permissions'' 404,
      exposed [''apierrors.ErrGetWorkflow''] ''GET_WORKFLOW''
         ''failed to get workflow'' 500,
      exposed [''apierrors.ErrTransformWorkflowFromAPI''] ''TRANSFORM_WORKFLOW_FROM_API''
         ''failed to transform workflow from API'' 400,
      exposed [''apierrors.ErrTransformWorkflowToAPI''] ''TRANSFORM_WORKFLOW_TO_API''
         ''failed to transform workflow to API'' 500,
      exposed [''ErrCreateWorkflowDB''] ''CREATE_WORKFLOW''
         ''failed to create workflow'' 500,
      exposed [''apierrors.ErrCreateWorkflow''] ''CREATE_WORKFLOW''
         ''failed to create workflow'' 500,
      exposed [''ErrOngoingWorkflowExist''] ''ONGOING_WORKFLOW''
         ''ongoing workflow for artifact already exists'' 400,
      exposed [''ErrCheckOngoingWorkflow''] ''CHECK_ONGOING_WORKFLOW''
         ''error checking ongoing workflow for artifact'' 500,
      exposed [''workflow.ErrInvalidWorkflowState''] ''INVALID_WORKFLOW_STATE''
         ''invalid workflow state'' 400,
      exposed [''workflow.ErrWorkflowExecution''] ''WORKFLOW_EXECUTION''
         ''error executing workflow action'' 500,
      exposed [''workflow.ErrUpdateWorkflowState''] ''UPDATE_WORKFLOW_STATE''
         ''error updating workflow state'' 500,
      exposed [''workflow.ErrListApprovers''] ''LIST_APPROVERS''
         ''error listing approvers'' 500,
      exposed [''workflow.ErrCheckApprovers''] ''CHECK_APPROVERS''
         ''error checking approvers'' 500]"

definition workflow_errors2 :: "APIError ExposedErrors list" where
  "workflow_errors2 =
     [exposed [''ErrUpdateApproverDecision''] ''UPDATE_APPROVER_DECISION''
         ''error updating approver decision'' 500,
      exposed [''workflow.ErrCheckApproverDecision''] ''CHECK_APPROVER_DECISION''
         ''error checking approver decision'' 500,
      exposed [''workflow.ErrInvalidEventActor''] ''INVALID_EVENT_ACTOR''
         ''invalid event actor'' 400,
      exposed [''workflow.ErrInsufficientApproverCount''] ''INSUFFICIENT_APPROVER_COUNT''
         ''insufficient approvers to transition to next state'' 400,
      exposed [''workflow.ErrApproverNoLongerEligible''] ''APPROVER_NO_LONGER_ELIGIBLE''
         ''approver has been removed from the admin group and cannot vote'' 400,
      exposed [''workflow.ErrTransitionExecution''] ''TRANSITION_EXECUTION''
         ''failed to execute transition'' 400,
      exposed [''workflow.ErrAutomatedTransition''] ''AUTOMATED_TRANSITION''
         ''automated transition cannot be triggered by user input'' 500,
      exposed [''ErrInDBTransaction''] ''INDB_TRANSACTION''
         ''error when executing sequence of operations in a transaction'' 500,
      exposed [''ErrWorkflowCannotTransitionDB''] ''WORKFLOW_CANNOT_TRANSITION''
         ''workflow cannot transition to specified state'' 500,
      exposed [''apierrors.ErrWorkflowCannotTransition''] ''WORKFLOW_CANNOT_TRANSITION''
         ''workflow cannot transition to specified state'' 500,
      exposed [''ErrValidateActor''] ''VALIDATE_ACTOR''
         ''error validating actor for workflow transition'' 500,
      exposed [''apierrors.ErrAddApprovers''] ''ADD_APPROVERS''
         ''error adding approvers to workflow'' 500,
      exposed [''ErrAddApproversDB''] ''ADD_APPROVERS''
         ''error adding approvers to workflow'' 500,
      exposed [''ErrAddApproversDB'', ''ErrApplyTransition''] ''ADD_APPROVERS''
         ''error adding approvers to workflow'' 400,
      exposed [''ErrApplyTransition''] ''APPLY_TRANSITION''
         ''error applying transition to workflow'' 500,
      exposed [''ErrAddApproversDB'', ''repo.ErrUniqueConstraint''] ''ADD_APPROVERS''
         ''error adding approvers to workflow'' 409,
      exposed [''workflow.ErrListApprovers'', ''repo.ErrNotFound''] ''GET_APPROVERS''
         ''failed to get approvers'' 404,
      exposed [''workflow.ErrWorkflowGroupNotSufficientMembers''] ''WORKFLOW_GROUP_NOT_SUFFICIENT_MEMBERS''
         ''The responsible user group does not have enough members to meet the minimum approval criteria'' 400]"

definition workflow_errors3 :: "APIError ExposedErrors list" where
  "workflow_errors3 =
     [exposed [''workflow.ErrUserRemovedFromApproverGroup''] ''WORKFLOW_USER_REMOVED_FROM_GROUP''
         ''User is no longer a member of the workflow approver groups'' 400]"

definition workflow_errors :: "APIError ExposedErrors list" where
  "workflow_errors = workflow_errors1 @ workflow_errors2 @ workflow_errors3"

definition system_errors1 :: "APIError ExposedErrors list" where
  "system_errors1 =
     [exposed [''repo.ErrKeyConfigName'', ''repo.ErrNotFound''] ''GETTING_SYSTEM_KEYCONFIG_NAME''
         ''failed to get system key config name'' 500,
      exposed [''eventprocessor.ErrNoPreviousEvent''] ''NO_PREVIOUS_SYSTEM_STATE''
         ''no previous state for selected system'' 400,
      exposed [''ErrKeyConfigurationNotFound'', ''gorm.ErrRecordNotFound''] ''KEY_CONFIGURATION_NOT_FOUND''
         ''fail to get system by KeyConfigurationID'' 404,
      exposed [''ErrKeyConfigurationNotFound'', ''repo.ErrGetResource''] ''GETTING_SYSTEM_BY_KEY_CONFIGURATION''
         ''fail to get system by KeyConfigurationID'' 500,
      exposed [''ErrQuerySystemList''] ''QUERY_SYSTEM_LIST''
         ''failed to query system list'' 500,
      exposed [''apierrors.ErrTransformSystemList''] ''TRANSFORM_SYSTEM_LIST''
         ''failed to transform system list'' 500,
      exposed [''apierrors.ErrTransformSystem''] ''TRANSFORM_SYSTEM''
         ''failed to transform system'' 500,
      exposed [''apierrors.ErrTransformSystemFromAPI''] ''TRANSFORM_SYSTEM_FROM_API''
         ''failed to transform system from API'' 400,
      exposed [''apierrors.ErrTransformSystemToAPI''] ''TRANSFORM_SYSTEM_TO_API''
         ''failed to transform system to API'' 500,
      exposed [''ErrGettingSystemByID'', ''repo.ErrNotFound''] ''GET_SYSTEM_BY_ID''
         ''failed to get system by ID'' 404,
      exposed [''ErrConnectSystemNoPrimaryKey''] ''INVALID_TARGET_STATE''
         ''system cannot be added to a key configuration without an enabled primary key'' 400,
      exposed [''ErrGettingSystemByID'', ''repo.ErrGetResource''] ''GET_SYSTEM_BY_ID''
         ''failed to get system by ID'' 500,
      exposed [''ErrGettingSystem'', ''repo.ErrNotFound''] ''GET_SYSTEM''
         ''failed to get system'' 404,
      exposed [''ErrGettingSystem'', ''repo.ErrGetResource''] ''GET_SYSTEM''
         ''failed to get system'' 500,
      exposed [''ErrUpdateSystem''] ''UPDATE_SYSTEM''
         ''failed to update system'' 500,
      exposed [''ErrUpdateSystem'', ''ErrGettingKeyConfigByID''] ''GET_KEY_CONFIG_BY_ID''
         ''failed to update system: failed to get key configuration by ID'' 500,
      exposed [''ErrUpdateSystem'', ''ErrSystemNotLinked''] ''SYSTEM_NOT_LINKED''
         ''system is not linked to any key configuration'' 400,
      exposed [''ErrKeyConfigurationIDNotFound''] ''KEY_CONFIGURATION_ID_NOT_FOUND''
         ''Key configuration ID not found'' 404]"

definition system_errors2 :: "APIError ExposedErrors list" where
  "system_errors2 =
     [exposed [''apierrors.ErrKeyConfigurationIDRequired''] ''KEY_CONFIGURATION_ID_REQUIRED''
         ''Key configuration ID is required'' 400,
      exposed [''ErrGettingSystemLinkByID'', ''repo.ErrNotFound''] ''GETTING_SYSTEM_LINK_BY_ID''
         ''failed to get system link by ID'' 404,
      exposed [''ErrGettingSystemLinkByID'', ''repo.ErrGetResource''] ''GETTING_SYSTEM_LINK_BY_ID''
         ''failed to get system link by ID'' 500,
      exposed [''ErrKeyConfigurationNotAllowed''] ''KEY_CONFIGURATION_NOT_FOUND''
         ''Key configuration not found or insufficient access permissions'' 404]"

definition system_errors :: "APIError ExposedErrors list" where
  "system_errors = system_errors1 @ system_errors2"

definition label_errors :: "APIError ExposedErrors list" where
  "label_errors =
     [exposed [''apierrors.ErrGetKeyLabels'', ''gorm.ErrRecordNotFound''] ''KEY_NOT_FOUND''
         ''Label by KeyID not found'' 404,
      exposed [''apierrors.ErrLabelNotFound''] ''LABEL_NOT_FOUND''
         ''Label not found'' 404,
      exposed [''ErrQueryLabelList''] ''QUERY_LABEL_LIST''
         ''Failed to query label list'' 500,
      exposed [''apierrors.ErrTransformLabelList''] ''TRANSFORM_LABEL_LIST''
         ''Failed to transform label list'' 500,
      exposed [''apierrors.ErrEmptyInputLabel''] ''EMPTY_INPUT_LABEL''
         ''Invalid input empty label name'' 400,
      exposed [''ErrEmptyInputLabelDB''] ''EMPTY_INPUT_LABEL''
         ''Invalid input empty label name'' 400,
      exposed [''ErrFetchLabel''] ''FETCH_LABEL''
         ''Error fetching label'' 500,
      exposed [''ErrInsertLabel''] ''INSERT_LABEL''
         ''Error inserting label'' 500,
      exposed [''ErrUpdateLabelDB''] ''UPDATE_LABEL''
         ''Error updating label'' 500,
      exposed [''apierrors.ErrUpdateLabel''] ''UPDATE_LABEL''
         ''Error updating label'' 500,
      exposed [''apierrors.ErrUpdateLabel'', ''gorm.ErrRecordNotFound''] ''KEY_NOT_FOUND''
         ''Update Label by KeyID not found'' 404,
      exposed [''apierrors.ErrDeleteLabel''] ''DELETE_LABEL''
         ''Error deleting label'' 500,
      exposed [''ErrDeleteLabelDB''] ''DELETE_LABEL''
         ''Error deleting label'' 500,
      exposed [''apierrors.ErrTransformLabelFromAPI''] ''TRANSFORM_LABEL_FROM_API''
         ''Failed to transform label from API'' 400]"

definition tags_errors :: "APIError ExposedErrors list" where
  "tags_errors =
     [exposed [''apierrors.ErrCreatingTags''] ''CREATE_TAGS''
         ''Failed to create tags'' 500,
      exposed [''apierrors.ErrGettingTagsByKeyConfigurationID''] ''GET_TAGS_BY_KEY_CONFIGURATION_ID''
         ''Failed to get tags by KeyConfigurationID'' 500]"

definition key_errors1 :: "APIError ExposedErrors list" where
  "key_errors1 =
     [exposed [''ErrNonEditableCryptoRegionUpdate''] ''KEY_ACCESS_UPDATE_NOT_ALLOWED''
         ''Crypto region is not editable'' 400,
      exposed [''ErrCryptoDetailsUpdate'', ''transformer.ErrGRPCInvalidAccessData''] ''INVALID_ACCESS_DATA''
         ''Invalid access data provided'' 400,
      exposed [''ErrCryptoRegionNotExists''] ''KEY_UPDATE_NOT_ALLOWED''
         ''Crypto region does not exist'' 400,
      exposed [''ErrManagementDetailsUpdate''] ''KEY_ACCESS_UPDATE_NOT_ALLOWED''
         ''Management details cannot be updated'' 400,
      exposed [''ErrDeleteKey'', ''ErrConnectedSystemToKeyConfig''] ''INVALID_KEY_DELETE''
         ''Primary key cannot be deleted when systems are still connected'' 400,
      exposed [''ErrGetKeyDB''] ''KEY_ID''
         ''Failed to get Key by KeyID'' 500,
      exposed [''ErrGetKeyDB'', ''gorm.ErrRecordNotFound''] ''KEY_ID''
         ''Key by KeyID not found'' 404,
      exposed [''apierrors.ErrTransformKeyToAPI''] ''TRANSFORM_KEY''
         ''Failed to transform key'' 500,
      exposed [''apierrors.ErrCreateKey''] ''CREATE_KEY''
         ''Failed to create key'' 500,
      exposed [''apierrors.ErrCreateKey'', ''ErrCreateKeyDB'', ''repo.ErrUniqueConstraint''] ''UNIQUE_ERROR''
         ''Resource with such ID already exists'' 409,
      exposed [''apierrors.ErrCreateKey'', ''ErrInvalidKeyState''] ''REGISTER_KEY_INVALID_STATE''
         ''Key must be in ENABLED state to be registered as HYOK'' 400,
      exposed [''apierrors.ErrCreateKey'', ''ErrKeyRegistration'', ''keymanagement.ErrProviderAuthenticationFailed''] ''REGISTER_KEY_AUTHENTICATION_FAILED''
         ''Failed to authenticate with the keystore provider'' 400,
      exposed [''apierrors.ErrCreateKey'', ''ErrKeyRegistration'', ''keymanagement.ErrGenericGetKeyError''] ''REGISTER_KEY_INVALID_PROVIDER_KEY''
         ''Failed to get key from the keystore provider'' 400,
      exposed [''apierrors.ErrCreateKey'', ''ErrKeyRegistration'', ''keymanagement.ErrHYOKKeyNotFound''] ''REGISTER_KEY_PROVIDER_KEY_NOT_FOUND''
         ''Key not found in the keystore provider'' 400,
      exposed [''apierrors.ErrCreateKey'', ''gorm.ErrRecordNotFound''] ''KEY_CONFIGURATION_NOT_FOUND''
         ''KeyConfiguration not found'' 404,
      exposed [''apierrors.ErrUpdateKey''] ''UPDATE_KEY''
         ''Failed to update key'' 404,
      exposed [''apierrors.ErrDeleteKey''] ''DELETE_KEY''
         ''Failed to delete key'' 500,
      exposed [''apierrors.ErrQueryKeyList''] ''QUERY_KEY_LIST''
         ''Failed to query key list'' 500]"

definition key_errors2 :: "APIError ExposedErrors list" where
  "key_errors2 =
     [exposed [''apierrors.ErrQueryKeyList'', ''gorm.ErrRecordNotFound''] ''KEY_CONFIGURATION_NOT_FOUND''
         ''KeyConfiguration not found'' 404,
      exposed [''apierrors.ErrTransformKeyFromAPI'', ''apierrors.ErrTypeFieldMissingProperty''] ''MISSING_PROPERTY''
         ''Field is missing: type'' 400,
      exposed [''apierrors.ErrTransformKeyFromAPI'', ''keyshared.ErrAlgorithmIsRequired''] ''MISSING_PROPERTY''
         ''Field is missing: algorithm'' 400,
      exposed [''apierrors.ErrTransformKeyFromAPI'', ''keyshared.ErrRegionIsRequired''] ''MISSING_PROPERTY''
         ''Field is missing: region'' 400,
      exposed [''apierrors.ErrTransformKeyFromAPI'', ''transform.ErrAPIUnexpectedProperty''] ''UNEXPECTED_PROPERTY''
         ''Property is unexpected'' 400,
      exposed [''apierrors.ErrTransformKeyFromAPI'', ''apierrors.ErrNameFieldMissingProperty''] ''MISSING_PROPERTY''
         ''Field is missing: name'' 400,
      exposed [''apierrors.ErrTransformKeyFromAPI'', ''apierrors.ErrKeyConfigurationFieldMissingProperty''] ''MISSING_PROPERTY''
         ''Field is missing: keyConfigurationID'' 400,
      exposed [''apierrors.ErrTransformKeyFromAPI'', ''keyshared.ErrInvalidKeyProvider''] ''NOT_SUPPORTED''
         ''Provider is not supported'' 400,
      exposed [''apierrors.ErrTransformKeyFromAPI''] ''TRANSFORM_KEY_FROM_API''
         ''Failed to transform key from API'' 400,
      exposed [''apierrors.ErrTransformKeyFromAPI'', ''transformer.ErrGRPCValidateKey''] ''INVALID_KEY_ATTRIBUTE''
         ''Invalid key attribute provided'' 400,
      exposed [''apierrors.ErrTransformKeyFromAPI'', ''transformer.ErrGRPCInvalidAccessData''] ''INVALID_ACCESS_DATA''
         ''Invalid access data provided'' 400,
      exposed [''ErrKeyIsNotEnabled''] ''KEY_IS_NOT_ENABLED''
         ''key is not enabled'' 409,
      exposed [''ErrKeyIsDeleted''] ''KEY_IS_DELETED''
         ''key is deleted'' 404,
      exposed [''ErrKeyInPendingState''] ''KEY_NOT_READY''
         ''Operation not allowed: key is still being provisioned'' 409,
      exposed [''apierrors.ErrSetPrimaryKey''] ''SET_PRIMARY_KEY''
         ''Failed to set primary key'' 500,
      exposed [''ErrUpdatePrimary''] ''SET_PRIMARY_KEY''
         ''Failed to set primary key'' 500,
      exposed [''apierrors.ErrTransformKeyFromAPI'', ''hyokkey.ErrAccessDetailsIsRequired''] ''MISSING_PROPERTY''
         ''Field is missing: accessDetails'' 400,
      exposed [''apierrors.ErrTransformKeyFromAPI'', ''hyokkey.ErrNativeIDIsRequired''] ''MISSING_PROPERTY''
         ''Field is missing: nativeId'' 400]"

definition key_errors3 :: "APIError ExposedErrors list" where
  "key_errors3 =
     [exposed [''apierrors.ErrTransformKeyFromAPI'', ''keyshared.ErrProviderIsRequired''] ''MISSING_PROPERTY''
         ''Field is missing: provider'' 400,
      exposed [''ErrInvalidKeyTypeForImportParams''] ''INVALID_ACTION_FOR_KEY_TYPE''
         ''The action cannot be performed for the key type. Only BYOK keys can get import parameters.'' 400,
      exposed [''ErrInvalidKeyTypeForImportKeyMaterial''] ''INVALID_ACTION_FOR_KEY_TYPE''
         ''The action cannot be performed for the key type. Only BYOK keys can import key material.'' 400,
      exposed [''ErrInvalidKeyStateForImportParams''] ''INVALID_KEY_STATE''
         ''Key must be in PENDING_IMPORT state to get import parameters.'' 400,
      exposed [''ErrInvalidKeyStateForImportKeyMaterial''] ''INVALID_KEY_STATE''
         ''Key must be in PENDING_IMPORT state to import key material.'' 400,
      exposed [''ErrEmptyKeyMaterial''] ''IMPORT_KEY_MATERIAL''
         ''Key material cannot be empty.'' 400,
      exposed [''ErrInvalidBase64KeyMaterial''] ''IMPORT_KEY_MATERIAL''
         ''Key material must be base64 encoded.'' 400,
      exposed [''ErrMissingOrExpiredImportParams''] ''IMPORT_KEY_MATERIAL''
         ''Import parameters missing or expired. Please request new import parameters.'' 400,
      exposed [''apierrors.ErrDefaultKeystoreNotFound''] ''DEFAULT_KEYSTORE_NOT_FOUND''
         ''Default keystore not found'' 500,
      exposed [''ErrFailedToInitProvider'', ''ErrPoolIsDrained'', ''ErrGetKeystoreFromPool''] ''KEYSTORE_POOL_DRAINED''
         ''All keystores in the pool are unavailable'' 503,
      exposed [''apierrors.ErrBusinessUserDataInvalid''] ''INVALID_CLIENT_DATA''
         ''The client data is invalid'' 400]"

definition key_errors :: "APIError ExposedErrors list" where
  "key_errors = key_errors1 @ key_errors2 @ key_errors3"

definition tenantconfig_errors :: "APIError ExposedErrors list" where
  "tenantconfig_errors =
     [exposed [''apierrors.ErrGetDefaultKeystore''] ''GET_DEFAULT_KEYSTORE''
         ''Failed to get default keystore'' 500,
      exposed [''apierrors.ErrGetWorkflowConfig''] ''GET_WORKFLOW_CONFIG''
         ''Failed to get workflow configuration'' 500,
      exposed [''apierrors.ErrSetWorkflowConfig'', ''ErrWorkflowEnableDisableNotAllowed''] ''INVALID_SETTING''
         ''workflow enable/disable is only allowed for TEST tenants'' 400,
      exposed [''apierrors.ErrSetWorkflowConfig'', ''ErrRetentionLessThanMinimum''] ''INVALID_SETTING''
         ''retentionPeriodDays must be at least 30'' 400,
      exposed [''apierrors.ErrSetWorkflowConfig'', ''ErrDefaultExpiryExceedsMax''] ''INVALID_SETTING''
         ''defaultExpiryPeriodDays must be less than or equal to maxExpiryPeriodDays'' 400,
      exposed [''apierrors.ErrSetWorkflowConfig'', ''ErrMinimumApprovalsTooLow''] ''INVALID_SETTING''
         ''minimumApprovals must be at least 2'' 400,
      exposed [''apierrors.ErrSetWorkflowConfig''] ''SET_WORKFLOW_CONFIG''
         ''Failed to update workflow configuration'' 500]"

definition groups_errors :: "APIError ExposedErrors list" where
  "groups_errors =
     [exposed [''ErrMultipleRolesInGroups''] ''MULTIPLE_ROLES_NOT_ALLOWED''
         ''users with multiple roles are not allowed'' 403,
      exposed [''ErrZeroRolesInGroups''] ''ZERO_ROLES_NOT_ALLOWED''
         ''users without any roles are not allowed'' 403,
      exposed [''ErrCreateGroups'', ''model.ErrInvalidName''] ''INVALID_GROUP_NAME''
         ''Invalid name for selected group'' 400,
      exposed [''ErrCreateGroups'', ''model.ErrInvalidIAMIdentifier''] ''INVALID_GROUP_IAM_IDENTIFIER''
         ''Invalid IamIdentifier for selected group'' 400,
      exposed [''ErrGroupRole''] ''UNSUPPORTED_GROUP_ROLE''
         ''Unsupported role for selected group'' 400,
      exposed [''ErrCreateGroups'', ''repo.ErrCreateResource''] ''CREATE_GROUP''
         ''Failed to create a group'' 500,
      exposed [''ErrCreateGroups''] ''CREATE_GROUP''
         ''Failed to create a group'' 400,
      exposed [''ErrInvalidGroupDelete''] ''DELETE_INVALID_GROUP''
         ''Group cannot be deleted'' 400,
      exposed [''ErrInvalidGroupUpdate''] ''INVALID_GROUP_UPDATE''
         ''Group cannot be updated'' 400,
      exposed [''ErrNameCannotBeEmpty''] ''RENAME_INVALID_NAME''
         ''Group name cannot be empty'' 400,
      exposed [''ErrDeleteGroups''] ''DELETE_GROUP''
         ''Failed to delete the group'' 500,
      exposed [''ErrGetGroups''] ''GET_GROUP''
         ''Failed to get the group'' 500,
      exposed [''ErrGetGroups'', ''repo.ErrNotFound''] ''GET_GROUP_NOT_FOUND''
         ''Group does not exist'' 404]"

definition tenants_errors :: "APIError ExposedErrors list" where
  "tenants_errors =
     [exposed [''ErrTenantNotAllowed''] ''NO_TENANT_ACCESS''
         ''User has no permission to access tenant'' 403,
      exposed [''ErrListTenants''] ''NO_TENANT_ACCESS''
         ''User has no permission to access tenant'' 403,
      exposed [''apierrors.ErrTransformTenants''] ''TRANSFORM_TENANTS_TO_API''
         ''failed to transform tenants to API'' 500]"

definition userinfo_errors :: "APIError ExposedErrors list" where
  "userinfo_errors =
     [exposed [''cmkcontext.ErrExtractBusinessUserData''] ''NO_BUSINESS_DATA''
         ''Missing business data'' 500,
      exposed [''ErrInternalRoleNotSupported''] ''INTERNAL_ROLE_NOT_SUPPORTED''
         ''Operation not supported for this internal role'' 500]"

definition defaultMapper_errors :: "APIError ExposedErrors list" where
  "defaultMapper_errors =
     [exposed [''sql.ErrNoRows''] ''RESOURCE_NOT_FOUND''
         ''Requested resource not found'' 404,
      exposed [''repo.ErrUniqueConstraint''] ''UNIQUE_ERROR''
         ''Resource with such ID already exists'' 409,
      exposed [''repo.ErrNotFound''] ''RESOURCE_NOT_FOUND''
         ''The requested resource was not found'' 404,
      exposed [''repo.ErrInvalidUUID''] ''BAD_REQUEST''
         ''Invalid uuid provided'' 400,
      exposed [''apierrors.ErrBadOdataFilter''] ''BAD_REQUEST''
         ''Bad Odata filter provided'' 400,
      exposed [''apierrors.ErrUnknownProperty''] ''UNKNOWN_PROPERTY''
         ''Unknown property'' 400,
      exposed [''apierrors.ErrActionRequireWorkflow''] ''ACTION_REQUIRE_WORKFLOW''
         ''Action requires a workflow'' 400,
      exposed [''authz_loader.ErrTenantNotExist''] ''FORBIDDEN''
         ''action on resource unauthorized'' 403,
      exposed [''authz.ErrAuthorizationDenied''] ''FORBIDDEN''
         ''action on resource unauthorized'' 403,
      exposed [''authz_repo.ErrUnauthorized''] ''FORBIDDEN''
         ''action on resource unauthorized'' 403,
      exposed [''repo.ErrGetResource''] ''GET_RESOURCE''
         ''The requested resource was not found'' 500]"

definition highPrio_errors :: "APIError ExposedErrors list" where
  "highPrio_errors =
     [exposed [''repo.ErrTenantNotFound''] ''TENANT_NOT_FOUND''
         ''Tenant does not exist'' 404]"


definition APIErrorMapper :: "APIError ErrorMapper" where
  "APIErrorMapper = \<lparr>em_Errors = concat [keyConfiguration_errors, keyVersion_errors, workflow_errors, system_errors,
       label_errors, tags_errors, key_errors, tenantconfig_errors, groups_errors, tenants_errors, userinfo_errors,
       defaultMapper_errors],
     em_PriorityErrors = highPrio_errors\<rparr>"

definition toAPIError :: "gerror \<Rightarrow> APIError" where
  "toAPIError err = Transform APIErrorMapper InternalServerErrorMessage err"

end
