(* ===== verification/System_Manager.thy ===== *)
theory System_Manager
  imports Key_Config
begin

text \<open>
  Systems (src/internal/manager/system.go and systeminformation.go, the registry client of
  src/internal/clients/registry/systems, and \<open>ListAndCountSystemWithProperties\<close> of
  src/internal/repo/repository.go).

  A system read for the API comes with its properties, the names of its key configurations and the
  last error (\<open>SystemView\<close>), collected from a joined query that is read in batches; \<open>T_join_systems\<close>
  is the joined table. Saving a system saves its loaded properties with it. Links and switches run
  through the event factory. The registry is asked for the systems of the tenant one page at a time.

  A nil dereference is the error \<open>panic\<close>.
\<close>

section \<open>Systems with properties\<close>

record JoinSystem =
  js_System :: System
  js_KeyConfigurationName :: "string option"
  js_TargetKeyConfigurationName :: "string option"
  js_ErrorCode :: string
  js_ErrorMessage :: string
  js_Key :: string
  js_Value :: string

record SystemView =
  sv_System :: System
  sv_KeyConfigurationName :: "string option"
  sv_TargetKeyConfigurationName :: "string option"
  sv_ErrorCode :: string
  sv_ErrorMessage :: string
  sv_Properties :: "(string \<times> string) list"

text \<open>the rows of the left joins of a system with its properties, key configurations and event\<close>

definition configName :: "schema \<Rightarrow> uuid option \<Rightarrow> string option" where
  "configName d i = (case i of None \<Rightarrow> None
     | Some k \<Rightarrow> map_option kc_Name (find (\<lambda>kc. kc_ID kc = k) (key_configurations d)))"

definition joinSystem :: "env \<Rightarrow> schema \<Rightarrow> System \<Rightarrow> JoinSystem list" where
  "joinSystem env d s =
     (let ev = find (\<lambda>e. ev_Identifier e = uuid_String env (sys_ID s)) (events d);
          row = (\<lambda>k v. \<lparr>js_System = s,
            js_KeyConfigurationName = configName d (sys_KeyConfigurationID s),
            js_TargetKeyConfigurationName = configName d (sys_TargetKeyConfigurationID s),
            js_ErrorCode = (case ev of None \<Rightarrow> [] | Some e \<Rightarrow> ev_ErrorCode e),
            js_ErrorMessage = (case ev of None \<Rightarrow> [] | Some e \<Rightarrow> ev_ErrorMessage e),
            js_Key = k, js_Value = v\<rparr>);
          props = filter (\<lambda>p. sp_ID p = sys_ID s) (system_properties d)
      in if props = [] then [row [] []] else map (\<lambda>p. row (sp_Key p) (sp_Value p)) props)"

definition T_join_systems :: "env \<Rightarrow> JoinSystem table" where
  "T_join_systems env = \<lparr>t_tag = TabSystems, t_get = (\<lambda>d. concat (map (joinSystem env d) (systems d))),
     t_upd = (\<lambda>_ d. d), t_uniq = (\<lambda>_. True), t_res = RepoResourceTypeSystem\<rparr>"

definition newView :: "JoinSystem \<Rightarrow> SystemView" where
  "newView row = \<lparr>sv_System = js_System row, sv_KeyConfigurationName = js_KeyConfigurationName row,
     sv_TargetKeyConfigurationName = js_TargetKeyConfigurationName row, sv_ErrorCode = js_ErrorCode row,
     sv_ErrorMessage = js_ErrorMessage row, sv_Properties = []\<rparr>"

text \<open>one row of the join, entered in the map of systems\<close>

definition collectRow :: "(uuid \<times> SystemView) list \<Rightarrow> JoinSystem \<Rightarrow> (uuid \<times> SystemView) list" where
  "collectRow systemsMap row =
     (let i = sys_ID (js_System row);
          sys = (case map_of systemsMap i of None \<Rightarrow> newView row | Some sys \<Rightarrow> sys)
      in aset i (if js_Key row = [] then sys
                 else sys\<lparr>sv_Properties := aset (js_Key row) (js_Value row) (sv_Properties sys)\<rparr>) systemsMap)"

definition ListAndCountSystemWithProperties ::
  "env \<Rightarrow> ctx \<Rightarrow> Pagination \<Rightarrow> (System list \<Rightarrow> System list) \<Rightarrow> (schema \<Rightarrow> System \<Rightarrow> bool) \<Rightarrow>
   (SystemView list \<times> int) M" where
  "ListAndCountSystemWithProperties env ctx pagination arrange query =
     bindC (ListAndCount_by env ctx T_systems [] arrange query pagination) (\<lambda>(syss, count).
     if syss = [] then returnC ([], count)
     else bindC (ProcessInBatchFold env ctx (T_join_systems env)
            [RepoResourceTypeSystemProperty, RepoResourceTypeKeyconfiguration, RepoResourceTypeKeyconfiguration,
             RepoResourceTypeEvent]
            (\<lambda>d row. query d (js_System row) \<and> sys_ID (js_System row) \<in> sys_ID ` set syss) DefaultLimit
            (\<lambda>systemsMap rows. returnC (foldl collectRow systemsMap rows)) []) (\<lambda>systemsMap.
          returnC (List.map_filter (\<lambda>s. map_of systemsMap (sys_ID s)) syss, count)))"

definition GetSystemByIDWithProperties :: "env \<Rightarrow> ctx \<Rightarrow> uuid \<Rightarrow> SystemView M" where
  "GetSystemByIDWithProperties env ctx systemID =
     bindC (wrapC ''repo.ErrGetResource'' (ListAndCountSystemWithProperties env ctx
       \<lparr>pg_Skip = 0, pg_Top = 0, pg_Count = False\<rparr> (\<lambda>rs. rs) (\<lambda>_ s. sys_ID s = systemID))) (\<lambda>(syss, _).
     case syss of [] \<Rightarrow> throwC [E ''repo.ErrNotFound''] | sys # _ \<Rightarrow> returnC sys)"

definition GetSystemByID :: "env \<Rightarrow> ctx \<Rightarrow> uuid \<Rightarrow> SystemView M" where
  "GetSystemByID env ctx systemID = wrapC ''ErrGettingSystemByID'' (GetSystemByIDWithProperties env ctx systemID)"

section \<open>Listing\<close>

record SystemFilter =
  flt_KeyConfigID :: uuid
  flt_Region :: string
  flt_Type :: "SystemType option"
  flt_Skip :: int
  flt_Top :: int
  flt_Count :: bool

definition SystemFilter_GetPagination :: "SystemFilter \<Rightarrow> Pagination" where
  "SystemFilter_GetPagination s = \<lparr>pg_Skip = flt_Skip s, pg_Top = flt_Top s, pg_Count = flt_Count s\<rparr>"

definition SystemFilter_GetQuery :: "SystemFilter \<Rightarrow> System \<Rightarrow> bool" where
  "SystemFilter_GetQuery f s \<longleftrightarrow>
     (flt_KeyConfigID f \<noteq> uuid_Nil \<longrightarrow> sys_KeyConfigurationID s = Some (flt_KeyConfigID f)) \<and>
     (flt_Region f \<noteq> [] \<longrightarrow> sys_Region s = flt_Region f) \<and>
     (case flt_Type f of None \<Rightarrow> True | Some t \<Rightarrow> sys_Type s = t)"

definition GetAllSystems :: "env \<Rightarrow> ctx \<Rightarrow> SystemFilter \<Rightarrow> (SystemView list \<times> int) M" where
  "GetAllSystems env ctx params =
     bindC (if flt_KeyConfigID params \<noteq> uuid_Nil
            then wrapC ''ErrKeyConfigurationNotFound'' (bindC
              (First env ctx T_key_configurations (\<lambda>_ kc. kc_ID kc = flt_KeyConfigID params)) (\<lambda>_. returnC ()))
            else returnC ()) (\<lambda>_.
     wrapC ''ErrQuerySystemList'' (ListAndCountSystemWithProperties env ctx (SystemFilter_GetPagination params)
       (sort_by (\<lambda>a b. collate env (sys_Identifier a) (sys_Identifier b)))
       (\<lambda>_ s. SystemFilter_GetQuery params s)))"

text \<open>the distinct values of columns of a joined table, for the filter options of the API\<close>

definition GetFilterOptions ::
  "env \<Rightarrow> ctx \<Rightarrow> 'r table \<Rightarrow> RepoResourceType list \<Rightarrow> (schema \<Rightarrow> 'r \<Rightarrow> string option) list \<Rightarrow> string list list M" where
  "GetFilterOptions env ctx T joins filters =
     bindC (checkResourceAuthZ env ctx (t_res T) RepoActionList) (\<lambda>_.
     bindC (checkQueryAuthZ env ctx joins RepoActionList) (\<lambda>_.
     if filters = [] then returnC []
     else WithTenant env ctx (\<lambda>m. [E ''repo.ErrGetResource'', Msg m]) (\<lambda>d.
       Done (map (\<lambda>col. remdups (List.map_filter (col d) (t_get T d))) filters) d)))"

definition SystemType_String :: "SystemType \<Rightarrow> string" where
  "SystemType_String t = (case t of SystemTypeSYSTEM \<Rightarrow> ''SYSTEM'' | SystemTypeSUBACCOUNT \<Rightarrow> ''SUBACCOUNT'')"

definition GetFilters :: "env \<Rightarrow> ctx \<Rightarrow> string list list M" where
  "GetFilters env ctx = GetFilterOptions env ctx T_systems [RepoResourceTypeKeyconfiguration]
     [\<lambda>_ s. Some (SystemType_String (sys_Type s)), \<lambda>_ s. Some (sys_Region s),
      \<lambda>d s. configName d (sys_KeyConfigurationID s)]"

section \<open>Properties from the system-information service\<close>

definition UpdateSystemProperties ::
  "(string \<times> string) list \<Rightarrow> (string \<times> string) list \<Rightarrow> SystemView \<Rightarrow> bool \<times> SystemView" where
  "UpdateSystemProperties props cfg m =
     (let known = filter (\<lambda>(k, _). k \<in> fst ` set cfg) props
      in (known \<noteq> [], m\<lparr>sv_Properties := foldl (\<lambda>ps (k, v). aset k v ps) (sv_Properties m) known\<rparr>))"

text \<open>what \<open>Updates\<close> writes of a system struct: the fields that are not Go's zero value\<close>

definition System_merge :: "System \<Rightarrow> System \<Rightarrow> System" where
  "System_merge m row = row\<lparr>
     sys_Identifier := (if sys_Identifier m = [] then sys_Identifier row else sys_Identifier m),
     sys_Region := (if sys_Region m = [] then sys_Region row else sys_Region m),
     sys_Type := sys_Type m,
     sys_KeyConfigurationID :=
       (case sys_KeyConfigurationID m of None \<Rightarrow> sys_KeyConfigurationID row | Some i \<Rightarrow> Some i),
     sys_TargetKeyConfigurationID :=
       (case sys_TargetKeyConfigurationID m of None \<Rightarrow> sys_TargetKeyConfigurationID row | Some i \<Rightarrow> Some i),
     sys_Status := sys_Status m,
     sys_UnderWorkflow := (sys_UnderWorkflow m \<or> sys_UnderWorkflow row)\<rparr>"

definition PatchSystem :: "env \<Rightarrow> ctx \<Rightarrow> System \<Rightarrow> (string \<times> string) list \<Rightarrow> bool M" where
  "PatchSystem env ctx m props = Patch_after env ctx T_systems (\<lambda>s. sys_ID s = sys_ID m) (System_merge m)
     (System_AfterSave (sys_ID m) props)"

definition updateSystem :: "env \<Rightarrow> ctx \<Rightarrow> System \<Rightarrow> unit M" where
  "updateSystem env ctx system =
     (if \<not> sis_plugin env then throwC [E ''panic'']
      else bindC tick_of (\<lambda>n. case sis_GetSystemInfo env n (sys_Identifier system) (sys_Type system) of
          Inl _ \<Rightarrow> returnC ()
        | Inr None \<Rightarrow> returnC ()
        | Inr (Some metadata) \<Rightarrow>
            tryC (GetSystemByIDWithProperties env ctx (sys_ID system)) (\<lambda>res. case res of
              Inl err \<Rightarrow> throwC (err @ [E ''repo.ErrSystemProperties''])
            | Inr sv \<Rightarrow>
                (case UpdateSystemProperties metadata (cfg_OptionalProperties env) sv of (updated, sv') \<Rightarrow>
                   if updated
                   then wrapC ''ErrUpdatingSystem'' (bindC
                     (PatchSystem env ctx (sv_System sv') (sv_Properties sv')) (\<lambda>_. returnC ()))
                   else returnC ()))))"

definition UpdateSystems :: "env \<Rightarrow> ctx \<Rightarrow> unit M" where
  "UpdateSystems env ctx = ProcessInBatch env ctx T_systems [] (\<lambda>_ _. True) DefaultLimit
     (\<lambda>syss. bindC (forC syss (updateSystem env ctx)) (\<lambda>_. returnC ()))"

text \<open>
  the struct passed to \<open>First\<close> has no primary key, so that the query has no condition: the first row
  of the table is taken, whatever its identifier
\<close>

definition UpdateSystemByExternalID :: "env \<Rightarrow> ctx \<Rightarrow> string \<Rightarrow> unit M" where
  "UpdateSystemByExternalID env ctx externalID =
     tryC (First env ctx T_systems (\<lambda>_ _. True)) (\<lambda>res. case res of
       Inl err \<Rightarrow> throwC (if errs_Is err ''repo.ErrNotFound'' then E ''ErrNoSystem'' # err
                          else E ''ErrGettingSystem'' # err)
     | Inr sys \<Rightarrow> updateSystem env ctx sys)"

section \<open>Systems from the registry\<close>

definition defaultListSystemsLimit :: int where "defaultListSystemsLimit = 100"

definition attempts :: nat where "attempts = 3"

text \<open>
  The pages are requested until the token is empty, but only one when the filter sets no limit. The
  systems collected so far are in a variable outside the retried function and are kept when it fails.
  \<open>fuel\<close> bounds the number of pages, which the registry decides.
\<close>

fun listPages ::
  "nat \<Rightarrow> env \<Rightarrow> SystemFilter_reg \<Rightarrow> int \<Rightarrow> string \<Rightarrow> RegistrySystem list \<Rightarrow>
   (gerror option \<times> RegistrySystem list) M" where
  "listPages 0 env filt limit pageToken acc = throwC [Msg ''out of fuel'']"
| "listPages (Suc fuel) env filt limit pageToken acc =
     bindC tick_of (\<lambda>n. case registry_ListSystems env n filt limit pageToken of
       Inl err \<Rightarrow> returnC (Some ((if errs_Is err ''grpc.Internal'' then E ''systems.ErrClientInternalError''
                                  else E ''systems.ErrSystemsClientFailedGettingSystems'') # err), acc)
     | Inr (newSystems, nextToken) \<Rightarrow>
         if nextToken = [] \<or> sf_Limit filt = 0 then returnC (None, acc @ newSystems)
         else listPages fuel env filt limit nextToken (acc @ newSystems))"

fun retryPages :: "nat \<Rightarrow> nat \<Rightarrow> env \<Rightarrow> SystemFilter_reg \<Rightarrow> RegistrySystem list \<Rightarrow> RegistrySystem list M" where
  "retryPages 0 fuel env filt acc = returnC acc"
| "retryPages (Suc left) fuel env filt acc =
     bindC (listPages fuel env filt (if sf_Limit filt \<noteq> 0 then sf_Limit filt else defaultListSystemsLimit) [] acc)
       (\<lambda>(res, acc'). case res of
          None \<Rightarrow> returnC acc'
        | Some err \<Rightarrow> if errs_Is err ''grpc.Unavailable'' \<and> left > 0 then retryPages left fuel env filt acc'
                      else throwC err)"

definition systemTypeStringMap :: "string \<Rightarrow> gerror + SystemType" where
  "systemTypeStringMap responseType =
     (if ToUpper responseType = ''SYSTEM'' then Inr SystemTypeSYSTEM
      else if ToUpper responseType = ''SUBACCOUNT'' then Inr SystemTypeSUBACCOUNT
      else Inl [E ''systems.ErrUnsupportSystemType''])"

text \<open>the status is the column's default\<close>

definition mapRegistrySystemToCmkSystem :: "env \<Rightarrow> RegistrySystem \<Rightarrow> System M" where
  "mapRegistrySystemToCmkSystem env grpcSystem =
     bindC (liftC (systemTypeStringMap (rs_Type grpcSystem))) (\<lambda>systemType.
     bindC (newUUID env) (\<lambda>i.
     returnC \<lparr>sys_ID = i, sys_Identifier = rs_ExternalId grpcSystem, sys_Region = rs_Region grpcSystem,
       sys_Type = systemType, sys_KeyConfigurationID = None, sys_TargetKeyConfigurationID = None,
       sys_Status = SystemStatusDISCONNECTED, sys_UnderWorkflow = False\<rparr>))"

definition MapRegistrySystemsToCmkSystems :: "env \<Rightarrow> RegistrySystem list \<Rightarrow> System list M" where
  "MapRegistrySystemsToCmkSystems env grpcSystems = forC grpcSystems (mapRegistrySystemToCmkSystem env)"

definition GetSystemsWithFilter :: "nat \<Rightarrow> env \<Rightarrow> SystemFilter_reg \<Rightarrow> System list M" where
  "GetSystemsWithFilter fuel env filt =
     (if sf_TenantID filt = [] \<and> sf_ExternalID filt = [] \<and> sf_Region filt = []
      then throwC [E ''systems.ErrSystemsClientFailedGettingSystems'', E ''systems.ErrSystemsClientEmptyFilter'']
      else wrapC ''systems.ErrGettingSystem''
        (bindC (retryPages attempts fuel env filt []) (\<lambda>grpcSystems.
         MapRegistrySystemsToCmkSystems env grpcSystems)))"

definition createSystemIfNotExists :: "env \<Rightarrow> ctx \<Rightarrow> System \<Rightarrow> unit M" where
  "createSystemIfNotExists env ctx newSystem =
     tryC (Count env ctx T_systems (\<lambda>_ s. sys_Identifier s = sys_Identifier newSystem \<and>
             sys_Region s = sys_Region newSystem)) (\<lambda>res.
     if (case res of Inl _ \<Rightarrow> False | Inr count \<Rightarrow> count > 0) then returnC ()
     else bindC (wrapC ''ErrCreatingSystem'' (Create env ctx T_systems newSystem)) (\<lambda>_.
       if \<not> sis_plugin env then throwC [E ''panic'']
       else tryC (updateSystem env ctx newSystem) (\<lambda>_. returnC ())))"

definition registryKey :: "System \<Rightarrow> string" where
  "registryKey sys = sys_Identifier sys @ '':'' @ sys_Region sys"

definition removeStale :: "env \<Rightarrow> string set \<Rightarrow> System list \<Rightarrow> ctx \<Rightarrow> unit M" where
  "removeStale env registrySystemsMap syss ctx = Transaction env ctx (\<lambda>ctx.
     bindC (forC syss (\<lambda>dbSystem.
       if registryKey dbSystem \<in> registrySystemsMap then returnC ()
       else bindC (Delete env ctx T_systems (system_refs (sys_ID dbSystem)) (\<lambda>s. sys_ID s = sys_ID dbSystem))
              (\<lambda>_. returnC ()))) (\<lambda>_. returnC ()))"

definition removeSystemsNotInRegistry :: "env \<Rightarrow> ctx \<Rightarrow> System list \<Rightarrow> unit M" where
  "removeSystemsNotInRegistry env ctx registrySystems = wrapC ''ErrUpdateSystem''
     (ProcessInBatch env ctx T_systems [] (\<lambda>_ _. True) DefaultLimit
       (\<lambda>syss. removeStale env (set (map registryKey registrySystems)) syss ctx))"

text \<open>the filter sets no limit, so that one page is requested\<close>

definition refreshFrom :: "env \<Rightarrow> ctx \<Rightarrow> System list \<Rightarrow> unit M" where
  "refreshFrom env ctx fetchedSystems =
     bindC (forC fetchedSystems (createSystemIfNotExists env ctx)) (\<lambda>_.
     removeSystemsNotInRegistry env ctx fetchedSystems)"

definition RefreshSystemsData :: "env \<Rightarrow> ctx \<Rightarrow> bool M" where
  "RefreshSystemsData env ctx =
     (if \<not> registry_client env then returnC False
      else case ExtractTenantID ctx of
        Inl _ \<Rightarrow> returnC False
      | Inr tenant \<Rightarrow>
          tryC (GetSystemsWithFilter 1 env
            \<lparr>sf_Region = [], sf_ExternalID = [], sf_TenantID = tenant, sf_Limit = 0\<rparr>) (\<lambda>res.
          case (case res of Inl err \<Rightarrow> if errs_Is err ''grpc.NotFound'' then Some [] else None
                | Inr syss \<Rightarrow> Some syss) of
            None \<Rightarrow> returnC False
          | Some fetchedSystems \<Rightarrow>
              tryC (refreshFrom env ctx fetchedSystems) (\<lambda>res. case res of
                Inl err \<Rightarrow> if errs_Is err ''panic'' then throwC err else returnC False
              | Inr _ \<Rightarrow> returnC True)))"

definition UnmapSystemFromRegistry :: "env \<Rightarrow> ctx \<Rightarrow> System \<Rightarrow> unit M" where
  "UnmapSystemFromRegistry env ctx system =
     bindC (liftC (ExtractTenantID ctx)) (\<lambda>tenant.
     if \<not> registry_client env then returnC ()
     else bindC tick_of (\<lambda>n.
       case registry_UnmapSystem env n (sys_Identifier system)
         (case sys_Type system of SystemTypeSYSTEM \<Rightarrow> ''system'' | SystemTypeSUBACCOUNT \<Rightarrow> ''subaccount'') tenant of
         Some err \<Rightarrow> throwC err
       | None \<Rightarrow> logCall (CallRegistry ''unmap'' (sys_Identifier system))))"

section \<open>Linking, switching and unlinking\<close>

definition IsNotNilUUID :: "uuid option \<Rightarrow> bool" where
  "IsNotNilUUID p \<longleftrightarrow> p \<noteq> None \<and> p \<noteq> Some uuid_Nil"

text \<open>the string of a dereferenced UUID pointer\<close>

definition uuidPtr_String :: "env \<Rightarrow> uuid option \<Rightarrow> string M" where
  "uuidPtr_String env p = (case p of None \<Rightarrow> throwC [E ''panic''] | Some i \<Rightarrow> returnC (uuid_String env i))"

text \<open>
  the target is stored first; the result is the event to send, which has the system with its
  properties in its closure
\<close>

definition selectEvent ::
  "env \<Rightarrow> ctx \<Rightarrow> System \<Rightarrow> (string \<times> string) list \<Rightarrow> KeyConfiguration \<Rightarrow> (Job \<times> System) M M" where
  "selectEvent env ctx system props newKeyConfig =
     (let oldKeyConfigID = sys_KeyConfigurationID system;
          system' = system\<lparr>sys_TargetKeyConfigurationID := Some (kc_ID newKeyConfig)\<rparr>;
          linkEvent = bindC (uuidPtr_String env (kc_PrimaryKeyID newKeyConfig)) (SystemLink env ctx system' props)
      in bindC (PatchSystem env ctx system' props) (\<lambda>_.
         if \<not> IsNotNilUUID oldKeyConfigID then returnC linkEvent
         else if Some (kc_ID newKeyConfig) \<noteq> oldKeyConfigID
         then bindC (wrapC ''ErrGettingKeyConfigByID''
                (First env ctx T_key_configurations (\<lambda>_ kc. Some (kc_ID kc) = oldKeyConfigID))) (\<lambda>oldKeyConfig.
              if IsNotNilUUID (kc_PrimaryKeyID oldKeyConfig)
              then returnC (bindC (uuidPtr_String env (kc_PrimaryKeyID newKeyConfig)) (\<lambda>keyIDTo.
                     bindC (uuidPtr_String env (kc_PrimaryKeyID oldKeyConfig)) (\<lambda>keyIDFrom.
                     SystemSwitch env ctx system' props keyIDTo keyIDFrom)))
              else returnC linkEvent)
         else returnC linkEvent))"

definition linkTx :: "env \<Rightarrow> uuid \<Rightarrow> uuid \<Rightarrow> ctx \<Rightarrow> System M" where
  "linkTx env systemID keyConfigurationID ctx =
     bindC (GetSystemByID env ctx systemID) (\<lambda>sv.
     let system = sv_System sv in
     bindC (if keyConfigurationID \<noteq> uuid_Nil
            then bindC (HasSystemAccess env ctx APIActionSystemModifyLink system) (\<lambda>_. returnC ())
            else returnC ()) (\<lambda>_.
     bindC (wrapC ''ErrGettingKeyConfigByID'' (First env ctx T_key_configurations
       (\<lambda>_ kc. keyConfigurationID = uuid_Nil \<or> kc_ID kc = keyConfigurationID))) (\<lambda>keyConfig.
     bindC (CanConnectSystems env ctx keyConfig) (\<lambda>_.
     if sys_Status system = SystemStatusPROCESSING \<or> sys_Status system = SystemStatusFAILED
     then throwC [E ''ErrLinkSystemProcessingOrFailed'']
     else bindC (selectEvent env ctx system (sv_Properties sv) keyConfig) (\<lambda>event.
          bindC (SendEvent event) (\<lambda>(_, system'). returnC system'))))))"

definition LinkSystemAction :: "env \<Rightarrow> ctx \<Rightarrow> uuid \<Rightarrow> uuid \<Rightarrow> System M" where
  "LinkSystemAction env ctx systemID keyConfigurationID =
     wrapC ''ErrUpdateSystem'' (Transaction env ctx (linkTx env systemID keyConfigurationID))"

definition SystemActionDecommission :: string where "SystemActionDecommission = ''SYSTEM_DECOMMISSION''"

definition KeyActionSetPrimary :: string where "KeyActionSetPrimary = ''SET_PRIMARY_KEY''"

definition sendSystemUnlinkEvent :: "env \<Rightarrow> ctx \<Rightarrow> System \<Rightarrow> KeyConfiguration \<Rightarrow> string \<Rightarrow> unit M" where
  "sendSystemUnlinkEvent env ctx system keyConfig trigger =
     (if \<not> IsNotNilUUID (kc_PrimaryKeyID keyConfig) then throwC [E ''ErrUnlinkSystemNoPrimaryKey'']
      else bindC (SendEvent (bindC (uuidPtr_String env (kc_PrimaryKeyID keyConfig)) (\<lambda>keyID.
             if trigger = SystemActionDecommission then SystemUnlinkDecommission env ctx system [] keyID
             else SystemUnlink env ctx system [] keyID))) (\<lambda>_. returnC ()))"

definition unlinkTx :: "env \<Rightarrow> uuid \<Rightarrow> string \<Rightarrow> ctx \<Rightarrow> unit M" where
  "unlinkTx env systemID trigger ctx =
     bindC (wrapC ''ErrGettingSystemByID'' (First env ctx T_systems (\<lambda>_ s. sys_ID s = systemID))) (\<lambda>system.
     if \<not> IsNotNilUUID (sys_KeyConfigurationID system) then throwC [E ''ErrUpdateSystem'', E ''ErrSystemNotLinked'']
     else bindC (HasSystemAccess env ctx APIActionSystemModifyLink system) (\<lambda>_.
          bindC (wrapC ''ErrGettingKeyConfigByID'' (First env ctx T_key_configurations
            (\<lambda>_ kc. Some (kc_ID kc) = sys_KeyConfigurationID system))) (\<lambda>keyConfig.
          if sys_Status system = SystemStatusPROCESSING then throwC [E ''ErrUnlinkSystemProcessing'']
          else sendSystemUnlinkEvent env ctx system keyConfig trigger)))"

definition UnlinkSystemAction :: "env \<Rightarrow> ctx \<Rightarrow> uuid \<Rightarrow> string \<Rightarrow> unit M" where
  "UnlinkSystemAction env ctx systemID trigger = Transaction env ctx (unlinkTx env systemID trigger)"

section \<open>Recovery of failed systems\<close>

definition GetSystemJobData :: "Event \<Rightarrow> SystemActionJobData" where
  "GetSystemJobData e = (case ev_Data e of
       SystemData d \<Rightarrow> d
     | KeyData t k \<Rightarrow> \<lparr>jd_SystemID = [], jd_TenantID = t, jd_KeyIDTo = [], jd_KeyIDFrom = [], jd_Trigger = []\<rparr>)"

definition hasKeyAdminAccess :: "env \<Rightarrow> ctx \<Rightarrow> string \<Rightarrow> bool M" where
  "hasKeyAdminAccess env ctx keyIDStr = (case uuid_Parse env keyIDStr of
       None \<Rightarrow> returnC False
     | Some keyID \<Rightarrow>
         tryC (bindC (First env ctx T_keys (\<lambda>_ k. key_ID k = keyID)) (\<lambda>key.
           HasKeyAccess env ctx APIActionUpdate (key_KeyConfigurationID key))) (\<lambda>res. returnC (\<not> isl res)))"

definition determineRecoveryPermissions :: "env \<Rightarrow> ctx \<Rightarrow> Event \<Rightarrow> (bool \<times> bool) M" where
  "determineRecoveryPermissions env ctx event =
     (let data = GetSystemJobData event in case ev_Type event of
        JobTypeSystemUnlink \<Rightarrow>
          bindC (hasKeyAdminAccess env ctx (jd_KeyIDFrom data)) (\<lambda>canRetry. returnC (canRetry, True))
      | JobTypeSystemSwitch \<Rightarrow>
          if jd_Trigger data = KeyActionSetPrimary
          then bindC (hasKeyAdminAccess env ctx (jd_KeyIDTo data)) (\<lambda>canRetry. returnC (canRetry, False))
          else bindC (hasKeyAdminAccess env ctx (jd_KeyIDFrom data)) (\<lambda>canRetry. returnC (canRetry, True))
      | JobTypeSystemSwitchNewPK \<Rightarrow>
          bindC (hasKeyAdminAccess env ctx (jd_KeyIDTo data)) (\<lambda>canRetry. returnC (canRetry, False))
      | JobTypeSystemLink \<Rightarrow>
          bindC (hasKeyAdminAccess env ctx (jd_KeyIDTo data)) (\<lambda>canRetry. returnC (canRetry, True))
      | JobTypeSystemKeyRotate \<Rightarrow>
          bindC (hasKeyAdminAccess env ctx (jd_KeyIDTo data)) (\<lambda>canRetry. returnC (canRetry, True))
      | _ \<Rightarrow> returnC (False, False))"

text \<open>whether the last action can be retried and whether it can be cancelled\<close>

definition GetRecoveryActions :: "env \<Rightarrow> ctx \<Rightarrow> uuid \<Rightarrow> (bool \<times> bool) M" where
  "GetRecoveryActions env ctx systemID =
     bindC (GetSystemByID env ctx systemID) (\<lambda>sv.
     if sys_Status (sv_System sv) \<noteq> SystemStatusFAILED then returnC (False, False)
     else tryC (GetLastEvent env ctx (uuid_String env systemID)) (\<lambda>res. case res of
         Inl err \<Rightarrow> if errs_Is err ''eventprocessor.ErrNoPreviousEvent'' then returnC (False, False) else throwC err
       | Inr lastEvent \<Rightarrow> determineRecoveryPermissions env ctx lastEvent))"

definition cancelSystemAction :: "env \<Rightarrow> ctx \<Rightarrow> uuid \<Rightarrow> unit M" where
  "cancelSystemAction env ctx systemID =
     bindC (GetLastEvent env ctx (uuid_String env systemID)) (\<lambda>event.
     bindC (Patch env ctx T_systems (\<lambda>s. sys_ID s = systemID) (\<lambda>s.
       s\<lparr>sys_Status := ev_PreviousItemStatus event, sys_TargetKeyConfigurationID := None\<rparr>)) (\<lambda>_. returnC ()))"

definition retryTx :: "env \<Rightarrow> System \<Rightarrow> (string \<times> string) list \<Rightarrow> Event \<Rightarrow> ctx \<Rightarrow> Job M" where
  "retryTx env system props lastJob ctx =
     bindC (if ev_Type lastJob \<noteq> JobTypeSystemKeyRotate
            then bindC (PatchSystem env ctx (system\<lparr>sys_Status := SystemStatusPROCESSING\<rparr>) props) (\<lambda>_. returnC ())
            else returnC ()) (\<lambda>_.
     CreateJob env (ev_Type lastJob) (ev_Data lastJob) (ev_Identifier lastJob))"

definition retrySystemAction :: "env \<Rightarrow> ctx \<Rightarrow> System \<Rightarrow> (string \<times> string) list \<Rightarrow> unit M" where
  "retrySystemAction env ctx system props =
     (if sys_Status system \<noteq> SystemStatusFAILED then throwC [E ''ErrRetryNonFailedSystem'']
      else bindC (GetLastEvent env ctx (uuid_String env (sys_ID system))) (\<lambda>lastJob.
           bindC (SendEvent (Transaction env ctx (retryTx env system props lastJob))) (\<lambda>_. returnC ())))"

datatype SystemRecoveryActionBodyAction =
    SystemRecoveryActionBodyActionCANCEL | SystemRecoveryActionBodyActionRETRY
  | SystemRecoveryActionBodyActionOther string

definition SendRecoveryActions :: "env \<Rightarrow> ctx \<Rightarrow> uuid \<Rightarrow> SystemRecoveryActionBodyAction \<Rightarrow> unit M" where
  "SendRecoveryActions env ctx systemID action =
     bindC (GetSystemByID env ctx systemID) (\<lambda>sv.
     bindC (HasSystemAccess env ctx APIActionSystemModifyLink (sv_System sv)) (\<lambda>_.
     case action of
       SystemRecoveryActionBodyActionCANCEL \<Rightarrow> cancelSystemAction env ctx systemID
     | SystemRecoveryActionBodyActionRETRY \<Rightarrow> retrySystemAction env ctx (sv_System sv) (sv_Properties sv)
     | SystemRecoveryActionBodyActionOther _ \<Rightarrow> throwC [E ''ErrUnsupportedSystemAction'']))"

section \<open>Frames\<close>

context world_frame
begin

lemma steps_listPages [steps_intro]: "steps R (listPages fuel env filt limit tok acc)"
  by (induction fuel arbitrary: tok acc) (auto intro!: steps_intro split: sum.split)

lemma steps_retryPages [steps_intro]: "steps R (retryPages left fuel env filt acc)"
  by (induction left arbitrary: acc) (auto intro!: steps_intro split: option.split)

lemma steps_ListAndCountSystemWithProperties [steps_intro]:
  "ctx_Tenant ctx = Some tn \<Longrightarrow> steps R (ListAndCountSystemWithProperties env ctx pagination arrange query)"
  unfolding ListAndCountSystemWithProperties_def by (intro steps_intro)

lemma steps_GetSystemByIDWithProperties [steps_intro]:
  "ctx_Tenant ctx = Some tn \<Longrightarrow> steps R (GetSystemByIDWithProperties env ctx systemID)"
  unfolding GetSystemByIDWithProperties_def by (intro steps_intro)

lemma steps_GetSystemByID [steps_intro]:
  "ctx_Tenant ctx = Some tn \<Longrightarrow> steps R (GetSystemByID env ctx systemID)"
  unfolding GetSystemByID_def by (intro steps_intro)

lemma steps_GetAllSystems [steps_intro]:
  "ctx_Tenant ctx = Some tn \<Longrightarrow> steps R (GetAllSystems env ctx params)"
  unfolding GetAllSystems_def by (intro steps_intro)

lemma steps_GetFilterOptions [steps_intro]:
  "ctx_Tenant ctx = Some tn \<Longrightarrow> steps R (GetFilterOptions env ctx T joins filters)"
  unfolding GetFilterOptions_def by (intro steps_intro steps_WithTenant) (simp_all add: stmt_ok_def)

lemma steps_GetFilters [steps_intro]:
  "ctx_Tenant ctx = Some tn \<Longrightarrow> steps R (GetFilters env ctx)"
  unfolding GetFilters_def by (intro steps_intro)

lemma steps_PatchSystem [steps_intro]:
  "TabSystemProperties \<in> W \<Longrightarrow> TabSystems \<in> W \<Longrightarrow> ctx_Tenant ctx = Some tn \<Longrightarrow> steps R (PatchSystem env ctx m props)"
  unfolding PatchSystem_def by (intro steps_intro disjI2)

lemma steps_updateSystem [steps_intro]:
  "TabSystemProperties \<in> W \<Longrightarrow> TabSystems \<in> W \<Longrightarrow> ctx_Tenant ctx = Some tn \<Longrightarrow> steps R (updateSystem env ctx system)"
  unfolding updateSystem_def by (intro steps_intro)

lemma steps_UpdateSystems [steps_intro]:
  "TabSystemProperties \<in> W \<Longrightarrow> TabSystems \<in> W \<Longrightarrow> ctx_Tenant ctx = Some tn \<Longrightarrow> steps R (UpdateSystems env ctx)"
  unfolding UpdateSystems_def by (intro steps_intro)

lemma steps_UpdateSystemByExternalID [steps_intro]:
  "TabSystemProperties \<in> W \<Longrightarrow> TabSystems \<in> W \<Longrightarrow> ctx_Tenant ctx = Some tn \<Longrightarrow> steps R (UpdateSystemByExternalID env ctx externalID)"
  unfolding UpdateSystemByExternalID_def by (intro steps_intro)

lemma steps_mapRegistrySystemToCmkSystem [steps_intro]:
  "steps R (mapRegistrySystemToCmkSystem env grpcSystem)"
  unfolding mapRegistrySystemToCmkSystem_def by (intro steps_intro)

lemma steps_MapRegistrySystemsToCmkSystems [steps_intro]:
  "steps R (MapRegistrySystemsToCmkSystems env grpcSystems)"
  unfolding MapRegistrySystemsToCmkSystems_def by (intro steps_intro)

lemma steps_GetSystemsWithFilter [steps_intro]:
  "steps R (GetSystemsWithFilter fuel env filt)"
  unfolding GetSystemsWithFilter_def by (intro steps_intro)

lemma steps_createSystemIfNotExists [steps_intro]:
  "TabSystemProperties \<in> W \<Longrightarrow> TabSystems \<in> W \<Longrightarrow> ctx_Tenant ctx = Some tn \<Longrightarrow> steps R (createSystemIfNotExists env ctx newSystem)"
  unfolding createSystemIfNotExists_def by (intro steps_intro)

lemma steps_removeStale [steps_intro]:
  "TabSystemProperties \<in> W \<Longrightarrow> TabSystems \<in> W \<Longrightarrow> ctx_Tenant ctx = Some tn \<Longrightarrow> steps R (removeStale env registrySystemsMap syss ctx)"
  unfolding removeStale_def by (intro steps_intro)

lemma steps_removeSystemsNotInRegistry [steps_intro]:
  "TabSystemProperties \<in> W \<Longrightarrow> TabSystems \<in> W \<Longrightarrow> ctx_Tenant ctx = Some tn \<Longrightarrow> steps R (removeSystemsNotInRegistry env ctx registrySystems)"
  unfolding removeSystemsNotInRegistry_def by (intro steps_intro)

lemma steps_refreshFrom [steps_intro]:
  "TabSystemProperties \<in> W \<Longrightarrow> TabSystems \<in> W \<Longrightarrow> ctx_Tenant ctx = Some tn \<Longrightarrow> steps R (refreshFrom env ctx fetchedSystems)"
  unfolding refreshFrom_def by (intro steps_intro)

lemma steps_RefreshSystemsData [steps_intro]:
  "TabSystemProperties \<in> W \<Longrightarrow> TabSystems \<in> W \<Longrightarrow> ctx_Tenant ctx = Some tn \<Longrightarrow> steps R (RefreshSystemsData env ctx)"
  unfolding RefreshSystemsData_def by (intro steps_intro)

lemma steps_UnmapSystemFromRegistry [steps_intro]:
  "ctx_Tenant ctx = Some tn \<Longrightarrow> steps R (UnmapSystemFromRegistry env ctx system)"
  unfolding UnmapSystemFromRegistry_def by (intro steps_intro)

lemma steps_uuidPtr_String [steps_intro]:
  "steps R (uuidPtr_String env p)"
  unfolding uuidPtr_String_def by (intro steps_intro)

lemma bindC_if: "bindC (if b then m else m') f = (if b then bindC m f else bindC m' f)"
  by simp

lemma steps_selectEvent [steps_intro]:
  assumes "ctx_Tenant ctx = Some tn" and W: "TabEvents \<in> W" "TabSystems \<in> W" "TabSystemProperties \<in> W"
    and f: "\<And>m. steps R m \<Longrightarrow> steps R (f m)"
  shows "steps R (bindC (selectEvent env ctx system props kc) f)"
proof -
  have link: "steps R (SystemLink env ctx s props k)" "steps R (SystemSwitch env ctx s props k k')" for s k k'
    by (simp_all add: steps_SystemEvents assms(1-4))
  show ?thesis
    unfolding selectEvent_def Let_def bindC_assoc
    by (rule steps_bind[OF steps_PatchSystem[OF W(3,2) assms(1)]])
      (simp only: bindC_if bindC_return_left bindC_assoc,
       intro steps_if steps_bind steps_wrap steps_First f steps_intro link assms(1))
qed

lemma steps_linkTx [steps_intro]:
  "TabEvents \<in> W \<Longrightarrow> TabSystemProperties \<in> W \<Longrightarrow> TabSystems \<in> W \<Longrightarrow> ctx_Tenant ctx = Some tn \<Longrightarrow> steps R (linkTx env systemID keyConfigurationID ctx)"
  unfolding linkTx_def by (intro steps_intro)

lemma steps_LinkSystemAction [steps_intro]:
  "TabEvents \<in> W \<Longrightarrow> TabSystemProperties \<in> W \<Longrightarrow> TabSystems \<in> W \<Longrightarrow> ctx_Tenant ctx = Some tn \<Longrightarrow> steps R (LinkSystemAction env ctx systemID keyConfigurationID)"
  unfolding LinkSystemAction_def by (intro steps_intro)

lemma steps_sendSystemUnlinkEvent [steps_intro]:
  "TabEvents \<in> W \<Longrightarrow> TabSystems \<in> W \<Longrightarrow> ctx_Tenant ctx = Some tn \<Longrightarrow> steps R (sendSystemUnlinkEvent env ctx system keyConfig trigger)"
  unfolding sendSystemUnlinkEvent_def by (intro steps_intro disjI1 refl)

lemma steps_unlinkTx [steps_intro]:
  "TabEvents \<in> W \<Longrightarrow> TabSystems \<in> W \<Longrightarrow> ctx_Tenant ctx = Some tn \<Longrightarrow> steps R (unlinkTx env systemID trigger ctx)"
  unfolding unlinkTx_def by (intro steps_intro)

lemma steps_UnlinkSystemAction [steps_intro]:
  "TabEvents \<in> W \<Longrightarrow> TabSystems \<in> W \<Longrightarrow> ctx_Tenant ctx = Some tn \<Longrightarrow> steps R (UnlinkSystemAction env ctx systemID trigger)"
  unfolding UnlinkSystemAction_def by (intro steps_intro)

lemma steps_hasKeyAdminAccess [steps_intro]:
  "ctx_Tenant ctx = Some tn \<Longrightarrow> steps R (hasKeyAdminAccess env ctx keyIDStr)"
  unfolding hasKeyAdminAccess_def by (intro steps_intro)

lemma steps_determineRecoveryPermissions [steps_intro]:
  "ctx_Tenant ctx = Some tn \<Longrightarrow> steps R (determineRecoveryPermissions env ctx event)"
  unfolding determineRecoveryPermissions_def Let_def
  by (auto split: JobType.split intro!: steps_intro)

lemma steps_GetRecoveryActions [steps_intro]:
  "ctx_Tenant ctx = Some tn \<Longrightarrow> steps R (GetRecoveryActions env ctx systemID)"
  unfolding GetRecoveryActions_def by (intro steps_intro)

lemma steps_cancelSystemAction [steps_intro]:
  "TabSystems \<in> W \<Longrightarrow> ctx_Tenant ctx = Some tn \<Longrightarrow> steps R (cancelSystemAction env ctx systemID)"
  unfolding cancelSystemAction_def by (intro steps_intro)

lemma steps_retryTx [steps_intro]:
  "TabSystemProperties \<in> W \<Longrightarrow> TabSystems \<in> W \<Longrightarrow> ctx_Tenant ctx = Some tn \<Longrightarrow> steps R (retryTx env system props lastJob ctx)"
  unfolding retryTx_def by (intro steps_intro)

lemma steps_retrySystemAction [steps_intro]:
  "TabSystemProperties \<in> W \<Longrightarrow> TabSystems \<in> W \<Longrightarrow> ctx_Tenant ctx = Some tn \<Longrightarrow> steps R (retrySystemAction env ctx system props)"
  unfolding retrySystemAction_def by (intro steps_intro)

lemma steps_SendRecoveryActions [steps_intro]:
  "TabSystemProperties \<in> W \<Longrightarrow> TabSystems \<in> W \<Longrightarrow> ctx_Tenant ctx = Some tn \<Longrightarrow> steps R (SendRecoveryActions env ctx systemID action)"
  unfolding SendRecoveryActions_def
  by (intro steps_bind steps_GetSystemByID steps_HasSystemAccess)
    (auto split: SystemRecoveryActionBodyAction.split intro!: steps_intro)

end

end
