(* ===== verification/Job_Handlers.thy ===== *)
theory Job_Handlers
  imports System_Manager Error_Mapper Tenant_Config Key_Manager
begin

text \<open>
  What happens when the orbital job manager resolves, confirms and finishes a job
  (src/internal/event-processor: repo.go, helpers.go, errors.go, handlers_system.go, handlers_key.go,
  resolvers.go and the dispatch of reconciler.go), with the registry client's updates
  (src/internal/clients/registry/systems/client.go).

  The job manager calls one of five functions with a job: \<open>resolveTasks\<close>, \<open>confirmJob\<close>, \<open>jobDoneFunc\<close>,
  \<open>jobFailedFunc\<close> and \<open>jobCanceledFunc\<close>; each dispatches on the job's type. The payload is already decoded
  in the model: a payload of the other kind decodes to a record whose missing fields are empty, as
  \<open>json.Unmarshal\<close> does. Serialising task data is left out (\<open>ti_Data\<close> is the message itself), and so is
  tracing. The order in which a map of targets is traversed is the order of the configured list.
\<close>

section \<open>Helpers\<close>

text \<open>\<open>fmt.Errorf\<close> with the verb \<open>%w\<close>: a text in front of the error\<close>

definition errorfC :: "string \<Rightarrow> 'a M \<Rightarrow> 'a M" where
  "errorfC msg m = tryC m (\<lambda>res. case res of Inl err \<Rightarrow> throwC (Msg msg # err) | Inr x \<Rightarrow> returnC x)"

text \<open>\<open>First\<close> by a text compared with a uuid column: text that is no uuid is rejected by the database\<close>

definition First_id :: "env \<Rightarrow> ctx \<Rightarrow> 'r table \<Rightarrow> ('r \<Rightarrow> uuid) \<Rightarrow> string \<Rightarrow> 'r M" where
  "First_id env ctx T col s = (case uuid_Parse env s of
       Some i \<Rightarrow> First env ctx T (\<lambda>_ r. col r = i)
     | None \<Rightarrow>
         bindC (checkResourceAuthZ env ctx (t_res T) RepoActionFirst) (\<lambda>_.
         WithTenant env ctx (\<lambda>m. [E ''repo.ErrGetResource'', Msg m]) (\<lambda>d.
           SqlErr [E ''repo.ErrGetResource'', Msg ''invalid input syntax for type uuid''])))"

definition getSystemByID :: "env \<Rightarrow> ctx \<Rightarrow> string \<Rightarrow> System M" where
  "getSystemByID env ctx systemID = First_id env ctx T_systems sys_ID systemID"

definition getKeyByKeyID :: "env \<Rightarrow> ctx \<Rightarrow> string \<Rightarrow> Key M" where
  "getKeyByKeyID env ctx keyID = errorfC ''failed to get key by ID'' (First_id env ctx T_keys key_ID keyID)"

definition getTenantByID :: "env \<Rightarrow> ctx \<Rightarrow> string \<Rightarrow> Tenant M" where
  "getTenantByID env ctx tenantID = First_tenant env (CreateTenantContext ctx tenantID) tenantID"

text \<open>\<open>updateSystem\<close> and \<open>updateKey\<close> of repo.go: all columns are written\<close>

definition saveSystem :: "env \<Rightarrow> ctx \<Rightarrow> System \<Rightarrow> unit M" where
  "saveSystem env ctx system = errorfC ''failed to update system''
     (bindC (Patch env ctx T_systems (\<lambda>s. sys_ID s = sys_ID system) (\<lambda>_. system)) (\<lambda>_. returnC ()))"

definition saveKey :: "env \<Rightarrow> ctx \<Rightarrow> Key \<Rightarrow> unit M" where
  "saveKey env ctx key = errorfC ''failed to update key''
     (bindC (Patch env ctx T_keys (\<lambda>k. key_ID k = key_ID key) (\<lambda>_. key_row key)) (\<lambda>_. returnC ()))"

definition getNewestKeyVersionNativeID :: "env \<Rightarrow> ctx \<Rightarrow> uuid \<Rightarrow> string M" where
  "getNewestKeyVersionNativeID env ctx keyID =
     bindC (errorfC ''failed to get newest key version''
       (First_full env ctx T_key_versions [] (sort_by (\<lambda>a b. kv_RotatedAt a \<ge> kv_RotatedAt b)) (\<lambda>_ kv. kv)
         (\<lambda>_ kv. kv_KeyID kv = keyID))) (\<lambda>kv.
     if kv_NativeID kv = [] then throwC [E ''eventprocessor.ErrVersionHasNoNativeID'']
     else returnC (kv_NativeID kv))"

definition unmarshalKeyJobData :: "Job \<Rightarrow> string \<times> string" where
  "unmarshalKeyJobData job = (case job_Data job of
       KeyData tenantID keyID \<Rightarrow> (tenantID, keyID)
     | SystemData d \<Rightarrow> (jd_TenantID d, []))"

definition unmarshalSystemJobData :: "Job \<Rightarrow> SystemActionJobData" where
  "unmarshalSystemJobData job = (case job_Data job of
       SystemData d \<Rightarrow> d
     | KeyData t k \<Rightarrow> \<lparr>jd_SystemID = [], jd_TenantID = t, jd_KeyIDTo = [], jd_KeyIDFrom = [], jd_Trigger = []\<rparr>)"

fun joinWith :: "string \<Rightarrow> string list \<Rightarrow> string" where
  "joinWith sep [] = []"
| "joinWith sep [x] = x"
| "joinWith sep (x # y # rest) = x @ sep @ joinWith sep (y # rest)"

definition mergeOrbitalTaskErrors :: "env \<Rightarrow> Job \<Rightarrow> string M" where
  "mergeOrbitalTaskErrors env job = bindC tick_of (\<lambda>n.
     bindC (liftC (orbital_FailedTasks env n job)) (\<lambda>taskErrors.
     returnC (joinWith '':'' taskErrors)))"

text \<open>\<open>sendEvent\<close> of src/internal/auditor: the tenant of the context is required\<close>

definition sendAuditEvent :: "env \<Rightarrow> ctx \<Rightarrow> string \<Rightarrow> uuid \<Rightarrow> unit M" where
  "sendAuditEvent env ctx event i =
     bindC (wrapC ''auditor.ErrCreateEventMetadata'' (liftC (ExtractTenantID ctx))) (\<lambda>_.
     bindC tick_of (\<lambda>n. case audit_Send env n of
       Some m \<Rightarrow> throwC [E ''auditor.ErrSendEvent'', Msg m]
     | None \<Rightarrow> logCall (CallAudit event i)))"

section \<open>Orbital errors\<close>

record OrbitalError =
  oe_Message :: string
  oe_Code :: string

definition DefaultError :: OrbitalError where
  "DefaultError = \<lparr>oe_Message = ''Unknown'', oe_Code = ''UNKNOWN''\<rparr>"

definition IsDefaultError :: "OrbitalError \<Rightarrow> bool" where
  "IsDefaultError e \<longleftrightarrow> oe_Message e = ''Unknown'' \<and> oe_Code e = ''UNKNOWN''"

definition OrbitalError_String :: "OrbitalError \<Rightarrow> string" where
  "OrbitalError_String e = oe_Code e @ '':'' @ oe_Message e"

text \<open>\<open>strings.Cut\<close> with a separator of one character\<close>

definition strings_Cut :: "string \<Rightarrow> char \<Rightarrow> string \<times> string \<times> bool" where
  "strings_Cut s sep =
     (if sep \<in> set s then (takeWhile (\<lambda>c. c \<noteq> sep) s, tl (dropWhile (\<lambda>c. c \<noteq> sep) s), True)
      else (s, [], False))"

definition isAZ :: "char \<Rightarrow> bool" where
  "isAZ c = (let n = of_char c :: nat in 65 \<le> n \<and> n \<le> 90)"

text \<open>the expression \<open>^[A-Z]+(?:_[A-Z]+)*$\<close>\<close>

fun screamingSnake :: "string \<Rightarrow> bool" where
  "screamingSnake [] = False"
| "screamingSnake [c] = isAZ c"
| "screamingSnake (c # d # s) = (isAZ c \<and> (if d = CHR ''_'' then screamingSnake s else screamingSnake (d # s)))"

definition ParseOrbitalError :: "string \<Rightarrow> OrbitalError" where
  "ParseOrbitalError errorMessage = (case strings_Cut errorMessage (CHR '':'') of (code, message, found) \<Rightarrow>
     if \<not> found \<or> \<not> screamingSnake code then \<lparr>oe_Message = errorMessage, oe_Code = ''UNKNOWN''\<rparr>
     else \<lparr>oe_Message = message, oe_Code = code\<rparr>)"

definition IsVersionMismatchError :: "string \<Rightarrow> bool" where
  "IsVersionMismatchError errorMessage \<longleftrightarrow> oe_Code (ParseOrbitalError errorMessage) = ''KEY_VERSION_MISMATCH''"

definition errorMapper :: "OrbitalError ErrorMapper" where
  "errorMapper = \<lparr>em_Errors =
     [\<lparr>ee_InternalErrorChain = [''eventprocessor.ErrNoConnectedRegionsForKey''],
       ee_ExposedError = \<lparr>oe_Message = ''no connected regions found for key'', oe_Code = ''NO_CONNECTED_REGIONS_FOR_KEY''\<rparr>\<rparr>,
      \<lparr>ee_InternalErrorChain = [''eventprocessor.ErrTargetNotConfigured''],
       ee_ExposedError = \<lparr>oe_Message = ''target not configured for region'', oe_Code = ''UNCONFIGURED_REGION''\<rparr>\<rparr>,
      \<lparr>ee_InternalErrorChain = [''eventprocessor.ErrKeyAccessMetadataNotFound''],
       ee_ExposedError = \<lparr>oe_Message = ''key does not support system region'', oe_Code = ''UNSUPPORTED_REGION''\<rparr>\<rparr>,
      \<lparr>ee_InternalErrorChain = [''eventprocessor.ErrNoTasksResolvedForJob''],
       ee_ExposedError = \<lparr>oe_Message = ''no tasks resolved for the job'', oe_Code = ''NO_TASKS_RESOLVED_FOR_JOB''\<rparr>\<rparr>],
     em_PriorityErrors = []\<rparr>"

text \<open>\<open>text\<close> renders an error (its method \<open>Error\<close>)\<close>

definition GetOrbitalError :: "(gerror \<Rightarrow> string) \<Rightarrow> gerror \<Rightarrow> string" where
  "GetOrbitalError text err =
     (let orbErr = Transform errorMapper DefaultError err in
      if IsDefaultError orbErr then text err else OrbitalError_String orbErr)"

section \<open>Registry updates\<close>

text \<open>
  \<open>getRetrier().Do\<close>: a call is repeated while the registry is unavailable, \<open>attempts\<close> times at most
\<close>

fun retryCall :: "nat \<Rightarrow> string \<Rightarrow> (nat \<Rightarrow> gerror + 'a) \<Rightarrow> 'a M" where
  "retryCall 0 failure call = throwC [E failure]"
| "retryCall (Suc left) failure call = bindC tick_of (\<lambda>n. case call n of
       Inr resp \<Rightarrow> returnC resp
     | Inl err \<Rightarrow>
         if errs_Is err ''grpc.Unavailable'' \<and> left > 0 then retryCall left failure call
         else throwC ((if errs_Is err ''grpc.Internal'' then E ''systems.ErrClientInternalError'' else E failure) # err))"

definition ExtendedUpdateSystemL1KeyClaim :: "env \<Rightarrow> SystemFilter_reg \<Rightarrow> bool \<Rightarrow> unit M" where
  "ExtendedUpdateSystemL1KeyClaim env filt l1KeyClaim =
     bindC (retryCall attempts ''systems.ErrSystemsClientFailedUpdatingKeyClaim''
       (\<lambda>n. registry_UpdateL1KeyClaim env n filt l1KeyClaim)) (\<lambda>success.
     if \<not> success then throwC [E ''systems.ErrSystemsServerFailedUpdatingKeyClaim'']
     else logCall (CallRegistry (if l1KeyClaim then ''claim'' else ''unclaim'') (sf_ExternalID filt)))"

definition ExtendedUpdateSystemStatus :: "env \<Rightarrow> SystemFilter_reg \<Rightarrow> SystemType \<Rightarrow> string \<Rightarrow> unit M" where
  "ExtendedUpdateSystemStatus env filt systemType st =
     bindC (retryCall attempts ''systems.ErrSystemsClientFailedUpdatingStatus''
       (\<lambda>n. registry_UpdateSystemStatus env n filt systemType st)) (\<lambda>success.
     if \<not> success then throwC [E ''systems.ErrSystemsServerFailedUpdatingStatus'']
     else logCall (CallRegistry st (sf_ExternalID filt)))"

definition sendL1KeyClaim :: "env \<Rightarrow> System \<Rightarrow> string \<Rightarrow> bool \<Rightarrow> unit M" where
  "sendL1KeyClaim env system tenant keyClaim =
     (if \<not> registry_client env then throwC [E ''panic'']
      else tryC (ExtendedUpdateSystemL1KeyClaim env \<lparr>sf_Region = sys_Region system,
          sf_ExternalID = sys_Identifier system, sf_TenantID = tenant, sf_Limit = 0\<rparr> keyClaim) (\<lambda>res. case res of
        Inr _ \<Rightarrow> returnC ()
      | Inl err \<Rightarrow>
          if errs_Is err ''systems.ErrKeyClaimAlreadyActive'' \<and> keyClaim \<or>
             errs_Is err ''systems.ErrKeyClaimAlreadyInactive'' \<and> \<not> keyClaim then returnC ()
          else throwC (E ''eventprocessor.ErrSettingKeyClaim'' # err)))"

section \<open>Shared parts of the system handlers\<close>

text \<open>a patch without \<open>UpdateAll\<close> writes the fields that are not empty\<close>

definition updateEventError :: "env \<Rightarrow> ctx \<Rightarrow> string \<Rightarrow> string \<Rightarrow> unit M" where
  "updateEventError env ctx identifier errorMessage =
     (let orbitalErr = ParseOrbitalError errorMessage in
      bindC (Patch env ctx T_events (\<lambda>ev. ev_Identifier ev = identifier) (\<lambda>ev. ev\<lparr>
          ev_ErrorCode := (if oe_Code orbitalErr = [] then ev_ErrorCode ev else oe_Code orbitalErr),
          ev_ErrorMessage := (if oe_Message orbitalErr = [] then ev_ErrorMessage ev else oe_Message orbitalErr)\<rparr>)) (\<lambda>_.
      returnC ()))"

definition cleanUpEvent :: "env \<Rightarrow> ctx \<Rightarrow> Job \<Rightarrow> unit M" where
  "cleanUpEvent env ctx job = errorfC ''failed to clean up event for job''
     (bindC (Delete env ctx T_events Some
        (\<lambda>ev. ev_Identifier ev = job_ExternalID job \<and> ev_Type ev = job_Type job)) (\<lambda>_. returnC ()))"

datatype JobConfirmerResult = CompleteJobConfirmer | CancelJobConfirmer string

definition handleSystemJobConfirm :: "env \<Rightarrow> ctx \<Rightarrow> Job \<Rightarrow> JobConfirmerResult M" where
  "handleSystemJobConfirm env ctx job =
     (let data = unmarshalSystemJobData job; ctx = CreateTenantContext ctx (jd_TenantID data) in
      tryC (getSystemByID env ctx (jd_SystemID data)) (\<lambda>res. case res of
        Inl err \<Rightarrow> if errs_Is err ''repo.ErrNotFound'' then returnC (CancelJobConfirmer ''system not found'')
                   else throwC (Msg ''failed to get system by ID'' # err)
      | Inr system \<Rightarrow>
          if sys_Status system \<noteq> SystemStatusPROCESSING
          then returnC (CancelJobConfirmer ''system is not in processing status'')
          else returnC CompleteJobConfirmer))"

text \<open>the transaction that ends a failed or canceled job: the error is stored and the system fails\<close>

definition failSystem :: "env \<Rightarrow> ctx \<Rightarrow> Job \<Rightarrow> System \<Rightarrow> string \<Rightarrow> unit M" where
  "failSystem env ctx job system errorMessage = Transaction env ctx (\<lambda>ctx.
     bindC (updateEventError env ctx (job_ExternalID job) errorMessage) (\<lambda>_.
     saveSystem env ctx (system\<lparr>sys_Status := SystemStatusFAILED\<rparr>)))"

definition terminateFailedSystemJob :: "env \<Rightarrow> ctx \<Rightarrow> Job \<Rightarrow> unit M" where
  "terminateFailedSystemJob env ctx job =
     (let data = unmarshalSystemJobData job; ctx = CreateTenantContext ctx (jd_TenantID data) in
      tryC (getSystemByID env ctx (jd_SystemID data)) (\<lambda>res. case res of
        Inl err \<Rightarrow> if errs_Is err ''repo.ErrNotFound'' then returnC () else throwC err
      | Inr system \<Rightarrow>
          tryC (mergeOrbitalTaskErrors env job) (\<lambda>merged.
          failSystem env ctx job system (case merged of
              Inl _ \<Rightarrow> job_ErrorMessage job
            | Inr errorMessage \<Rightarrow> if errorMessage = [] then job_ErrorMessage job else errorMessage))))"

definition terminateCanceledSystemJob :: "env \<Rightarrow> ctx \<Rightarrow> Job \<Rightarrow> unit M" where
  "terminateCanceledSystemJob env ctx job =
     (let data = unmarshalSystemJobData job; ctx = CreateTenantContext ctx (jd_TenantID data) in
      tryC (getSystemByID env ctx (jd_SystemID data)) (\<lambda>res. case res of
        Inl err \<Rightarrow> if errs_Is err ''repo.ErrNotFound'' then returnC () else throwC err
      | Inr system \<Rightarrow> failSystem env ctx job system (job_ErrorMessage job)))"

text \<open>the transaction that ends a successful job: the system's new row is stored and the event removed\<close>

definition finishSystem :: "env \<Rightarrow> ctx \<Rightarrow> Job \<Rightarrow> System \<Rightarrow> unit M" where
  "finishSystem env ctx job system = Transaction env ctx (\<lambda>ctx.
     bindC (saveSystem env ctx system) (\<lambda>_. cleanUpEvent env ctx job))"

section \<open>System handlers\<close>

definition SystemLink_HandleJobDoneEvent :: "env \<Rightarrow> ctx \<Rightarrow> Job \<Rightarrow> unit M" where
  "SystemLink_HandleJobDoneEvent env ctx job =
     (let data = unmarshalSystemJobData job; ctx = CreateTenantContext ctx (jd_TenantID data) in
      bindC (getSystemByID env ctx (jd_SystemID data)) (\<lambda>system.
      bindC (sendL1KeyClaim env system (jd_TenantID data) True) (\<lambda>_.
      bindC (errorfC ''failed to get key config ID for key'' (getKeyByKeyID env ctx (jd_KeyIDTo data))) (\<lambda>key.
      bindC (finishSystem env ctx job (system\<lparr>sys_Status := SystemStatusCONNECTED,
        sys_KeyConfigurationID := Some (key_KeyConfigurationID key), sys_TargetKeyConfigurationID := None\<rparr>)) (\<lambda>_.
      onlyLogged (sendAuditEvent env ctx ''CmkOnboarding'' (sys_ID system)))))))"

definition SystemUnlink_HandleJobDoneEvent :: "env \<Rightarrow> ctx \<Rightarrow> Job \<Rightarrow> unit M" where
  "SystemUnlink_HandleJobDoneEvent env ctx job =
     (let data = unmarshalSystemJobData job; ctx = CreateTenantContext ctx (jd_TenantID data) in
      bindC (getSystemByID env ctx (jd_SystemID data)) (\<lambda>system.
      bindC (sendL1KeyClaim env system (jd_TenantID data) False) (\<lambda>_.
      bindC (finishSystem env ctx job (system\<lparr>sys_Status := SystemStatusDISCONNECTED,
        sys_KeyConfigurationID := None\<rparr>)) (\<lambda>_.
      onlyLogged (sendAuditEvent env ctx ''CmkOffboarding'' (sys_ID system))))))"

definition SystemSwitch_HandleJobDoneEvent :: "env \<Rightarrow> ctx \<Rightarrow> Job \<Rightarrow> unit M" where
  "SystemSwitch_HandleJobDoneEvent env ctx job =
     (let data = unmarshalSystemJobData job; ctx = CreateTenantContext ctx (jd_TenantID data) in
      bindC (getSystemByID env ctx (jd_SystemID data)) (\<lambda>system.
      bindC (errorfC ''failed to get key config ID for key'' (getKeyByKeyID env ctx (jd_KeyIDTo data))) (\<lambda>key.
      bindC (finishSystem env ctx job (system\<lparr>sys_Status := SystemStatusCONNECTED,
        sys_KeyConfigurationID := Some (key_KeyConfigurationID key), sys_TargetKeyConfigurationID := None\<rparr>)) (\<lambda>_.
      onlyLogged (sendAuditEvent env ctx ''CmkSwitch'' (sys_ID system))))))"

definition Decommission_terminate :: "env \<Rightarrow> ctx \<Rightarrow> Job \<Rightarrow> (System \<times> string) M" where
  "Decommission_terminate env ctx job =
     (let data = unmarshalSystemJobData job; ctx = CreateTenantContext ctx (jd_TenantID data) in
      bindC (getSystemByID env ctx (jd_SystemID data)) (\<lambda>system0.
      let system = system0\<lparr>sys_Status := SystemStatusDISCONNECTED, sys_KeyConfigurationID := None\<rparr> in
      bindC (saveSystem env ctx system) (\<lambda>_.
      bindC (sendL1KeyClaim env system (jd_TenantID data) False) (\<lambda>_.
      returnC (system, jd_KeyIDFrom data)))))"

text \<open>the audit event is sent with the context the handler was called with\<close>

definition Decommission_HandleJobDoneEvent :: "env \<Rightarrow> ctx \<Rightarrow> Job \<Rightarrow> unit M" where
  "Decommission_HandleJobDoneEvent env ctx job =
     bindC (errorfC ''failed to handle job done event for system unlink decommission job''
       (Decommission_terminate env ctx job)) (\<lambda>(system, keyID).
     onlyLogged (sendAuditEvent env ctx ''CmkOffboarding'' (sys_ID system)))"

definition lockSystemInRegistry :: "env \<Rightarrow> ctx \<Rightarrow> Job \<Rightarrow> unit M" where
  "lockSystemInRegistry env ctx job =
     (let data = unmarshalSystemJobData job; ctx = CreateTenantContext ctx (jd_TenantID data) in
      bindC (getSystemByID env ctx (jd_SystemID data)) (\<lambda>system.
      if \<not> registry_client env then throwC [E ''panic'']
      else wrapC ''eventprocessor.ErrSettingSystemLockedStatus'' (ExtendedUpdateSystemStatus env
        \<lparr>sf_Region = sys_Region system, sf_ExternalID = sys_Identifier system, sf_TenantID = [], sf_Limit = 0\<rparr>
        (sys_Type system) ''STATUS_LOCKED'')))"

definition Decommission_HandleJobFailedEvent :: "env \<Rightarrow> ctx \<Rightarrow> Job \<Rightarrow> unit M" where
  "Decommission_HandleJobFailedEvent env ctx job =
     bindC (onlyLogged (mergeOrbitalTaskErrors env job)) (\<lambda>_.
     bindC (onlyLogged (lockSystemInRegistry env ctx job)) (\<lambda>_.
     bindC (errorfC ''failed to handle job failed event for system unlink decommission job''
       (Decommission_terminate env ctx job)) (\<lambda>_. returnC ())))"

definition Decommission_HandleJobCanceledEvent :: "env \<Rightarrow> ctx \<Rightarrow> Job \<Rightarrow> unit M" where
  "Decommission_HandleJobCanceledEvent env ctx job =
     (let data = unmarshalSystemJobData job; ctx = CreateTenantContext ctx (jd_TenantID data) in
      bindC (getSystemByID env ctx (jd_SystemID data)) (\<lambda>system.
      saveSystem env ctx (system\<lparr>sys_Status := SystemStatusFAILED\<rparr>)))"

definition KeyRotate_HandleJobDoneEvent :: "env \<Rightarrow> ctx \<Rightarrow> Job \<Rightarrow> unit M" where
  "KeyRotate_HandleJobDoneEvent env ctx job =
     (let data = unmarshalSystemJobData job; ctx = CreateTenantContext ctx (jd_TenantID data) in
      tryC (getSystemByID env ctx (jd_SystemID data)) (\<lambda>res. case res of
        Inl err \<Rightarrow> if errs_Is err ''repo.ErrNotFound'' then cleanUpEvent env ctx job else throwC err
      | Inr system \<Rightarrow> errorfC ''failed to clean up event for system'' (cleanUpEvent env ctx job)))"

definition KeyRotate_HandleJobFailedEvent :: "env \<Rightarrow> ctx \<Rightarrow> Job \<Rightarrow> unit M" where
  "KeyRotate_HandleJobFailedEvent env ctx job =
     (let data = unmarshalSystemJobData job; ctx = CreateTenantContext ctx (jd_TenantID data) in
      tryC (mergeOrbitalTaskErrors env job) (\<lambda>merged.
      let errorMessage = (case merged of Inl _ \<Rightarrow> job_ErrorMessage job | Inr m \<Rightarrow> m) in
      if IsVersionMismatchError errorMessage then cleanUpEvent env ctx job
      else terminateFailedSystemJob env ctx job))"

definition KeyRotate_HandleJobCanceledEvent :: "env \<Rightarrow> ctx \<Rightarrow> Job \<Rightarrow> unit M" where
  "KeyRotate_HandleJobCanceledEvent env ctx job =
     (let data = unmarshalSystemJobData job; ctx = CreateTenantContext ctx (jd_TenantID data) in
      cleanUpEvent env ctx job)"

section \<open>Key handlers\<close>

definition KeyDetach_HandleJobConfirm :: "env \<Rightarrow> ctx \<Rightarrow> Job \<Rightarrow> JobConfirmerResult M" where
  "KeyDetach_HandleJobConfirm env ctx job = (case unmarshalKeyJobData job of (tenantID, keyID) \<Rightarrow>
     let ctx = CreateTenantContext ctx tenantID in
     tryC (getKeyByKeyID env ctx keyID) (\<lambda>res. case res of
       Inl err \<Rightarrow> if errs_Is err ''repo.ErrNotFound'' then returnC (CancelJobConfirmer ''key not found'')
                  else throwC (Msg ''failed to get key by ID'' # err)
     | Inr key \<Rightarrow>
         if key_State key \<noteq> KeyStateDETACHING
         then returnC (CancelJobConfirmer ''key is not in detaching status'')
         else returnC CompleteJobConfirmer))"

definition KeyDetach_terminate :: "env \<Rightarrow> ctx \<Rightarrow> Job \<Rightarrow> KeyState \<Rightarrow> Key M" where
  "KeyDetach_terminate env ctx job targetState = (case unmarshalKeyJobData job of (tenantID, keyID) \<Rightarrow>
     let ctx = CreateTenantContext ctx tenantID in
     bindC (getKeyByKeyID env ctx keyID) (\<lambda>key0.
     let key = key0\<lparr>key_State := targetState\<rparr> in
     bindC (saveKey env ctx key) (\<lambda>_. returnC key)))"

definition KeyDetach_HandleJobDoneEvent :: "env \<Rightarrow> ctx \<Rightarrow> Job \<Rightarrow> unit M" where
  "KeyDetach_HandleJobDoneEvent env ctx job =
     bindC (errorfC ''failed to update key state on detach job completion''
       (KeyDetach_terminate env ctx job KeyStateDETACHED)) (\<lambda>key.
     onlyLogged (sendAuditEvent env ctx ''CmkDetach'' (key_ID key)))"

definition KeyDetach_HandleJobFailedEvent :: "env \<Rightarrow> ctx \<Rightarrow> Job \<Rightarrow> unit M" where
  "KeyDetach_HandleJobFailedEvent env ctx job =
     bindC (onlyLogged (mergeOrbitalTaskErrors env job)) (\<lambda>_.
     bindC (errorfC ''failed to update key state on detach job failure''
       (KeyDetach_terminate env ctx job KeyStateDETACHED)) (\<lambda>_. returnC ()))"

definition KeyDetach_HandleJobCanceledEvent :: "env \<Rightarrow> ctx \<Rightarrow> Job \<Rightarrow> unit M" where
  "KeyDetach_HandleJobCanceledEvent env ctx job =
     bindC (errorfC ''failed to update key state on detach job cancellation''
       (KeyDetach_terminate env ctx job KeyStateUNKNOWN)) (\<lambda>_. returnC ())"

section \<open>Tasks of a job\<close>

datatype TaskType =
    TaskType_KEY_ENABLE | TaskType_KEY_DISABLE | TaskType_KEY_DELETE | TaskType_SYSTEM_KEY_ROTATE
  | TaskType_SYSTEM_LINK | TaskType_SYSTEM_UNLINK | TaskType_SYSTEM_SWITCH | TaskType_KEY_DETACH

record SystemAction =
  sa_SystemId :: string
  sa_SystemRegion :: string
  sa_SystemType :: string
  sa_KeyIdFrom :: string
  sa_KeyIdTo :: string
  sa_KeyProvider :: string
  sa_TenantId :: string
  sa_TenantOwnerId :: string
  sa_TenantOwnerType :: string
  sa_CmkRegion :: string
  sa_KeyAccessMetaData :: string

record KeyAction =
  ka_KeyId :: string
  ka_TenantId :: string
  ka_CmkRegion :: string

datatype TaskData = Data_SystemAction SystemAction | Data_KeyAction KeyAction

record TaskInfo =
  ti_Target :: string
  ti_Data :: TaskData
  ti_Type :: TaskType

definition loadTenantAndSystem :: "env \<Rightarrow> ctx \<Rightarrow> SystemActionJobData \<Rightarrow> (Tenant \<times> System) M" where
  "loadTenantAndSystem env ctx data =
     bindC (getTenantByID env ctx (jd_TenantID data)) (\<lambda>tenant.
     bindC (getSystemByID env (CreateTenantContext ctx (jd_TenantID data)) (jd_SystemID data)) (\<lambda>system.
     returnC (tenant, system)))"

definition validateSystemRegionTarget :: "env \<Rightarrow> string \<Rightarrow> unit M" where
  "validateSystemRegionTarget env region =
     unlessC (region \<in> set (cfg_Targets env)) (Wrapf [E ''eventprocessor.ErrTargetNotConfigured''] region)"

definition selectKeyForTask :: "env \<Rightarrow> ctx \<Rightarrow> TaskType \<Rightarrow> SystemActionJobData \<Rightarrow> Key M" where
  "selectKeyForTask env ctx taskType data =
     (let keyID = (if taskType = TaskType_SYSTEM_UNLINK then jd_KeyIDFrom data else jd_KeyIDTo data) in
      if taskType = TaskType_SYSTEM_KEY_ROTATE \<and> jd_KeyIDFrom data \<noteq> jd_KeyIDTo data
      then throwC [E ''eventprocessor.ErrKeyRotateMismatchedKeyIDs'']
      else getKeyByKeyID env ctx keyID)"

text \<open>the version is set in the access details of every region\<close>

definition setVersionIdentifier :: "string \<Rightarrow> KeyAccessData \<Rightarrow> KeyAccessData" where
  "setVersionIdentifier v = map (\<lambda>(region, vals).
     (region, vals\<lparr>rg_AdditionalProperties := aset ''versionIdentifier'' v (rg_AdditionalProperties vals)\<rparr>))"

definition GetCryptoAccessData :: "Key \<Rightarrow> KeyAccessData" where
  "GetCryptoAccessData key = (case key_CryptoAccessData key of None \<Rightarrow> [] | Some d \<Rightarrow> d)"

definition fetchAndPopulateVersionInfo :: "env \<Rightarrow> ctx \<Rightarrow> Key \<Rightarrow> KeyAccessData M" where
  "fetchAndPopulateVersionInfo env ctx key =
     tryC (getNewestKeyVersionNativeID env ctx (key_ID key)) (\<lambda>res. case res of
       Inl err \<Rightarrow> if errs_Is err ''repo.ErrNotFound'' then returnC (GetCryptoAccessData key)
                  else throwC (Msg ''failed to get latest key version native ID'' # err)
     | Inr latestVersionID \<Rightarrow>
         if latestVersionID = [] then returnC (GetCryptoAccessData key)
         else returnC (setVersionIdentifier latestVersionID (GetCryptoAccessData key)))"

definition getCryptoAccessDataFromConfig :: "env \<Rightarrow> ctx \<Rightarrow> KeyAccessData M" where
  "getCryptoAccessDataFromConfig env ctx =
     tryC (bindC (checkResourceAuthZ env ctx RepoResourceTypeTenantconfig RepoActionFirst) (\<lambda>_.
           bindC tick_of (\<lambda>n. liftC (ks_CryptoAccessData env n)))) (\<lambda>res. case res of
       Inl err \<Rightarrow> if errs_Is err ''repo.ErrNotFound'' then throwC [E ''eventprocessor.ErrKeystoreNotEnrolled'']
                  else throwC (Msg ''failed to get default keystore config'' # err)
     | Inr cryptoAccessData \<Rightarrow>
         if cryptoAccessData = [] then throwC [E ''eventprocessor.ErrNoCryptoAccessData'']
         else returnC cryptoAccessData)"

definition getKeyAccessMetadata :: "env \<Rightarrow> ctx \<Rightarrow> Key \<Rightarrow> string \<Rightarrow> string M" where
  "getKeyAccessMetadata env ctx key systemRegion =
     (if \<not> km_plugin env (key_Provider key) then throwC [E ''eventprocessor.ErrPluginNotFound'']
      else bindC (if key_KeyType key = KeyTypeHYOK then fetchAndPopulateVersionInfo env ctx key
                  else getCryptoAccessDataFromConfig env ctx) (\<lambda>cryptoData.
      case key_NativeID key of
        None \<Rightarrow> throwC [E ''panic'']
      | Some nativeID \<Rightarrow>
          bindC tick_of (\<lambda>n.
          bindC (liftC (prov_TransformCryptoAccessData env n (key_Provider key) nativeID cryptoData)) (\<lambda>transformedData.
          case map_of transformedData systemRegion of
            None \<Rightarrow> throwC [E ''eventprocessor.ErrKeyAccessMetadataNotFound'']
          | Some keyAccessMetadata \<Rightarrow> returnC keyAccessMetadata))))"

definition getKeyAndAccessMetadata ::
  "env \<Rightarrow> ctx \<Rightarrow> TaskType \<Rightarrow> SystemActionJobData \<Rightarrow> string \<Rightarrow> (Key \<times> string) M" where
  "getKeyAndAccessMetadata env ctx taskType data systemRegion =
     bindC (selectKeyForTask env ctx taskType data) (\<lambda>key.
     bindC (getKeyAccessMetadata env ctx key systemRegion) (\<lambda>keyAccessMetadata.
     returnC (key, keyAccessMetadata)))"

definition SystemType_text :: "SystemType \<Rightarrow> string" where
  "SystemType_text t = (case t of SystemTypeSYSTEM \<Rightarrow> ''SYSTEM'' | SystemTypeSUBACCOUNT \<Rightarrow> ''SUBACCOUNT'')"

definition buildSystemActionTaskData ::
  "env \<Rightarrow> SystemActionJobData \<Rightarrow> Tenant \<Rightarrow> System \<Rightarrow> Key \<Rightarrow> string \<Rightarrow> TaskData" where
  "buildSystemActionTaskData env data tenant system key keyAccessMetadata = Data_SystemAction
     \<lparr>sa_SystemId = sys_Identifier system, sa_SystemRegion = sys_Region system,
      sa_SystemType = ToLower (SystemType_text (sys_Type system)),
      sa_KeyIdFrom = jd_KeyIDFrom data, sa_KeyIdTo = jd_KeyIDTo data, sa_KeyProvider = ToLower (key_Provider key),
      sa_TenantId = ten_ID tenant, sa_TenantOwnerId = ten_OwnerID tenant, sa_TenantOwnerType = ten_OwnerType tenant,
      sa_CmkRegion = cfg_Region env, sa_KeyAccessMetaData = keyAccessMetadata\<rparr>"

definition System_getTaskInfo :: "env \<Rightarrow> ctx \<Rightarrow> TaskType \<Rightarrow> SystemActionJobData \<Rightarrow> TaskInfo M" where
  "System_getTaskInfo env ctx taskType data =
     bindC (loadTenantAndSystem env ctx data) (\<lambda>(tenant, system).
     let ctx = CreateTenantContext ctx (jd_TenantID data) in
     bindC (validateSystemRegionTarget env (sys_Region system)) (\<lambda>_.
     bindC (getKeyAndAccessMetadata env ctx taskType data (sys_Region system)) (\<lambda>(key, keyAccessMetadata).
     returnC \<lparr>ti_Target = sys_Region system,
       ti_Data = buildSystemActionTaskData env data tenant system key keyAccessMetadata,
       ti_Type = taskType\<rparr>)))"

definition SystemTaskInfoResolver_Resolve :: "env \<Rightarrow> ctx \<Rightarrow> Job \<Rightarrow> TaskInfo list M" where
  "SystemTaskInfoResolver_Resolve env ctx job =
     (let data = unmarshalSystemJobData job;
          resolve = (\<lambda>taskType. bindC (errorfC ''failed to resolve task info''
            (System_getTaskInfo env ctx taskType data)) (\<lambda>taskInfo. returnC [taskInfo])) in
      case job_Type job of
        JobTypeSystemLink \<Rightarrow> resolve TaskType_SYSTEM_LINK
      | JobTypeSystemUnlink \<Rightarrow> resolve TaskType_SYSTEM_UNLINK
      | JobTypeSystemUnlinkDecommission \<Rightarrow> resolve TaskType_SYSTEM_UNLINK
      | JobTypeSystemSwitch \<Rightarrow> resolve TaskType_SYSTEM_SWITCH
      | JobTypeSystemSwitchNewPK \<Rightarrow> resolve TaskType_SYSTEM_SWITCH
      | JobTypeSystemKeyRotate \<Rightarrow> resolve TaskType_SYSTEM_KEY_ROTATE
      | _ \<Rightarrow> throwC [E ''eventprocessor.ErrInvalidJobType''])"

text \<open>the regions with a configured target that have a connected system\<close>

definition collectRegions :: "env \<Rightarrow> string list \<Rightarrow> System list \<Rightarrow> string list" where
  "collectRegions env regions syss = foldl (\<lambda>regions system.
     if sys_Status system = SystemStatusCONNECTED \<and> sys_Region system \<in> set (cfg_Targets env)
     then List.insert (sys_Region system) regions else regions) regions syss"

definition getRegionsByKeyID :: "env \<Rightarrow> ctx \<Rightarrow> string \<Rightarrow> string list M" where
  "getRegionsByKeyID env ctx keyID =
     bindC (errorfC ''failed to get key by ID'' (First_id env ctx T_keys key_ID keyID)) (\<lambda>key.
     errorfC ''failed to get connected regions for key ID''
       (ProcessInBatchFold env ctx T_systems []
         (\<lambda>_ s. sys_KeyConfigurationID s = Some (key_KeyConfigurationID key)) DefaultLimit
         (\<lambda>regions syss. returnC (collectRegions env regions syss)) []))"

definition Key_getTaskInfo :: "env \<Rightarrow> ctx \<Rightarrow> TaskType \<Rightarrow> string \<times> string \<Rightarrow> TaskInfo list M" where
  "Key_getTaskInfo env ctx taskType data = (case data of (tenantID, keyID) \<Rightarrow>
     bindC (getTenantByID env ctx tenantID) (\<lambda>tenant.
     let ctx = CreateTenantContext ctx tenantID in
     bindC (if taskType = TaskType_KEY_ENABLE \<or> taskType = TaskType_KEY_DISABLE
            then bindC (getRegionsByKeyID env ctx keyID) (\<lambda>regions.
              if regions = [] then throwC [E ''eventprocessor.ErrNoConnectedRegionsForKey''] else returnC regions)
            else returnC (remdups (cfg_Targets env))) (\<lambda>targets.
     returnC (map (\<lambda>target. \<lparr>ti_Target = target,
       ti_Data = Data_KeyAction \<lparr>ka_KeyId = keyID, ka_TenantId = ten_ID tenant, ka_CmkRegion = cfg_Region env\<rparr>,
       ti_Type = taskType\<rparr>) targets))))"

definition KeyTaskInfoResolver_Resolve :: "env \<Rightarrow> ctx \<Rightarrow> Job \<Rightarrow> TaskInfo list M" where
  "KeyTaskInfoResolver_Resolve env ctx job =
     (let data = unmarshalKeyJobData job;
          resolve = (\<lambda>taskType. errorfC ''failed to resolve task info'' (Key_getTaskInfo env ctx taskType data)) in
      case job_Type job of
        JobTypeKeyEnable \<Rightarrow> resolve TaskType_KEY_ENABLE
      | JobTypeKeyDisable \<Rightarrow> resolve TaskType_KEY_DISABLE
      | JobTypeKeyDetach \<Rightarrow> resolve TaskType_KEY_DETACH
      | JobTypeKeyDelete \<Rightarrow> resolve TaskType_KEY_DELETE
      | _ \<Rightarrow> throwC [E ''eventprocessor.ErrInvalidJobType''])"

section \<open>Dispatch\<close>

datatype JobHandler =
    SystemLinkJobHandler | SystemUnlinkJobHandler | SystemUnlinkDecommissionJobHandler
  | SystemSwitchJobHandler | SystemKeyRotateJobHandler | KeyJobHandler | KeyDetachJobHandler

text \<open>every job type has a handler\<close>

definition GetHandlerByJobType :: "JobType \<Rightarrow> JobHandler" where
  "GetHandlerByJobType jobType = (case jobType of
       JobTypeSystemLink \<Rightarrow> SystemLinkJobHandler
     | JobTypeSystemUnlink \<Rightarrow> SystemUnlinkJobHandler
     | JobTypeSystemUnlinkDecommission \<Rightarrow> SystemUnlinkDecommissionJobHandler
     | JobTypeSystemSwitch \<Rightarrow> SystemSwitchJobHandler
     | JobTypeSystemSwitchNewPK \<Rightarrow> SystemSwitchJobHandler
     | JobTypeSystemKeyRotate \<Rightarrow> SystemKeyRotateJobHandler
     | JobTypeKeyEnable \<Rightarrow> KeyJobHandler
     | JobTypeKeyDisable \<Rightarrow> KeyJobHandler
     | JobTypeKeyDelete \<Rightarrow> KeyJobHandler
     | JobTypeKeyDetach \<Rightarrow> KeyDetachJobHandler)"

definition ResolveTasks :: "env \<Rightarrow> ctx \<Rightarrow> Job \<Rightarrow> TaskInfo list M" where
  "ResolveTasks env ctx job =
     (if GetHandlerByJobType (job_Type job) \<in> {KeyJobHandler, KeyDetachJobHandler}
      then KeyTaskInfoResolver_Resolve env ctx job else SystemTaskInfoResolver_Resolve env ctx job)"

datatype TaskResolverResult = CompleteTaskResolver "TaskInfo list" | CancelTaskResolver string

definition resolveTasks :: "(gerror \<Rightarrow> string) \<Rightarrow> env \<Rightarrow> ctx \<Rightarrow> Job \<Rightarrow> TaskResolverResult M" where
  "resolveTasks text env ctx job = tryC (ResolveTasks env ctx job) (\<lambda>res. case res of
       Inl err \<Rightarrow> if errs_Is err ''panic'' then throwC err
                  else returnC (CancelTaskResolver (GetOrbitalError text err))
     | Inr tasks \<Rightarrow>
         if tasks = []
         then returnC (CancelTaskResolver (GetOrbitalError text [E ''eventprocessor.ErrNoTasksResolvedForJob'']))
         else returnC (CompleteTaskResolver tasks))"

definition confirmJob :: "env \<Rightarrow> ctx \<Rightarrow> Job \<Rightarrow> JobConfirmerResult M" where
  "confirmJob env ctx job = (case GetHandlerByJobType (job_Type job) of
       SystemKeyRotateJobHandler \<Rightarrow> returnC CompleteJobConfirmer
     | KeyJobHandler \<Rightarrow> returnC CompleteJobConfirmer
     | KeyDetachJobHandler \<Rightarrow> KeyDetach_HandleJobConfirm env ctx job
     | _ \<Rightarrow> handleSystemJobConfirm env ctx job)"

definition jobDoneFunc :: "env \<Rightarrow> ctx \<Rightarrow> Job \<Rightarrow> unit M" where
  "jobDoneFunc env ctx job = (case GetHandlerByJobType (job_Type job) of
       SystemLinkJobHandler \<Rightarrow> SystemLink_HandleJobDoneEvent env ctx job
     | SystemUnlinkJobHandler \<Rightarrow> SystemUnlink_HandleJobDoneEvent env ctx job
     | SystemUnlinkDecommissionJobHandler \<Rightarrow> Decommission_HandleJobDoneEvent env ctx job
     | SystemSwitchJobHandler \<Rightarrow> SystemSwitch_HandleJobDoneEvent env ctx job
     | SystemKeyRotateJobHandler \<Rightarrow> KeyRotate_HandleJobDoneEvent env ctx job
     | KeyJobHandler \<Rightarrow> returnC ()
     | KeyDetachJobHandler \<Rightarrow> KeyDetach_HandleJobDoneEvent env ctx job)"

definition jobFailedFunc :: "env \<Rightarrow> ctx \<Rightarrow> Job \<Rightarrow> unit M" where
  "jobFailedFunc env ctx job = (case GetHandlerByJobType (job_Type job) of
       SystemUnlinkDecommissionJobHandler \<Rightarrow> Decommission_HandleJobFailedEvent env ctx job
     | SystemKeyRotateJobHandler \<Rightarrow> KeyRotate_HandleJobFailedEvent env ctx job
     | KeyJobHandler \<Rightarrow> returnC ()
     | KeyDetachJobHandler \<Rightarrow> KeyDetach_HandleJobFailedEvent env ctx job
     | _ \<Rightarrow> terminateFailedSystemJob env ctx job)"

definition jobCanceledFunc :: "env \<Rightarrow> ctx \<Rightarrow> Job \<Rightarrow> unit M" where
  "jobCanceledFunc env ctx job = (case GetHandlerByJobType (job_Type job) of
       SystemUnlinkDecommissionJobHandler \<Rightarrow> Decommission_HandleJobCanceledEvent env ctx job
     | SystemKeyRotateJobHandler \<Rightarrow> KeyRotate_HandleJobCanceledEvent env ctx job
     | KeyJobHandler \<Rightarrow> returnC ()
     | KeyDetachJobHandler \<Rightarrow> KeyDetach_HandleJobCanceledEvent env ctx job
     | _ \<Rightarrow> terminateCanceledSystemJob env ctx job)"

section \<open>Frames\<close>

context world_frame
begin

lemma tenant_of_created [steps_intro]: "t = tn \<Longrightarrow> ctx_Tenant (CreateTenantContext ctx t) = Some tn"
  by (simp add: CreateTenantContext_def)

lemma job_tenant [steps_intro]:
  "jd_TenantID (unmarshalSystemJobData job) = tn \<Longrightarrow> fst (unmarshalKeyJobData job) = tn"
  by (simp add: unmarshalSystemJobData_def unmarshalKeyJobData_def split: JobData.splits)

lemma steps_errorfC [steps_intro]: "steps R m \<Longrightarrow> steps R (errorfC msg m)"
  unfolding errorfC_def by (intro steps_intro)

lemma steps_First_id [steps_intro]:
  "ctx_Tenant ctx = Some tn \<Longrightarrow> steps R (First_id env ctx T col s)"
  unfolding First_id_def by (intro steps_intro steps_WithTenant) (simp_all add: stmt_ok_def)

lemma steps_retryCall [steps_intro]: "steps R (retryCall left failure call)"
  by (induction left) (auto intro!: steps_intro split: sum.split)

lemma steps_ExtendedUpdateSystemL1KeyClaim [steps_intro]:
  "steps R (ExtendedUpdateSystemL1KeyClaim env filt l1KeyClaim)"
  unfolding ExtendedUpdateSystemL1KeyClaim_def by (intro steps_intro)

lemma steps_ExtendedUpdateSystemStatus [steps_intro]:
  "steps R (ExtendedUpdateSystemStatus env filt systemType st)"
  unfolding ExtendedUpdateSystemStatus_def by (intro steps_intro)

lemma steps_sendL1KeyClaim [steps_intro]: "steps R (sendL1KeyClaim env system tenant keyClaim)"
  unfolding sendL1KeyClaim_def by (intro steps_intro)

lemma steps_getSystemByID [steps_intro]:
  "ctx_Tenant ctx = Some tn \<Longrightarrow> steps R (getSystemByID env ctx systemID)"
  unfolding getSystemByID_def by (intro steps_intro)

lemma steps_getKeyByKeyID [steps_intro]:
  "ctx_Tenant ctx = Some tn \<Longrightarrow> steps R (getKeyByKeyID env ctx keyID)"
  unfolding getKeyByKeyID_def by (intro steps_intro)

lemma steps_getTenantByID [steps_intro]:
  "steps R (getTenantByID env ctx tenantID)"
  unfolding getTenantByID_def Let_def by (intro steps_intro)

lemma steps_saveSystem [steps_intro]:
  "TabSystems \<in> W \<Longrightarrow> ctx_Tenant ctx = Some tn \<Longrightarrow> steps R (saveSystem env ctx system)"
  unfolding saveSystem_def by (intro steps_intro)

lemma steps_saveKey [steps_intro]:
  "TabKeys \<in> W \<Longrightarrow> ctx_Tenant ctx = Some tn \<Longrightarrow> steps R (saveKey env ctx key)"
  unfolding saveKey_def by (intro steps_intro)

lemma steps_getNewestKeyVersionNativeID [steps_intro]:
  "ctx_Tenant ctx = Some tn \<Longrightarrow> steps R (getNewestKeyVersionNativeID env ctx keyID)"
  unfolding getNewestKeyVersionNativeID_def by (intro steps_intro)

lemma steps_mergeOrbitalTaskErrors [steps_intro]:
  "steps R (mergeOrbitalTaskErrors env job)"
  unfolding mergeOrbitalTaskErrors_def by (intro steps_intro)

lemma steps_sendAuditEvent [steps_intro]:
  "steps R (sendAuditEvent env ctx event i)"
  unfolding sendAuditEvent_def by (intro steps_intro)

lemma steps_updateEventError [steps_intro]:
  "TabEvents \<in> W \<Longrightarrow> ctx_Tenant ctx = Some tn \<Longrightarrow> steps R (updateEventError env ctx identifier errorMessage)"
  unfolding updateEventError_def by (intro steps_intro)

lemma steps_cleanUpEvent [steps_intro]:
  "TabEvents \<in> W \<Longrightarrow> ctx_Tenant ctx = Some tn \<Longrightarrow> steps R (cleanUpEvent env ctx job)"
  unfolding cleanUpEvent_def by (intro steps_intro)

lemma steps_handleSystemJobConfirm [steps_intro]:
  "jd_TenantID (unmarshalSystemJobData job) = tn \<Longrightarrow> steps R (handleSystemJobConfirm env ctx job)"
  unfolding handleSystemJobConfirm_def Let_def by (intro steps_intro)

lemma steps_failSystem [steps_intro]:
  "TabEvents \<in> W \<Longrightarrow> TabSystems \<in> W \<Longrightarrow> ctx_Tenant ctx = Some tn \<Longrightarrow> steps R (failSystem env ctx job system errorMessage)"
  unfolding failSystem_def by (intro steps_intro)

lemma steps_terminateFailedSystemJob [steps_intro]:
  "TabEvents \<in> W \<Longrightarrow> TabSystems \<in> W \<Longrightarrow> jd_TenantID (unmarshalSystemJobData job) = tn \<Longrightarrow> steps R (terminateFailedSystemJob env ctx job)"
  unfolding terminateFailedSystemJob_def Let_def by (intro steps_intro)

lemma steps_terminateCanceledSystemJob [steps_intro]:
  "TabEvents \<in> W \<Longrightarrow> TabSystems \<in> W \<Longrightarrow> jd_TenantID (unmarshalSystemJobData job) = tn \<Longrightarrow> steps R (terminateCanceledSystemJob env ctx job)"
  unfolding terminateCanceledSystemJob_def Let_def by (intro steps_intro)

lemma steps_finishSystem [steps_intro]:
  "TabEvents \<in> W \<Longrightarrow> TabSystems \<in> W \<Longrightarrow> ctx_Tenant ctx = Some tn \<Longrightarrow> steps R (finishSystem env ctx job system)"
  unfolding finishSystem_def by (intro steps_intro)

lemma steps_SystemLink_HandleJobDoneEvent [steps_intro]:
  "TabEvents \<in> W \<Longrightarrow> TabSystems \<in> W \<Longrightarrow> jd_TenantID (unmarshalSystemJobData job) = tn \<Longrightarrow> steps R (SystemLink_HandleJobDoneEvent env ctx job)"
  unfolding SystemLink_HandleJobDoneEvent_def Let_def by (intro steps_intro)

lemma steps_SystemUnlink_HandleJobDoneEvent [steps_intro]:
  "TabEvents \<in> W \<Longrightarrow> TabSystems \<in> W \<Longrightarrow> jd_TenantID (unmarshalSystemJobData job) = tn \<Longrightarrow> steps R (SystemUnlink_HandleJobDoneEvent env ctx job)"
  unfolding SystemUnlink_HandleJobDoneEvent_def Let_def by (intro steps_intro)

lemma steps_SystemSwitch_HandleJobDoneEvent [steps_intro]:
  "TabEvents \<in> W \<Longrightarrow> TabSystems \<in> W \<Longrightarrow> jd_TenantID (unmarshalSystemJobData job) = tn \<Longrightarrow> steps R (SystemSwitch_HandleJobDoneEvent env ctx job)"
  unfolding SystemSwitch_HandleJobDoneEvent_def Let_def by (intro steps_intro)

lemma steps_Decommission_terminate [steps_intro]:
  "TabSystems \<in> W \<Longrightarrow> jd_TenantID (unmarshalSystemJobData job) = tn \<Longrightarrow> steps R (Decommission_terminate env ctx job)"
  unfolding Decommission_terminate_def Let_def by (intro steps_intro)

lemma steps_Decommission_HandleJobDoneEvent [steps_intro]:
  "TabSystems \<in> W \<Longrightarrow> jd_TenantID (unmarshalSystemJobData job) = tn \<Longrightarrow> steps R (Decommission_HandleJobDoneEvent env ctx job)"
  unfolding Decommission_HandleJobDoneEvent_def by (intro steps_intro)

lemma steps_lockSystemInRegistry [steps_intro]:
  "jd_TenantID (unmarshalSystemJobData job) = tn \<Longrightarrow> steps R (lockSystemInRegistry env ctx job)"
  unfolding lockSystemInRegistry_def Let_def by (intro steps_intro)

lemma steps_Decommission_HandleJobFailedEvent [steps_intro]:
  "TabSystems \<in> W \<Longrightarrow> jd_TenantID (unmarshalSystemJobData job) = tn \<Longrightarrow> steps R (Decommission_HandleJobFailedEvent env ctx job)"
  unfolding Decommission_HandleJobFailedEvent_def by (intro steps_intro)

lemma steps_Decommission_HandleJobCanceledEvent [steps_intro]:
  "TabSystems \<in> W \<Longrightarrow> jd_TenantID (unmarshalSystemJobData job) = tn \<Longrightarrow> steps R (Decommission_HandleJobCanceledEvent env ctx job)"
  unfolding Decommission_HandleJobCanceledEvent_def Let_def by (intro steps_intro)

lemma steps_KeyRotate_HandleJobDoneEvent [steps_intro]:
  "TabEvents \<in> W \<Longrightarrow> jd_TenantID (unmarshalSystemJobData job) = tn \<Longrightarrow> steps R (KeyRotate_HandleJobDoneEvent env ctx job)"
  unfolding KeyRotate_HandleJobDoneEvent_def Let_def by (intro steps_intro)

lemma steps_KeyRotate_HandleJobFailedEvent [steps_intro]:
  "TabEvents \<in> W \<Longrightarrow> TabSystems \<in> W \<Longrightarrow> jd_TenantID (unmarshalSystemJobData job) = tn \<Longrightarrow> steps R (KeyRotate_HandleJobFailedEvent env ctx job)"
  unfolding KeyRotate_HandleJobFailedEvent_def Let_def by (intro steps_intro)

lemma steps_KeyRotate_HandleJobCanceledEvent [steps_intro]:
  "TabEvents \<in> W \<Longrightarrow> jd_TenantID (unmarshalSystemJobData job) = tn \<Longrightarrow> steps R (KeyRotate_HandleJobCanceledEvent env ctx job)"
  unfolding KeyRotate_HandleJobCanceledEvent_def Let_def by (intro steps_intro)

lemma steps_KeyDetach_HandleJobConfirm [steps_intro]:
  "jd_TenantID (unmarshalSystemJobData job) = tn \<Longrightarrow> steps R (KeyDetach_HandleJobConfirm env ctx job)"
  unfolding KeyDetach_HandleJobConfirm_def Let_def case_prod_beta by (intro steps_intro)

lemma steps_KeyDetach_terminate [steps_intro]:
  "TabKeys \<in> W \<Longrightarrow> jd_TenantID (unmarshalSystemJobData job) = tn \<Longrightarrow> steps R (KeyDetach_terminate env ctx job targetState)"
  unfolding KeyDetach_terminate_def Let_def case_prod_beta by (intro steps_intro)

lemma steps_KeyDetach_HandleJobDoneEvent [steps_intro]:
  "TabKeys \<in> W \<Longrightarrow> jd_TenantID (unmarshalSystemJobData job) = tn \<Longrightarrow> steps R (KeyDetach_HandleJobDoneEvent env ctx job)"
  unfolding KeyDetach_HandleJobDoneEvent_def by (intro steps_intro)

lemma steps_KeyDetach_HandleJobFailedEvent [steps_intro]:
  "TabKeys \<in> W \<Longrightarrow> jd_TenantID (unmarshalSystemJobData job) = tn \<Longrightarrow> steps R (KeyDetach_HandleJobFailedEvent env ctx job)"
  unfolding KeyDetach_HandleJobFailedEvent_def by (intro steps_intro)

lemma steps_KeyDetach_HandleJobCanceledEvent [steps_intro]:
  "TabKeys \<in> W \<Longrightarrow> jd_TenantID (unmarshalSystemJobData job) = tn \<Longrightarrow> steps R (KeyDetach_HandleJobCanceledEvent env ctx job)"
  unfolding KeyDetach_HandleJobCanceledEvent_def by (intro steps_intro)

lemma steps_loadTenantAndSystem [steps_intro]:
  "jd_TenantID data = tn \<Longrightarrow> steps R (loadTenantAndSystem env ctx data)"
  unfolding loadTenantAndSystem_def Let_def by (intro steps_intro)

lemma steps_validateSystemRegionTarget [steps_intro]:
  "steps R (validateSystemRegionTarget env region)"
  unfolding validateSystemRegionTarget_def by (intro steps_intro)

lemma steps_selectKeyForTask [steps_intro]:
  "ctx_Tenant ctx = Some tn \<Longrightarrow> steps R (selectKeyForTask env ctx taskType data)"
  unfolding selectKeyForTask_def by (intro steps_intro)

lemma steps_fetchAndPopulateVersionInfo [steps_intro]:
  "ctx_Tenant ctx = Some tn \<Longrightarrow> steps R (fetchAndPopulateVersionInfo env ctx key)"
  unfolding fetchAndPopulateVersionInfo_def by (intro steps_intro)

lemma steps_getCryptoAccessDataFromConfig [steps_intro]:
  "ctx_Tenant ctx = Some tn \<Longrightarrow> steps R (getCryptoAccessDataFromConfig env ctx)"
  unfolding getCryptoAccessDataFromConfig_def by (intro steps_intro)

lemma steps_getKeyAccessMetadata [steps_intro]:
  "ctx_Tenant ctx = Some tn \<Longrightarrow> steps R (getKeyAccessMetadata env ctx key systemRegion)"
  unfolding getKeyAccessMetadata_def by (intro steps_intro)

lemma steps_getKeyAndAccessMetadata [steps_intro]:
  "ctx_Tenant ctx = Some tn \<Longrightarrow> steps R (getKeyAndAccessMetadata env ctx taskType data systemRegion)"
  unfolding getKeyAndAccessMetadata_def by (intro steps_intro)

lemma steps_System_getTaskInfo [steps_intro]:
  "jd_TenantID data = tn \<Longrightarrow> steps R (System_getTaskInfo env ctx taskType data)"
  unfolding System_getTaskInfo_def Let_def by (intro steps_intro)

lemma steps_SystemTaskInfoResolver_Resolve [steps_intro]:
  "jd_TenantID (unmarshalSystemJobData job) = tn \<Longrightarrow> steps R (SystemTaskInfoResolver_Resolve env ctx job)"
  unfolding SystemTaskInfoResolver_Resolve_def Let_def by (auto split: JobType.split intro!: steps_intro)

lemma steps_getRegionsByKeyID [steps_intro]:
  "ctx_Tenant ctx = Some tn \<Longrightarrow> steps R (getRegionsByKeyID env ctx keyID)"
  unfolding getRegionsByKeyID_def by (intro steps_intro)

lemma steps_Key_getTaskInfo [steps_intro]:
  "fst data = tn \<Longrightarrow> steps R (Key_getTaskInfo env ctx taskType data)"
  unfolding Key_getTaskInfo_def Let_def case_prod_beta by (intro steps_intro)

lemma steps_KeyTaskInfoResolver_Resolve [steps_intro]:
  "jd_TenantID (unmarshalSystemJobData job) = tn \<Longrightarrow> steps R (KeyTaskInfoResolver_Resolve env ctx job)"
  unfolding KeyTaskInfoResolver_Resolve_def Let_def
  by (cases "job_Type job"; simp only: JobType.case; intro steps_intro)

lemma steps_ResolveTasks [steps_intro]:
  "jd_TenantID (unmarshalSystemJobData job) = tn \<Longrightarrow> steps R (ResolveTasks env ctx job)"
  unfolding ResolveTasks_def Let_def by (auto split: JobType.split intro!: steps_intro)

lemma steps_confirmJob [steps_intro]:
  "jd_TenantID (unmarshalSystemJobData job) = tn \<Longrightarrow> steps R (confirmJob env ctx job)"
  unfolding confirmJob_def by (auto split: JobHandler.split intro!: steps_intro)

lemma steps_jobDoneFunc [steps_intro]:
  "TabEvents \<in> W \<Longrightarrow> TabKeys \<in> W \<Longrightarrow> TabSystems \<in> W \<Longrightarrow> jd_TenantID (unmarshalSystemJobData job) = tn \<Longrightarrow> steps R (jobDoneFunc env ctx job)"
  unfolding jobDoneFunc_def by (auto split: JobHandler.split intro!: steps_intro)

lemma steps_jobFailedFunc [steps_intro]:
  "TabEvents \<in> W \<Longrightarrow> TabKeys \<in> W \<Longrightarrow> TabSystems \<in> W \<Longrightarrow> jd_TenantID (unmarshalSystemJobData job) = tn \<Longrightarrow> steps R (jobFailedFunc env ctx job)"
  unfolding jobFailedFunc_def by (auto split: JobHandler.split intro!: steps_intro)

lemma steps_jobCanceledFunc [steps_intro]:
  "TabEvents \<in> W \<Longrightarrow> TabKeys \<in> W \<Longrightarrow> TabSystems \<in> W \<Longrightarrow> jd_TenantID (unmarshalSystemJobData job) = tn \<Longrightarrow> steps R (jobCanceledFunc env ctx job)"
  unfolding jobCanceledFunc_def by (auto split: JobHandler.split intro!: steps_intro)

end

end
