(* ===== verification/Workflow_Manager.thy ===== *)
theory Workflow_Manager
  imports Lifecycle System_Manager Key_Manager Group_Manager Tenant_Config
begin

text \<open>
  Approval workflows (src/internal/manager/workflow.go, the recipients of src/internal/workflow/notification.go
  and src/utils/identity/main.go): creation with its checks, listing, assignment of approvers, transitions
  with eligibility of approvers and automatic rejection, expiry, clean-up, and the flag \<open>UnderWorkflow\<close> of
  the artifact.

  The actions a confirmed workflow executes are those of the key, key-configuration and system managers
  (\<open>workflow_actions\<close>). The administrating group of a key configuration is loaded with it; no statement
  between that load and its use writes groups, so the model reads it where it is used. Operations that change
  the \<open>*model.Workflow\<close> they are given return the changed workflow; what a failed save leaves in memory is
  not tracked. A nil dereference is the error \<open>panic\<close>; \<open>catchC\<close> is a check of \<open>err != nil\<close>, which does not
  see it.
\<close>

section \<open>Parts\<close>

definition catchC :: "'a M \<Rightarrow> (gerror + 'a \<Rightarrow> 'b M) \<Rightarrow> 'b M" where
  "catchC m h = tryC m (\<lambda>res. case res of
       Inl err \<Rightarrow> if errs_Is err ''panic'' then throwC err else h (Inl err)
     | Inr x \<Rightarrow> h (Inr x))"

definition workflow_actions :: "env \<Rightarrow> actions" where
  "workflow_actions env = \<lparr>act_GetKey = Get env,
     act_UpdateKeyEnabled = (\<lambda>ctx keyID enabled. UpdateKey env ctx keyID
       \<lparr>kp_Name = None, kp_Description = None, kp_Enabled = Some enabled, kp_AccessDetails = None\<rparr>),
     act_DeleteKey = Delete_key env,
     act_DeleteKeyConfigurationByID = DeleteKeyConfigurationByID env,
     act_UpdatePrimaryKeyID = (\<lambda>ctx keyConfigID keyID. UpdateKeyConfigurationByID env ctx keyConfigID
       \<lparr>kcp_Name = None, kcp_Description = None, kcp_PrimaryKeyID = Some keyID\<rparr>),
     act_LinkSystemAction = LinkSystemAction env,
     act_UnlinkSystemAction = UnlinkSystemAction env\<rparr>"

definition WorkflowConfig_get :: "env \<Rightarrow> ctx \<Rightarrow> WorkflowConfig M" where
  "WorkflowConfig_get env ctx = wrapC ''ErrGetWorkflowConfig'' (GetWorkflowConfig env ctx)"

definition DefaultMinimumApprovalCount :: int where "DefaultMinimumApprovalCount = 2"

definition getMinimumApprovals :: "env \<Rightarrow> ctx \<Rightarrow> int M" where
  "getMinimumApprovals env ctx = tryC (GetWorkflowConfig env ctx) (\<lambda>res. case res of
       Inl _ \<Rightarrow> returnC DefaultMinimumApprovalCount
     | Inr config \<Rightarrow> returnC (if cfg_MinimumApprovals config > 0 then cfg_MinimumApprovals config
                              else DefaultMinimumApprovalCount))"

definition IsWorkflowRequired :: "env \<Rightarrow> ctx \<Rightarrow> bool M" where
  "IsWorkflowRequired env ctx = bindC (WorkflowConfig_get env ctx) (\<lambda>c. returnC (cfg_Enabled c))"

section \<open>Key configurations of the artifact\<close>

definition getKeyConfigFromKey :: "env \<Rightarrow> ctx \<Rightarrow> Workflow \<Rightarrow> KeyConfiguration M" where
  "getKeyConfigFromKey env ctx workflow =
     bindC (wrapC ''ErrGetKeyConfigFromArtifact'' (Get env ctx (wf_ArtifactID workflow))) (\<lambda>key.
     wrapC ''ErrGetKeyConfigFromArtifact'' (GetKeyConfigurationByID env ctx (key_KeyConfigurationID key)))"

definition currentKeyConfig :: "env \<Rightarrow> ctx \<Rightarrow> Workflow \<Rightarrow> KeyConfiguration list M" where
  "currentKeyConfig env ctx workflow =
     (if wf_ActionType workflow \<in> {WorkflowActionTypeUnlink, WorkflowActionTypeSwitch}
      then bindC (wrapC ''ErrGetKeyConfigFromArtifact'' (GetSystemByID env ctx (wf_ArtifactID workflow))) (\<lambda>system.
           case sys_KeyConfigurationID (sv_System system) of
             None \<Rightarrow> throwC [E ''panic'']
           | Some i \<Rightarrow> bindC (wrapC ''ErrGetKeyConfigFromArtifact'' (GetKeyConfigurationByID env ctx i)) (\<lambda>kc.
               returnC [kc]))
      else returnC [])"

definition targetKeyConfig :: "env \<Rightarrow> ctx \<Rightarrow> Workflow \<Rightarrow> KeyConfiguration list M" where
  "targetKeyConfig env ctx workflow =
     (if wf_ActionType workflow \<in> {WorkflowActionTypeLink, WorkflowActionTypeSwitch}
      then (case uuid_Parse env (wf_Parameters workflow) of
          None \<Rightarrow> throwC (Wrapf [E ''ErrGetKeyConfigFromArtifact''] ''invalid key configuration ID in workflow parameters'')
        | Some keyConfigID \<Rightarrow>
            bindC (wrapC ''ErrGetKeyConfigFromArtifact'' (GetKeyConfigurationByID env ctx keyConfigID)) (\<lambda>kc.
            returnC [kc]))
      else returnC [])"

definition getKeyConfigFromSystem :: "env \<Rightarrow> ctx \<Rightarrow> Workflow \<Rightarrow> KeyConfiguration list M" where
  "getKeyConfigFromSystem env ctx workflow =
     bindC (currentKeyConfig env ctx workflow) (\<lambda>current.
     bindC (targetKeyConfig env ctx workflow) (\<lambda>target. returnC (current @ target)))"

definition getKeyConfigurationsFromArtifact :: "env \<Rightarrow> ctx \<Rightarrow> Workflow \<Rightarrow> KeyConfiguration list M" where
  "getKeyConfigurationsFromArtifact env ctx workflow = (case wf_ArtifactType workflow of
       WorkflowArtifactTypeKeyConfiguration \<Rightarrow>
         bindC (wrapC ''ErrGetKeyConfigFromArtifact'' (GetKeyConfigurationByID env ctx (wf_ArtifactID workflow))) (\<lambda>kc.
         returnC [kc])
     | WorkflowArtifactTypeSystem \<Rightarrow> getKeyConfigFromSystem env ctx workflow
     | WorkflowArtifactTypeKey \<Rightarrow> bindC (getKeyConfigFromKey env ctx workflow) (\<lambda>kc. returnC [kc]))"

text \<open>\<open>group.ID == uuid.Nil\<close> when the group was not found\<close>

definition AdminGroup :: "ctx \<Rightarrow> KeyConfiguration \<Rightarrow> Group option M" where
  "AdminGroup ctx kc = getC (\<lambda>w. find (\<lambda>g. grp_ID g = kc_AdminGroupID kc) (groups (db ctx w)))"

definition addNew :: "'a list \<Rightarrow> 'a list \<Rightarrow> 'a list" where
  "addNew acc xs = foldl (\<lambda>acc x. if x \<in> set acc then acc else acc @ [x]) acc xs"

text \<open>the users to ask and the groups they belong to; the maps of the source are lists without duplicates\<close>

definition getApproversAndGroupsFromKeyConfigs ::
  "env \<Rightarrow> ctx \<Rightarrow> Workflow \<Rightarrow> KeyConfiguration list \<Rightarrow> (string list \<times> Group list) M" where
  "getApproversAndGroupsFromKeyConfigs env ctx workflow keyConfigs =
     bindC (GetIdentityManagementPlugin env) (\<lambda>_.
     bindC (foldC keyConfigs ([], []) (\<lambda>(approverMap, groupMap) keyConfig.
       bindC (AdminGroup ctx keyConfig) (\<lambda>grp. case grp of
         None \<Rightarrow> throwC (Wrapf [E ''ErrAutoAssignApprover''] ''admin group not loaded for key configuration'')
       | Some g \<Rightarrow>
           bindC (idmMembers env ''ErrAutoAssignApprover'' (grp_IAMIdentifier g)) (\<lambda>users.
           returnC (addNew approverMap (filter (\<lambda>u. u \<noteq> wf_InitiatorID workflow) users),
                    aset (grp_IAMIdentifier g) g groupMap))))) (\<lambda>(approverMap, groupMap).
     returnC (approverMap, map snd groupMap)))"

section \<open>Approver groups and eligibility\<close>

text \<open>the left join of groups with their associations to workflows\<close>

definition T_join_groups :: "(Group \<times> WorkflowApproverGroup option) table" where
  "T_join_groups = \<lparr>t_tag = TabGroups, t_get = (\<lambda>d. concat (map (\<lambda>g.
       case filter (\<lambda>r. wag_GroupID r = grp_ID g) (approver_groups d) of
         [] \<Rightarrow> [(g, None)] | rs \<Rightarrow> map (\<lambda>r. (g, Some r)) rs) (groups d))),
     t_upd = (\<lambda>_ d. d), t_uniq = (\<lambda>_. True), t_res = RepoResourceTypeGroup\<rparr>"

definition getApproverGroupsFromLegacyField :: "env \<Rightarrow> ctx \<Rightarrow> Workflow \<Rightarrow> Group list M" where
  "getApproverGroupsFromLegacyField env ctx workflow = (case wf_ApproverGroupIDs workflow of
       None \<Rightarrow> returnC []
     | Some ids \<Rightarrow> forC ids (\<lambda>i. tryC (GetGroupByID env ctx i) (\<lambda>res. case res of
         Inr g \<Rightarrow> returnC g
       | Inl _ \<Rightarrow> returnC \<lparr>grp_ID = i, grp_Name = ''NOT_AVAILABLE'', grp_Description = [],
                            grp_Role = KeyAdminRole, grp_IAMIdentifier = []\<rparr>)))"

definition GetWorkflowApproverGroups :: "env \<Rightarrow> ctx \<Rightarrow> Workflow \<Rightarrow> Group list M" where
  "GetWorkflowApproverGroups env ctx workflow =
     bindC (List_join env ctx T_join_groups [RepoResourceTypeWorkflow] (\<lambda>rs. rs)
       (\<lambda>_ (g, r). case r of None \<Rightarrow> False | Some x \<Rightarrow> wag_WorkflowID x = wf_ID workflow) 0 0) (\<lambda>rows.
     if rows = [] then getApproverGroupsFromLegacyField env ctx workflow
     else returnC (map fst rows))"

definition queryGroupMembersFromIAM :: "env \<Rightarrow> ctx \<Rightarrow> Group list \<Rightarrow> string list M" where
  "queryGroupMembersFromIAM env ctx grps = foldC grps [] (\<lambda>eligibleUserIDs grp.
     tryC (GetGroupByID env ctx (grp_ID grp)) (\<lambda>res. case res of
       Inl err \<Rightarrow> if IsAnyError err [''repo.ErrNotFound'', ''ErrGetGroups''] then returnC eligibleUserIDs
                  else throwC (E ''ErrCheckWorkflowEligibility'' # err)
     | Inr g \<Rightarrow> bindC (idmMembers env ''ErrCheckWorkflowEligibility'' (grp_IAMIdentifier g)) (\<lambda>users.
         returnC (addNew eligibleUserIDs users))))"

text \<open>\<open>None\<close> is the nil map: the workflow has no approver groups\<close>

definition getEligibleUserIDsForWorkflow :: "env \<Rightarrow> ctx \<Rightarrow> Workflow \<Rightarrow> string list option M" where
  "getEligibleUserIDsForWorkflow env ctx workflow =
     bindC (wrapC ''ErrCheckWorkflowEligibility'' (GetWorkflowApproverGroups env ctx workflow)) (\<lambda>grps.
     if grps = [] then returnC None
     else bindC (wrapC ''ErrCheckWorkflowEligibility'' (GetIdentityManagementPlugin env)) (\<lambda>_.
          bindC (queryGroupMembersFromIAM env ctx grps) (\<lambda>ids. returnC (Some ids))))"

definition getWorkflowLifecycleWithEligibility ::
  "env \<Rightarrow> ctx \<Rightarrow> Workflow \<Rightarrow> string \<Rightarrow> string list option \<Rightarrow> Lifecycle M" where
  "getWorkflowLifecycleWithEligibility env ctx workflow userID eligibleApproverIDs =
     bindC (if wf_MinimumApprovalCount workflow = 0
            then bindC (wrapC ''ErrGetWorkflowConfig'' (WorkflowConfig_get env ctx)) (\<lambda>c.
              returnC (cfg_MinimumApprovals c))
            else returnC (wf_MinimumApprovalCount workflow)) (\<lambda>minimumApprovals.
     returnC ((NewLifecycle workflow userID minimumApprovals)\<lparr>l_EligibleApproverIDs := eligibleApproverIDs\<rparr>))"

definition getWorkflowLifecycle :: "env \<Rightarrow> ctx \<Rightarrow> Workflow \<Rightarrow> string \<Rightarrow> Lifecycle M" where
  "getWorkflowLifecycle env ctx workflow userID =
     getWorkflowLifecycleWithEligibility env ctx workflow userID None"

definition checkInsufficientApprovers :: "env \<Rightarrow> ctx \<Rightarrow> Workflow \<Rightarrow> string list \<Rightarrow> bool M" where
  "checkInsufficientApprovers env ctx workflow eligibleUserIDs = wrapC ''ErrCheckWorkflowEligibility''
     (bindC (getWorkflowLifecycle env ctx workflow []) (\<lambda>lifecycle.
      bindC (GetAllApprovers env ctx lifecycle) (\<lambda>allApprovers.
      returnC (CheckInsufficientApprovers lifecycle
        (filter (\<lambda>a. wa_UserID a \<in> set eligibleUserIDs) allApprovers)))))"

definition checkInitiatorIneligible :: "Workflow \<Rightarrow> string list \<Rightarrow> bool" where
  "checkInitiatorIneligible workflow eligibleUserIDs \<longleftrightarrow> wf_InitiatorID workflow \<notin> set eligibleUserIDs"

definition checkWorkflowEligibility :: "env \<Rightarrow> ctx \<Rightarrow> Workflow \<Rightarrow> (bool \<times> bool) M" where
  "checkWorkflowEligibility env ctx workflow =
     bindC (getEligibleUserIDsForWorkflow env ctx workflow) (\<lambda>eligible. case eligible of
       None \<Rightarrow> returnC (False, False)
     | Some eligibleUserIDs \<Rightarrow>
         bindC (checkInsufficientApprovers env ctx workflow eligibleUserIDs) (\<lambda>insufficientApprovers.
         returnC (insufficientApprovers, checkInitiatorIneligible workflow eligibleUserIDs)))"

section \<open>Listing\<close>

definition WorkflowState_String :: "WorkflowState \<Rightarrow> string" where
  "WorkflowState_String s = (case s of
       WorkflowStateInitial \<Rightarrow> ''INITIAL'' | WorkflowStateRevoked \<Rightarrow> ''REVOKED''
     | WorkflowStateRejected \<Rightarrow> ''REJECTED'' | WorkflowStateExpired \<Rightarrow> ''EXPIRED''
     | WorkflowStateWaitApproval \<Rightarrow> ''WAIT_APPROVAL'' | WorkflowStateWaitConfirmation \<Rightarrow> ''WAIT_CONFIRMATION''
     | WorkflowStateExecuting \<Rightarrow> ''EXECUTING'' | WorkflowStateSuccessful \<Rightarrow> ''SUCCESSFUL''
     | WorkflowStateFailed \<Rightarrow> ''FAILED'')"

definition WorkflowArtifactType_String :: "WorkflowArtifactType \<Rightarrow> string" where
  "WorkflowArtifactType_String t = (case t of
       WorkflowArtifactTypeKey \<Rightarrow> ''KEY'' | WorkflowArtifactTypeKeyConfiguration \<Rightarrow> ''KEY_CONFIGURATION''
     | WorkflowArtifactTypeSystem \<Rightarrow> ''SYSTEM'')"

definition WorkflowActionType_String :: "WorkflowActionType \<Rightarrow> string" where
  "WorkflowActionType_String t = (case t of
       WorkflowActionTypeUpdateState \<Rightarrow> ''UPDATE_STATE'' | WorkflowActionTypeUpdatePrimary \<Rightarrow> ''UPDATE_PRIMARY''
     | WorkflowActionTypeLink \<Rightarrow> ''LINK'' | WorkflowActionTypeUnlink \<Rightarrow> ''UNLINK''
     | WorkflowActionTypeSwitch \<Rightarrow> ''SWITCH'' | WorkflowActionTypeDelete \<Rightarrow> ''DELETE'')"

text \<open>the value with a given text among the valid ones\<close>

definition enumParse :: "('a \<Rightarrow> string) \<Rightarrow> 'a list \<Rightarrow> string \<Rightarrow> 'a option" where
  "enumParse text vals s = find (\<lambda>v. text v = s) vals"

definition parseState :: "string \<Rightarrow> WorkflowState option" where
  "parseState = enumParse WorkflowState_String (WorkflowNonTerminalStates @ WorkflowTerminalStates)"

definition parseArtifactType :: "string \<Rightarrow> WorkflowArtifactType option" where
  "parseArtifactType = enumParse WorkflowArtifactType_String
     [WorkflowArtifactTypeKey, WorkflowArtifactTypeKeyConfiguration, WorkflowArtifactTypeSystem]"

definition parseActionType :: "string \<Rightarrow> WorkflowActionType option" where
  "parseActionType = enumParse WorkflowActionType_String
     [WorkflowActionTypeUpdateState, WorkflowActionTypeUpdatePrimary, WorkflowActionTypeLink,
      WorkflowActionTypeUnlink, WorkflowActionTypeSwitch, WorkflowActionTypeDelete]"

text \<open>empty text is no restriction (\<open>None\<close>), unknown text an error\<close>

definition validateFilterEnums ::
  "string \<Rightarrow> string \<Rightarrow> string \<Rightarrow> gerror + WorkflowState option \<times> WorkflowArtifactType option \<times> WorkflowActionType option" where
  "validateFilterEnums state artifactType actionType =
     (if state \<noteq> [] \<and> parseState state = None then Inl [E ''model.ErrInvalidWorkflowState'']
      else if artifactType \<noteq> [] \<and> parseArtifactType artifactType = None
      then Inl [E ''model.ErrInvalidWorkflowArtifactType'']
      else if actionType \<noteq> [] \<and> parseActionType actionType = None then Inl [E ''model.ErrInvalidWorkflowActionType'']
      else Inr (parseState state, parseArtifactType artifactType, parseActionType actionType))"

record WorkflowFilter =
  wff_State :: "WorkflowState option"
  wff_ArtifactType :: "WorkflowArtifactType option"
  wff_ArtifactID :: uuid
  wff_ArtifactName :: string
  wff_ParametersResourceName :: string
  wff_ActionType :: "WorkflowActionType option"
  wff_Skip :: int
  wff_Top :: int
  wff_Count :: bool

definition WorkflowFilter_GetQuery :: "WorkflowFilter \<Rightarrow> Workflow \<Rightarrow> bool" where
  "WorkflowFilter_GetQuery f r \<longleftrightarrow>
     (wff_State f \<noteq> None \<longrightarrow> wff_State f = Some (wf_State r)) \<and>
     (wff_ArtifactType f \<noteq> None \<longrightarrow> wff_ArtifactType f = Some (wf_ArtifactType r)) \<and>
     (wff_ArtifactID f \<noteq> uuid_Nil \<longrightarrow> wf_ArtifactID r = wff_ArtifactID f) \<and>
     (wff_ArtifactName f \<noteq> [] \<longrightarrow> wf_ArtifactName r = Some (wff_ArtifactName f)) \<and>
     (wff_ParametersResourceName f \<noteq> [] \<longrightarrow> wf_ParametersResourceName r = Some (wff_ParametersResourceName f)) \<and>
     (wff_ActionType f \<noteq> None \<longrightarrow> wff_ActionType f = Some (wf_ActionType r))"

definition newestFirst :: "Workflow list \<Rightarrow> Workflow list" where
  "newestFirst = sort_by (\<lambda>a b. wf_CreatedAt a \<ge> wf_CreatedAt b)"

definition WorkflowFilter_GetPagination :: "WorkflowFilter \<Rightarrow> Pagination" where
  "WorkflowFilter_GetPagination f = \<lparr>pg_Skip = wff_Skip f, pg_Top = wff_Top f, pg_Count = wff_Count f\<rparr>"

definition filterByInitiatorOrApprover :: "string \<Rightarrow> schema \<Rightarrow> Workflow \<Rightarrow> bool" where
  "filterByInitiatorOrApprover iamIdentifier d r \<longleftrightarrow>
     wf_InitiatorID r = iamIdentifier \<or>
     (\<exists>a \<in> set (approvers d). wa_WorkflowID a = wf_ID r \<and> wa_UserID a = iamIdentifier)"

text \<open>in an approver group of the workflow, or none has been assigned yet\<close>

definition filterByApproverGroup :: "string list \<Rightarrow> schema \<Rightarrow> Workflow \<Rightarrow> bool" where
  "filterByApproverGroup userIAMGroups d r \<longleftrightarrow>
     (\<exists>x \<in> set (approver_groups d). wag_WorkflowID x = wf_ID r \<and>
        (\<exists>g \<in> set (groups d). grp_ID g = wag_GroupID x \<and> grp_IAMIdentifier g \<in> set userIAMGroups)) \<or>
     (\<forall>x \<in> set (approver_groups d). wag_WorkflowID x \<noteq> wf_ID r)"

definition getWorkflows ::
  "env \<Rightarrow> ctx \<Rightarrow> Pagination \<Rightarrow> (Workflow list \<Rightarrow> Workflow list) \<Rightarrow> (Workflow \<Rightarrow> bool) \<Rightarrow> (Workflow list \<times> int) M" where
  "getWorkflows env ctx pagination arrange query =
     bindC (wrapC ''ErrGetWorkflowDB'' (NeedsGroupFiltering env ctx APIActionRead APIResourceTypeWorkFlow)) (\<lambda>isGroupFiltered.
     bindC (if isGroupFiltered
            then bindC (wrapC ''ErrGetWorkflowDB'' (liftC (ExtractBusinessUserDataGroups ctx))) (\<lambda>userIAMGroups.
                 bindC (liftC (ExtractBusinessUserDataIdentifier ctx)) (\<lambda>iamIdentifier.
                 returnC ([RepoResourceTypeWorkflowApprover, RepoResourceTypeWorkflow, RepoResourceTypeGroup],
                   (\<lambda>d r. query r \<and> filterByInitiatorOrApprover iamIdentifier d r \<and> filterByApproverGroup userIAMGroups d r))))
            else returnC ([], (\<lambda>d r. query r))) (\<lambda>(joins, query').
     bindC (wrapC ''ErrGetWorkflowDB''
       (List_join env ctx T_workflows joins arrange query' (pg_Top pagination) (pg_Skip pagination))) (\<lambda>wfs.
     bindC (wrapC ''ErrGetWorkflowDB'' (Count_join env ctx T_workflows joins query')) (\<lambda>count.
     returnC (wfs, count)))))"

definition GetWorkflows :: "env \<Rightarrow> ctx \<Rightarrow> WorkflowFilter \<Rightarrow> (Workflow list \<times> int) M" where
  "GetWorkflows env ctx params =
     getWorkflows env ctx (WorkflowFilter_GetPagination params) newestFirst (WorkflowFilter_GetQuery params)"

text \<open>the workflow with \<open>InsufficientApprovers\<close> and \<open>InitiatorIneligible\<close>\<close>

definition GetWorkflowByID :: "env \<Rightarrow> ctx \<Rightarrow> uuid \<Rightarrow> (Workflow \<times> bool \<times> bool) M" where
  "GetWorkflowByID env ctx workflowID =
     bindC (getWorkflows env ctx \<lparr>pg_Skip = 0, pg_Top = 0, pg_Count = False\<rparr> (\<lambda>rs. rs) (\<lambda>r. wf_ID r = workflowID))
       (\<lambda>(wfs, _). case wfs of
          [] \<Rightarrow> throwC [E ''ErrWorkflowNotAllowed'']
        | workflow # _ \<Rightarrow> bindC (checkWorkflowEligibility env ctx workflow) (\<lambda>e. returnC (workflow, e)))"

definition ListWorkflowApprovers ::
  "env \<Rightarrow> ctx \<Rightarrow> uuid \<Rightarrow> bool \<Rightarrow> Pagination \<Rightarrow> (WorkflowApprover list \<times> int) M" where
  "ListWorkflowApprovers env ctx i decisionMade pagination =
     bindC (GetWorkflowByID env ctx i) (\<lambda>_.
     ListAndCount env ctx T_approvers []
       (\<lambda>_ a. wa_WorkflowID a = i \<and> (decisionMade \<longrightarrow> wa_Approved a \<noteq> None)) pagination)"

definition GetWorkflowAvailableTransitions :: "env \<Rightarrow> ctx \<Rightarrow> Workflow \<Rightarrow> Transition list M" where
  "GetWorkflowAvailableTransitions env ctx workflow =
     bindC (liftC (ExtractUserIdentifier ctx)) (\<lambda>userID.
     bindC (getWorkflowLifecycle env ctx workflow userID) (\<lambda>l. AvailableBusinessUserTransitions env ctx l))"

definition WorkflowCanExpire :: "env \<Rightarrow> ctx \<Rightarrow> Workflow \<Rightarrow> bool M" where
  "WorkflowCanExpire env ctx workflow =
     bindC (liftC (ExtractUserIdentifier ctx)) (\<lambda>userID.
     bindC (getWorkflowLifecycle env ctx workflow userID) (\<lambda>l. returnC (CanExpire env l)))"

definition GetWorkflowApprovalSummary :: "env \<Rightarrow> ctx \<Rightarrow> Workflow \<Rightarrow> (voteCounts \<times> int) M" where
  "GetWorkflowApprovalSummary env ctx workflow =
     bindC (liftC (ExtractUserIdentifier ctx)) (\<lambda>userID.
     bindC (getWorkflowLifecycle env ctx workflow userID) (\<lambda>l. GetApprovalSummary env ctx l))"

section \<open>Checks before creation\<close>

record WorkflowStatus =
  ws_Enabled :: bool
  ws_Exists :: bool
  ws_Valid :: bool
  ws_CanCreate :: bool
  ws_ErrDetails :: "gerror option"

definition wfStatus :: "bool \<Rightarrow> bool \<Rightarrow> bool \<Rightarrow> bool \<Rightarrow> WorkflowStatus" where
  "wfStatus enabled exists valid canCreate = \<lparr>ws_Enabled = enabled, ws_Exists = exists, ws_Valid = valid,
     ws_CanCreate = canCreate, ws_ErrDetails = None\<rparr>"

definition isSupportedWorkflow :: "Workflow \<Rightarrow> bool" where
  "isSupportedWorkflow workflow = (case wf_ArtifactType workflow of
       WorkflowArtifactTypeKey \<Rightarrow> wf_ActionType workflow \<in> {WorkflowActionTypeUpdateState, WorkflowActionTypeDelete}
     | WorkflowArtifactTypeSystem \<Rightarrow>
         wf_ActionType workflow \<in> {WorkflowActionTypeLink, WorkflowActionTypeUnlink, WorkflowActionTypeSwitch}
     | WorkflowArtifactTypeKeyConfiguration \<Rightarrow> wf_ActionType workflow = WorkflowActionTypeUpdatePrimary)"

definition isKeyStateChange :: "Workflow \<Rightarrow> bool" where
  "isKeyStateChange workflow \<longleftrightarrow> wf_ArtifactType workflow = WorkflowArtifactTypeKey \<and>
     wf_ActionType workflow = WorkflowActionTypeUpdateState"

definition isPrimaryKeySwitch :: "Workflow \<Rightarrow> bool" where
  "isPrimaryKeySwitch workflow \<longleftrightarrow> wf_ArtifactType workflow = WorkflowArtifactTypeKeyConfiguration \<and>
     wf_ActionType workflow = WorkflowActionTypeUpdatePrimary"

definition isSystemConnect :: "Workflow \<Rightarrow> bool" where
  "isSystemConnect workflow \<longleftrightarrow> wf_ArtifactType workflow = WorkflowArtifactTypeSystem \<and>
     (wf_ActionType workflow = WorkflowActionTypeLink \<or> wf_ActionType workflow = WorkflowActionTypeSwitch)"

text \<open>\<open>First\<close> of a key by its primary key; gorm drops the condition for a zero primary key\<close>

definition firstKey :: "env \<Rightarrow> ctx \<Rightarrow> uuid \<Rightarrow> Key M" where
  "firstKey env ctx i = First env ctx T_keys (\<lambda>_ k. i = uuid_Nil \<or> key_ID k = i)"

definition validateConnect :: "env \<Rightarrow> ctx \<Rightarrow> KeyConfiguration list \<Rightarrow> unit M" where
  "validateConnect env ctx keyConfigs =
     bindC (forC keyConfigs (\<lambda>kc.
       if \<not> IsNotNilUUID (kc_PrimaryKeyID kc) then throwC [E ''ErrConnectSystemNoPrimaryKey'']
       else bindC (firstKey env ctx (the (kc_PrimaryKeyID kc))) (\<lambda>key.
         unlessC (key_State key = KeyStateENABLED) [E ''ErrConnectSystemNoPrimaryKey'']))) (\<lambda>_. returnC ())"

definition validatePrimarySwitch :: "env \<Rightarrow> ctx \<Rightarrow> Workflow \<Rightarrow> KeyConfiguration \<Rightarrow> unit M" where
  "validatePrimarySwitch env ctx workflow kc =
     bindC (parseParam env (wf_Parameters workflow)) (\<lambda>targetKeyID.
     case kc_PrimaryKeyID kc of
       None \<Rightarrow> throwC [E ''ErrPrimaryKeyDisabled'']
     | Some primaryKeyID \<Rightarrow>
         bindC (firstKey env ctx targetKeyID) (\<lambda>targetKey.
         bindC (unlessC (key_State targetKey = KeyStateENABLED) [E ''ErrPrimaryKeyDisabled'']) (\<lambda>_.
         bindC (firstKey env ctx primaryKeyID) (\<lambda>sourceKey.
         bindC (unlessC (key_State sourceKey = KeyStateENABLED) [E ''ErrPrimaryKeyDisabled'']) (\<lambda>_.
         bindC (unlessC (primaryKeyID \<noteq> key_ID targetKey) [E ''ErrAlreadyPrimaryKey'']) (\<lambda>_.
         ProcessInBatch env ctx T_systems [] (\<lambda>_ s. sys_KeyConfigurationID s = Some (wf_ArtifactID workflow))
           DefaultLimit (\<lambda>syss. unlessC (\<forall>s \<in> set syss. sys_Status s = SystemStatusCONNECTED)
             [E ''ErrNotAllSystemsConnected'']))))))) "

text \<open>the type of the key is looked at before the error of reading it\<close>

definition validateKeyState :: "env \<Rightarrow> ctx \<Rightarrow> Workflow \<Rightarrow> unit M" where
  "validateKeyState env ctx workflow = tryC (firstKey env ctx (wf_ArtifactID workflow)) (\<lambda>res. case res of
       Inl _ \<Rightarrow> throwC [E ''ErrUpdateNonBYOKKeyStatus'']
     | Inr key \<Rightarrow> unlessC (key_KeyType key = KeyTypeBYOK) [E ''ErrUpdateNonBYOKKeyStatus''])"

definition validateWorkflow :: "env \<Rightarrow> ctx \<Rightarrow> Workflow \<Rightarrow> bool M" where
  "validateWorkflow env ctx workflow =
     bindC (getKeyConfigurationsFromArtifact env ctx workflow) (\<lambda>keyConfigs.
     bindC (if isSystemConnect workflow then validateConnect env ctx keyConfigs
            else if isPrimaryKeySwitch workflow then (case keyConfigs of
                [] \<Rightarrow> throwC [E ''panic'']
              | kc # _ \<Rightarrow> validatePrimarySwitch env ctx workflow kc)
            else if isKeyStateChange workflow then validateKeyState env ctx workflow
            else returnC ()) (\<lambda>_. returnC True))"

definition checkOngoingWorkflowForArtifact :: "env \<Rightarrow> ctx \<Rightarrow> Workflow \<Rightarrow> bool M" where
  "checkOngoingWorkflowForArtifact env ctx workflow =
     bindC (wrapC ''ErrCheckOngoingWorkflow'' (Count env ctx T_workflows (\<lambda>_ r.
       wf_ArtifactType r = wf_ArtifactType workflow \<and> wf_ArtifactID r = wf_ArtifactID workflow \<and>
       wf_State r \<in> set WorkflowNonTerminalStates))) (\<lambda>count. returnC (count > 0))"

definition validateApproverCount :: "env \<Rightarrow> ctx \<Rightarrow> Workflow \<Rightarrow> int \<Rightarrow> unit M" where
  "validateApproverCount env ctx workflow minimumApprovals =
     bindC (wrapC ''ErrCheckWorkflow'' (getKeyConfigurationsFromArtifact env ctx workflow)) (\<lambda>keyConfigs.
     bindC (wrapC ''ErrCheckWorkflow'' (getApproversAndGroupsFromKeyConfigs env ctx workflow keyConfigs)) (\<lambda>(aps, _).
     unlessC (int (length aps) \<ge> minimumApprovals) (NewInsufficientApproversError minimumApprovals (int (length aps)))))"

text \<open>the status and the error of \<open>checkWorkflow\<close>\<close>

definition checkWorkflow :: "env \<Rightarrow> ctx \<Rightarrow> Workflow \<Rightarrow> bool \<Rightarrow> (WorkflowStatus \<times> gerror option) M" where
  "checkWorkflow env ctx workflow enabled =
     (if \<not> enabled then returnC (wfStatus False False False False, None)
      else if \<not> isSupportedWorkflow workflow
      then returnC (wfStatus True False False False, Some [E ''ErrUnsuportedWorkflow''])
      else catchC (validateWorkflow env ctx workflow) (\<lambda>valid. case valid of
        Inl err \<Rightarrow> returnC (wfStatus True False False False, Some err)
      | Inr isValid \<Rightarrow> catchC (checkOngoingWorkflowForArtifact env ctx workflow) (\<lambda>ongoing. case ongoing of
          Inl err \<Rightarrow> returnC (wfStatus True False isValid False, Some err)
        | Inr exists \<Rightarrow>
            if exists \<or> \<not> isValid then returnC (wfStatus True exists isValid False, None)
            else bindC (getMinimumApprovals env ctx) (\<lambda>minimumApprovals.
              catchC (validateApproverCount env ctx workflow minimumApprovals) (\<lambda>res. case res of
                Inr _ \<Rightarrow> returnC (wfStatus True exists isValid True, None)
              | Inl err \<Rightarrow>
                  if errs_Is err ''workflow.ErrWorkflowGroupNotSufficientMembers''
                  then returnC ((wfStatus True exists isValid False)\<lparr>ws_ErrDetails := Some err\<rparr>, None)
                  else returnC (wfStatus True exists isValid False, Some err))))))"

definition isInvalidAction :: "gerror \<Rightarrow> bool" where
  "isInvalidAction err = IsAnyError err [''ErrConnectSystemNoPrimaryKey'', ''ErrNotAllSystemsConnected'',
     ''ErrAlreadyPrimaryKey'', ''ErrUpdateNonBYOKKeyStatus'', ''ErrPrimaryKeyDisabled'', ''ErrUnsuportedWorkflow'']"

definition transformCheckWorkflowError :: "WorkflowStatus \<times> gerror option \<Rightarrow> gerror + WorkflowStatus" where
  "transformCheckWorkflowError r = (case r of (status, err) \<Rightarrow>
     if \<not> ws_CanCreate status \<and> ws_Exists status
     then Inr (status\<lparr>ws_ErrDetails := Some [E ''ErrOngoingWorkflowExist'']\<rparr>)
     else (case err of
       None \<Rightarrow> Inr status
     | Some e \<Rightarrow> if isInvalidAction e then Inr (status\<lparr>ws_ErrDetails := Some e, ws_CanCreate := False\<rparr>)
                 else Inl (E ''ErrCheckWorkflow'' # e)))"

definition checkPermissionToCreateWorkflow :: "env \<Rightarrow> ctx \<Rightarrow> Workflow \<Rightarrow> bool M" where
  "checkPermissionToCreateWorkflow env ctx workflow =
     catchC (getKeyConfigurationsFromArtifact env ctx workflow) (\<lambda>res. case res of
       Inl err \<Rightarrow> if errs_Is err ''ErrKeyConfigurationNotAllowed'' \<or> errs_Is err ''repo.ErrNotFound'' then returnC False
                  else throwC err
     | Inr _ \<Rightarrow> bindC (GetBusinessUserInfo env ctx) (\<lambda>(_, role). returnC (role \<noteq> TenantAuditorRole)))"

definition CheckWorkflow :: "env \<Rightarrow> ctx \<Rightarrow> Workflow \<Rightarrow> WorkflowStatus M" where
  "CheckWorkflow env ctx workflow =
     bindC (WorkflowConfig_get env ctx) (\<lambda>workflowConfig.
     bindC (wrapC ''ErrCheckWorkflow'' (checkPermissionToCreateWorkflow env ctx workflow)) (\<lambda>allowed.
     if \<not> allowed then throwC [E ''ErrCheckWorkflow'', E ''ErrWorkflowCreationNotAllowed'']
     else bindC (checkWorkflow env ctx workflow (cfg_Enabled workflowConfig)) (\<lambda>r.
       liftC (transformCheckWorkflowError r))))"

section \<open>Creation\<close>

definition getWorkflowSystemArtifactName :: "env \<Rightarrow> SystemView \<Rightarrow> string" where
  "getWorkflowSystemArtifactName env system =
     (case find (\<lambda>(_, displayName). ToUpper displayName = ''NAME'') (cfg_OptionalProperties env) of
        None \<Rightarrow> sys_Identifier (sv_System system)
      | Some (propertyName, _) \<Rightarrow> (case map_of (sv_Properties system) propertyName of
          None \<Rightarrow> sys_Identifier (sv_System system) | Some v \<Rightarrow> v))"

definition populateArtifact :: "env \<Rightarrow> ctx \<Rightarrow> Workflow \<Rightarrow> Workflow M" where
  "populateArtifact env ctx workflow = (case wf_ArtifactType workflow of
       WorkflowArtifactTypeKey \<Rightarrow> bindC (Get env ctx (wf_ArtifactID workflow)) (\<lambda>key.
         returnC (workflow\<lparr>wf_ArtifactName := Some (key_Name key)\<rparr>))
     | WorkflowArtifactTypeKeyConfiguration \<Rightarrow>
         bindC (GetKeyConfigurationByID env ctx (wf_ArtifactID workflow)) (\<lambda>keyConfig.
         returnC (workflow\<lparr>wf_ArtifactName := Some (kc_Name keyConfig)\<rparr>))
     | WorkflowArtifactTypeSystem \<Rightarrow> bindC (GetSystemByID env ctx (wf_ArtifactID workflow)) (\<lambda>system.
         returnC (workflow\<lparr>wf_ArtifactName := Some (getWorkflowSystemArtifactName env system)\<rparr>)))"

definition populateParametersResource :: "env \<Rightarrow> ctx \<Rightarrow> Workflow \<Rightarrow> Workflow M" where
  "populateParametersResource env ctx workflow =
     (if isPrimaryKeySwitch workflow
      then bindC (parseParam env (wf_Parameters workflow)) (\<lambda>keyID.
           bindC (Get env ctx keyID) (\<lambda>key.
           returnC (workflow\<lparr>wf_ParametersResourceType := Some WorkflowParametersResourceTypeKey,
             wf_ParametersResourceName := Some (key_Name key)\<rparr>)))
      else if isSystemConnect workflow
      then bindC (parseParam env (wf_Parameters workflow)) (\<lambda>keyConfigID.
           bindC (GetKeyConfigurationByID env ctx keyConfigID) (\<lambda>keyConfig.
           returnC (workflow\<lparr>wf_ParametersResourceType := Some WorkflowParametersResourceTypeKeyConfiguration,
             wf_ParametersResourceName := Some (kc_Name keyConfig)\<rparr>)))
      else returnC workflow)"

text \<open>set or clear \<open>UnderWorkflow\<close> of the artifact\<close>

definition markArtifact :: "env \<Rightarrow> ctx \<Rightarrow> Workflow \<Rightarrow> bool \<Rightarrow> unit M" where
  "markArtifact env ctx workflow underWorkflow = (case wf_ArtifactType workflow of
       WorkflowArtifactTypeSystem \<Rightarrow>
         bindC (Patch env ctx T_systems (\<lambda>s. sys_ID s = wf_ArtifactID workflow)
           (\<lambda>s. s\<lparr>sys_UnderWorkflow := underWorkflow\<rparr>)) (\<lambda>_. returnC ())
     | WorkflowArtifactTypeKey \<Rightarrow>
         bindC (Patch env ctx T_keys (\<lambda>k. key_ID k = wf_ArtifactID workflow)
           (\<lambda>k. k\<lparr>key_UnderWorkflow := underWorkflow\<rparr>)) (\<lambda>_. returnC ())
     | WorkflowArtifactTypeKeyConfiguration \<Rightarrow> returnC ())"

definition handleNewWorkflow :: "env \<Rightarrow> ctx \<Rightarrow> Workflow \<Rightarrow> unit M" where
  "handleNewWorkflow env ctx workflow = markArtifact env ctx workflow True"

definition HandleTerminalWorkflow :: "env \<Rightarrow> ctx \<Rightarrow> Workflow \<Rightarrow> unit M" where
  "HandleTerminalWorkflow env ctx workflow =
     (if wf_State workflow \<notin> set WorkflowTerminalStates then returnC ()
      else markArtifact env ctx workflow False)"

definition createAutoAssignApproversAsyncTask :: "env \<Rightarrow> Workflow \<Rightarrow> unit M" where
  "createAutoAssignApproversAsyncTask env workflow =
     (if \<not> async_client env then returnC ()
      else bindC tick_of (\<lambda>n. case queue_Enqueue env n of
        Some m \<Rightarrow> throwC [E ''ErrCreateApproverAssignTask'', Msg m]
      | None \<Rightarrow> logCall (CallEnqueue ''workflow:auto-assign'' (wf_ID workflow))))"

text \<open>\<open>Create\<close> of a workflow row: the hook \<open>BeforeSave\<close> and the creation time\<close>

definition insertWorkflow :: "env \<Rightarrow> ctx \<Rightarrow> Workflow \<Rightarrow> Workflow M" where
  "insertWorkflow env ctx workflow = bindC (timeNow env) (\<lambda>now.
     let workflow' = Workflow_BeforeSave now
       (if wf_CreatedAt workflow = 0 then workflow\<lparr>wf_CreatedAt := now\<rparr> else workflow) in
     bindC (Create env ctx T_workflows workflow') (\<lambda>_. returnC workflow'))"

definition createTx :: "env \<Rightarrow> Workflow \<Rightarrow> ctx \<Rightarrow> Workflow M" where
  "createTx env workflow ctx =
     bindC (wrapC ''ErrCreateWorkflowDB'' (insertWorkflow env ctx workflow)) (\<lambda>workflow'.
     bindC (wrapC ''ErrCreateWorkflowDB'' (handleNewWorkflow env ctx workflow')) (\<lambda>_.
     bindC (createAutoAssignApproversAsyncTask env workflow') (\<lambda>_. returnC workflow')))"

definition CreateWorkflow :: "env \<Rightarrow> ctx \<Rightarrow> Workflow \<Rightarrow> Workflow M" where
  "CreateWorkflow env ctx workflow0 =
     bindC (getMinimumApprovals env ctx) (\<lambda>minimumApprovals.
     let workflow = workflow0\<lparr>wf_State := WorkflowStateInitial, wf_MinimumApprovalCount := minimumApprovals\<rparr> in
     bindC (CheckWorkflow env ctx workflow) (\<lambda>status.
     if ws_Exists status then throwC [E ''ErrOngoingWorkflowExist'']
     else (case ws_ErrDetails status of
       Some err \<Rightarrow> throwC err
     | None \<Rightarrow>
         bindC (populateArtifact env ctx workflow) (\<lambda>workflow1.
         bindC (populateParametersResource env ctx workflow1) (\<lambda>workflow2.
         wrapC ''ErrInDBTransaction'' (Transaction env ctx (createTx env workflow2)))))))"

section \<open>Notifications\<close>

definition GetUserName :: "env \<Rightarrow> ctx \<Rightarrow> string \<Rightarrow> string M" where
  "GetUserName env ctx i =
     bindC (liftC (ExtractBusinessUserDataAuthContext ctx)) (\<lambda>_.
     bindC tick_of (\<lambda>n. case idm_GetUserName env n i of
       Inl IdmNotFound \<Rightarrow> returnC ''UNKNOWN''
     | Inl (IdmFailure m) \<Rightarrow> throwC [Msg m]
     | Inr name \<Rightarrow> returnC name))"

definition GetApproverUserNames :: "env \<Rightarrow> ctx \<Rightarrow> string list \<Rightarrow> string list M" where
  "GetApproverUserNames env ctx userIDs =
     bindC (forC userIDs (GetUserName env ctx)) (\<lambda>names. returnC (filter (\<lambda>n. n \<noteq> []) names))"

text \<open>\<open>aps\<close> are the approvers loaded with the workflow\<close>

definition GetNotificationRecipients ::
  "env \<Rightarrow> ctx \<Rightarrow> Workflow \<Rightarrow> WorkflowApprover list \<Rightarrow> Transition \<Rightarrow> string list M" where
  "GetNotificationRecipients env ctx workflow aps transition =
     (if transition = TransitionCreate then GetApproverUserNames env ctx (map wa_UserID aps)
      else if transition = TransitionApprove \<or> transition = TransitionReject
      then bindC (GetUserName env ctx (wf_InitiatorID workflow)) (\<lambda>name.
        returnC (if name = [] then [] else [name]))
      else if transition = TransitionConfirm \<or> transition = TransitionRevoke
      then GetApproverUserNames env ctx (map wa_UserID (filter (\<lambda>a. wa_Approved a \<noteq> None) aps))
      else returnC [])"

text \<open>\<open>svcRegistry.IdentityManagement()\<close>\<close>

definition IdentityManagement :: "env \<Rightarrow> unit M" where
  "IdentityManagement env = (case idm_plugin env of Some m \<Rightarrow> throwC [Msg m] | None \<Rightarrow> returnC ())"

definition createWorkflowTransitionNotificationTask ::
  "env \<Rightarrow> ctx \<Rightarrow> Workflow \<Rightarrow> Transition \<Rightarrow> string list \<Rightarrow> unit M" where
  "createWorkflowTransitionNotificationTask env ctx workflow transition recipients =
     (if \<not> async_client env then returnC ()
      else bindC (GetTenant env ctx) (\<lambda>tenant.
        bindC (IdentityManagement env) (\<lambda>_.
        if notify_New env \<noteq> None \<or> recipients = [] then returnC ()
        else bindC tick_of (\<lambda>n.
          bindC (liftC (notify_CreateTask env n workflow transition recipients)) (\<lambda>created.
          if \<not> created then returnC ()
          else bindC tick_of (\<lambda>n'. case queue_Enqueue env n' of
            Some m \<Rightarrow> throwC [Msg m]
          | None \<Rightarrow> logCall (CallEnqueue ''notify:send'' (wf_ID workflow))))))))"

section \<open>Assignment of approvers\<close>

definition addApproverRow :: "env \<Rightarrow> ctx \<Rightarrow> Workflow \<Rightarrow> string \<Rightarrow> unit M" where
  "addApproverRow env ctx workflow userID = wrapC ''ErrAddApproversDB''
     (Set_row env ctx T_approvers (\<lambda>a. wa_WorkflowID a = wf_ID workflow \<and> wa_UserID a = userID)
       \<lparr>wa_WorkflowID = wf_ID workflow, wa_UserID = userID, wa_Approved = None\<rparr>)"

definition addGroupRow :: "env \<Rightarrow> ctx \<Rightarrow> Workflow \<Rightarrow> Group \<Rightarrow> unit M" where
  "addGroupRow env ctx workflow g = bindC (newUUID env) (\<lambda>i.
     Set_row env ctx T_approver_groups (\<lambda>r. wag_ID r = i)
       \<lparr>wag_ID = i, wag_WorkflowID = wf_ID workflow, wag_GroupID = grp_ID g\<rparr>)"

definition assignTx :: "env \<Rightarrow> string \<Rightarrow> Workflow \<Rightarrow> string list \<Rightarrow> Group list \<Rightarrow> ctx \<Rightarrow> Workflow M" where
  "assignTx env userID workflow aps grps ctx =
     bindC (getWorkflowLifecycle env ctx workflow userID) (\<lambda>l.
     bindC (forC aps (addApproverRow env ctx workflow)) (\<lambda>_.
     bindC (forC grps (addGroupRow env ctx workflow)) (\<lambda>_.
     bindC (wrapC ''ErrApplyTransition''
       (ValidateAndApplyTransition env (workflow_actions env) ctx l TransitionCreate)) (\<lambda>l'.
     returnC (l_Workflow l')))))"

definition addApproversAndGroupAssociations ::
  "env \<Rightarrow> ctx \<Rightarrow> string \<Rightarrow> Workflow \<Rightarrow> string list \<Rightarrow> Group list \<Rightarrow> Workflow M" where
  "addApproversAndGroupAssociations env ctx userID workflow aps grps = wrapC ''ErrInDBTransaction''
     (Transaction env ctx (assignTx env userID workflow aps grps))"

text \<open>\<open>First\<close> of a workflow by its primary key\<close>

definition firstWorkflow :: "env \<Rightarrow> ctx \<Rightarrow> uuid \<Rightarrow> Workflow M" where
  "firstWorkflow env ctx i = First env ctx T_workflows (\<lambda>_ r. i = uuid_Nil \<or> wf_ID r = i)"

definition AutoAssignApprovers :: "env \<Rightarrow> ctx \<Rightarrow> uuid \<Rightarrow> Workflow M" where
  "AutoAssignApprovers env ctx workflowID =
     bindC (wrapC ''ErrGetWorkflowDB'' (firstWorkflow env ctx workflowID)) (\<lambda>workflow.
     bindC (getKeyConfigurationsFromArtifact env ctx workflow) (\<lambda>keyConfigs.
     bindC (getApproversAndGroupsFromKeyConfigs env ctx workflow keyConfigs) (\<lambda>(aps, grps).
     bindC (wrapC ''ErrAddApproversDB''
       (addApproversAndGroupAssociations env ctx (wf_InitiatorID workflow) workflow aps grps)) (\<lambda>workflow'.
     bindC (IdentityManagement env) (\<lambda>_.
     bindC (GetApproverUserNames env ctx aps) (\<lambda>approverUserNames.
     bindC (onlyLogged (createWorkflowTransitionNotificationTask env ctx workflow' TransitionCreate approverUserNames)) (\<lambda>_.
     returnC workflow')))))))"

section \<open>Transitions\<close>

definition resolveUserGroupIDs :: "env \<Rightarrow> ctx \<Rightarrow> uuid list M" where
  "resolveUserGroupIDs env ctx =
     bindC (liftC (ExtractBusinessUserDataGroups ctx)) (\<lambda>userIAMGroups.
     if userIAMGroups = [] then returnC []
     else bindC (List env ctx T_groups (\<lambda>_ g. grp_IAMIdentifier g \<in> set userIAMGroups)
         (int (length userIAMGroups)) 0) (\<lambda>grps. returnC (map grp_ID grps)))"

definition resolveActorApproverGroupIDs :: "env \<Rightarrow> ctx \<Rightarrow> Workflow \<Rightarrow> uuid list option M" where
  "resolveActorApproverGroupIDs env ctx workflow =
     bindC (GetWorkflowApproverGroups env ctx workflow) (\<lambda>grps.
     if grps = [] then returnC None
     else bindC (resolveUserGroupIDs env ctx) (\<lambda>userGroupIDs.
       returnC (Some (filter (\<lambda>i. i \<in> set userGroupIDs) (map grp_ID grps)))))"

definition voting :: "Transition \<Rightarrow> bool" where
  "voting transition \<longleftrightarrow> transition = TransitionApprove \<or> transition = TransitionReject"

definition fetchEligibilityForVote :: "env \<Rightarrow> ctx \<Rightarrow> Workflow \<Rightarrow> Transition \<Rightarrow> string list option M" where
  "fetchEligibilityForVote env ctx workflow transition =
     (if wf_State workflow \<noteq> WorkflowStateWaitApproval \<or> \<not> voting transition then returnC None
      else tryC (getEligibleUserIDsForWorkflow env ctx workflow) (\<lambda>res. case res of
        Inl _ \<Rightarrow> returnC None | Inr ids \<Rightarrow> returnC ids))"

definition checkApproverEligibility :: "env \<Rightarrow> ctx \<Rightarrow> Workflow \<Rightarrow> string \<Rightarrow> unit M" where
  "checkApproverEligibility env ctx workflow userID =
     bindC (wrapC ''ErrCheckWorkflowEligibility'' (GetWorkflowApproverGroups env ctx workflow)) (\<lambda>grps.
     if grps = [] then returnC ()
     else bindC (wrapC ''ErrCheckWorkflowEligibility'' (GetIdentityManagementPlugin env)) (\<lambda>_.
          bindC (queryGroupMembersFromIAM env ctx grps) (\<lambda>eligibleUserIDs.
          unlessC (userID \<in> set eligibleUserIDs) (NewApproverNoLongerEligibleError userID))))"

definition fetchAndValidateApprover :: "env \<Rightarrow> ctx \<Rightarrow> Workflow \<Rightarrow> string \<Rightarrow> WorkflowApprover M" where
  "fetchAndValidateApprover env ctx workflow userID =
     bindC (wrapC ''ErrCheckWorkflowEligibility''
       (First env ctx T_approvers (\<lambda>_ a. wa_UserID a = userID \<and> wa_WorkflowID a = wf_ID workflow))) (\<lambda>approver.
     bindC (checkApproverEligibility env ctx workflow userID) (\<lambda>_. returnC approver))"

definition updateApproverDecision :: "env \<Rightarrow> ctx \<Rightarrow> WorkflowApprover \<Rightarrow> bool \<Rightarrow> unit M" where
  "updateApproverDecision env ctx approver approved = wrapC ''ErrWorkflowApproverDecision''
     (Transaction env ctx (\<lambda>ctx. wrapC ''ErrUpdateApproverDecision''
       (bindC (Patch env ctx T_approvers
          (\<lambda>a. wa_WorkflowID a = wa_WorkflowID approver \<and> wa_UserID a = wa_UserID approver)
          (\<lambda>a. a\<lparr>wa_Approved := Some approved\<rparr>)) (\<lambda>_. returnC ()))))"

text \<open>\<open>approver\<close> is loaded for the voting transitions only\<close>

definition recordTransitionInDB :: "env \<Rightarrow> ctx \<Rightarrow> Transition \<Rightarrow> WorkflowApprover option \<Rightarrow> unit M" where
  "recordTransitionInDB env ctx transition approver =
     (if voting transition then (case approver of
          None \<Rightarrow> throwC [E ''panic'']
        | Some a \<Rightarrow> updateApproverDecision env ctx a (transition = TransitionApprove))
      else if transition \<in> {TransitionCreate, TransitionExpire, TransitionExecute, TransitionFail}
      then throwC [E ''ErrWorkflowCannotTransitionDB'']
      else returnC ())"

definition attemptAutoReject ::
  "env \<Rightarrow> ctx \<Rightarrow> Workflow \<Rightarrow> Transition \<Rightarrow> string list option \<Rightarrow> Workflow M" where
  "attemptAutoReject env ctx workflow transition eligibleApproverIDs =
     (if wf_State workflow \<noteq> WorkflowStateWaitApproval \<or> \<not> voting transition then returnC workflow
      else tryC (getWorkflowLifecycleWithEligibility env ctx workflow [] eligibleApproverIDs) (\<lambda>res. case res of
        Inl _ \<Rightarrow> returnC workflow
      | Inr l \<Rightarrow> tryC (ApplyTransition env (workflow_actions env) ctx l TransitionReject) (\<lambda>res. case res of
          Inl _ \<Rightarrow> returnC workflow
        | Inr l' \<Rightarrow> returnC (l_Workflow l'))))"

definition transitionTx :: "env \<Rightarrow> string \<Rightarrow> Workflow \<Rightarrow> Transition \<Rightarrow> ctx \<Rightarrow> Workflow M" where
  "transitionTx env userID workflow transition ctx =
     bindC (fetchEligibilityForVote env ctx workflow transition) (\<lambda>eligibleApproverIDs.
     bindC (getWorkflowLifecycleWithEligibility env ctx workflow userID eligibleApproverIDs) (\<lambda>l0.
     bindC (resolveActorApproverGroupIDs env ctx workflow) (\<lambda>actorGroups.
     let l = l0\<lparr>l_ActorApproverGroupIDs := actorGroups\<rparr> in
     bindC (wrapC ''ErrValidateActor'' (ValidateActor env ctx l transition)) (\<lambda>_.
     bindC (if voting transition
            then bindC (fetchAndValidateApprover env ctx workflow userID) (\<lambda>a. returnC (Some a))
            else returnC None) (\<lambda>approver.
     bindC (recordTransitionInDB env ctx transition approver) (\<lambda>_.
     bindC (wrapC ''ErrApplyTransition''
       (ValidateAndApplyTransition env (workflow_actions env) ctx l transition)) (\<lambda>l'.
     bindC (HandleTerminalWorkflow env ctx (l_Workflow l')) (\<lambda>_.
     attemptAutoReject env ctx (l_Workflow l') transition eligibleApproverIDs))))))))"

definition applyTransition :: "env \<Rightarrow> ctx \<Rightarrow> string \<Rightarrow> Workflow \<Rightarrow> Transition \<Rightarrow> Workflow M" where
  "applyTransition env ctx userID workflow transition = wrapC ''ErrInDBTransaction''
     (Transaction env ctx (transitionTx env userID workflow transition))"

text \<open>the workflow with its approvers preloaded\<close>

definition firstWithApprovers :: "env \<Rightarrow> ctx \<Rightarrow> uuid \<Rightarrow> (Workflow \<times> WorkflowApprover list) M" where
  "firstWithApprovers env ctx workflowID = First_full env ctx T_workflows [] (\<lambda>rs. rs)
     (\<lambda>d r. (r, filter (\<lambda>a. wa_WorkflowID a = wf_ID r) (approvers d)))
     (\<lambda>_ r. workflowID = uuid_Nil \<or> wf_ID r = workflowID)"

definition TransitionWorkflow :: "env \<Rightarrow> ctx \<Rightarrow> uuid \<Rightarrow> Transition \<Rightarrow> Workflow M" where
  "TransitionWorkflow env ctx workflowID transition =
     bindC (liftC (ExtractUserIdentifier ctx)) (\<lambda>userID.
     bindC (wrapC ''ErrGetWorkflowDB'' (firstWithApprovers env ctx workflowID)) (\<lambda>(workflow, aps).
     bindC (applyTransition env ctx userID workflow transition) (\<lambda>workflow'.
     bindC (IdentityManagement env) (\<lambda>_.
     bindC (GetNotificationRecipients env ctx workflow' aps transition) (\<lambda>recipients.
     bindC (onlyLogged (createWorkflowTransitionNotificationTask env ctx workflow' transition recipients)) (\<lambda>_.
     returnC workflow'))))))"

section \<open>Expiry and clean-up\<close>

definition expireTx :: "env \<Rightarrow> Workflow \<Rightarrow> ctx \<Rightarrow> Workflow M" where
  "expireTx env workflow ctx =
     bindC (liftC (ExtractUserIdentifier ctx)) (\<lambda>userID.
     bindC (getWorkflowLifecycle env ctx workflow userID) (\<lambda>l.
     bindC (Expire env ctx l) (\<lambda>l'.
     bindC (HandleTerminalWorkflow env ctx (l_Workflow l')) (\<lambda>_.
     returnC (l_Workflow l')))))"

definition ExpireWorkflow :: "env \<Rightarrow> ctx \<Rightarrow> uuid \<Rightarrow> Workflow M" where
  "ExpireWorkflow env ctx workflowID =
     bindC (wrapC ''ErrGetWorkflowDB'' (firstWorkflow env ctx workflowID)) (\<lambda>workflow.
     Transaction env ctx (expireTx env workflow))"

definition deleteWorkflows :: "env \<Rightarrow> Workflow list \<Rightarrow> ctx \<Rightarrow> unit M" where
  "deleteWorkflows env wfs ctx = bindC (forC wfs (\<lambda>workflow.
     Delete env ctx T_workflows (workflow_refs (wf_ID workflow)) (\<lambda>r. wf_ID r = wf_ID workflow))) (\<lambda>_. returnC ())"

definition CleanupTerminalWorkflows :: "env \<Rightarrow> ctx \<Rightarrow> unit M" where
  "CleanupTerminalWorkflows env ctx =
     bindC (WorkflowConfig_get env ctx) (\<lambda>workflowConfig.
     bindC (timeNow env) (\<lambda>now.
     let cutoffDate = AddDays now (- cfg_RetentionPeriodDays workflowConfig) in
     ProcessInBatchWithOptions env ctx T_workflows []
       (\<lambda>_ r. wf_State r \<in> set WorkflowTerminalStates \<and> wf_CreatedAt r < cutoffDate) DefaultLimit
       \<lparr>bo_DeleteMode = True, bo_IgnoreFailMode = False\<rparr>
       (\<lambda>wfs. if wfs = [] then returnC () else Transaction env ctx (deleteWorkflows env wfs))))"

section \<open>Frames\<close>

context world_frame
begin

lemma steps_catchC [steps_intro]:
  "steps R m \<Longrightarrow> (\<And>r. steps R (h r)) \<Longrightarrow> steps R (catchC m h)"
  unfolding catchC_def by (intro steps_intro)

lemma steps_fsm_Event [steps_intro]: "steps R (fsm_Event env l t)"
  unfolding fsm_Event_def by (intro steps_intro)

lemma steps_raiseC [steps_intro]: "steps R (raiseC v)"
  unfolding raiseC_def by (intro steps_intro)

lemma steps_parseParam [steps_intro]: "steps R (parseParam env s)"
  unfolding parseParam_def by (intro steps_intro)

lemma steps_GetAllApprovers [steps_intro]:
  "ctx_Tenant ctx = Some tn \<Longrightarrow> steps R (GetAllApprovers env ctx l)"
  unfolding GetAllApprovers_def by (intro steps_intro)

lemma steps_checkVotingScore [steps_intro]:
  "ctx_Tenant ctx = Some tn \<Longrightarrow> steps R (checkVotingScore env ctx l transition)"
  unfolding checkVotingScore_def by (intro steps_intro)

lemma steps_GetApprovalSummary [steps_intro]:
  "ctx_Tenant ctx = Some tn \<Longrightarrow> steps R (GetApprovalSummary env ctx l)"
  unfolding GetApprovalSummary_def by (intro steps_intro)

lemma steps_validateUserIsApprover [steps_intro]:
  "ctx_Tenant ctx = Some tn \<Longrightarrow> steps R (validateUserIsApprover env ctx l)"
  unfolding validateUserIsApprover_def by (intro steps_intro)

lemma steps_ValidateActor [steps_intro]:
  "ctx_Tenant ctx = Some tn \<Longrightarrow> steps R (ValidateActor env ctx l transition)"
  unfolding ValidateActor_def by (intro steps_intro)

lemma steps_getNumberOfApprovers [steps_intro]:
  "ctx_Tenant ctx = Some tn \<Longrightarrow> steps R (getNumberOfApprovers env ctx l)"
  unfolding getNumberOfApprovers_def by (intro steps_intro)

lemma steps_transitionPrecheck [steps_intro]:
  "ctx_Tenant ctx = Some tn \<Longrightarrow> steps R (transitionPrecheck env ctx l transition)"
  unfolding transitionPrecheck_def by (auto split: Transition.split intro!: steps_intro)

lemma steps_Workflow_Patch [steps_intro]:
  "TabWorkflows \<in> W \<Longrightarrow> ctx_Tenant ctx = Some tn \<Longrightarrow> steps R (Workflow_Patch env ctx wkf)"
  unfolding Workflow_Patch_def by (intro steps_intro)

lemma steps_saveState [steps_intro]:
  "TabWorkflows \<in> W \<Longrightarrow> ctx_Tenant ctx = Some tn \<Longrightarrow> steps R (saveState env ctx l)"
  unfolding saveState_def by (intro steps_intro)

lemma steps_getApproverAvailableActions [steps_intro]:
  "ctx_Tenant ctx = Some tn \<Longrightarrow> steps R (getApproverAvailableActions env ctx l)"
  unfolding getApproverAvailableActions_def by (intro steps_intro)

lemma steps_AvailableBusinessUserTransitions [steps_intro]:
  "ctx_Tenant ctx = Some tn \<Longrightarrow> steps R (AvailableBusinessUserTransitions env ctx l)"
  unfolding AvailableBusinessUserTransitions_def by (intro steps_intro)

lemma steps_Expire [steps_intro]: "TabWorkflows \<in> W \<Longrightarrow> ctx_Tenant ctx = Some tn \<Longrightarrow> steps R (Expire env ctx l)"
  unfolding Expire_def by (intro steps_intro)

lemma steps_WorkflowConfig_get [steps_intro]:
  "TabTenantConfigs \<in> W \<Longrightarrow> ctx_Tenant ctx = Some tn \<Longrightarrow> steps R (WorkflowConfig_get env ctx)"
  unfolding WorkflowConfig_get_def by (intro steps_intro)

lemma steps_getMinimumApprovals [steps_intro]:
  "TabTenantConfigs \<in> W \<Longrightarrow> ctx_Tenant ctx = Some tn \<Longrightarrow> steps R (getMinimumApprovals env ctx)"
  unfolding getMinimumApprovals_def by (intro steps_intro)

lemma steps_IsWorkflowRequired [steps_intro]:
  "TabTenantConfigs \<in> W \<Longrightarrow> ctx_Tenant ctx = Some tn \<Longrightarrow> steps R (IsWorkflowRequired env ctx)"
  unfolding IsWorkflowRequired_def by (intro steps_intro)

lemma steps_getKeyConfigFromKey [steps_intro]:
  "TabEvents \<in> W \<Longrightarrow> TabKeyVersions \<in> W \<Longrightarrow> TabKeys \<in> W \<Longrightarrow> ctx_Tenant ctx = Some tn \<Longrightarrow> steps R (getKeyConfigFromKey env ctx workflow)"
  unfolding getKeyConfigFromKey_def by (intro steps_intro)

lemma steps_currentKeyConfig [steps_intro]:
  "ctx_Tenant ctx = Some tn \<Longrightarrow> steps R (currentKeyConfig env ctx workflow)"
  unfolding currentKeyConfig_def by (intro steps_intro)

lemma steps_targetKeyConfig [steps_intro]:
  "ctx_Tenant ctx = Some tn \<Longrightarrow> steps R (targetKeyConfig env ctx workflow)"
  unfolding targetKeyConfig_def by (intro steps_intro)

lemma steps_getKeyConfigFromSystem [steps_intro]:
  "ctx_Tenant ctx = Some tn \<Longrightarrow> steps R (getKeyConfigFromSystem env ctx workflow)"
  unfolding getKeyConfigFromSystem_def by (intro steps_intro)

lemma steps_getKeyConfigurationsFromArtifact [steps_intro]:
  "TabEvents \<in> W \<Longrightarrow> TabKeyVersions \<in> W \<Longrightarrow> TabKeys \<in> W \<Longrightarrow> ctx_Tenant ctx = Some tn \<Longrightarrow> steps R (getKeyConfigurationsFromArtifact env ctx workflow)"
  unfolding getKeyConfigurationsFromArtifact_def by (auto split: WorkflowArtifactType.split intro!: steps_intro)

lemma steps_AdminGroup [steps_intro]:
  "ctx_Tenant ctx = Some tn \<Longrightarrow> steps R (AdminGroup ctx kc)"
  unfolding AdminGroup_def by (intro steps_intro)

lemma steps_getApproversAndGroupsFromKeyConfigs [steps_intro]:
  "ctx_Tenant ctx = Some tn \<Longrightarrow> steps R (getApproversAndGroupsFromKeyConfigs env ctx workflow keyConfigs)"
  unfolding getApproversAndGroupsFromKeyConfigs_def case_prod_beta by (intro steps_intro)

lemma steps_getApproverGroupsFromLegacyField [steps_intro]:
  "ctx_Tenant ctx = Some tn \<Longrightarrow> steps R (getApproverGroupsFromLegacyField env ctx workflow)"
  unfolding getApproverGroupsFromLegacyField_def by (intro steps_intro)

lemma steps_GetWorkflowApproverGroups [steps_intro]:
  "ctx_Tenant ctx = Some tn \<Longrightarrow> steps R (GetWorkflowApproverGroups env ctx workflow)"
  unfolding GetWorkflowApproverGroups_def by (intro steps_intro)

lemma steps_queryGroupMembersFromIAM [steps_intro]:
  "ctx_Tenant ctx = Some tn \<Longrightarrow> steps R (queryGroupMembersFromIAM env ctx grps)"
  unfolding queryGroupMembersFromIAM_def by (intro steps_intro)

lemma steps_getEligibleUserIDsForWorkflow [steps_intro]:
  "ctx_Tenant ctx = Some tn \<Longrightarrow> steps R (getEligibleUserIDsForWorkflow env ctx workflow)"
  unfolding getEligibleUserIDsForWorkflow_def by (intro steps_intro)

lemma steps_getWorkflowLifecycleWithEligibility [steps_intro]:
  "TabTenantConfigs \<in> W \<Longrightarrow> ctx_Tenant ctx = Some tn \<Longrightarrow> steps R (getWorkflowLifecycleWithEligibility env ctx workflow userID eligibleApproverIDs)"
  unfolding getWorkflowLifecycleWithEligibility_def by (intro steps_intro)

lemma steps_getWorkflowLifecycle [steps_intro]:
  "TabTenantConfigs \<in> W \<Longrightarrow> ctx_Tenant ctx = Some tn \<Longrightarrow> steps R (getWorkflowLifecycle env ctx workflow userID)"
  unfolding getWorkflowLifecycle_def by (intro steps_intro)

lemma steps_checkInsufficientApprovers [steps_intro]:
  "TabTenantConfigs \<in> W \<Longrightarrow> ctx_Tenant ctx = Some tn \<Longrightarrow> steps R (checkInsufficientApprovers env ctx workflow eligibleUserIDs)"
  unfolding checkInsufficientApprovers_def by (intro steps_intro)

lemma steps_checkWorkflowEligibility [steps_intro]:
  "TabTenantConfigs \<in> W \<Longrightarrow> ctx_Tenant ctx = Some tn \<Longrightarrow> steps R (checkWorkflowEligibility env ctx workflow)"
  unfolding checkWorkflowEligibility_def by (intro steps_intro)

lemma steps_getWorkflows [steps_intro]:
  "ctx_Tenant ctx = Some tn \<Longrightarrow> steps R (getWorkflows env ctx pagination arrange query)"
  unfolding getWorkflows_def by (intro steps_intro)

lemma steps_GetWorkflows [steps_intro]:
  "ctx_Tenant ctx = Some tn \<Longrightarrow> steps R (GetWorkflows env ctx params)"
  unfolding GetWorkflows_def by (intro steps_intro)

lemma steps_GetWorkflowByID [steps_intro]:
  "TabTenantConfigs \<in> W \<Longrightarrow> ctx_Tenant ctx = Some tn \<Longrightarrow> steps R (GetWorkflowByID env ctx workflowID)"
  unfolding GetWorkflowByID_def by (intro steps_intro)

lemma steps_ListWorkflowApprovers [steps_intro]:
  "TabTenantConfigs \<in> W \<Longrightarrow> ctx_Tenant ctx = Some tn \<Longrightarrow> steps R (ListWorkflowApprovers env ctx i decisionMade pagination)"
  unfolding ListWorkflowApprovers_def by (intro steps_intro)

lemma steps_GetWorkflowAvailableTransitions [steps_intro]:
  "TabTenantConfigs \<in> W \<Longrightarrow> ctx_Tenant ctx = Some tn \<Longrightarrow> steps R (GetWorkflowAvailableTransitions env ctx workflow)"
  unfolding GetWorkflowAvailableTransitions_def by (intro steps_intro)

lemma steps_WorkflowCanExpire [steps_intro]:
  "TabTenantConfigs \<in> W \<Longrightarrow> ctx_Tenant ctx = Some tn \<Longrightarrow> steps R (WorkflowCanExpire env ctx workflow)"
  unfolding WorkflowCanExpire_def by (intro steps_intro)

lemma steps_GetWorkflowApprovalSummary [steps_intro]:
  "TabTenantConfigs \<in> W \<Longrightarrow> ctx_Tenant ctx = Some tn \<Longrightarrow> steps R (GetWorkflowApprovalSummary env ctx workflow)"
  unfolding GetWorkflowApprovalSummary_def by (intro steps_intro)

lemma steps_firstKey [steps_intro]:
  "ctx_Tenant ctx = Some tn \<Longrightarrow> steps R (firstKey env ctx i)"
  unfolding firstKey_def by (intro steps_intro)

lemma steps_validateConnect [steps_intro]:
  "ctx_Tenant ctx = Some tn \<Longrightarrow> steps R (validateConnect env ctx keyConfigs)"
  unfolding validateConnect_def by (intro steps_intro)

lemma steps_validatePrimarySwitch [steps_intro]:
  "ctx_Tenant ctx = Some tn \<Longrightarrow> steps R (validatePrimarySwitch env ctx workflow kc)"
  unfolding validatePrimarySwitch_def by (intro steps_intro)

lemma steps_validateKeyState [steps_intro]:
  "ctx_Tenant ctx = Some tn \<Longrightarrow> steps R (validateKeyState env ctx workflow)"
  unfolding validateKeyState_def by (intro steps_intro)

lemma steps_validateWorkflow [steps_intro]:
  "TabEvents \<in> W \<Longrightarrow> TabKeyVersions \<in> W \<Longrightarrow> TabKeys \<in> W \<Longrightarrow> ctx_Tenant ctx = Some tn \<Longrightarrow> steps R (validateWorkflow env ctx workflow)"
  unfolding validateWorkflow_def by (intro steps_intro)

lemma steps_checkOngoingWorkflowForArtifact [steps_intro]:
  "ctx_Tenant ctx = Some tn \<Longrightarrow> steps R (checkOngoingWorkflowForArtifact env ctx workflow)"
  unfolding checkOngoingWorkflowForArtifact_def by (intro steps_intro)

lemma steps_validateApproverCount [steps_intro]:
  "TabEvents \<in> W \<Longrightarrow> TabKeyVersions \<in> W \<Longrightarrow> TabKeys \<in> W \<Longrightarrow> ctx_Tenant ctx = Some tn \<Longrightarrow> steps R (validateApproverCount env ctx workflow minimumApprovals)"
  unfolding validateApproverCount_def by (intro steps_intro)

lemma steps_checkWorkflow [steps_intro]:
  "TabEvents \<in> W \<Longrightarrow> TabKeyVersions \<in> W \<Longrightarrow> TabKeys \<in> W \<Longrightarrow> TabTenantConfigs \<in> W \<Longrightarrow> ctx_Tenant ctx = Some tn \<Longrightarrow> steps R (checkWorkflow env ctx workflow enabled)"
  unfolding checkWorkflow_def by (intro steps_intro)

lemma steps_checkPermissionToCreateWorkflow [steps_intro]:
  "TabEvents \<in> W \<Longrightarrow> TabKeyVersions \<in> W \<Longrightarrow> TabKeys \<in> W \<Longrightarrow> ctx_Tenant ctx = Some tn \<Longrightarrow> steps R (checkPermissionToCreateWorkflow env ctx workflow)"
  unfolding checkPermissionToCreateWorkflow_def by (intro steps_intro)

lemma steps_CheckWorkflow [steps_intro]:
  "TabEvents \<in> W \<Longrightarrow> TabKeyVersions \<in> W \<Longrightarrow> TabKeys \<in> W \<Longrightarrow> TabTenantConfigs \<in> W \<Longrightarrow> ctx_Tenant ctx = Some tn \<Longrightarrow> steps R (CheckWorkflow env ctx workflow)"
  unfolding CheckWorkflow_def by (intro steps_intro)

lemma steps_populateArtifact [steps_intro]:
  "TabEvents \<in> W \<Longrightarrow> TabKeyVersions \<in> W \<Longrightarrow> TabKeys \<in> W \<Longrightarrow> ctx_Tenant ctx = Some tn \<Longrightarrow> steps R (populateArtifact env ctx workflow)"
  unfolding populateArtifact_def by (auto split: WorkflowArtifactType.split intro!: steps_intro)

lemma steps_populateParametersResource [steps_intro]:
  "TabEvents \<in> W \<Longrightarrow> TabKeyVersions \<in> W \<Longrightarrow> TabKeys \<in> W \<Longrightarrow> ctx_Tenant ctx = Some tn \<Longrightarrow> steps R (populateParametersResource env ctx workflow)"
  unfolding populateParametersResource_def by (intro steps_intro)

lemma steps_markArtifact [steps_intro]:
  "TabKeys \<in> W \<Longrightarrow> TabSystems \<in> W \<Longrightarrow> ctx_Tenant ctx = Some tn \<Longrightarrow> steps R (markArtifact env ctx workflow underWorkflow)"
  unfolding markArtifact_def by (auto split: WorkflowArtifactType.split intro!: steps_intro)

lemma steps_handleNewWorkflow [steps_intro]:
  "TabKeys \<in> W \<Longrightarrow> TabSystems \<in> W \<Longrightarrow> ctx_Tenant ctx = Some tn \<Longrightarrow> steps R (handleNewWorkflow env ctx workflow)"
  unfolding handleNewWorkflow_def by (intro steps_intro)

lemma steps_HandleTerminalWorkflow [steps_intro]:
  "TabKeys \<in> W \<Longrightarrow> TabSystems \<in> W \<Longrightarrow> ctx_Tenant ctx = Some tn \<Longrightarrow> steps R (HandleTerminalWorkflow env ctx workflow)"
  unfolding HandleTerminalWorkflow_def by (intro steps_intro)

lemma steps_createAutoAssignApproversAsyncTask [steps_intro]:
  "steps R (createAutoAssignApproversAsyncTask env workflow)"
  unfolding createAutoAssignApproversAsyncTask_def by (intro steps_intro)

lemma steps_insertWorkflow [steps_intro]:
  "TabWorkflows \<in> W \<Longrightarrow> ctx_Tenant ctx = Some tn \<Longrightarrow> steps R (insertWorkflow env ctx workflow)"
  unfolding insertWorkflow_def by (intro steps_intro)

lemma steps_createTx [steps_intro]:
  "TabKeys \<in> W \<Longrightarrow> TabSystems \<in> W \<Longrightarrow> TabWorkflows \<in> W \<Longrightarrow> ctx_Tenant ctx = Some tn \<Longrightarrow> steps R (createTx env workflow ctx)"
  unfolding createTx_def by (intro steps_intro)

lemma steps_CreateWorkflow [steps_intro]:
  "TabEvents \<in> W \<Longrightarrow> TabKeyVersions \<in> W \<Longrightarrow> TabKeys \<in> W \<Longrightarrow> TabSystems \<in> W \<Longrightarrow> TabTenantConfigs \<in> W \<Longrightarrow> TabWorkflows \<in> W \<Longrightarrow> ctx_Tenant ctx = Some tn \<Longrightarrow> steps R (CreateWorkflow env ctx workflow0)"
  unfolding CreateWorkflow_def by (intro steps_intro)

lemma steps_GetUserName [steps_intro]:
  "ctx_Tenant ctx = Some tn \<Longrightarrow> steps R (GetUserName env ctx i)"
  unfolding GetUserName_def by (auto split: sum.split idm_error.split intro!: steps_intro)

lemma steps_GetApproverUserNames [steps_intro]:
  "ctx_Tenant ctx = Some tn \<Longrightarrow> steps R (GetApproverUserNames env ctx userIDs)"
  unfolding GetApproverUserNames_def by (intro steps_intro)

lemma steps_GetNotificationRecipients [steps_intro]:
  "ctx_Tenant ctx = Some tn \<Longrightarrow> steps R (GetNotificationRecipients env ctx workflow aps transition)"
  unfolding GetNotificationRecipients_def by (intro steps_intro)

lemma steps_IdentityManagement [steps_intro]:
  "steps R (IdentityManagement env)"
  unfolding IdentityManagement_def by (intro steps_intro)

lemma steps_createWorkflowTransitionNotificationTask [steps_intro]:
  "ctx_Tenant ctx = Some tn \<Longrightarrow> steps R (createWorkflowTransitionNotificationTask env ctx workflow transition recipients)"
  unfolding createWorkflowTransitionNotificationTask_def by (intro steps_intro)

lemma steps_addApproverRow [steps_intro]:
  "TabApprovers \<in> W \<Longrightarrow> ctx_Tenant ctx = Some tn \<Longrightarrow> steps R (addApproverRow env ctx workflow userID)"
  unfolding addApproverRow_def by (intro steps_intro)

lemma steps_addGroupRow [steps_intro]:
  "TabApproverGroups \<in> W \<Longrightarrow> ctx_Tenant ctx = Some tn \<Longrightarrow> steps R (addGroupRow env ctx workflow g)"
  unfolding addGroupRow_def by (intro steps_intro)

lemma steps_firstWorkflow [steps_intro]:
  "ctx_Tenant ctx = Some tn \<Longrightarrow> steps R (firstWorkflow env ctx i)"
  unfolding firstWorkflow_def by (intro steps_intro)

lemma steps_resolveUserGroupIDs [steps_intro]:
  "ctx_Tenant ctx = Some tn \<Longrightarrow> steps R (resolveUserGroupIDs env ctx)"
  unfolding resolveUserGroupIDs_def by (intro steps_intro)

lemma steps_resolveActorApproverGroupIDs [steps_intro]:
  "ctx_Tenant ctx = Some tn \<Longrightarrow> steps R (resolveActorApproverGroupIDs env ctx workflow)"
  unfolding resolveActorApproverGroupIDs_def by (intro steps_intro)

lemma steps_fetchEligibilityForVote [steps_intro]:
  "ctx_Tenant ctx = Some tn \<Longrightarrow> steps R (fetchEligibilityForVote env ctx workflow transition)"
  unfolding fetchEligibilityForVote_def by (intro steps_intro)

lemma steps_checkApproverEligibility [steps_intro]:
  "ctx_Tenant ctx = Some tn \<Longrightarrow> steps R (checkApproverEligibility env ctx workflow userID)"
  unfolding checkApproverEligibility_def by (intro steps_intro)

lemma steps_fetchAndValidateApprover [steps_intro]:
  "ctx_Tenant ctx = Some tn \<Longrightarrow> steps R (fetchAndValidateApprover env ctx workflow userID)"
  unfolding fetchAndValidateApprover_def by (intro steps_intro)

lemma steps_updateApproverDecision [steps_intro]:
  "TabApprovers \<in> W \<Longrightarrow> ctx_Tenant ctx = Some tn \<Longrightarrow> steps R (updateApproverDecision env ctx approver approved)"
  unfolding updateApproverDecision_def by (intro steps_intro)

lemma steps_recordTransitionInDB [steps_intro]:
  "TabApprovers \<in> W \<Longrightarrow> ctx_Tenant ctx = Some tn \<Longrightarrow> steps R (recordTransitionInDB env ctx transition approver)"
  unfolding recordTransitionInDB_def by (intro steps_intro)

lemma steps_firstWithApprovers [steps_intro]:
  "ctx_Tenant ctx = Some tn \<Longrightarrow> steps R (firstWithApprovers env ctx workflowID)"
  unfolding firstWithApprovers_def by (intro steps_intro)

lemma steps_expireTx [steps_intro]:
  "TabKeys \<in> W \<Longrightarrow> TabSystems \<in> W \<Longrightarrow> TabTenantConfigs \<in> W \<Longrightarrow> TabWorkflows \<in> W \<Longrightarrow> ctx_Tenant ctx = Some tn \<Longrightarrow> steps R (expireTx env workflow ctx)"
  unfolding expireTx_def by (intro steps_intro)

lemma steps_ExpireWorkflow [steps_intro]:
  "TabKeys \<in> W \<Longrightarrow> TabSystems \<in> W \<Longrightarrow> TabTenantConfigs \<in> W \<Longrightarrow> TabWorkflows \<in> W \<Longrightarrow> ctx_Tenant ctx = Some tn \<Longrightarrow> steps R (ExpireWorkflow env ctx workflowID)"
  unfolding ExpireWorkflow_def by (intro steps_intro)

lemma steps_deleteWorkflows [steps_intro]:
  "TabApproverGroups \<in> W \<Longrightarrow> TabApprovers \<in> W \<Longrightarrow> TabWorkflows \<in> W \<Longrightarrow> ctx_Tenant ctx = Some tn \<Longrightarrow> steps R (deleteWorkflows env wfs ctx)"
  unfolding deleteWorkflows_def by (intro steps_intro)

lemma steps_CleanupTerminalWorkflows [steps_intro]:
  "TabApproverGroups \<in> W \<Longrightarrow> TabApprovers \<in> W \<Longrightarrow> TabTenantConfigs \<in> W \<Longrightarrow> TabWorkflows \<in> W \<Longrightarrow> ctx_Tenant ctx = Some tn \<Longrightarrow> steps R (CleanupTerminalWorkflows env ctx)"
  unfolding CleanupTerminalWorkflows_def by (intro steps_intro)

end

text \<open>a relation that tolerates writes to every table of the tenant\<close>

locale tenant_frame = world_frame R tn UNIV for R tn
begin

lemma steps_executeWorkflowAction [steps_intro]:
  "ctx_Tenant ctx = Some tn \<Longrightarrow> steps R (executeWorkflowAction env (workflow_actions env) ctx wkf)"
  unfolding executeWorkflowAction_def Let_def updateKeyState_def deleteKey_def deleteKeyConfiguration_def
    updatePrimaryKey_def systemLinkOrSwitch_def systemUnlink_def workflow_actions_def actions.simps
  by (auto split: WorkflowArtifactType.split WorkflowActionType.split intro!: steps_intro)

lemma steps_transitionExecute [steps_intro]:
  "ctx_Tenant ctx = Some tn \<Longrightarrow> steps R (transitionExecute env (workflow_actions env) ctx l)"
  unfolding transitionExecute_def by (intro steps_intro)

lemma steps_ApplyTransition [steps_intro]:
  "ctx_Tenant ctx = Some tn \<Longrightarrow> steps R (ApplyTransition env (workflow_actions env) ctx l transition)"
  unfolding ApplyTransition_def by (intro steps_intro)

lemma steps_ValidateAndApplyTransition [steps_intro]:
  "ctx_Tenant ctx = Some tn \<Longrightarrow> steps R (ValidateAndApplyTransition env (workflow_actions env) ctx l transition)"
  unfolding ValidateAndApplyTransition_def by (intro steps_intro)

lemma steps_assignTx [steps_intro]:
  "ctx_Tenant ctx = Some tn \<Longrightarrow> steps R (assignTx env userID workflow aps grps ctx)"
  unfolding assignTx_def by (intro steps_intro)

lemma steps_addApproversAndGroupAssociations [steps_intro]:
  "ctx_Tenant ctx = Some tn \<Longrightarrow> steps R (addApproversAndGroupAssociations env ctx userID workflow aps grps)"
  unfolding addApproversAndGroupAssociations_def by (intro steps_intro)

lemma steps_AutoAssignApprovers [steps_intro]:
  "ctx_Tenant ctx = Some tn \<Longrightarrow> steps R (AutoAssignApprovers env ctx workflowID)"
  unfolding AutoAssignApprovers_def by (intro steps_intro)

lemma steps_attemptAutoReject [steps_intro]:
  "ctx_Tenant ctx = Some tn \<Longrightarrow> steps R (attemptAutoReject env ctx workflow transition eligibleApproverIDs)"
  unfolding attemptAutoReject_def by (intro steps_intro)

lemma steps_transitionTx [steps_intro]:
  "ctx_Tenant ctx = Some tn \<Longrightarrow> steps R (transitionTx env userID workflow transition ctx)"
  unfolding transitionTx_def by (intro steps_intro)

lemma steps_applyTransition [steps_intro]:
  "ctx_Tenant ctx = Some tn \<Longrightarrow> steps R (applyTransition env ctx userID workflow transition)"
  unfolding applyTransition_def by (intro steps_intro)

lemma steps_TransitionWorkflow [steps_intro]:
  "ctx_Tenant ctx = Some tn \<Longrightarrow> steps R (TransitionWorkflow env ctx workflowID transition)"
  unfolding TransitionWorkflow_def by (intro steps_intro)

end

interpretation iso_all: tenant_frame "isolated tn" tn for tn
  by unfold_locales

interpretation grows_all: tenant_frame log_grows tn for tn
  by unfold_locales

interpretation uniq_all: tenant_frame keeps_uniq tn for tn
  by unfold_locales

end
