(* ===== verification/Async_Tasks.thy ===== *)
theory Async_Tasks
  imports Workflow_Manager
begin

text \<open>
  Background tasks (src/internal/async: async.go, batch_processor.go, fanout.go, and the task handlers under
  tasks; src/utils/async for the payload).

  A task runs with the internal role of its handler. A tenant task is run for every tenant, inline or, with
  fan-out, as one child task per tenant; \<open>newid\<close> is the generated request id. Certificates, the key-store
  pool and notification sending have no model, so their handlers are left out.
\<close>

section \<open>Payload\<close>

record TaskPayload =
  tp_TenantID :: string
  tp_BusinessData :: ClientData
  tp_Data :: string

definition NewTaskPayload :: "ctx \<Rightarrow> string \<Rightarrow> TaskPayload" where
  "NewTaskPayload ctx data = \<lparr>
     tp_TenantID = (case ExtractTenantID ctx of Inl _ \<Rightarrow> [] | Inr tenantID \<Rightarrow> tenantID),
     tp_BusinessData = (case ExtractBusinessUserData ctx of
         Inl _ \<Rightarrow> \<lparr>cd_Identifier = [], cd_Groups = [], cd_AuthContext = Map.empty\<rparr>
       | Inr businessUserData \<Rightarrow> businessUserData),
     tp_Data = data\<rparr>"

definition InjectContext :: "TaskPayload \<Rightarrow> ctx \<Rightarrow> ctx" where
  "InjectContext p ctx =
     (let ctx = (if tp_TenantID p \<noteq> [] then CreateTenantContext ctx (tp_TenantID p) else ctx) in
      ctx\<lparr>ctx_UserType := Some InternalUser, ctx_BusinessUserData := Some (tp_BusinessData p)\<rparr>)"

section \<open>Assignment of approvers\<close>

definition putWorkflowInFailedState :: "env \<Rightarrow> ctx \<Rightarrow> uuid \<Rightarrow> string \<Rightarrow> unit M" where
  "putWorkflowInFailedState env ctx workflowID failureReason =
     bindC (firstWorkflow env ctx workflowID) (\<lambda>workflow.
     Transaction env ctx (\<lambda>ctx.
       bindC (Workflow_Patch env ctx (workflow\<lparr>wf_State := WorkflowStateFailed, wf_FailureReason := failureReason\<rparr>)) (\<lambda>workflow'.
       HandleTerminalWorkflow env ctx workflow')))"

text \<open>a panic is recovered by the deferred function, and the task then returns no error\<close>

definition WorkflowProcessor_ProcessTask :: "env \<Rightarrow> ctx \<Rightarrow> TaskPayload \<Rightarrow> unit M" where
  "WorkflowProcessor_ProcessTask env ctx payload = (case uuid_Parse env (tp_Data payload) of
       None \<Rightarrow> throwC [E ''tasks.ErrRunningTask'', Msg ''invalid UUID'']
     | Some workflowID \<Rightarrow>
         let ctx = InjectContext payload ctx in
         tryC (AutoAssignApprovers env ctx workflowID) (\<lambda>res. case res of
           Inr _ \<Rightarrow> returnC ()
         | Inl err \<Rightarrow>
             if errs_Is err ''panic''
             then onlyLogged (putWorkflowInFailedState env ctx workflowID ''internal error when assigning approvers'')
             else bindC (onlyLogged (putWorkflowInFailedState env ctx workflowID (errs_text err))) (\<lambda>_.
                  throwC (E ''tasks.ErrRunningTask'' # err))))"

definition PendingStateSync_ProcessTask :: "env \<Rightarrow> ctx \<Rightarrow> TaskPayload \<Rightarrow> unit M" where
  "PendingStateSync_ProcessTask env ctx payload = (case uuid_Parse env (tp_Data payload) of
       None \<Rightarrow> throwC [Msg ''invalid UUID'']
     | Some keyID \<Rightarrow> SyncPendingCreationKey env (InjectContext payload ctx) keyID)"

section \<open>Tenant tasks\<close>

definition HYOKSync_ProcessTask :: "env \<Rightarrow> ctx \<Rightarrow> unit M" where
  "HYOKSync_ProcessTask env ctx = onlyLogged (SyncHYOKKeys env ctx)"

definition isConnectionError :: "gerror \<Rightarrow> bool" where
  "isConnectionError err \<longleftrightarrow> errs_Is err ''grpc.Unavailable'' \<or> errs_Is err ''grpc.DeadlineExceeded''"

definition SystemsRefresher_ProcessTask :: "env \<Rightarrow> ctx \<Rightarrow> unit M" where
  "SystemsRefresher_ProcessTask env ctx = catchC (UpdateSystems env ctx) (\<lambda>res. case res of
       Inr _ \<Rightarrow> returnC ()
     | Inl err \<Rightarrow> if isConnectionError err then throwC err else returnC ())"

definition WorkflowCleaner_ProcessTask :: "env \<Rightarrow> ctx \<Rightarrow> unit M" where
  "WorkflowCleaner_ProcessTask env ctx = onlyLogged (CleanupTerminalWorkflows env ctx)"

definition noFilter :: WorkflowFilter where
  "noFilter = \<lparr>wff_State = None, wff_ArtifactType = None, wff_ArtifactID = uuid_Nil, wff_ArtifactName = [],
     wff_ParametersResourceName = [], wff_ActionType = None, wff_Skip = 0, wff_Top = 0, wff_Count = False\<rparr>"

definition expireWorkflow :: "env \<Rightarrow> ctx \<Rightarrow> uuid \<Rightarrow> unit M" where
  "expireWorkflow env ctx workflowID = bindC (ExpireWorkflow env ctx workflowID) (\<lambda>_. returnC ())"

text \<open>one round of the loop: nothing to do, or expire; failures are logged\<close>

definition expireIfDue :: "env \<Rightarrow> ctx \<Rightarrow> Workflow \<Rightarrow> unit M" where
  "expireIfDue env ctx workflow = (case wf_ExpiryDate workflow of
       None \<Rightarrow> returnC ()
     | Some date \<Rightarrow> bindC (timeNow env) (\<lambda>now.
         if now < date then returnC ()
         else catchC (WorkflowCanExpire env ctx workflow) (\<lambda>res. case res of
           Inl _ \<Rightarrow> returnC ()
         | Inr canExpire \<Rightarrow>
             if canExpire then onlyLogged (expireWorkflow env ctx (wf_ID workflow)) else returnC ())))"

definition WorkflowExpiry_ProcessTask :: "env \<Rightarrow> ctx \<Rightarrow> unit M" where
  "WorkflowExpiry_ProcessTask env ctx = catchC (GetWorkflows env ctx noFilter) (\<lambda>res. case res of
       Inl _ \<Rightarrow> returnC ()
     | Inr (wfs, _) \<Rightarrow> bindC (forC wfs (expireIfDue env ctx)) (\<lambda>_. returnC ()))"

section \<open>Worker\<close>

datatype TenantTaskHandler = HYOKSync | SystemsRefresher | WorkflowCleaner | WorkflowExpiryProcessor

definition Role :: "TenantTaskHandler \<Rightarrow> string" where
  "Role h = (case h of
       HYOKSync \<Rightarrow> ''INTERNAL_TASK_HYOK_SYNC'' | SystemsRefresher \<Rightarrow> ''INTERNAL_TASK_SYSTEM_REFRESH''
     | WorkflowCleaner \<Rightarrow> ''INTERNAL_TASK_WORKFLOW_CLEANUP''
     | WorkflowExpiryProcessor \<Rightarrow> ''INTERNAL_TASK_WORKFLOW_EXPIRATION'')"

definition ProcessTask :: "env \<Rightarrow> TenantTaskHandler \<Rightarrow> ctx \<Rightarrow> unit M" where
  "ProcessTask env h ctx = (case h of
       HYOKSync \<Rightarrow> HYOKSync_ProcessTask env ctx | SystemsRefresher \<Rightarrow> SystemsRefresher_ProcessTask env ctx
     | WorkflowCleaner \<Rightarrow> WorkflowCleaner_ProcessTask env ctx
     | WorkflowExpiryProcessor \<Rightarrow> WorkflowExpiry_ProcessTask env ctx)"

text \<open>\<open>wrappedProcessTask\<close> of \<open>RunWorker\<close>: the role of the handler is injected first\<close>

definition wrappedProcessTask :: "string \<Rightarrow> string \<Rightarrow> (ctx \<Rightarrow> unit M) \<Rightarrow> ctx \<Rightarrow> unit M" where
  "wrappedProcessTask newid role process ctx =
     bindC (liftC (InjectInternalUserData newid ctx role)) process"

text \<open>\<open>TenantFanOut\<close>: the context in which a child task processes its tenant\<close>

definition TenantFanOut :: "string \<Rightarrow> TaskPayload \<Rightarrow> (ctx \<Rightarrow> unit M) \<Rightarrow> ctx \<Rightarrow> unit M" where
  "TenantFanOut newid payload f ctx =
     bindC (liftC (InjectInternalUserData newid ctx ''INTERNAL_TASK_PROCESSING'')) (\<lambda>ctx.
     f (CreateTenantContext ctx (tp_TenantID payload)))"

definition ChildTask :: "env \<Rightarrow> string \<Rightarrow> TenantTaskHandler \<Rightarrow> TaskPayload \<Rightarrow> ctx \<Rightarrow> unit M" where
  "ChildTask env newid h payload ctx =
     wrappedProcessTask newid (Role h) (TenantFanOut newid payload (ProcessTask env h)) ctx"

definition FanOutTask :: "env \<Rightarrow> string \<Rightarrow> unit M" where
  "FanOutTask env taskType = bindC tick_of (\<lambda>n. case queue_Enqueue env n of
       Some m \<Rightarrow> throwC [E ''async.ErrEnqueueingTask'', Msg m]
     | None \<Rightarrow> logCall (CallEnqueue (taskType @ '':child'') uuid_Nil))"

text \<open>\<open>List\<close> and \<open>Count\<close> on the shared tenant table, which need no permission\<close>

definition List_tenants :: "env \<Rightarrow> (Tenant \<Rightarrow> bool) \<Rightarrow> int \<Rightarrow> int \<Rightarrow> Tenant list M" where
  "List_tenants env query limit offset = bindC tick_of (\<lambda>n. case db_fault env n of
       Some m \<Rightarrow> throwC [Msg m]
     | None \<Rightarrow> getC (\<lambda>w. applyPagination limit offset (filter query (tenants w))))"

definition Count_tenants :: "env \<Rightarrow> (Tenant \<Rightarrow> bool) \<Rightarrow> int M" where
  "Count_tenants env query = bindC tick_of (\<lambda>n. case db_fault env n of
       Some m \<Rightarrow> throwC [E ''repo.ErrGetResource'', Msg m]
     | None \<Rightarrow> getC (\<lambda>w. int (length (filter query (tenants w)))))"

text \<open>\<open>ProcessInBatch\<close> over tenants\<close>

fun tenantLoop :: "nat \<Rightarrow> env \<Rightarrow> (Tenant \<Rightarrow> bool) \<Rightarrow> (Tenant list \<Rightarrow> unit M) \<Rightarrow> int \<Rightarrow> unit M" where
  "tenantLoop 0 env query f offset = throwC [Msg ''out of fuel'']"
| "tenantLoop (Suc fuel) env query f offset =
     bindC (List_tenants env query DefaultLimit offset) (\<lambda>items.
     bindC (f items) (\<lambda>_.
     if items = [] then returnC ()
     else bindC (Count_tenants env query) (\<lambda>count.
       if offset + DefaultLimit \<ge> count then returnC ()
       else tenantLoop fuel env query f (offset + DefaultLimit))))"

text \<open>\<open>tenantIDs\<close> is the list of the payload, empty for all tenants\<close>

definition ProcessTenantsInBatch ::
  "env \<Rightarrow> string \<Rightarrow> string option \<Rightarrow> (Tenant \<Rightarrow> bool) \<Rightarrow> string list \<Rightarrow> (ctx \<Rightarrow> unit M) \<Rightarrow> ctx \<Rightarrow> unit M" where
  "ProcessTenantsInBatch env newid fanOut tenantQuery tenantIDs processTenant ctx =
     bindC (liftC (InjectInternalUserData newid ctx ''INTERNAL_TASK_PROCESSING'')) (\<lambda>ctx.
     bindC (getC (\<lambda>w. length (tenants w) + 2)) (\<lambda>fuel.
     tenantLoop fuel env (\<lambda>t. tenantQuery t \<and> (tenantIDs = [] \<or> ten_ID t \<in> set tenantIDs))
       (\<lambda>items. bindC (forC items (\<lambda>tenant.
          let ctx = CreateTenantContext ctx (ten_ID tenant) in
          case fanOut of
            None \<Rightarrow> onlyLogged (processTenant ctx)
          | Some taskType \<Rightarrow> FanOutTask env taskType)) (\<lambda>_. returnC ())) 0))"

text \<open>the handler registered for a tenant task without fan-out\<close>

definition RunTenantTask :: "env \<Rightarrow> string \<Rightarrow> TenantTaskHandler \<Rightarrow> string list \<Rightarrow> ctx \<Rightarrow> unit M" where
  "RunTenantTask env newid h tenantIDs ctx = ProcessTenantsInBatch env newid None (\<lambda>_. True) tenantIDs
     (wrappedProcessTask newid (Role h) (ProcessTask env h)) ctx"

end
