(* ===== verification/Execution.thy ===== *)
theory Execution
  imports Key_Laws Lifecycle_Laws Key_Config_Laws Group_Manager Api_Errors Job_Handlers Async_Tasks
begin

text \<open>
  Execution of the model by the simplifier: the collection \<open>exec\<close> holds the definitions of the operations,
  and \<open>exec_cong\<close> the rules that keep the simplifier from entering a continuation before its computation
  has run. The examples are evaluated with both.
\<close>

named_theorems exec
named_theorems exec_cong

section \<open>Evaluation order\<close>

lemma bindC_weak [exec_cong]: "bindC m f = bindC m f"
  by simp

lemma tryC_weak [exec_cong]: "tryC m f = tryC m f"
  by simp

lemma wrapC_weak [exec_cong]: "wrapC e m = wrapC e m"
  by simp

lemma onlyLogged_weak [exec_cong]: "onlyLogged m = onlyLogged m"
  by simp

lemma catchC_weak [exec_cong]: "catchC m f = catchC m f"
  by simp

lemma Transaction_weak [exec_cong]: "Transaction env ctx f = Transaction env ctx f"
  by simp

lemma inTx_weak [exec_cong]: "inTx env ctx f = inTx env ctx f"
  by simp

lemma asInternal_weak [exec_cong]: "asInternal env ctx r f = asInternal env ctx r f"
  by simp

lemma guarded_weak [exec_cong]: "guarded ctx r z f = guarded ctx r z f"
  by simp

lemma forC_weak [exec_cong]: "xs = xs' \<Longrightarrow> forC xs f = forC xs' f"
  by simp

lemma foldC_weak [exec_cong]: "xs = xs' \<Longrightarrow> acc = acc' \<Longrightarrow> foldC xs acc f = foldC xs' acc' f"
  by simp

lemma batchLoop_weak [exec_cong]: "n = n' \<Longrightarrow> off = off' \<Longrightarrow> le = le' \<Longrightarrow> batchLoop n env ctx T joins q b opts f off le = batchLoop n' env ctx T joins q b opts f off' le'"
  by simp

lemma batchFold_weak [exec_cong]: "n = n' \<Longrightarrow> off = off' \<Longrightarrow> acc = acc' \<Longrightarrow> batchFold n env ctx T joins q b f off acc = batchFold n' env ctx T joins q b f off' acc'"
  by simp

lemma Let_weak [exec_cong]: "x = x' \<Longrightarrow> Let x f = Let x' f"
  by simp

lemma tenantLoop_weak [exec_cong]: "n = n' \<Longrightarrow> off = off' \<Longrightarrow> tenantLoop n env q f off = tenantLoop n' env q f off'"
  by simp

lemma ifAbsent_weak [exec_cong]: "ifAbsent m = ifAbsent m"
  by simp

section \<open>Definitions\<close>

lemmas combinator_exec [exec] = bindC_def Let_def ex_bool_eq all_bool_eq table_defs internal_allowed_role internal_policy_def

lemma attempts_exec [exec]: "createKeyRetryAttempts = Suc (Suc (Suc (Suc (Suc 0))))"
  by (simp add: createKeyRetryAttempts_def)

section \<open>Permissions\<close>

text \<open>the decisions of the roles the examples use, by resource\<close>

lemma granted_exec [exec]:
  "granted [] r a \<longleftrightarrow> False"
  "granted ((n, rs) # ps) r a \<longleftrightarrow> list_ex (\<lambda>(r', as). r' = r \<and> list_ex (\<lambda>a'. a' = a) as) rs \<or> granted ps r a"
  by (auto simp: granted_def)

lemma keyAdmin_repo_granted [exec]:
  "granted keyAdmin_repo RepoResourceTypeCertificate a \<longleftrightarrow> True"
  "granted keyAdmin_repo RepoResourceTypeEvent a \<longleftrightarrow> True"
  "granted keyAdmin_repo RepoResourceTypeGroup a \<longleftrightarrow> a \<in> {RepoActionList, RepoActionFirst, RepoActionCount}"
  "granted keyAdmin_repo RepoResourceTypeImportparam a \<longleftrightarrow> True"
  "granted keyAdmin_repo RepoResourceTypeKey a \<longleftrightarrow> True"
  "granted keyAdmin_repo RepoResourceTypeKeyconfiguration a \<longleftrightarrow> True"
  "granted keyAdmin_repo RepoResourceTypeKeystore a \<longleftrightarrow> True"
  "granted keyAdmin_repo RepoResourceTypeKeyversion a \<longleftrightarrow> True"
  "granted keyAdmin_repo RepoResourceTypeKeyLabel a \<longleftrightarrow> True"
  "granted keyAdmin_repo RepoResourceTypeSystem a \<longleftrightarrow> True"
  "granted keyAdmin_repo RepoResourceTypeSystemProperty a \<longleftrightarrow> True"
  "granted keyAdmin_repo RepoResourceTypeTag a \<longleftrightarrow> True"
  "granted keyAdmin_repo RepoResourceTypeTenant a \<longleftrightarrow> a \<in> {RepoActionList, RepoActionFirst, RepoActionCount}"
  "granted keyAdmin_repo RepoResourceTypeTenantconfig a \<longleftrightarrow> a \<in> {RepoActionList, RepoActionFirst, RepoActionCount, RepoActionCreate, RepoActionUpdate}"
  "granted keyAdmin_repo RepoResourceTypeWorkflow a \<longleftrightarrow> True"
  "granted keyAdmin_repo RepoResourceTypeWorkflowApprover a \<longleftrightarrow> True"
  by (cases a; simp add: granted_def keyAdmin_repo_def)+

lemma tenantAdmin_repo_granted [exec]:
  "granted tenantAdmin_repo RepoResourceTypeCertificate a \<longleftrightarrow> False"
  "granted tenantAdmin_repo RepoResourceTypeEvent a \<longleftrightarrow> False"
  "granted tenantAdmin_repo RepoResourceTypeGroup a \<longleftrightarrow> True"
  "granted tenantAdmin_repo RepoResourceTypeImportparam a \<longleftrightarrow> False"
  "granted tenantAdmin_repo RepoResourceTypeKey a \<longleftrightarrow> False"
  "granted tenantAdmin_repo RepoResourceTypeKeyconfiguration a \<longleftrightarrow> a \<in> {RepoActionFirst}"
  "granted tenantAdmin_repo RepoResourceTypeKeystore a \<longleftrightarrow> False"
  "granted tenantAdmin_repo RepoResourceTypeKeyversion a \<longleftrightarrow> False"
  "granted tenantAdmin_repo RepoResourceTypeKeyLabel a \<longleftrightarrow> False"
  "granted tenantAdmin_repo RepoResourceTypeSystem a \<longleftrightarrow> False"
  "granted tenantAdmin_repo RepoResourceTypeSystemProperty a \<longleftrightarrow> False"
  "granted tenantAdmin_repo RepoResourceTypeTag a \<longleftrightarrow> False"
  "granted tenantAdmin_repo RepoResourceTypeTenant a \<longleftrightarrow> True"
  "granted tenantAdmin_repo RepoResourceTypeTenantconfig a \<longleftrightarrow> True"
  "granted tenantAdmin_repo RepoResourceTypeWorkflow a \<longleftrightarrow> False"
  "granted tenantAdmin_repo RepoResourceTypeWorkflowApprover a \<longleftrightarrow> False"
  by (cases a; simp add: granted_def tenantAdmin_repo_def)+

lemma internalBusinessAuthz_repo_granted [exec]:
  "granted internalBusinessAuthz_repo RepoResourceTypeCertificate a \<longleftrightarrow> False"
  "granted internalBusinessAuthz_repo RepoResourceTypeEvent a \<longleftrightarrow> False"
  "granted internalBusinessAuthz_repo RepoResourceTypeGroup a \<longleftrightarrow> a \<in> {RepoActionList, RepoActionCount}"
  "granted internalBusinessAuthz_repo RepoResourceTypeImportparam a \<longleftrightarrow> False"
  "granted internalBusinessAuthz_repo RepoResourceTypeKey a \<longleftrightarrow> False"
  "granted internalBusinessAuthz_repo RepoResourceTypeKeyconfiguration a \<longleftrightarrow> a \<in> {RepoActionCount}"
  "granted internalBusinessAuthz_repo RepoResourceTypeKeystore a \<longleftrightarrow> False"
  "granted internalBusinessAuthz_repo RepoResourceTypeKeyversion a \<longleftrightarrow> False"
  "granted internalBusinessAuthz_repo RepoResourceTypeKeyLabel a \<longleftrightarrow> False"
  "granted internalBusinessAuthz_repo RepoResourceTypeSystem a \<longleftrightarrow> False"
  "granted internalBusinessAuthz_repo RepoResourceTypeSystemProperty a \<longleftrightarrow> False"
  "granted internalBusinessAuthz_repo RepoResourceTypeTag a \<longleftrightarrow> False"
  "granted internalBusinessAuthz_repo RepoResourceTypeTenant a \<longleftrightarrow> False"
  "granted internalBusinessAuthz_repo RepoResourceTypeTenantconfig a \<longleftrightarrow> False"
  "granted internalBusinessAuthz_repo RepoResourceTypeWorkflow a \<longleftrightarrow> False"
  "granted internalBusinessAuthz_repo RepoResourceTypeWorkflowApprover a \<longleftrightarrow> False"
  by (cases a; simp add: granted_def internalBusinessAuthz_repo_def)+

lemma repoHandler_exec [exec]:
  "isValidResourceAction (repoHandler ks) r a = None" "h_internal (repoHandler ks) = internal_allowed"
  "h_business (repoHandler ks) = ks"
  by (cases r; cases a; simp add: isValidResourceAction_def repoHandler_def RepoResourceTypeActions_def repoActionList_def)
    (simp_all add: repoHandler_def)

lemmas prelude_exec [exec] =
  errs_Is_def Wrap_def Wrapf_def IsAnyError_def returnC_def throwC_def wrapC_def tryC_def getC_def modifyC_def
  unlessC_def liftC_def aset_def row_upd_def sort_by_def ToUpper_def ToLower_def upsert_def

lemmas world_exec [exec] =
  WorkflowNonTerminalStates_def WorkflowTerminalStates_def tick_of_def logCall_def timeNow_def newUUID_def

lemmas cmk_context_exec [exec] =
  BusinessUser_def InternalUser_def Background_def nonempty_value_def ExtractTenantID_def CreateTenantContext_def
  InjectRequestID_def GetRequestID_def ExtractUserType_def InjectBusinessUserData_def ExtractBusinessUserData_def
  ExtractBusinessUserDataIdentifier_def ExtractBusinessUserDataGroups_def ExtractBusinessUserDataAuthContextField_def
  ExtractBusinessUserDataIssuer_def ExtractBusinessUserDataAuthContext_def InjectInternalUserData_def
  ExtractInternalRole_def ExtractUserIdentifier_def BusinessToInternalContext_def

lemmas authz_exec [exec] =
  KeyAdminRole_def TenantAdminRole_def TenantAuditorRole_def APIPolicies_def RepoBusinessPolicies_def
  internalTenantCLI_repo_def internalEventReconciler_repo_def internalTenantProvisioning_repo_def
  internalTaskProcessing_repo_def internalTaskCertRotation_repo_def internalTaskWorkflowApprovers_repo_def
  internalTaskHYOKSync_repo_def internalTaskPendingStateSync_repo_def internalTaskKeystorePool_repo_def
  internalTaskSystemRefresh_repo_def internalTaskTenantRefresh_repo_def internalTaskWorkflowCleanup_repo_def
  internalTaskWorkflowExpiration_repo_def repoActionList_def APIResourceTypeActions_def AllowListByAPI_def
  RestrictionsByAPI_def grants_def NewInternalUserAuthzData_def validBusinessRequest_def validInternalRequest_def
  IsBusinessUserAllowed_def IsInternalUserAllowed_def NewRequest_def checkBusinessUserAuthz_def
  checkInternalUserAuthz_def CheckAuthz_def CheckInternalUserRole_def CheckInternalUserRoles_def apiHandler_def

lemmas repo_exec [exec] =
  T_workflows_def T_approvers_def T_approver_groups_def T_keys_def T_key_versions_def T_key_labels_def
  T_key_configurations_def T_systems_def T_groups_def T_events_def T_import_params_def T_system_properties_def
  T_tenant_configs_def T_tags_def group_refs_def key_refs_def system_refs_def System_AfterSave_def workflow_refs_def
  getSchemaFromCtx_def txStmt_def ownStmt_def WithTenant_def DefaultLimit_def applyPagination_def sql_Create_def
  sql_Count_def sql_List_by_def sql_Delete_def sql_First_def sql_Patch_def sql_Patch_after_def sql_Set_def
  sql_First_full_def checkResourceAuthZ_def checkQueryAuthZ_def Create_def Count_join_def List_join_def Delete_def
  First_join_def Patch_def Patch_after_def First_full_def Set_by_def rollback_def inTx_def Transaction_def

lemmas tenant_config_exec [exec] =
  First_tenant_def GetTenantByID_def GetTenant_def minimumRetentionPeriodDays_def applyDeploymentConfigOverrides_def
  getDefaultWorkflowConfig_def SetWorkflowConfig_def GetWorkflowConfig_def mergeWorkflowConfig_def
  UpdateWorkflowConfig_def

lemmas user_access_exec [exec] =
  asInternal_def GetRoleFromIAM_def roleBypassesGroupFilter_def ensureBusinessUserOpsAllowed_def guarded_def
  NeedsGroupFiltering_def isCreateKeyconfig_def administers_def hasKeyConfigAccess_def sendUnauthorizedAccessAuditLog_def
  requireKeyConfigAccess_def HasKeyAccess_def HasKeyConfigAccess_def HasSystemAccess_def GetBusinessUserInfo_def
  HasTenantAccess_def

lemmas group_manager_exec [exec] =
  TenantAdminGroup_def TenantAuditorGroup_def validTextChar_def ValidTextPattern_def Group_BeforeSave_def
  NewIAMIdentifier_def Group_merge_def isMandatoryGroup_def isReservedName_def isSupportedRole_def
  applyIAMGroupFilter_def GetGroupByID_def CreateGroup_def DeleteGroupByID_def patchGroupFields_def UpdateGroup_def
  createDefaultGroup_def CreateDefaultGroups_def BuildIAMIdentifier_def GetIdentityManagementPlugin_def idmErr_def
  idmGetGroup_def idmListGroupUsers_def idmMembers_def CheckIAMExistenceOfGroups_def group_valid_def

lemmas lifecycle_exec [exec] =
  convertEvent_def lifecycle_events_def NewLifecycle_def Transitions_def NewInvalidEventActorError_def
  NewTransitionError_def NewInsufficientApproverCountError_def NewInsufficientApproversError_def
  NewApproverNoLongerEligibleError_def fsm_Can_def fsm_Event_def CanTransition_def CanExpire_def noVotes_def
  applyCurrentVote_def countExistingVote_def calculateVoteCounts_def shouldTransition_def filterEligibleApprovers_def
  CheckInsufficientApprovers_def GetAllApprovers_def checkVotingScore_def GetApprovalSummary_def
  validateUserIsInitiator_def validateActorGroupMembership_def validateUserIsApprover_def validateInternalTransition_def
  raiseC_def ValidateActor_def updateKeyState_def deleteKey_def deleteKeyConfiguration_def parseParam_def
  updatePrimaryKey_def systemLinkOrSwitch_def systemUnlink_def executeWorkflowAction_def getNumberOfApprovers_def
  transitionPrecheck_def transitionExecute_def Workflow_merge_def DefaultExpiryPeriodDays_def AddDays_def
  Workflow_BeforeSave_def Workflow_Patch_def saveState_def ApplyTransition_def ValidateAndApplyTransition_def Expire_def
  getInitiatorAvailableActions_def getApproverAvailableActions_def AvailableBusinessUserTransitions_def

lemmas batch_exec [exec] =
  finish_def ProcessInBatchWithOptions_def ProcessInBatch_def ProcessInBatchFold_def ListAndCount_by_def
  HasConnectedKeys_def HasConnectedSystems_def GetKeyConfigPrimaryKey_def IsPrimaryKey_def matching_def

lemmas event_factory_exec [exec] =
  CreateJob_def SendEvent_def GetLastEvent_def createKeyEventJob_def KeyEnable_def KeyDisable_def KeyDetach_def
  createSystemEventJob_def jobData_def storeEvent_def setProcessing_def handleSystemStatus_def SystemLink_def
  SystemUnlink_def SystemUnlinkDecommission_def SystemSwitch_def SystemSwitchNewPrimaryKey_def SystemKeyRotate_def
  event_of_def

lemmas key_config_exec [exec] =
  DeleteTags_def SetTags_def GetTags_def TrimSpace_empty_def CanConnectSystems_def applyIAMGroupFilter_kc_def
  GetKeyConfigurations_def PostKeyConfigurations_def DeleteKeyConfigurationByID_def GetKeyConfigurationByID_def
  validateKeyForPrimarySwitch_def Event_merge_def event_keyIDTo_def retarget_def updatePrimaryKeySystemEvents_def
  switchSystems_def validatedKey_def handleUpdatePrimaryKey_def KeyConfiguration_merge_def KeyConfiguration_Patch_def
  patchedFields_def applyConfigPatch_def UpdateKeyConfigurationByID_def

lemmas key_versions_exec [exec] =
  newest_first_def GetKeyVersions_def GetLatestVersion_def newKeyVersion_def CreateVersion_def upsertVersion_def
  UpdateVersions_def DeleteLabel_def upsertLabel_def CreateOrUpdateLabel_def GetKeyLabels_def GetOptionalString_def
  GetString_def extractCommonFields_def buildProviderParams_def BuildImportParamsFromAPI_def IsExpired_def

lemmas key_manager_exec [exec] =
  key_row_def Key_merge_def PatchKey_def SaveKey_def InsertKey_def UnavailableKeyStates_def IsUnavailableKeyState_def
  deref_def onlyLogged_def sendCreateAuditLog_def sendDeleteAuditLog_def sendDisableAuditLog_def sendEnableAuditLog_def
  sendRotateAuditLog_def ifAbsent_def sendEnableEvent_def sendDisableEvent_def sendDetachEvent_def failing_def
  GetOrInitProvider_def isBYOKProvisioningNeeded_def pluginCall_def pluginCommand_def getKeyFromProvider_def
  getKeyVersionsFromProvider_def reenableProviderKey_def disableProviderKey_def deleteProviderKey_def
  createManagedProviderKey_def recoverExistingProviderKey_def createOrRecoverProviderKey_def getCryptoCertificates_def
  withSubject_def addCertificateSubjectToCryptoData_def newCryptoRegion_def isManagementDetailsUpdate_def
  NewPluginProviderTransformer_def ValidateKeyAccessData_def maps_Equal_def maps_Copy_def patchRegion_def
  handleCryptoDetailsUpdate_def handleSystemsOnKeyRotation_def handleNewKeyVersion_def syncKeyVersions_def
  handleKeyStateTransition_def getKeyStateOnSyncError_def observeHYOKKey_def syncHYOKKeyState_def SyncHYOKKeys_def
  setEditableStatus_def Get_def GetKeys_def validateKeyCreation_def setPrimaryIfFirstKey_def enqueuePendingStateSync_def
  createPendingBYOKKeyIfNeeded_def registerHYOKKey_def createOrRegisterProviderKey_def persistKeyTx_def
  persistCreatedKey_def Create_key_def copyFieldsToModelKey_def enableKey_def disableKey_def applyKeyPatch_def
  UpdateKey_def deleteKeyTx_def Delete_key_def Detach_def validateBYOKKey_def fetchImportParams_def GetImportParams_def
  importProviderKeyMaterial_def importKeyTx_def ImportKeyMaterial_def transitionPendingKeyToError_def
  initProviderForPendingKey_def pendingCreationTimeout_def pendingKeyTx_def syncPendingCreationKey_def
  SyncPendingCreationKey_def

lemmas system_manager_exec [exec] =
  configName_def joinSystem_def T_join_systems_def newView_def collectRow_def ListAndCountSystemWithProperties_def
  GetSystemByIDWithProperties_def GetSystemByID_def SystemFilter_GetPagination_def SystemFilter_GetQuery_def
  GetAllSystems_def GetFilterOptions_def SystemType_String_def GetFilters_def UpdateSystemProperties_def System_merge_def
  PatchSystem_def updateSystem_def UpdateSystems_def UpdateSystemByExternalID_def defaultListSystemsLimit_def
  attempts_def systemTypeStringMap_def mapRegistrySystemToCmkSystem_def MapRegistrySystemsToCmkSystems_def
  GetSystemsWithFilter_def createSystemIfNotExists_def registryKey_def removeStale_def removeSystemsNotInRegistry_def
  refreshFrom_def RefreshSystemsData_def UnmapSystemFromRegistry_def IsNotNilUUID_def uuidPtr_String_def selectEvent_def
  linkTx_def LinkSystemAction_def SystemActionDecommission_def KeyActionSetPrimary_def sendSystemUnlinkEvent_def
  unlinkTx_def UnlinkSystemAction_def GetSystemJobData_def hasKeyAdminAccess_def determineRecoveryPermissions_def
  GetRecoveryActions_def cancelSystemAction_def retryTx_def retrySystemAction_def SendRecoveryActions_def

lemmas job_handlers_exec [exec] =
  errorfC_def First_id_def getSystemByID_def getKeyByKeyID_def getTenantByID_def saveSystem_def saveKey_def
  getNewestKeyVersionNativeID_def unmarshalKeyJobData_def unmarshalSystemJobData_def mergeOrbitalTaskErrors_def
  sendAuditEvent_def DefaultError_def IsDefaultError_def OrbitalError_String_def strings_Cut_def isAZ_def
  ParseOrbitalError_def IsVersionMismatchError_def errorMapper_def GetOrbitalError_def ExtendedUpdateSystemL1KeyClaim_def
  ExtendedUpdateSystemStatus_def sendL1KeyClaim_def updateEventError_def cleanUpEvent_def handleSystemJobConfirm_def
  failSystem_def terminateFailedSystemJob_def terminateCanceledSystemJob_def finishSystem_def
  SystemLink_HandleJobDoneEvent_def SystemUnlink_HandleJobDoneEvent_def SystemSwitch_HandleJobDoneEvent_def
  Decommission_terminate_def Decommission_HandleJobDoneEvent_def lockSystemInRegistry_def
  Decommission_HandleJobFailedEvent_def Decommission_HandleJobCanceledEvent_def KeyRotate_HandleJobDoneEvent_def
  KeyRotate_HandleJobFailedEvent_def KeyRotate_HandleJobCanceledEvent_def KeyDetach_HandleJobConfirm_def
  KeyDetach_terminate_def KeyDetach_HandleJobDoneEvent_def KeyDetach_HandleJobFailedEvent_def
  KeyDetach_HandleJobCanceledEvent_def loadTenantAndSystem_def validateSystemRegionTarget_def selectKeyForTask_def
  setVersionIdentifier_def GetCryptoAccessData_def fetchAndPopulateVersionInfo_def getCryptoAccessDataFromConfig_def
  getKeyAccessMetadata_def getKeyAndAccessMetadata_def SystemType_text_def buildSystemActionTaskData_def
  System_getTaskInfo_def SystemTaskInfoResolver_Resolve_def collectRegions_def getRegionsByKeyID_def Key_getTaskInfo_def
  KeyTaskInfoResolver_Resolve_def GetHandlerByJobType_def ResolveTasks_def resolveTasks_def confirmJob_def
  jobDoneFunc_def jobFailedFunc_def jobCanceledFunc_def

lemmas workflow_manager_exec [exec] =
  catchC_def workflow_actions_def WorkflowConfig_get_def DefaultMinimumApprovalCount_def getMinimumApprovals_def
  IsWorkflowRequired_def getKeyConfigFromKey_def currentKeyConfig_def targetKeyConfig_def getKeyConfigFromSystem_def
  getKeyConfigurationsFromArtifact_def AdminGroup_def addNew_def getApproversAndGroupsFromKeyConfigs_def
  T_join_groups_def getApproverGroupsFromLegacyField_def GetWorkflowApproverGroups_def queryGroupMembersFromIAM_def
  getEligibleUserIDsForWorkflow_def getWorkflowLifecycleWithEligibility_def getWorkflowLifecycle_def
  checkInsufficientApprovers_def checkInitiatorIneligible_def checkWorkflowEligibility_def WorkflowState_String_def
  WorkflowArtifactType_String_def WorkflowActionType_String_def enumParse_def parseState_def parseArtifactType_def
  parseActionType_def validateFilterEnums_def WorkflowFilter_GetQuery_def newestFirst_def
  WorkflowFilter_GetPagination_def filterByInitiatorOrApprover_def filterByApproverGroup_def getWorkflows_def
  GetWorkflows_def GetWorkflowByID_def ListWorkflowApprovers_def GetWorkflowAvailableTransitions_def
  WorkflowCanExpire_def GetWorkflowApprovalSummary_def wfStatus_def isSupportedWorkflow_def isKeyStateChange_def
  isPrimaryKeySwitch_def isSystemConnect_def firstKey_def validateConnect_def validatePrimarySwitch_def
  validateKeyState_def validateWorkflow_def checkOngoingWorkflowForArtifact_def validateApproverCount_def
  checkWorkflow_def isInvalidAction_def transformCheckWorkflowError_def checkPermissionToCreateWorkflow_def
  CheckWorkflow_def getWorkflowSystemArtifactName_def populateArtifact_def populateParametersResource_def
  markArtifact_def handleNewWorkflow_def HandleTerminalWorkflow_def createAutoAssignApproversAsyncTask_def
  insertWorkflow_def createTx_def CreateWorkflow_def GetUserName_def GetApproverUserNames_def
  GetNotificationRecipients_def IdentityManagement_def createWorkflowTransitionNotificationTask_def addApproverRow_def
  addGroupRow_def assignTx_def addApproversAndGroupAssociations_def firstWorkflow_def AutoAssignApprovers_def
  resolveUserGroupIDs_def resolveActorApproverGroupIDs_def voting_def fetchEligibilityForVote_def
  checkApproverEligibility_def fetchAndValidateApprover_def updateApproverDecision_def recordTransitionInDB_def
  attemptAutoReject_def transitionTx_def applyTransition_def firstWithApprovers_def TransitionWorkflow_def expireTx_def
  ExpireWorkflow_def deleteWorkflows_def CleanupTerminalWorkflows_def

lemmas async_tasks_exec [exec] =
  NewTaskPayload_def InjectContext_def putWorkflowInFailedState_def WorkflowProcessor_ProcessTask_def
  PendingStateSync_ProcessTask_def HYOKSync_ProcessTask_def isConnectionError_def SystemsRefresher_ProcessTask_def
  WorkflowCleaner_ProcessTask_def noFilter_def expireWorkflow_def expireIfDue_def WorkflowExpiry_ProcessTask_def Role_def
  ProcessTask_def wrappedProcessTask_def TenantFanOut_def ChildTask_def FanOutTask_def List_tenants_def Count_tenants_def
  ProcessTenantsInBatch_def RunTenantTask_def

end
