(* ===== verification/Example.thy ===== *)
theory Example
  imports Execution
begin

text \<open>
  A small deployment on which the properties of the development are instantiated: a tenant
  with an administrator, an auditor and a key-administrator group, one key configuration with
  an enabled primary key, a connected system, and a workflow waiting for approval. The
  environment answers every call, has no faults, and implements the state-machine library
  by lookup in the table of events.
\<close>

definition ex_plugin :: "nat \<Rightarrow> string" where
  "ex_plugin n = replicate n CHR ''u''"

definition ex_keys :: "nat \<Rightarrow> (string \<times> string) \<times> RepoResourceType \<times> RepoAction \<Rightarrow> bool" where
  "ex_keys _ k = (case k of ((tenant, grp), r, a) \<Rightarrow> tenant = ''t1'' \<and>
     granted (if grp = ''kadm'' then keyAdmin_repo else if grp = ''adm'' then tenantAdmin_repo
              else if grp = ''aud'' then tenantAuditor_repo else []) r a)"

definition ex_env :: env where
  "ex_env = \<lparr>cfg_Workflow = None, db_fault = (\<lambda>_. None), authz_keys = ex_keys,
     clock = (\<lambda>n. 1000 + int n), fresh_uuid = (\<lambda>n. 1000 + n),
     uuid_Parse = (\<lambda>s. if list_all (\<lambda>c. c = CHR ''u'') s then Some (length s) else None),
     uuid_String = ex_plugin, collate = (\<lambda>a b. length a \<le> length b), fsm_dest = fsm_find,
     idm_plugin = None, idm_GetGroup = (\<lambda>_ g. Inr g),
     idm_ListGroupUsers = (\<lambda>_ _. Inr (map (\<lambda>u. \<lparr>usr_ID = u, usr_Name = u, usr_Email = u\<rparr>) [''ann'', ''bob'', ''cat'', ''dan''])),
     idm_GetUserName = (\<lambda>_ u. Inr u), async_client = True, queue_Enqueue = (\<lambda>_. None),
     notify_New = None, notify_CreateTask = (\<lambda>_ _ _ _. Inr True),
     orbital_PrepareJob = (\<lambda>_ t d x. Inr \<lparr>job_ExternalID = x, job_Type = t, job_Data = d,
       job_Status = JobStatusCreated, job_ErrorMessage = []\<rparr>),
     audit_Send = (\<lambda>_. None), prov_init = (\<lambda>_ _. None), ks_NeedsProvisioning = (\<lambda>_. Inr False),
     cfg_CryptoCerts = Inr (\<lambda>_. []), km_plugin = (\<lambda>_. True),
     prov_CreateKey = (\<lambda>_ _. Inr \<lparr>pk_KeyID = ''n'', pk_Status = KeyStatePENDINGIMPORT, pk_Algorithm = ''AES256''\<rparr>),
     prov_GetKey = (\<lambda>_ _ i. Inr \<lparr>pk_KeyID = i, pk_Status = KeyStateENABLED, pk_Algorithm = ''AES256''\<rparr>),
     prov_GetKeyVersions = (\<lambda>_ _ _. Inr [\<lparr>pv_ID = ''v1'', pv_CreationTime = Some 5, pv_Status = []\<rparr>]),
     prov_Command = (\<lambda>_ _ _. None), prov_GetImportParameters = (\<lambda>_ _ _. Inr Map.empty),
     prov_ValidateKeyAccessData = (\<lambda>_ _ _ _. Inr (True, [])), 
     registry_client = True, registry_ListSystems = (\<lambda>_ _ _ _. Inr ([], [])), registry_UnmapSystem = (\<lambda>_ _ _ _. None),
     registry_UpdateL1KeyClaim = (\<lambda>_ _ _. Inr True), registry_UpdateSystemStatus = (\<lambda>_ _ _ _. Inr True),
     orbital_FailedTasks = (\<lambda>_ _. Inr []), cfg_Targets = [''r''], cfg_Region = ''r'',
     prov_TransformCryptoAccessData = (\<lambda>_ _ _ d. Inr (map (\<lambda>(r, _). (r, ''meta'')) d)),
     ks_CryptoAccessData = (\<lambda>_. Inr [(''r'', \<lparr>rg_CertificateSubject = None, rg_AdditionalProperties = []\<rparr>)]),
     sis_plugin = True, sis_GetSystemInfo = (\<lambda>_ _ _. Inr None), cfg_OptionalProperties = [],
     time_Parse = (\<lambda>_. None), base64_ok = (\<lambda>_. True)\<rparr>"

definition ex_key :: Key where
  "ex_key = \<lparr>key_ID = 21, key_KeyConfigurationID = 11, key_Name = ''k'', key_KeyType = KeyTypeBYOK,
     key_Description = [], key_Algorithm = ''AES256'', key_Provider = ''p'', key_Region = ''r'',
     key_State = KeyStateENABLED, key_NativeID = Some ''n'', key_ManagementAccessData = None,
     key_CryptoAccessData = None, key_UnderWorkflow = True, key_ErrorDetail = None,
     key_CreatedAt = 1, key_IsPrimary = False, key_EditableRegions = []\<rparr>"

definition ex_wf :: Workflow where
  "ex_wf = \<lparr>wf_ID = 31, wf_State = WorkflowStateWaitApproval, wf_InitiatorID = ''ann'',
     wf_ApproverGroupIDs = Some [3], wf_ArtifactType = WorkflowArtifactTypeKey, wf_ArtifactID = 21,
     wf_ArtifactName = Some ''k'', wf_ActionType = WorkflowActionTypeDelete, wf_Parameters = [],
     wf_ParametersResourceName = None, wf_ParametersResourceType = None, wf_FailureReason = [],
     wf_ExpiryDate = Some 5000, wf_MinimumApprovalCount = 2, wf_CreatedAt = 1\<rparr>"

definition ex_system :: System where
  "ex_system = \<lparr>sys_ID = 41, sys_Identifier = ''s'', sys_Region = ''r'', sys_Type = SystemTypeSYSTEM,
     sys_KeyConfigurationID = Some 11, sys_TargetKeyConfigurationID = None,
     sys_Status = SystemStatusCONNECTED, sys_UnderWorkflow = False\<rparr>"

definition ex_group :: "uuid \<Rightarrow> string \<Rightarrow> string \<Rightarrow> string \<Rightarrow> Group" where
  "ex_group i n role iam = \<lparr>grp_ID = i, grp_Name = n, grp_Description = [], grp_Role = role, grp_IAMIdentifier = iam\<rparr>"

definition ex_schema :: schema where
  "ex_schema = \<lparr>workflows = [ex_wf],
     approvers = map (\<lambda>u. \<lparr>wa_WorkflowID = 31, wa_UserID = u, wa_Approved = (if u = ''bob'' then Some True else None)\<rparr>)
       [''bob'', ''cat'', ''dan''],
     approver_groups = [\<lparr>wag_ID = 32, wag_WorkflowID = 31, wag_GroupID = 3\<rparr>],
     keys = [ex_key], key_versions = [], key_labels = [],
     key_configurations = [\<lparr>kc_ID = 11, kc_Name = ''kc'', kc_Description = [], kc_AdminGroupID = 3,
       kc_CreatorID = ''ann'', kc_PrimaryKeyID = Some 21\<rparr>],
     systems = [ex_system], system_properties = [],
     groups = [ex_group 1 TenantAdminGroup TenantAdminRole ''adm'', ex_group 2 TenantAuditorGroup TenantAuditorRole ''aud'',
       ex_group 3 ''key admins'' KeyAdminRole ''kadm''],
     events = [], import_params = [],
     tenant_configs = [\<lparr>cfg_Enabled = True, cfg_MinimumApprovals = 2, cfg_RetentionPeriodDays = 30,
       cfg_DefaultExpiryPeriodDays = 30, cfg_MaxExpiryPeriodDays = 90\<rparr>], tags = []\<rparr>"

definition ex_world :: world where
  "ex_world = \<lparr>tenants = [\<lparr>ten_ID = ''t1'', ten_SchemaName = ''s1'', ten_Name = ''T'', ten_OwnerType = ''o'', ten_OwnerID = ''1'', ten_IssuerURL = [], ten_Role = ''ROLE_TEST'', ten_Status = ''STATUS_ACTIVE''\<rparr>],
     schemas = (\<lambda>_. ex_schema), aborted = False, tick = 0, calls = []\<rparr>"

definition ex_ctx :: "string \<Rightarrow> string list \<Rightarrow> ctx" where
  "ex_ctx user grps = InjectBusinessUserData (InjectRequestID ''q'' (CreateTenantContext Background ''t1'') [])
     \<lparr>cd_Identifier = user, cd_Groups = grps, cd_AuthContext = Map.empty\<rparr> []"

lemma fsm_ok_ex: "fsm_ok ex_env"
  by (rule fsm_find_ok) (simp add: ex_env_def)

definition ex_lifecycle :: Lifecycle where
  "ex_lifecycle = (NewLifecycle ex_wf ''cat'' 2)\<lparr>l_EligibleApproverIDs := Some [''bob'', ''cat'', ''dan'']\<rparr>"

text \<open>actions that all fail\<close>

definition ex_acts :: actions where
  "ex_acts = \<lparr>act_GetKey = (\<lambda>_ _. throwC []), act_UpdateKeyEnabled = (\<lambda>_ _ _. throwC []),
     act_DeleteKey = (\<lambda>_ _. throwC []), act_DeleteKeyConfigurationByID = (\<lambda>_ _. throwC []),
     act_UpdatePrimaryKeyID = (\<lambda>_ _ _. throwC []), act_LinkSystemAction = (\<lambda>_ _ _. throwC []),
     act_UnlinkSystemAction = (\<lambda>_ _ _. throwC [])\<rparr>"

section \<open>Evaluation\<close>

text \<open>
  The deployment with other data, users of the key-administrator group, and runs that ended without and
  with an error. The selectors of the constants are evaluated one by one, so that the constants stay folded.
\<close>

definition ex_with :: "(schema \<Rightarrow> schema) \<Rightarrow> world" where
  "ex_with f = ex_world\<lparr>schemas := (\<lambda>_. f ex_schema)\<rparr>"

definition ex_kadm :: "string \<Rightarrow> ctx" where
  "ex_kadm user = ex_ctx user [''kadm'']"

lemma ex_kadm_sel [exec]:
  "ctx_Tenant (ex_kadm u) = Some ''t1''" "ctx_RequestID (ex_kadm u) = Some ''q''" "ctx_UserType (ex_kadm u) = Some ''Business''"
  "ctx_BusinessUserData (ex_kadm u) = Some \<lparr>cd_Identifier = u, cd_Groups = [''kadm''], cd_AuthContext = Map.empty\<rparr>"
  "ctx_InternalUserData (ex_kadm u) = None" "ctx_tx (ex_kadm u) = False"
  by (simp_all add: ex_kadm_def ex_ctx_def exec)

definition ex_admin :: ctx where
  "ex_admin = ex_ctx ''tom'' [''adm'']"

lemma ex_admin_sel [exec]:
  "ctx_Tenant ex_admin = Some ''t1''" "ctx_RequestID ex_admin = Some ''q''" "ctx_UserType ex_admin = Some ''Business''"
  "ctx_BusinessUserData ex_admin = Some \<lparr>cd_Identifier = ''tom'', cd_Groups = [''adm''], cd_AuthContext = Map.empty\<rparr>"
  "ctx_InternalUserData ex_admin = None" "ctx_tx ex_admin = False"
  by (simp_all add: ex_admin_def ex_ctx_def exec)

definition ex_task :: "string \<Rightarrow> ctx" where
  "ex_task role = projr (InjectInternalUserData ''q'' (CreateTenantContext Background ''t1'') role)"

lemma ex_task_sel [exec]:
  "ctx_Tenant (ex_task r) = Some ''t1''" "ctx_RequestID (ex_task r) = Some ''q''" "ctx_UserType (ex_task r) = Some ''Internal''"
  "ctx_BusinessUserData (ex_task r) = None" "ctx_InternalUserData (ex_task r) = Some r" "ctx_tx (ex_task r) = False"
  by (simp_all add: ex_task_def exec)

lemma ex_env_sel [exec]:
  "cfg_Workflow ex_env = None"
  "db_fault ex_env = (\<lambda>_. None)"
  "authz_keys ex_env = ex_keys"
  "clock ex_env = (\<lambda>n. 1000 + int n)"
  "fresh_uuid ex_env = (\<lambda>n. 1000 + n)"
  "uuid_Parse ex_env = (\<lambda>s. if list_all (\<lambda>c. c = CHR ''u'') s then Some (length s) else None)"
  "uuid_String ex_env = ex_plugin"
  "collate ex_env = (\<lambda>a b. length a \<le> length b)"
  "fsm_dest ex_env = fsm_find"
  "idm_plugin ex_env = None"
  "idm_GetGroup ex_env = (\<lambda>_ g. Inr g)"
  "idm_ListGroupUsers ex_env = (\<lambda>_ _. Inr (map (\<lambda>u. \<lparr>usr_ID = u, usr_Name = u, usr_Email = u\<rparr>) [''ann'', ''bob'', ''cat'', ''dan'']))"
  "idm_GetUserName ex_env = (\<lambda>_ u. Inr u)"
  "async_client ex_env = True"
  "queue_Enqueue ex_env = (\<lambda>_. None)"
  "notify_New ex_env = None"
  "notify_CreateTask ex_env = (\<lambda>_ _ _ _. Inr True)"
  "orbital_PrepareJob ex_env = (\<lambda>_ t d x. Inr \<lparr>job_ExternalID = x, job_Type = t, job_Data = d, job_Status = JobStatusCreated, job_ErrorMessage = []\<rparr>)"
  "audit_Send ex_env = (\<lambda>_. None)"
  "prov_init ex_env = (\<lambda>_ _. None)"
  "ks_NeedsProvisioning ex_env = (\<lambda>_. Inr False)"
  "cfg_CryptoCerts ex_env = Inr (\<lambda>_. [])"
  "km_plugin ex_env = (\<lambda>_. True)"
  "prov_CreateKey ex_env = (\<lambda>_ _. Inr \<lparr>pk_KeyID = ''n'', pk_Status = KeyStatePENDINGIMPORT, pk_Algorithm = ''AES256''\<rparr>)"
  "prov_GetKey ex_env = (\<lambda>_ _ i. Inr \<lparr>pk_KeyID = i, pk_Status = KeyStateENABLED, pk_Algorithm = ''AES256''\<rparr>)"
  "prov_GetKeyVersions ex_env = (\<lambda>_ _ _. Inr [\<lparr>pv_ID = ''v1'', pv_CreationTime = Some 5, pv_Status = []\<rparr>])"
  "prov_Command ex_env = (\<lambda>_ _ _. None)"
  "prov_GetImportParameters ex_env = (\<lambda>_ _ _. Inr Map.empty)"
  "prov_ValidateKeyAccessData ex_env = (\<lambda>_ _ _ _. Inr (True, []))"
  "registry_client ex_env = True"
  "registry_ListSystems ex_env = (\<lambda>_ _ _ _. Inr ([], []))"
  "registry_UnmapSystem ex_env = (\<lambda>_ _ _ _. None)"
  "registry_UpdateL1KeyClaim ex_env = (\<lambda>_ _ _. Inr True)"
  "registry_UpdateSystemStatus ex_env = (\<lambda>_ _ _ _. Inr True)"
  "orbital_FailedTasks ex_env = (\<lambda>_ _. Inr [])"
  "cfg_Targets ex_env = [''r'']"
  "cfg_Region ex_env = ''r''"
  "prov_TransformCryptoAccessData ex_env = (\<lambda>_ _ _ d. Inr (map (\<lambda>(r, _). (r, ''meta'')) d))"
  "ks_CryptoAccessData ex_env = (\<lambda>_. Inr [(''r'', \<lparr>rg_CertificateSubject = None, rg_AdditionalProperties = []\<rparr>)])"
  "sis_plugin ex_env = True"
  "sis_GetSystemInfo ex_env = (\<lambda>_ _ _. Inr None)"
  "cfg_OptionalProperties ex_env = []"
  "time_Parse ex_env = (\<lambda>_. None)"
  "base64_ok ex_env = (\<lambda>_. True)"
  by (simp_all add: ex_env_def)

lemma ex_key_sel [exec]:
  "key_ID ex_key = 21"
  "key_KeyConfigurationID ex_key = 11"
  "key_Name ex_key = ''k''"
  "key_KeyType ex_key = KeyTypeBYOK"
  "key_Description ex_key = []"
  "key_Algorithm ex_key = ''AES256''"
  "key_Provider ex_key = ''p''"
  "key_Region ex_key = ''r''"
  "key_State ex_key = KeyStateENABLED"
  "key_NativeID ex_key = Some ''n''"
  "key_ManagementAccessData ex_key = None"
  "key_CryptoAccessData ex_key = None"
  "key_UnderWorkflow ex_key = True"
  "key_ErrorDetail ex_key = None"
  "key_CreatedAt ex_key = 1"
  "key_IsPrimary ex_key = False"
  "key_EditableRegions ex_key = []"
  by (simp_all add: ex_key_def)

lemma ex_wf_sel [exec]:
  "wf_ID ex_wf = 31"
  "wf_State ex_wf = WorkflowStateWaitApproval"
  "wf_InitiatorID ex_wf = ''ann''"
  "wf_ApproverGroupIDs ex_wf = Some [3]"
  "wf_ArtifactType ex_wf = WorkflowArtifactTypeKey"
  "wf_ArtifactID ex_wf = 21"
  "wf_ArtifactName ex_wf = Some ''k''"
  "wf_ActionType ex_wf = WorkflowActionTypeDelete"
  "wf_Parameters ex_wf = []"
  "wf_ParametersResourceName ex_wf = None"
  "wf_ParametersResourceType ex_wf = None"
  "wf_FailureReason ex_wf = []"
  "wf_ExpiryDate ex_wf = Some 5000"
  "wf_MinimumApprovalCount ex_wf = 2"
  "wf_CreatedAt ex_wf = 1"
  by (simp_all add: ex_wf_def)

lemma ex_system_sel [exec]:
  "sys_ID ex_system = 41"
  "sys_Identifier ex_system = ''s''"
  "sys_Region ex_system = ''r''"
  "sys_Type ex_system = SystemTypeSYSTEM"
  "sys_KeyConfigurationID ex_system = Some 11"
  "sys_TargetKeyConfigurationID ex_system = None"
  "sys_Status ex_system = SystemStatusCONNECTED"
  "sys_UnderWorkflow ex_system = False"
  by (simp_all add: ex_system_def)

lemma ex_schema_sel [exec]:
  "workflows ex_schema = [ex_wf]"
  "approvers ex_schema = map (\<lambda>u. \<lparr>wa_WorkflowID = 31, wa_UserID = u, wa_Approved = (if u = ''bob'' then Some True else None)\<rparr>) [''bob'', ''cat'', ''dan'']"
  "approver_groups ex_schema = [\<lparr>wag_ID = 32, wag_WorkflowID = 31, wag_GroupID = 3\<rparr>]"
  "keys ex_schema = [ex_key]"
  "key_versions ex_schema = []"
  "key_labels ex_schema = []"
  "key_configurations ex_schema = [\<lparr>kc_ID = 11, kc_Name = ''kc'', kc_Description = [], kc_AdminGroupID = 3, kc_CreatorID = ''ann'', kc_PrimaryKeyID = Some 21\<rparr>]"
  "systems ex_schema = [ex_system]"
  "system_properties ex_schema = []"
  "groups ex_schema = [ex_group 1 TenantAdminGroup TenantAdminRole ''adm'', ex_group 2 TenantAuditorGroup TenantAuditorRole ''aud'', ex_group 3 ''key admins'' KeyAdminRole ''kadm'']"
  "events ex_schema = []"
  "import_params ex_schema = []"
  "tenant_configs ex_schema = [\<lparr>cfg_Enabled = True, cfg_MinimumApprovals = 2, cfg_RetentionPeriodDays = 30, cfg_DefaultExpiryPeriodDays = 30, cfg_MaxExpiryPeriodDays = 90\<rparr>]"
  "tags ex_schema = []"
  by (simp_all add: ex_schema_def)

lemma ex_world_sel [exec]:
  "tenants ex_world = [\<lparr>ten_ID = ''t1'', ten_SchemaName = ''s1'', ten_Name = ''T'', ten_OwnerType = ''o'', ten_OwnerID = ''1'', ten_IssuerURL = [], ten_Role = ''ROLE_TEST'', ten_Status = ''STATUS_ACTIVE''\<rparr>]"
  "schemas ex_world = (\<lambda>_. ex_schema)"
  "aborted ex_world = False"
  "tick ex_world = 0"
  "calls ex_world = []"
  by (simp_all add: ex_world_def)

lemmas ex_exec [exec] = db_def tenant_schema_def schema_in_def ex_keys_def ex_with_def ex_plugin_def ex_group_def fsm_find_def

lemma ran: "\<not> isl (fst m) \<Longrightarrow> m = (Inr (projr (fst m)), snd m)"
  by (cases m; cases "fst m") auto

lemma failed: "isl (fst m) \<Longrightarrow> m = (Inl (projl (fst m)), snd m)"
  by (cases m; cases "fst m") auto

end
