(* ===== verification/Key_Properties.thy ===== *)
theory Key_Properties
  imports Example
begin

text \<open>
  Properties of keys and key configurations (src/internal/manager/key.go and keyconfiguration.go): creation,
  update, deletion, the primary key, and the state of keys held by the customer.
\<close>

section \<open>Deletion\<close>



text \<open>
  C38: A labelled key cannot be deleted: the row is protected by the foreign key of its labels, which the
  deletion does not remove, so the operation always fails.
\<close>

theorem Delete_key_labelled:
  assumes "l \<in> set (key_labels (db ctx w))" "kl_ResourceID l = i" "ctx_Tenant ctx = Some tn"
  shows "isl (fst (Delete_key env ctx i w))"
proof (rule ccontr)
  assume "\<not> isl (fst (Delete_key env ctx i w))"
  from Delete_key_run[OF ran[OF this] assms(3)] assms(1,2) show False by metis
qed

text \<open>the provider has been told to delete the key by then\<close>

theorem Delete_key_labelled_witness:
  "let w = ex_with (\<lambda>d. d\<lparr>systems := [], key_labels := [\<lparr>kl_ID = 1, kl_Key = ''a'', kl_Value = ''b'', kl_ResourceID = 21\<rparr>]\<rparr>);
       m = Delete_key ex_env (ex_kadm ''ann'') 21 w
   in isl (fst m) \<and> CallProvider ''DeleteKey'' ''n'' \<in> set (calls (snd m))"
proof -
  let ?l = "\<lparr>kl_ID = 1, kl_Key = ''a'', kl_Value = ''b'', kl_ResourceID = 21\<rparr>"
  let ?w = "ex_with (\<lambda>d. d\<lparr>systems := [], key_labels := [?l]\<rparr>)"
  have "?l \<in> set (key_labels (db (ex_kadm ''ann'') ?w))" by (simp add: exec)
  from Delete_key_labelled[OF this _ ex_kadm_sel(1), of 21 ex_env]
  have "isl (fst (Delete_key ex_env (ex_kadm ''ann'') 21 ?w))" by simp
  moreover have "CallProvider ''DeleteKey'' ''n'' \<in> set (calls (snd (Delete_key ex_env (ex_kadm ''ann'') 21 ?w)))"
    by (simp add: exec cong: exec_cong)
  ultimately show ?thesis by (simp add: Let_def)
qed

section \<open>Creation and update\<close>

text \<open>
  C11: A created key is stored exactly once under a fresh id, in an existing configuration the user may create
  keys in. It becomes the primary key of its configuration precisely when it is the first key there and is
  not waiting for its creation at the provider; a key held by the customer is enabled.
\<close>

theorem Create_key_stored:
  assumes "Create_key env ctx key w = (Inr key', w')" and "ctx_Tenant ctx = Some tn"
  shows "keys (db ctx w') = keys (db ctx w) @ [key_row key'] \<and> key_ID key' = key_ID key \<and>
    key_ID key \<notin> key_ID ` set (keys (db ctx w)) \<and>
    (\<exists>kc \<in> set (key_configurations (db ctx w)). kc_ID kc = key_KeyConfigurationID key) \<and>
    (ctx_UserType ctx = Some InternalUser \<or> kc_access ctx (db ctx w) APIActionCreate (key_KeyConfigurationID key)) \<and>
    key_configurations (db ctx w') =
      (if (\<exists>k \<in> set (keys (db ctx w)). key_KeyConfigurationID k = key_KeyConfigurationID key) \<or>
          key_State key' = KeyStatePENDINGCREATION then key_configurations (db ctx w)
       else row_upd (\<lambda>kc. kc_ID kc = key_KeyConfigurationID key)
         (\<lambda>kc. kc\<lparr>kc_PrimaryKeyID := Some (key_ID key)\<rparr>) (key_configurations (db ctx w))) \<and>
    (key_KeyType key = KeyTypeHYOK \<longrightarrow> key_State key' = KeyStateENABLED)"
proof -
  note r = Create_key_run[OF assms]
  from r(1) obtain key0 where ins: "inserted key0 key' (db ctx w) (db ctx w')" and k0: "key_ID key0 = key_ID key"
      "key_KeyConfigurationID key0 = key_KeyConfigurationID key"
      "key_KeyType key = KeyTypeHYOK \<longrightarrow> key_State key0 = KeyStateENABLED" by blast
  then have key': "key' = key0\<lparr>key_CreatedAt := key_CreatedAt key'\<rparr>" by (simp add: inserted_def)
  have "key_ID key' = key_ID key0" "key_State key' = key_State key0"
    using arg_cong[OF key', of key_ID] arg_cong[OF key', of key_State] by simp_all
  with ins k0 r(2,3) show ?thesis by (simp add: inserted_def with_first_key_def)
qed

definition ex_hyok :: Key where
  "ex_hyok = ex_key\<lparr>key_ID := 22, key_Name := ''h'', key_KeyType := KeyTypeHYOK, key_UnderWorkflow := False\<rparr>"

theorem Create_key_stored_witness:
  "let w = ex_with (\<lambda>d. d\<lparr>keys := [], systems := []\<rparr>); m = Create_key ex_env (ex_kadm ''ann'') ex_hyok w
   in \<not> isl (fst m) \<and> map key_ID (keys (db (ex_kadm ''ann'') (snd m))) = [22] \<and>
      map kc_PrimaryKeyID (key_configurations (db (ex_kadm ''ann'') (snd m))) = [Some 22]"
proof -
  let ?w = "ex_with (\<lambda>d. d\<lparr>keys := [], systems := []\<rparr>)" and ?c = "ex_kadm ''ann''"
  let ?m = "Create_key ex_env ?c ex_hyok ?w"
  have ok: "\<not> isl (fst ?m)" by (simp add: exec ex_hyok_def cong: exec_cong)
  have d: "keys (db ?c ?w) = []" "map kc_ID (key_configurations (db ?c ?w)) = [11]" by (simp_all add: exec)
  have h: "key_ID ex_hyok = 22" "key_KeyConfigurationID ex_hyok = 11" "key_KeyType ex_hyok = KeyTypeHYOK"
    by (simp_all add: ex_hyok_def exec)
  show ?thesis
    using Create_key_stored[OF ran[OF ok] ex_kadm_sel(1)] ok d h
    by (auto simp: Let_def row_upd_def map_eq_Cons_conv)
qed





section \<open>Keys held by the customer\<close>

text \<open>
  C34: Synchronising a key held by the customer gives it the state its key store reports, or FORBIDDEN, DELETED
  or UNKNOWN when the key store cannot be asked; the stored state is the returned one, and besides the key only
  its versions and the pending events change.
\<close>

theorem syncHYOKKeyState_state:
  assumes "syncHYOKKeyState env ctx key w = (Inr key', w')" and "ctx_Tenant ctx = Some tn"
  shows "key_KeyType key = KeyTypeHYOK \<and>
    (key_State key' \<in> {KeyStateFORBIDDEN, KeyStateDELETED, KeyStateUNKNOWN} \<or>
     (\<exists>n nid pk. key_NativeID key = Some nid \<and> prov_GetKey env n key nid = Inr pk \<and> key_State key' = pk_Status pk)) \<and>
    (key_State key' \<noteq> key_State key \<longrightarrow>
      (\<forall>k \<in> set (keys (db ctx w')). key_ID k = key_ID key \<longrightarrow> key_State k = key_State key')) \<and>
    (key_State key' = key_State key \<longrightarrow> keys (db ctx w') = keys (db ctx w)) \<and>
    changes {TabKeys, TabKeyVersions, TabEvents} (db ctx w) (db ctx w')"
proof -
  note r = syncHYOKKeyState_run[OF assms]
  from r(3) have "key_State key' \<in> {KeyStateFORBIDDEN, KeyStateDELETED, KeyStateUNKNOWN} \<or>
     (\<exists>n nid pk. key_NativeID key = Some nid \<and> prov_GetKey env n key nid = Inr pk \<and> key_State key' = pk_Status pk)"
    using observeHYOKKey_run by blast
  then show ?thesis using r(1,4,5) by (auto simp: set_row_upd)
qed

theorem syncHYOKKeyState_state_witness:
  "let k = ex_hyok\<lparr>key_State := KeyStateDISABLED\<rparr>; w = ex_with (\<lambda>d. d\<lparr>keys := [k]\<rparr>);
       m = syncHYOKKeyState ex_env (ex_kadm ''ann'') k w
   in \<not> isl (fst m) \<and> key_State (projr (fst m)) = KeyStateENABLED \<and>
      (\<forall>k \<in> set (keys (db (ex_kadm ''ann'') (snd m))). key_ID k = 22 \<longrightarrow> key_State k = KeyStateENABLED)"
proof -
  let ?k = "ex_hyok\<lparr>key_State := KeyStateDISABLED\<rparr>" and ?c = "ex_kadm ''ann''"
  let ?m = "syncHYOKKeyState ex_env ?c ?k (ex_with (\<lambda>d. d\<lparr>keys := [?k]\<rparr>))"
  have ok: "\<not> isl (fst ?m)" and st: "key_State (projr (fst ?m)) = KeyStateENABLED"
    by (simp_all add: exec ex_hyok_def cong: exec_cong)
  have "key_State ?k = KeyStateDISABLED" "key_ID ?k = 22" by (simp_all add: ex_hyok_def exec)
  with syncHYOKKeyState_state[OF ran[OF ok] ex_kadm_sel(1)] ok st show ?thesis
    by (auto simp: Let_def)
qed




section \<open>Primary keys\<close>

lemma Get_tables:
  assumes "Get env ctx i w = (r, w')" and "ctx_Tenant ctx = Some tn"
  shows "changes {TabKeys, TabKeyVersions, TabEvents} (db ctx w) (db ctx w')"
  using steps_run[OF tab.steps_Get assms(1), of "{TabKeys, TabKeyVersions, TabEvents}" tn] assms(2)
  by (intro only_db) simp

text \<open>
  C37: Completing the creation of a pending key never makes it the primary key of its configuration, even when
  it is the only key there: the key itself already counts as a key of the configuration.
\<close>

theorem SyncPendingCreationKey_primary:
  assumes run: "SyncPendingCreationKey env ctx i w = (Inr u, w')" and tn: "ctx_Tenant ctx = Some tn"
    and byok: "\<forall>k \<in> set (keys (db ctx w)). key_ID k = i \<longrightarrow> key_KeyType k = KeyTypeBYOK"
  shows "key_configurations (db ctx w') = key_configurations (db ctx w)"
proof (cases "Get env ctx i w")
  case (Pair r w1)
  note t = Get_tables[OF Pair tn, unfolded changes_def]
  show ?thesis
  proof (cases r)
    case (Inr key)
    from Pair have g: "Get env ctx i w = (Inr key, w1)" by (simp add: Inr)
    obtain k where k: "k \<in> set (keys (db ctx w))" "key_ID k = i" "key_row key = (key_row k)\<lparr>key_State := key_State key\<rparr>"
        "db ctx w1 = db ctx w"
      using Get_run[OF g tn] byok by metis
    have "key_KeyConfigurationID key = key_KeyConfigurationID k"
      using arg_cong[OF k(3), of key_KeyConfigurationID] by simp
    then have row: "\<exists>k \<in> set (keys (db ctx w1)). key_KeyConfigurationID k = key_KeyConfigurationID key"
      using k(1,4) by auto
    show ?thesis
      using run Inr Pair k(4) syncPendingCreationKey_run[OF _ tn row, of env u w']
      by (auto simp: SyncPendingCreationKey_def run_simps split: if_split_asm)
  qed (use run Pair t in \<open>auto simp: SyncPendingCreationKey_def run_simps split: if_split_asm\<close>)
qed

definition ex_pending :: Key where
  "ex_pending = ex_key\<lparr>key_State := KeyStatePENDINGCREATION, key_NativeID := None, key_CreatedAt := 1000\<rparr>"

definition ex_pending_world :: world where
  "ex_pending_world = ex_with (\<lambda>d. d\<lparr>keys := [ex_pending],
     key_configurations := map (\<lambda>kc. kc\<lparr>kc_PrimaryKeyID := None\<rparr>) (key_configurations d)\<rparr>)"

theorem SyncPendingCreationKey_primary_witness:
  "let m = SyncPendingCreationKey ex_env (ex_kadm ''ann'') 21 ex_pending_world; d = db (ex_kadm ''ann'') (snd m)
   in fst m = Inr () \<and> map key_State (keys d) = [KeyStatePENDINGIMPORT] \<and>
      map kc_PrimaryKeyID (key_configurations d) = [None]"
proof -
  let ?c = "ex_kadm ''ann''" and ?w = ex_pending_world
  let ?m = "SyncPendingCreationKey ex_env ?c 21 ?w"
  have ok: "fst ?m = Inr ()" and st: "map key_State (keys (db ?c (snd ?m))) = [KeyStatePENDINGIMPORT]"
    by (simp_all add: exec ex_pending_def ex_pending_world_def cong: exec_cong)
  then have run: "?m = (Inr (), snd ?m)" by (simp add: prod_eq_iff)
  have d: "keys (db ?c ?w) = [ex_pending]" "key_KeyType ex_pending = KeyTypeBYOK"
    "map kc_PrimaryKeyID (key_configurations (db ?c ?w)) = [None]"
    by (simp_all add: exec ex_pending_world_def ex_pending_def)
  show ?thesis using SyncPendingCreationKey_primary[OF run ex_kadm_sel(1)] ok st d by (simp add: Let_def)
qed

text \<open>
  C22: A key configuration that was deleted had neither systems nor keys, and only it and its tags are gone.
\<close>

theorem DeleteKeyConfigurationByID_safe:
  assumes "DeleteKeyConfigurationByID env ctx i w = (Inr u, w')"
  shows "(ctx_UserType ctx = Some InternalUser \<or> kc_access ctx (db ctx w) APIActionDelete i) \<and>
    (\<forall>s \<in> set (systems (db ctx w)). sys_KeyConfigurationID s \<noteq> Some i) \<and>
    (\<forall>k \<in> set (keys (db ctx w)). key_KeyConfigurationID k \<noteq> i) \<and>
    db ctx w' = (db ctx w)\<lparr>key_configurations := filter (\<lambda>kc. kc_ID kc \<noteq> i) (key_configurations (db ctx w)),
      tags := filter (\<lambda>t. tag_ID t \<noteq> i) (tags (db ctx w))\<rparr>"
  using DeleteKeyConfigurationByID_run[OF assms] by blast

theorem DeleteKeyConfigurationByID_safe_witness:
  "let w = ex_with (\<lambda>d. d\<lparr>keys := [], systems := []\<rparr>);
       m = DeleteKeyConfigurationByID ex_env (ex_kadm ''ann'') 11 w
   in fst m = Inr () \<and> key_configurations (db (ex_kadm ''ann'') (snd m)) = []"
proof -
  let ?c = "ex_kadm ''ann''" and ?w = "ex_with (\<lambda>d. d\<lparr>keys := [], systems := []\<rparr>)"
  let ?m = "DeleteKeyConfigurationByID ex_env ?c 11 ?w"
  have ok: "fst ?m = Inr ()" by (simp add: exec cong: exec_cong)
  then have run: "?m = (Inr (), snd ?m)" by (simp add: prod_eq_iff)
  have "map kc_ID (key_configurations (db ?c ?w)) = [11]" by (simp add: exec)
  with DeleteKeyConfigurationByID_safe[OF run] ok show ?thesis
    by (auto simp: Let_def map_eq_Cons_conv)
qed


definition ex_switch :: KeyConfigurationPatch where
  "ex_switch = \<lparr>kcp_Name = None, kcp_Description = None, kcp_PrimaryKeyID = Some 23\<rparr>"



text \<open>
  C36: Deleting the primary key of a configuration leaves the configuration with an id that no key has, and
  from then on no other key can be made the primary key: every such request fails.
\<close>

theorem primary_key_stuck:
  assumes del: "Delete_key env ctx i w = (Inr u, w1)" and tn: "ctx_Tenant ctx = Some tn"
    and kc: "\<forall>kc \<in> set (key_configurations (db ctx w)). kc_ID kc = j \<longrightarrow> kc_PrimaryKeyID kc = Some i"
    and pid: "kcp_PrimaryKeyID p = Some pid" and uniq: "distinct (map sys_ID (systems (db ctx w)))"
  shows "isl (fst (UpdateKeyConfigurationByID env' ctx j p w1))"
proof (rule ccontr)
  assume "\<not> isl (fst (UpdateKeyConfigurationByID env' ctx j p w1))"
  note run = ran[OF this]
  have ch: "changes {TabKeys, TabKeyVersions, TabImportParams, TabEvents} (db ctx w) (db ctx w1)"
    and ids: "map key_ID (keys (db ctx w1)) = filter (\<lambda>j. j \<noteq> i) (map key_ID (keys (db ctx w)))"
    by (rule Delete_key_run[OF del tn], assumption)+
  from ch have d: "key_configurations (db ctx w1) = key_configurations (db ctx w)" "systems (db ctx w1) = systems (db ctx w)"
    by (simp_all add: changes_def)
  have "i \<notin> set (map key_ID (keys (db ctx w1)))" unfolding ids by simp
  then show False
    using UpdateKeyConfigurationByID_run[OF run tn uniq[folded d(2)] pid] kc d(1) by auto
qed

definition ex_no_systems :: world where
  "ex_no_systems = ex_with (\<lambda>d. d\<lparr>keys := [ex_key, ex_key\<lparr>key_ID := 23, key_Name := ''o''\<rparr>], systems := []\<rparr>)"

theorem primary_key_stuck_witness:
  "let m = Delete_key ex_env (ex_kadm ''ann'') 21 ex_no_systems
   in fst m = Inr () \<and> isl (fst (UpdateKeyConfigurationByID ex_env (ex_kadm ''ann'') 11 ex_switch (snd m)))"
proof -
  let ?c = "ex_kadm ''ann''" and ?w = ex_no_systems
  let ?m = "Delete_key ex_env ?c 21 ?w"
  have ok: "fst ?m = Inr ()" by (simp add: exec ex_no_systems_def cong: exec_cong)
  then have run: "?m = (Inr (), snd ?m)" by (simp add: prod_eq_iff)
  have d: "\<forall>kc \<in> set (key_configurations (db ?c ?w)). kc_ID kc = 11 \<longrightarrow> kc_PrimaryKeyID kc = Some 21"
    "kcp_PrimaryKeyID ex_switch = Some 23" "distinct (map sys_ID (systems (db ?c ?w)))"
    by (simp_all add: exec ex_no_systems_def ex_switch_def)
  show ?thesis using primary_key_stuck[OF run ex_kadm_sel(1) d, of ex_env] ok by (simp add: Let_def)
qed

end
