(* ===== verification/Access_Properties.thy ===== *)
theory Access_Properties
  imports Example
begin

text \<open>
  Properties of authorization (src/internal/authz), of the user and group managers (src/internal/manager/user.go
  and group.go) and of the identity kept in a context (src/utils/context).
\<close>

section \<open>Decisions\<close>

text \<open>what a business and an internal request must have to be allowed\<close>

definition business_ok :: "('r, 'a) Handler \<Rightarrow> ctx \<Rightarrow> 'r \<Rightarrow> 'a \<Rightarrow> bool" where
  "business_ok h ctx r a \<longleftrightarrow> (\<exists>tn d. ctx_Tenant ctx = Some tn \<and> tn \<noteq> [] \<and> ctx_BusinessUserData ctx = Some d \<and>
     cd_Identifier d \<noteq> [] \<and> (\<exists>grp \<in> set (cd_Groups d). h_business h ((tn, grp), r, a)))"

definition internal_ok :: "('r, 'a) Handler \<Rightarrow> ctx \<Rightarrow> 'r \<Rightarrow> 'a \<Rightarrow> bool" where
  "internal_ok h ctx r a \<longleftrightarrow> (\<exists>role. ctx_InternalUserData ctx = Some role \<and> role \<noteq> [] \<and> h_internal h (role, r, a))"

lemma CheckAuthz_allowed:
  "CheckAuthz h ctx r a = Inr True \<longleftrightarrow>
     (\<exists>q. ctx_RequestID ctx = Some q \<and> q \<noteq> []) \<and>
     (\<exists>acts. map_of (h_resourceActions h) r = Some acts \<and> a \<in> set acts) \<and>
     (ctx_UserType ctx = Some BusinessUser \<and> business_ok h ctx r a \<or>
      ctx_UserType ctx = Some InternalUser \<and> internal_ok h ctx r a)"
proof -
  have b: "BusinessUser \<noteq> InternalUser" "BusinessUser \<noteq> []" "InternalUser \<noteq> []"
    by (simp_all add: BusinessUser_def InternalUser_def)
  show ?thesis
    using b
    by (auto simp: CheckAuthz_def checkBusinessUserAuthz_def checkInternalUserAuthz_def IsBusinessUserAllowed_def
        IsInternalUserAllowed_def validBusinessRequest_def validInternalRequest_def isValidResourceAction_def NewRequest_def
        business_ok_def internal_ok_def ExtractUserType_def ExtractTenantID_def ExtractBusinessUserData_def GetRequestID_def
        ExtractInternalRole_def nonempty_value_def split: option.splits if_splits sum.splits)
qed

lemma CheckAuthz_not_False: "CheckAuthz h ctx r a \<noteq> Inr False"
  by (auto simp: CheckAuthz_def split: sum.splits if_splits)

text \<open>
  C9: A request is authorized exactly when it carries a request id, the action is one of the resource, and
  either a business user of some tenant has a group that the allow list of that very tenant grants the
  action, or an internal user has a role whose policies grant it. Every other request ends with an error.
\<close>

theorem CheckAuthz_decides:
  "(CheckAuthz h ctx r a = Inr True \<longleftrightarrow>
     (\<exists>q. ctx_RequestID ctx = Some q \<and> q \<noteq> []) \<and>
     (\<exists>acts. map_of (h_resourceActions h) r = Some acts \<and> a \<in> set acts) \<and>
     (ctx_UserType ctx = Some BusinessUser \<and> business_ok h ctx r a \<or>
      ctx_UserType ctx = Some InternalUser \<and> internal_ok h ctx r a)) \<and>
   CheckAuthz h ctx r a \<noteq> Inr False"
  by (intro conjI CheckAuthz_allowed CheckAuthz_not_False)

definition user_keys :: "('r, 'a) RolePolicies \<Rightarrow> (string \<times> string \<times> string list) list \<Rightarrow>
    ((string \<times> string) \<times> 'r \<times> 'a) set" where
  "user_keys ps users = {((tn, grp), g). \<exists>(role, t, grps) \<in> set users. t = tn \<and> grp \<in> set grps \<and>
     (\<exists>policies. map_of ps role = Some policies \<and> g \<in> set (grants policies))}"

lemma user_keys_Cons:
  "map_of ps role = Some policies \<Longrightarrow> user_keys ps ((role, tn, grps) # users) =
     set (concat (map (\<lambda>g. map (\<lambda>grp. ((tn, grp), g)) grps) (grants policies))) \<union> user_keys ps users"
  by (auto simp: user_keys_def)

lemma AddUser_result:
  "case AddUser ps users ks of
     (None, ks') \<Rightarrow> list_all (\<lambda>u. map_of ps (fst u) \<noteq> None) users \<and> set ks' = set ks \<union> user_keys ps users
   | (Some err, ks') \<Rightarrow> list_ex (\<lambda>u. map_of ps (fst u) = None) users \<and> errs_Is err ''authz.ErrInvalidRole''"
proof (induction ps users ks rule: AddUser.induct)
  case (2 ps role tn grps users ks)
  show ?case
  proof (cases "map_of ps role")
    case None
    then show ?thesis by (simp add: Wrap_def errs_Is_def)
  next
    case (Some policies)
    show ?thesis
      using 2[OF Some] by (simp add: Some user_keys_Cons Un_assoc split: prod.splits option.splits)
  qed
qed (auto simp: user_keys_def)

lemma AddUser_granted:
  assumes "AddUser ps users [] = (None, ks)" and "((tn, grp), g) \<in> set ks"
  shows "\<exists>role grps policies. (role, tn, grps) \<in> set users \<and> grp \<in> set grps \<and>
    map_of ps role = Some policies \<and> g \<in> set (grants policies)"
  using AddUser_result[of ps users "[]"] assms by (fastforce simp: user_keys_def)

text \<open>
  C27: Adding users to the allow list: when every role has policies, the keys are exactly those of the groups of
  the users for what the policies of their roles grant, and the keys that were there. Otherwise the operation
  reports an invalid role.
\<close>

theorem AddUser_keys:
  "case AddUser ps users ks of
     (None, ks') \<Rightarrow> list_all (\<lambda>u. map_of ps (fst u) \<noteq> None) users \<and> set ks' = set ks \<union> user_keys ps users
   | (Some err, ks') \<Rightarrow> list_ex (\<lambda>u. map_of ps (fst u) = None) users \<and> errs_Is err ''authz.ErrInvalidRole''"
  by (rule AddUser_result)

text \<open>
  C26: A tenant auditor can only read: whatever the request, when the allow list holds what the roles of the
  tenant's groups grant and all groups of the user are auditor groups, an authorized action on the repository
  lists, counts or gets resources.
\<close>

theorem auditor_reads_only:
  assumes "AddUser RepoBusinessPolicies users [] = (None, ks)"
    and "CheckAuthz (repoHandler (\<lambda>k. k \<in> set ks)) ctx r a = Inr True"
    and "ctx_UserType ctx = Some BusinessUser" and "ctx_BusinessUserData ctx = Some d"
    and "\<forall>(role, tn, grps) \<in> set users. set grps \<inter> set (cd_Groups d) \<noteq> {} \<longrightarrow> role = TenantAuditorRole"
  shows "a \<in> {RepoActionList, RepoActionFirst, RepoActionCount}"
proof -
  have "BusinessUser \<noteq> InternalUser" by (simp add: BusinessUser_def InternalUser_def)
  then have "business_ok (repoHandler (\<lambda>k. k \<in> set ks)) ctx r a" using assms(2,3) CheckAuthz_allowed by fastforce
  then obtain tn grp where "grp \<in> set (cd_Groups d)" "((tn, grp), r, a) \<in> set ks"
    using assms(4) by (auto simp: business_ok_def repoHandler_def)
  then obtain role grps policies where "(role, tn, grps) \<in> set users" "grp \<in> set grps"
      "map_of RepoBusinessPolicies role = Some policies" "(r, a) \<in> set (grants policies)"
    using AddUser_granted[OF assms(1)] by blast
  moreover from this have "role = TenantAuditorRole" using assms(5) \<open>grp \<in> set (cd_Groups d)\<close> by fastforce
  ultimately have "(r, a) \<in> set (grants tenantAuditor_repo)" by (simp add: RepoBusinessPolicies_def TenantAuditorRole_def)
  then show ?thesis by (auto simp: grants_def tenantAuditor_repo_def)
qed

definition ex_auditor :: ctx where
  "ex_auditor = ex_ctx ''eve'' [''aud'']"

theorem auditor_reads_only_witness:
  "let m = AddUser RepoBusinessPolicies [(TenantAuditorRole, ''t1'', [''aud''])] [] in fst m = None \<and>
     CheckAuthz (repoHandler (\<lambda>k. k \<in> set (snd m))) ex_auditor RepoResourceTypeKey RepoActionList = Inr True \<and>
     RepoActionList \<in> {RepoActionList, RepoActionFirst, RepoActionCount}"
proof -
  let ?users = "[(TenantAuditorRole, ''t1'', [''aud''])]" and ?d = "\<lparr>cd_Identifier = ''eve'', cd_Groups = [''aud''], cd_AuthContext = Map.empty\<rparr>"
  let ?m = "AddUser RepoBusinessPolicies ?users []"
  have ok: "fst ?m = None" by (simp add: RepoBusinessPolicies_def TenantAuditorRole_def)
  then have run: "?m = (None, snd ?m)" by (simp add: prod_eq_iff)
  have c: "ctx_UserType ex_auditor = Some BusinessUser" "ctx_BusinessUserData ex_auditor = Some ?d"
    "ctx_Tenant ex_auditor = Some ''t1''" "ctx_RequestID ex_auditor = Some ''q''"
    by (simp_all add: ex_auditor_def ex_ctx_def exec)
  have g: "(RepoResourceTypeKey, RepoActionList) \<in> set (grants tenantAuditor_repo)"
    by (simp add: grants_def tenantAuditor_repo_def)
  have "((''t1'', ''aud''), RepoResourceTypeKey, RepoActionList) \<in> set (snd ?m)"
    using AddUser_result[of RepoBusinessPolicies ?users "[]"] g
    by (subst (asm) run) (simp add: user_keys_def RepoBusinessPolicies_def TenantAuditorRole_def)
  then have allowed: "CheckAuthz (repoHandler (\<lambda>k. k \<in> set (snd ?m))) ex_auditor RepoResourceTypeKey RepoActionList = Inr True"
    unfolding CheckAuthz_allowed business_ok_def using c by (simp add: repoHandler_def RepoResourceTypeActions_def repoActionList_def)
  have "\<forall>(role, tn, grps) \<in> set ?users. set grps \<inter> set (cd_Groups ?d) \<noteq> {} \<longrightarrow> role = TenantAuditorRole" by simp
  from auditor_reads_only[OF run allowed c(1,2) this] show ?thesis using ok allowed by (simp only: Let_def simp_thms)
qed

section \<open>Identity\<close>

text \<open>
  C28: The context in which the service acts for a business user belongs to the same tenant, carries the
  internal role and no business user, and is in no transaction; a context of another user kind is refused.
\<close>

theorem BusinessToInternalContext_identity:
  "case BusinessToInternalContext newid ctx role of
     Inr ictx \<Rightarrow> ctx_Tenant ictx = ctx_Tenant ctx \<and> ctx_BusinessUserData ictx = None \<and>
       ctx_UserType ictx = Some InternalUser \<and> ctx_InternalUserData ictx = Some role \<and> ctx_tx ictx = False \<and>
       ctx_UserType ctx \<in> {None, Some BusinessUser}
   | Inl err \<Rightarrow> \<not> (ctx_UserType ctx \<in> {None, Some BusinessUser} \<and> ctx_Tenant ctx \<notin> {None, Some []})"
  by (auto simp: BusinessToInternalContext_def InjectInternalUserData_def InjectRequestID_def CreateTenantContext_def
      Background_def ExtractTenantID_def nonempty_value_def split: option.splits sum.splits if_splits)

section \<open>Access to key configurations\<close>

text \<open>
  C29: Access to a key configuration is only granted to internal users, to an auditor who reads, and to a
  user with a group that administers the configuration; the check changes nothing.
\<close>

theorem HasKeyConfigAccess_sound:
  assumes "HasKeyConfigAccess env ctx action (Some (kid, None)) w = (Inr b, w')"
  shows "(ctx_UserType ctx = Some InternalUser \<or> kc_access ctx (db ctx w) action kid) \<and> same_db w w'"
  using HasKeyConfigAccess_run[OF assms] by blast

theorem HasKeyConfigAccess_sound_witness:
  "\<not> isl (fst (HasKeyConfigAccess ex_env (ex_kadm ''ann'') APIActionUpdate (Some (11, None)) ex_world)) \<and>
   kc_access (ex_kadm ''ann'') (db (ex_kadm ''ann'') ex_world) APIActionUpdate 11"
proof -
  let ?m = "HasKeyConfigAccess ex_env (ex_kadm ''ann'') APIActionUpdate (Some (11, None)) ex_world"
  have ok: "\<not> isl (fst ?m)" by (simp add: exec cong: exec_cong)
  have "ctx_UserType (ex_kadm ''ann'') \<noteq> Some InternalUser" by (simp add: exec)
  with HasKeyConfigAccess_sound[OF ran[OF ok]] ok show ?thesis by blast
qed

section \<open>Groups\<close>

text \<open>one operation on the groups of a tenant, with any outcome\<close>

inductive group_step :: "env \<Rightarrow> ctx \<Rightarrow> world \<Rightarrow> world \<Rightarrow> bool" for env ctx where
  create: "CreateGroup env ctx g w = (r, w') \<Longrightarrow> group_step env ctx w w'"
| update: "UpdateGroup env ctx i p w = (r, w') \<Longrightarrow> group_step env ctx w w'"
| delete: "DeleteGroupByID env ctx i w = (r, w') \<Longrightarrow> group_step env ctx w w'"

lemma group_step_uniq:
  assumes "group_step env ctx w w'" and tn: "ctx_Tenant ctx = Some tn" and "\<forall>sn. schema_uniq (schemas w sn)"
  shows "\<forall>sn. schema_uniq (schemas w' sn)"
proof -
  have "keeps_uniq w w'"
    using assms(1)
    by cases (rule steps_run[OF uniq.steps_CreateGroup] steps_run[OF uniq.steps_UpdateGroup]
        steps_run[OF uniq.steps_DeleteGroupByID], simp_all add: tn)+
  then show ?thesis using assms(3) by (simp add: keeps_uniq_def)
qed

lemma group_step_groups:
  assumes step: "group_step env ctx w w'" and tn: "ctx_Tenant ctx = Some tn" and uniq: "\<forall>sn. schema_uniq (schemas w sn)"
  shows "g \<in> set (groups (db ctx w)) \<Longrightarrow> isMandatoryGroup (grp_Name g) \<Longrightarrow> g \<in> set (groups (db ctx w'))"
    and "\<forall>g \<in> set (groups (db ctx w)). group_valid g \<Longrightarrow> \<forall>g \<in> set (groups (db ctx w')). group_valid g"
proof -
  have "schema_uniq (db ctx w)" using uniq by (simp add: db_def)
  then have ids: "distinct (map grp_ID (groups (db ctx w)))" by (auto simp: schema_uniq_def T_groups_def)
  have same: "h = g" if "h \<in> set (groups (db ctx w))" "g \<in> set (groups (db ctx w))" "grp_ID h = grp_ID g" for h g
    using that ids by (auto simp: distinct_map inj_on_def)
  show "g \<in> set (groups (db ctx w'))" if "g \<in> set (groups (db ctx w))" "isMandatoryGroup (grp_Name g)"
    using step
  proof cases
    case (update i p r)
    from UpdateGroup_any[OF this tn] that show ?thesis by (auto simp: set_row_upd) (metis same)
  next
    case (delete i r)
    from DeleteGroupByID_any[OF this tn] that show ?thesis by auto (metis same)
  qed (use that in \<open>auto dest!: CreateGroup_any\<close>)
  show "\<forall>g \<in> set (groups (db ctx w')). group_valid g" if "\<forall>g \<in> set (groups (db ctx w)). group_valid g"
    using step
  proof cases
    case (update i p r)
    from UpdateGroup_any[OF this tn] that show ?thesis by (auto simp: set_row_upd Group_merge_valid)
  next
    case (delete i r)
    from DeleteGroupByID_any[OF this tn] that show ?thesis by auto
  qed (use that in \<open>auto dest!: CreateGroup_any\<close>)
qed

text \<open>
  C4: Whatever sequence of group operations users of a tenant perform, with whatever outcome, the administrator
  and the auditor group stay exactly as they are, and every group has a valid name and IAM identifier.
\<close>

theorem mandatory_groups_kept:
  assumes "(group_step env ctx)\<^sup>*\<^sup>* w w'" and tn: "ctx_Tenant ctx = Some tn"
    and "\<forall>sn. schema_uniq (schemas w sn)" and "\<forall>g \<in> set (groups (db ctx w)). group_valid g"
  shows "(\<forall>g \<in> set (groups (db ctx w)). isMandatoryGroup (grp_Name g) \<longrightarrow> g \<in> set (groups (db ctx w'))) \<and>
    (\<forall>g \<in> set (groups (db ctx w')). group_valid g)"
proof -
  from assms have "(\<forall>g \<in> set (groups (db ctx w)). isMandatoryGroup (grp_Name g) \<longrightarrow> g \<in> set (groups (db ctx w'))) \<and>
    (\<forall>g \<in> set (groups (db ctx w')). group_valid g) \<and> (\<forall>sn. schema_uniq (schemas w' sn))"
  proof (induction rule: rtranclp_induct)
    case (step w1 w2)
    then show ?case
      using group_step_groups[OF step.hyps(2) tn] group_step_uniq[OF step.hyps(2) tn] by blast
  qed auto
  then show ?thesis by blast
qed

theorem mandatory_groups_kept_witness:
  "let g = ex_group 5 ''more'' KeyAdminRole ''more''; m = CreateGroup ex_env ex_admin g ex_world
   in (group_step ex_env ex_admin)\<^sup>*\<^sup>* ex_world (snd m) \<and> \<not> isl (fst m) \<and>
      ex_group 1 TenantAdminGroup TenantAdminRole ''adm'' \<in> set (groups (db ex_admin (snd m)))"
proof -
  let ?g = "ex_group 5 ''more'' KeyAdminRole ''more''" and ?c = ex_admin
  let ?m = "CreateGroup ex_env ?c ?g ex_world"
  have step: "(group_step ex_env ?c)\<^sup>*\<^sup>* ex_world (snd ?m)"
    by (intro r_into_rtranclp group_step.create[of _ _ ?g _ "fst ?m"]) simp
  have ok: "\<not> isl (fst ?m)" by (simp add: exec cong: exec_cong)
  have d: "\<forall>sn. schema_uniq (schemas ex_world sn)" "\<forall>g \<in> set (groups (db ?c ex_world)). group_valid g"
    "ex_group 1 TenantAdminGroup TenantAdminRole ''adm'' \<in> set (groups (db ?c ex_world))"
    by (simp_all add: exec schema_uniq_def group_valid_def)
  from mandatory_groups_kept[OF step ex_admin_sel(1) d(1,2)] d(3) ok step show ?thesis
    by (auto simp: Let_def ex_group_def isMandatoryGroup_def)
qed

end
