(* ===== verification/Repository_Properties.thy ===== *)
theory Repository_Properties
  imports Example
begin

text \<open>
  Properties of the repository (src/internal/repo and src/internal/authz/repo) and of the tenant configuration
  (src/internal/manager/tenantconfigs.go).
\<close>

section \<open>Transactions and errors\<close>

text \<open>
  C10: A transaction that ends with an error leaves every schema and the tenants as they were; one that ends
  without an error has run its body to the end on the data it found.
\<close>

theorem Transaction_atomic:
  assumes "Transaction env ctx f w = (r, w')" and "\<not> ctx_tx ctx"
  shows "case r of
      Inl _ \<Rightarrow> schemas w' = schemas w \<and> tenants w' = tenants w
    | Inr x \<Rightarrow> \<exists>w0 w1. same_data w w0 \<and> f (ctx\<lparr>ctx_tx := True\<rparr>) w0 = (Inr x, w1) \<and> same_data w1 w'"
proof (cases r)
  case (Inr x)
  with assms(1) have "Transaction env ctx f w = (Inr x, w')" by simp
  from Transaction_step[OF this] show ?thesis unfolding Inr by simp blast
qed (use assms Transaction_err in auto)

theorem Transaction_atomic_witness:
  "let m = Transaction ex_env (ex_kadm ''ann'')
     (\<lambda>ctx. bindC (Create ex_env ctx T_keys (ex_key\<lparr>key_ID := 99, key_Name := ''x''\<rparr>)) (\<lambda>_. throwC [E ''stop''] :: unit M)) ex_world
   in isl (fst m) \<and> schemas (snd m) = schemas ex_world"
proof -
  let ?m = "Transaction ex_env (ex_kadm ''ann'')
     (\<lambda>ctx. bindC (Create ex_env ctx T_keys (ex_key\<lparr>key_ID := 99, key_Name := ''x''\<rparr>)) (\<lambda>_. throwC [E ''stop''] :: unit M)) ex_world"
  have ok: "isl (fst ?m)" by (simp add: exec cong: exec_cong)
  from Transaction_atomic[OF failed[OF ok]] ok show ?thesis
    by (cases "fst ?m") (simp_all add: ex_kadm_sel Let_def)
qed

text \<open>
  C30: The repository answers that a resource does not exist only if no row of the tenant satisfies the query;
  in particular a missing permission or a failure of the database is never reported this way.
\<close>

theorem First_not_found:
  assumes "First env ctx T q w = (Inl e, w')" and "errs_Is e ''repo.ErrNotFound''"
  shows "\<forall>r \<in> set (t_get T (db ctx w)). \<not> q (db ctx w) r"
  using First_join_notfound[OF assms] by (simp add: find_None_iff)

theorem First_not_found_witness:
  "let m = First ex_env (ex_kadm ''ann'') T_keys (\<lambda>_ k. key_ID k = 77) ex_world
   in isl (fst m) \<and> (\<forall>k \<in> set (keys ex_schema). key_ID k \<noteq> 77)"
proof -
  let ?m = "First ex_env (ex_kadm ''ann'') T_keys (\<lambda>_ k. key_ID k = 77) ex_world"
  have ok: "isl (fst ?m)" "errs_Is (projl (fst ?m)) ''repo.ErrNotFound''" by (simp_all add: exec cong: exec_cong)
  have "db (ex_kadm ''ann'') ex_world = ex_schema" by (simp add: exec)
  with First_not_found[OF failed[OF ok(1)] ok(2)] ok show ?thesis by (simp add: Let_def)
qed

section \<open>Batches\<close>



text \<open>
  C32: A batch loop ends: when the function never adds rows to the query, the rounds the model allows, one for
  every row and two more, are never exhausted, so that any larger number gives the same result.
\<close>

theorem ProcessInBatch_terminates:
  assumes "\<And>items w r w'. f items w = (r, w') \<Longrightarrow>
      length (filter (q (db ctx w')) (t_get T (db ctx w'))) \<le> length (filter (q (db ctx w)) (t_get T (db ctx w)))"
    and "b > 0" and "n \<ge> length (t_get T (db ctx w)) + 2"
  shows "ProcessInBatch env ctx T joins q b f w =
    batchLoop n env ctx T joins q b \<lparr>bo_DeleteMode = False, bo_IgnoreFailMode = False\<rparr> f 0 None w"
proof -
  have le: "length (matching T q (db ctx w)) \<le> length (t_get T (db ctx w))" by (simp add: matching_def)
  have "ProcessInBatch env ctx T joins q b f w = batchLoop (length (t_get T (db ctx w)) + 2) env ctx T joins q b
      \<lparr>bo_DeleteMode = False, bo_IgnoreFailMode = False\<rparr> f 0 None w"
    by (simp add: ProcessInBatch_def ProcessInBatchWithOptions_def bindC_def getC_def del: batchLoop.simps)
  also have "\<dots> = batchLoop n env ctx T joins q b \<lparr>bo_DeleteMode = False, bo_IgnoreFailMode = False\<rparr> f 0 None w"
    by (rule batch_fuel_irrelevant[OF assms(2) _ assms(1)[folded matching_def]]) (use assms(3) le in simp_all)
  finally show ?thesis .
qed

theorem ProcessInBatch_terminates_witness:
  "ProcessInBatch ex_env ex_admin T_groups [] (\<lambda>_ _. True) 2 (\<lambda>_. returnC ()) ex_world =
     batchLoop 1000 ex_env ex_admin T_groups [] (\<lambda>_ _. True) 2
       \<lparr>bo_DeleteMode = False, bo_IgnoreFailMode = False\<rparr> (\<lambda>_. returnC ()) 0 None ex_world"
  by (rule ProcessInBatch_terminates) (simp_all add: exec)

section \<open>Workflow configuration\<close>

text \<open>
  C5: The stored workflow configuration of a tenant stays valid: at least two approvals, at least thirty days of
  retention, and a default expiry within the maximum. An update returns the stored configuration with the given
  fields replaced, and approval can only be switched on or off for a test tenant.
\<close>

theorem UpdateWorkflowConfig_valid:
  assumes "UpdateWorkflowConfig env ctx u w = (Inr c, w')" and "configs_valid (db ctx w)"
  shows "configs_valid (db ctx w') \<and> cfg_valid c \<and>
    (\<exists>old w1. GetWorkflowConfig env ctx w = (Inr old, w1) \<and> c = mergeWorkflowConfig old u \<and>
      (cfg_Enabled c \<noteq> cfg_Enabled old \<longrightarrow>
        (\<exists>tid t. ctx_Tenant ctx = Some tid \<and> find (\<lambda>t. ten_ID t = tid) (tenants w1) = Some t \<and> ten_Role t = ''ROLE_TEST'')))"
  using assms(1) by (rule UpdateWorkflowConfig_run) blast

definition ex_update :: TenantWorkflowConfiguration where
  "ex_update = \<lparr>up_Enabled = Some False, up_MinimumApprovals = Some 3, up_RetentionPeriodDays = None,
     up_DefaultExpiryPeriodDays = None, up_MaxExpiryPeriodDays = None\<rparr>"

theorem UpdateWorkflowConfig_valid_witness:
  "let m = UpdateWorkflowConfig ex_env ex_admin (Some ex_update) ex_world
   in \<not> isl (fst m) \<and> configs_valid (db ex_admin (snd m))"
proof -
  let ?m = "UpdateWorkflowConfig ex_env ex_admin (Some ex_update) ex_world"
  have ok: "\<not> isl (fst ?m)" by (simp add: exec ex_update_def cong: exec_cong)
  have "configs_valid (db ex_admin ex_world)" by (simp add: exec configs_valid_def cfg_valid_def)
  from UpdateWorkflowConfig_valid[OF ran[OF ok] this] ok show ?thesis by (simp add: Let_def)
qed

end
