(* ===== verification/Workflow_Laws.thy ===== *)
theory Workflow_Laws
  imports Example
begin

text \<open>
  Laws of the workflow manager (src/internal/manager/workflow.go): the stages of a transition, of a creation,
  and what they leave in the tables.
\<close>

section \<open>Transitions\<close>

lemma firstWithApprovers_run:
  assumes "firstWithApprovers env ctx i w = (Inr (wkf, aps), w')" and "i \<noteq> uuid_Nil"
  shows "wkf \<in> set (workflows (db ctx w))" "wf_ID wkf = i" "same_db w w'" "db ctx w' = db ctx w"
proof -
  note r = First_full_run[OF assms(1)[unfolded firstWithApprovers_def]]
  then obtain rs where "filter (\<lambda>r. i = uuid_Nil \<or> wf_ID r = i) (workflows (db ctx w)) = wkf # rs" by auto
  then have "wkf \<in> set (filter (\<lambda>r. i = uuid_Nil \<or> wf_ID r = i) (workflows (db ctx w)))" by simp
  then show "wkf \<in> set (workflows (db ctx w))" "wf_ID wkf = i" using assms(2) by auto
  show "same_db w w'" "db ctx w' = db ctx w" using r by auto
qed

text \<open>what is done before the user is checked leaves all but the tenant configuration\<close>

lemma before_actor_check:
  assumes "fetchEligibilityForVote env ctx wkf t w = (Inr eli, w1)"
    and "getWorkflowLifecycleWithEligibility env ctx wkf user eli w1 = (Inr l0, w2)"
    and "resolveActorApproverGroupIDs env ctx wkf w2 = (Inr grps, w3)" and tn: "ctx_Tenant ctx = Some tn"
  shows "changes {TabTenantConfigs} (db ctx w) (db ctx w3)"
    and "l_Workflow l0 = wkf" "l_ActorID l0 = user" "l_Current l0 = wf_State wkf"
proof -
  let ?R = "only {TabTenantConfigs} tn"
  have "?R w w1" by (rule steps_run[OF tab.steps_fetchEligibilityForVote assms(1)]) (use tn in auto)
  moreover have "?R w1 w2"
    by (rule steps_run[OF tab.steps_getWorkflowLifecycleWithEligibility assms(2)]) (use tn in auto)
  moreover have "?R w2 w3" by (rule steps_run[OF tab.steps_resolveActorApproverGroupIDs assms(3)]) (use tn in auto)
  ultimately show "changes {TabTenantConfigs} (db ctx w) (db ctx w3)"
    by (meson changes_trans only_db)
  show "l_Workflow l0 = wkf" "l_ActorID l0 = user" "l_Current l0 = wf_State wkf"
    using assms(2) by (auto simp: getWorkflowLifecycleWithEligibility_def run_simps NewLifecycle_def split: if_split_asm)
qed

lemma transitionTx_stages:
  assumes run: "transitionTx env user wkf t ctx w = (Inr wkf', w')" and tn: "ctx_Tenant ctx = Some tn"
  obtains l eli wa wb wc l' wd we where
    "l_Workflow l = wkf" "l_ActorID l = user" "l_Current l = wf_State wkf"
    "changes {TabTenantConfigs} (db ctx w) (db ctx wa)" "ValidateActor env ctx l t wa = (Inr (), wb)"
    "voting t \<or> t = TransitionRevoke \<or> t = TransitionConfirm"
    "ApplyTransition env (workflow_actions env) ctx l t wc = (Inr l', wd)"
    "HandleTerminalWorkflow env ctx (l_Workflow l') wd = (Inr (), we)"
    "attemptAutoReject env ctx (l_Workflow l') t eli we = (Inr wkf', w')"
proof -
  from run obtain eli w1 l0 w2 grps w3 wb ap w4 u w5 l' wd we where
      pre: "fetchEligibilityForVote env ctx wkf t w = (Inr eli, w1)"
        "getWorkflowLifecycleWithEligibility env ctx wkf user eli w1 = (Inr l0, w2)"
        "resolveActorApproverGroupIDs env ctx wkf w2 = (Inr grps, w3)"
    and v: "ValidateActor env ctx (l0\<lparr>l_ActorApproverGroupIDs := grps\<rparr>) t w3 = (Inr (), wb)"
    and rc: "recordTransitionInDB env ctx t ap w4 = (Inr u, w5)"
    and ap: "ValidateAndApplyTransition env (workflow_actions env) ctx (l0\<lparr>l_ActorApproverGroupIDs := grps\<rparr>) t w5 = (Inr l', wd)"
    and ht: "HandleTerminalWorkflow env ctx (l_Workflow l') wd = (Inr (), we)"
    and au: "attemptAutoReject env ctx (l_Workflow l') t eli we = (Inr wkf', w')"
    by (auto simp: transitionTx_def run_simps Let_def split: if_split_asm)
  obtain wc where "ApplyTransition env (workflow_actions env) ctx (l0\<lparr>l_ActorApproverGroupIDs := grps\<rparr>) t wc = (Inr l', wd)"
    using ap by (auto simp: ValidateAndApplyTransition_def run_simps)
  moreover have "voting t \<or> t = TransitionRevoke \<or> t = TransitionConfirm"
    using rc by (cases t) (auto simp: recordTransitionInDB_def voting_def run_simps)
  ultimately show thesis
    using that[OF _ _ _ _ v _ _ ht au] before_actor_check[OF pre tn] by simp
qed

lemma ValidateActor_run:
  assumes "ValidateActor env ctx l t w = (Inr u, w')"
  shows "t \<in> {TransitionCreate, TransitionRevoke, TransitionConfirm} \<Longrightarrow> l_ActorID l = wf_InitiatorID (l_Workflow l)"
    and "voting t \<Longrightarrow> \<exists>a \<in> set (approvers (db ctx w)). wa_WorkflowID a = wf_ID (l_Workflow l) \<and> wa_UserID a = l_ActorID l"
proof -
  have raise: "raiseC v s = (Inr x, s') \<Longrightarrow> s' = s" for v s s' and x :: unit
    by (auto simp: raiseC_def run_simps split: option.splits)
  show "l_ActorID l = wf_InitiatorID (l_Workflow l)" if "t \<in> {TransitionCreate, TransitionRevoke, TransitionConfirm}"
    using assms that by (auto simp: ValidateActor_def run_simps validateUserIsInitiator_def)
  show "\<exists>a \<in> set (approvers (db ctx w)). wa_WorkflowID a = wf_ID (l_Workflow l) \<and> wa_UserID a = l_ActorID l" if "voting t"
  proof -
    have t: "t \<in> {TransitionApprove, TransitionReject}" using that by (auto simp: voting_def)
    with assms obtain n w1 where "Count env ctx T_approvers
        (\<lambda>_ a. wa_WorkflowID a = wf_ID (l_Workflow l) \<and> wa_UserID a = l_ActorID l) w = (Inr n, w1)" "n > 0"
      by (auto simp: ValidateActor_def validateUserIsApprover_def run_simps dest!: raise)
    then show ?thesis
      by (auto dest!: Count_join_run simp: filter_empty_conv)
  qed
qed

text \<open>everything after the transaction only reads, and calls other services\<close>

lemma TransitionWorkflow_stages:
  assumes run: "TransitionWorkflow env ctx i t w = (Inr wkf', w')" and tn: "ctx_Tenant ctx = Some tn" and i: "i \<noteq> uuid_Nil"
  obtains user wkf v v' where "ExtractUserIdentifier ctx = Inr user"
    "wkf \<in> set (workflows (db ctx w))" "wf_ID wkf = i"
    "db ctx v = db ctx w" "transitionTx env user wkf t (ctx\<lparr>ctx_tx := True\<rparr>) v = (Inr wkf', v')" "db ctx w' = db ctx v'"
proof -
  from run obtain user wkf aps w1 w2 w3 rc w4 u where user: "ExtractUserIdentifier ctx = Inr user"
    and f: "firstWithApprovers env ctx i w = (Inr (wkf, aps), w1)"
    and tx: "Transaction env ctx (transitionTx env user wkf t) w1 = (Inr wkf', w2)"
    and idm: "IdentityManagement env w2 = (Inr (), w3)"
    and rec: "GetNotificationRecipients env ctx wkf' aps t w3 = (Inr rc, w4)"
    and task: "onlyLogged (createWorkflowTransitionNotificationTask env ctx wkf' t rc) w4 = (Inr u, w')"
    by (auto simp: TransitionWorkflow_def applyTransition_def run_simps)
  have "same_tables w2 w3" by (rule steps_run[OF ro.steps_IdentityManagement idm])
  moreover have "same_tables w3 w4" by (rule steps_run[OF ro.steps_GetNotificationRecipients rec]) (use tn in auto)
  moreover have "same_tables w4 w'"
    by (rule steps_run[OF ro.steps_onlyLogged[OF ro.steps_createWorkflowTransitionNotificationTask] task]) (use tn in auto)
  ultimately have post: "db ctx w' = db ctx w2" by (simp add: same_tables_db)
  obtain v v' where v: "same_data w1 v" "transitionTx env user wkf t (ctx\<lparr>ctx_tx := True\<rparr>) v = (Inr wkf', v')" "same_data v' w2"
    by (rule Transaction_step[OF tx])
  note f' = firstWithApprovers_run[OF f i]
  show thesis
    by (rule that[OF user f'(1,2) _ v(2)]) (use same_data_db[OF v(1), of ctx] same_data_db[OF v(3), of ctx] f'(4) post in auto)
qed

lemma markArtifact_run:
  assumes "markArtifact env ctx wkf b w = (Inr u, w')"
  shows "db ctx w' = (case wf_ArtifactType wkf of
      WorkflowArtifactTypeSystem \<Rightarrow> (db ctx w)\<lparr>systems := row_upd (\<lambda>s. sys_ID s = wf_ArtifactID wkf)
        (\<lambda>s. s\<lparr>sys_UnderWorkflow := b\<rparr>) (systems (db ctx w))\<rparr>
    | WorkflowArtifactTypeKey \<Rightarrow> (db ctx w)\<lparr>keys := row_upd (\<lambda>k. key_ID k = wf_ArtifactID wkf)
        (\<lambda>k. k\<lparr>key_UnderWorkflow := b\<rparr>) (keys (db ctx w))\<rparr>
    | WorkflowArtifactTypeKeyConfiguration \<Rightarrow> db ctx w)"
  using assms by (auto simp: markArtifact_def run_simps split: WorkflowArtifactType.splits dest!: Patch_run)

text \<open>the mark of the artifact of a workflow\<close>

definition marked :: "Workflow \<Rightarrow> bool \<Rightarrow> schema \<Rightarrow> bool" where
  "marked wkf b d \<longleftrightarrow> (case wf_ArtifactType wkf of
       WorkflowArtifactTypeSystem \<Rightarrow> \<forall>s \<in> set (systems d). sys_ID s = wf_ArtifactID wkf \<longrightarrow> sys_UnderWorkflow s = b
     | WorkflowArtifactTypeKey \<Rightarrow> \<forall>k \<in> set (keys d). key_ID k = wf_ArtifactID wkf \<longrightarrow> key_UnderWorkflow k = b
     | WorkflowArtifactTypeKeyConfiguration \<Rightarrow> True)"

lemma markArtifact_marks:
  "markArtifact env ctx wkf b w = (Inr u, w') \<Longrightarrow> marked wkf b (db ctx w')"
  by (drule markArtifact_run) (auto simp: marked_def set_row_upd split: WorkflowArtifactType.splits)

lemma reads_firstWithApprovers: "steps same_data (firstWithApprovers env ctx i)"
  unfolding firstWithApprovers_def by (rule reads_First_full)

section \<open>Possible transitions\<close>

lemma ApplyTransition_possible:
  assumes ok: "fsm_ok env" and run: "ApplyTransition env acts ctx l t w = (Inr l', w')"
  shows "wf_next (l_Current l) t \<noteq> None"
  using run
proof (cases rule: ApplyTransition_run)
  case (skipped w1)
  obtain b where t: "t = (if b then TransitionApprove else TransitionReject)"
    using transitionPrecheck_allowed[OF skipped(1)] by (metis insertE singletonD)
  have "fsm_Can env l t"
    using checkVotingScore_run[OF transitionPrecheck_vote[OF skipped(1) t] t] by simp
  then show ?thesis by (simp add: fsm_Can_def fsm_table[OF ok])
next
  case (moved w1 s l2 w2)
  show ?thesis using ApplyTransition_moved[OF ok run moved(1)] by auto
qed

text \<open>a terminal workflow fails the transaction of every transition\<close>

lemma TransitionWorkflow_terminal:
  assumes ok: "fsm_ok env" and tn: "ctx_Tenant ctx = Some tn" and i: "i \<noteq> uuid_Nil" and tx: "\<not> ctx_tx ctx"
    and trm: "\<forall>r \<in> set (workflows (db ctx w)). wf_ID r = i \<longrightarrow> wf_State r \<in> set WorkflowTerminalStates"
    and run: "TransitionWorkflow env ctx i t w = (r, w')"
  shows "isl r \<and> schemas w' = schemas w \<and> tenants w' = tenants w"
proof -
  have impossible: False
    if "transitionTx env user wkf t (ctx\<lparr>ctx_tx := True\<rparr>) v = (Inr wkf', v')" "wf_State wkf \<in> set WorkflowTerminalStates"
    for user wkf v wkf' v'
    using that(1)
  proof (rule transitionTx_stages[of _ _ _ _ _ _ _ _ tn])
    fix l wc l' wd assume "l_Current l = wf_State wkf" "ApplyTransition env (workflow_actions env) (ctx\<lparr>ctx_tx := True\<rparr>) l t wc = (Inr l', wd)"
    then show False using ApplyTransition_possible[OF ok] that(2) wf_next_terminal by metis
  qed (use tn in simp)
  show ?thesis
  proof (cases r)
    case (Inr wkf')
    from run have "TransitionWorkflow env ctx i t w = (Inr wkf', w')" by (simp add: Inr)
    from TransitionWorkflow_stages[OF this tn i] show ?thesis using impossible trm by metis
  next
    case (Inl e)
    show ?thesis
    proof (cases "\<exists>user wkf aps w1. ExtractUserIdentifier ctx = Inr user \<and> firstWithApprovers env ctx i w = (Inr (wkf, aps), w1)")
      case True
      then obtain user wkf aps w1 where u: "ExtractUserIdentifier ctx = Inr user"
        and f: "firstWithApprovers env ctx i w = (Inr (wkf, aps), w1)" by blast
      note f' = firstWithApprovers_run[OF f i]
      have fails: "isl (fst (Transaction env ctx (transitionTx env user wkf t) w1))"
      proof (rule ccontr)
        assume "\<not> isl (fst (Transaction env ctx (transitionTx env user wkf t) w1))"
        from Transaction_step[OF ran[OF this]] show False using impossible f'(1,2) trm by metis
      qed
      then obtain e' w2 where t: "Transaction env ctx (transitionTx env user wkf t) w1 = (Inl e', w2)"
        using failed by blast
      then have "w' = w2"
        using run u f by (auto simp: TransitionWorkflow_def applyTransition_def bindC_def liftC_def wrapC_def)
      then show ?thesis using Transaction_err[OF t tx] f'(3) Inl by (simp add: same_db_def)
    next
      case False
      have "same_tables w w'"
        using False run steps_run[OF reads_firstWithApprovers, of env ctx i w]
        by (auto simp: TransitionWorkflow_def bindC_def liftC_def wrapC_def same_data_def same_tables_def
            split: sum.splits prod.splits)
      then show ?thesis using Inl by (simp add: same_tables_def)
    qed
  qed
qed

section \<open>Creation\<close>

lemma catchC_run:
  "catchC m h s = (Inr y, s') \<longleftrightarrow>
     (\<exists>e t. m s = (Inl e, t) \<and> \<not> errs_Is e ''panic'' \<and> h (Inl e) t = (Inr y, s')) \<or>
     (\<exists>x t. m s = (Inr x, t) \<and> h (Inr x) t = (Inr y, s'))"
  by (auto simp: catchC_def tryC_run run_simps split: if_split_asm)

text \<open>the tables that a check of a workflow may write: reading a key refreshes it\<close>

abbreviation refreshed :: "tab set" where
  "refreshed \<equiv> {TabTenantConfigs, TabKeys, TabKeyVersions, TabEvents}"

definition active_for :: "Workflow \<Rightarrow> Workflow \<Rightarrow> bool" where
  "active_for wkf r \<longleftrightarrow> wf_ArtifactType r = wf_ArtifactType wkf \<and> wf_ArtifactID r = wf_ArtifactID wkf \<and>
     wf_State r \<in> set WorkflowNonTerminalStates"

lemma checkWorkflow_free:
  assumes run: "checkWorkflow env ctx wkf True w = (Inr r, w')" and tn: "ctx_Tenant ctx = Some tn"
    and ok: "transformCheckWorkflowError r = Inr st" "\<not> ws_Exists st" "ws_ErrDetails st = None"
  shows "\<forall>x \<in> set (workflows (db ctx w)). \<not> active_for wkf x"
proof -
  have unsupported: "isInvalidAction [E ''ErrUnsuportedWorkflow'']"
    by (simp add: isInvalidAction_def IsAnyError_def errs_Is_def)
  from run ok obtain v w1 ex w2 where v: "validateWorkflow env ctx wkf w = (Inr v, w1)"
    and o: "checkOngoingWorkflowForArtifact env ctx wkf w1 = (Inr ex, w2)" and "\<not> ex"
    by (auto simp: checkWorkflow_def catchC_run run_simps transformCheckWorkflowError_def wfStatus_def unsupported
        split: if_split_asm option.splits)
  have "only refreshed tn w w1" by (rule steps_run[OF tab.steps_validateWorkflow v]) (use tn in auto)
  then have "workflows (db ctx w1) = workflows (db ctx w)" using only_db[of refreshed tn w w1 ctx] by (simp add: changes_def)
  then show ?thesis
    using o \<open>\<not> ex\<close> by (auto simp: checkOngoingWorkflowForArtifact_def run_simps active_for_def filter_empty_conv dest!: Count_join_run)
qed

lemma GetWorkflowConfig_present:
  assumes "tenant_configs (db ctx w) \<noteq> []" and run: "GetWorkflowConfig env ctx w = (r, w')"
  shows "db ctx w' = db ctx w \<and> (\<forall>c. r = Inr c \<longrightarrow> c \<in> set (tenant_configs (db ctx w)))"
proof (cases "First env ctx T_tenant_configs (\<lambda>_ _. True) w")
  case (Pair x w1)
  have same: "db ctx w1 = db ctx w" using First_join_any[OF Pair] by blast
  show ?thesis
  proof (cases x)
    case (Inl e)
    have "\<not> errs_Is e ''repo.ErrNotFound''"
      using First_join_notfound[OF Pair[unfolded Inl]] assms(1) by (auto simp: find_None_iff)
    then show ?thesis using run Pair Inl same by (auto simp: GetWorkflowConfig_def tryC_def throwC_def)
  next
    case (Inr c)
    then show ?thesis
      using run Pair same First_join_found[OF Pair[unfolded Inr]] by (auto simp: GetWorkflowConfig_def tryC_def returnC_def)
  qed
qed

lemma getMinimumApprovals_present:
  assumes "tenant_configs (db ctx w) \<noteq> []" and "getMinimumApprovals env ctx w = (r, w')"
  shows "db ctx w' = db ctx w"
  using assms(2) GetWorkflowConfig_present[OF assms(1)]
  by (auto simp: getMinimumApprovals_def tryC_def returnC_def split: prod.splits sum.splits)

lemma CheckWorkflow_free:
  assumes run: "CheckWorkflow env ctx wkf w = (Inr st, w')" and tn: "ctx_Tenant ctx = Some tn"
    and ok: "\<not> ws_Exists st" "ws_ErrDetails st = None"
    and on: "tenant_configs (db ctx w) \<noteq> []" "\<forall>c \<in> set (tenant_configs (db ctx w)). cfg_Enabled c"
  shows "\<forall>x \<in> set (workflows (db ctx w)). \<not> active_for wkf x"
proof -
  from run obtain c w1 w2 w3 r where c: "GetWorkflowConfig env ctx w = (Inr c, w1)"
    and p: "checkPermissionToCreateWorkflow env ctx wkf w1 = (Inr True, w2)"
    and k: "checkWorkflow env ctx wkf (cfg_Enabled c) w2 = (Inr r, w3)" and st: "transformCheckWorkflowError r = Inr st"
    by (auto simp: CheckWorkflow_def WorkflowConfig_get_def run_simps split: if_split_asm)
  note c' = GetWorkflowConfig_present[OF on(1) c]
  then have "cfg_Enabled c" using on(2) by simp
  have "only refreshed tn w1 w2" by (rule steps_run[OF tab.steps_checkPermissionToCreateWorkflow p]) (use tn in auto)
  then have "workflows (db ctx w2) = workflows (db ctx w1)"
    using only_db[of refreshed tn w1 w2 ctx] by (simp add: changes_def)
  then show ?thesis
    using checkWorkflow_free[OF k[simplified \<open>cfg_Enabled c\<close>] tn st ok] c' by simp
qed

lemma insertWorkflow_run:
  assumes "insertWorkflow env ctx wkf w = (Inr wkf', w')"
  shows "db ctx w' = workflows_update (\<lambda>rs. rs @ [wkf']) (db ctx w)" "wf_State wkf' = wf_State wkf"
    "wf_ArtifactType wkf' = wf_ArtifactType wkf" "wf_ArtifactID wkf' = wf_ArtifactID wkf"
    "wf_ID wkf' \<notin> wf_ID ` set (workflows (db ctx w))" "wf_ID wkf' = wf_ID wkf"
proof -
  obtain now where d: "wkf' = Workflow_BeforeSave now (if wf_CreatedAt wkf = 0 then wkf\<lparr>wf_CreatedAt := now\<rparr> else wkf)"
    and c: "Create env ctx T_workflows wkf' (w\<lparr>tick := Suc (tick w)\<rparr>) = (Inr (), w')"
    using assms by (auto simp: insertWorkflow_def run_simps Let_def)
  show "wf_State wkf' = wf_State wkf" "wf_ArtifactType wkf' = wf_ArtifactType wkf" "wf_ArtifactID wkf' = wf_ArtifactID wkf"
    "wf_ID wkf' = wf_ID wkf" unfolding d by simp_all
  show "db ctx w' = workflows_update (\<lambda>rs. rs @ [wkf']) (db ctx w)" using Create_run[OF c] by simp
  show "wf_ID wkf' \<notin> wf_ID ` set (workflows (db ctx w))" using Create_run[OF c] by (auto simp: T_workflows_def)
qed

lemma createTx_run:
  assumes "createTx env wkf ctx w = (Inr wkf', w')"
  shows "workflows (db ctx w') = workflows (db ctx w) @ [wkf']" "marked wkf' True (db ctx w')"
    "wf_State wkf' = wf_State wkf" "wf_ArtifactType wkf' = wf_ArtifactType wkf" "wf_ArtifactID wkf' = wf_ArtifactID wkf"
    "wf_ID wkf' \<notin> wf_ID ` set (workflows (db ctx w))" "wf_ID wkf' = wf_ID wkf"
proof -
  obtain w1 w2 u where i: "insertWorkflow env ctx wkf w = (Inr wkf', w1)"
    and m: "markArtifact env ctx wkf' True w1 = (Inr u, w2)"
    and t: "createAutoAssignApproversAsyncTask env wkf' w2 = (Inr (), w')"
    using assms by (auto simp: createTx_def handleNewWorkflow_def run_simps)
  have d: "db ctx w' = db ctx w2"
    by (rule same_tables_db[OF steps_run[OF ro.steps_createAutoAssignApproversAsyncTask t]])
  show "workflows (db ctx w') = workflows (db ctx w) @ [wkf']"
    using insertWorkflow_run(1)[OF i] markArtifact_run[OF m] d by (simp split: WorkflowArtifactType.splits)
  show "marked wkf' True (db ctx w')" unfolding d by (rule markArtifact_marks[OF m])
  show "wf_State wkf' = wf_State wkf" "wf_ArtifactType wkf' = wf_ArtifactType wkf" "wf_ArtifactID wkf' = wf_ArtifactID wkf"
    "wf_ID wkf' \<notin> wf_ID ` set (workflows (db ctx w))" "wf_ID wkf' = wf_ID wkf"
    by (rule insertWorkflow_run[OF i])+
qed

lemma populated:
  assumes "populateArtifact env ctx wkf w = (Inr wkf1, w1)" and "populateParametersResource env ctx wkf1 w1 = (Inr wkf2, w2)"
  shows "wf_State wkf2 = wf_State wkf" "wf_ArtifactType wkf2 = wf_ArtifactType wkf" "wf_ArtifactID wkf2 = wf_ArtifactID wkf"
    "wf_ID wkf2 = wf_ID wkf"
proof -
  have "wf_State wkf1 = wf_State wkf \<and> wf_ArtifactType wkf1 = wf_ArtifactType wkf \<and> wf_ArtifactID wkf1 = wf_ArtifactID wkf \<and>
      wf_ID wkf1 = wf_ID wkf"
    using assms(1) by (auto simp: populateArtifact_def run_simps split: WorkflowArtifactType.splits)
  moreover have "wf_State wkf2 = wf_State wkf1 \<and> wf_ArtifactType wkf2 = wf_ArtifactType wkf1 \<and>
      wf_ArtifactID wkf2 = wf_ArtifactID wkf1 \<and> wf_ID wkf2 = wf_ID wkf1"
    using assms(2) by (auto simp: populateParametersResource_def run_simps split: if_split_asm)
  ultimately show "wf_State wkf2 = wf_State wkf" "wf_ArtifactType wkf2 = wf_ArtifactType wkf" "wf_ArtifactID wkf2 = wf_ArtifactID wkf"
    "wf_ID wkf2 = wf_ID wkf" by simp_all
qed

lemma CreateWorkflow_run:
  assumes run: "CreateWorkflow env ctx wkf0 w = (Inr wkf', w')" and tn: "ctx_Tenant ctx = Some tn"
  shows "workflows (db ctx w') = workflows (db ctx w) @ [wkf']" "marked wkf' True (db ctx w')"
    "wf_State wkf' = WorkflowStateInitial" "wf_ArtifactType wkf' = wf_ArtifactType wkf0" "wf_ArtifactID wkf' = wf_ArtifactID wkf0"
    "wf_ID wkf' = wf_ID wkf0" "wf_ID wkf' \<notin> wf_ID ` set (workflows (db ctx w))"
    "tenant_configs (db ctx w) \<noteq> [] \<Longrightarrow> \<forall>c \<in> set (tenant_configs (db ctx w)). cfg_Enabled c \<Longrightarrow>
       \<forall>x \<in> set (workflows (db ctx w)). \<not> active_for wkf0 x"
proof -
  let ?R = "only refreshed tn"
  from run obtain n w1 st w2 wkf1 w3 wkf2 w4 where n: "getMinimumApprovals env ctx w = (Inr n, w1)"
    and ck: "CheckWorkflow env ctx (wkf0\<lparr>wf_State := WorkflowStateInitial, wf_MinimumApprovalCount := n\<rparr>) w1 = (Inr st, w2)"
    and st: "\<not> ws_Exists st" "ws_ErrDetails st = None"
    and p: "populateArtifact env ctx (wkf0\<lparr>wf_State := WorkflowStateInitial, wf_MinimumApprovalCount := n\<rparr>) w2 = (Inr wkf1, w3)"
        "populateParametersResource env ctx wkf1 w3 = (Inr wkf2, w4)"
    and tx: "Transaction env ctx (createTx env wkf2) w4 = (Inr wkf', w')"
    by (auto simp: CreateWorkflow_def run_simps Let_def split: if_split_asm option.splits)
  have r1: "?R w w1" by (rule steps_run[OF tab.steps_getMinimumApprovals n]) (use tn in auto)
  have r2: "?R w1 w2" by (rule steps_run[OF tab.steps_CheckWorkflow ck]) (use tn in auto)
  have r3: "?R w2 w3" by (rule steps_run[OF tab.steps_populateArtifact p(1)]) (use tn in auto)
  have r4: "?R w3 w4" by (rule steps_run[OF tab.steps_populateParametersResource p(2)]) (use tn in auto)
  have wfs: "workflows (db ctx w4) = workflows (db ctx w)" "workflows (db ctx w1) = workflows (db ctx w)"
    using only_db[OF r1, of ctx] only_db[OF r2, of ctx] only_db[OF r3, of ctx] only_db[OF r4, of ctx]
    by (simp_all add: changes_def)
  obtain v v' where v: "same_data w4 v" "createTx env wkf2 (ctx\<lparr>ctx_tx := True\<rparr>) v = (Inr wkf', v')" "same_data v' w'"
    by (rule Transaction_step[OF tx])
  note c = createTx_run[OF v(2), unfolded db_tx] and d = same_data_db[OF v(1), of ctx] same_data_db[OF v(3), of ctx]
  show "workflows (db ctx w') = workflows (db ctx w) @ [wkf']" "marked wkf' True (db ctx w')"
    "wf_ID wkf' \<notin> wf_ID ` set (workflows (db ctx w))" using c(1,2,6) d wfs by simp_all
  show "wf_State wkf' = WorkflowStateInitial" "wf_ArtifactType wkf' = wf_ArtifactType wkf0" "wf_ArtifactID wkf' = wf_ArtifactID wkf0"
    "wf_ID wkf' = wf_ID wkf0"
    using c(3,4,5,7) populated[OF p] by simp_all
  show "\<forall>x \<in> set (workflows (db ctx w)). \<not> active_for wkf0 x"
    if on: "tenant_configs (db ctx w) \<noteq> []" "\<forall>c \<in> set (tenant_configs (db ctx w)). cfg_Enabled c"
    using CheckWorkflow_free[OF ck tn st] on wfs(2) getMinimumApprovals_present[OF on(1) n] by (simp add: active_for_def)
qed

section \<open>Clean-up\<close>

text \<open>what the clean-up is to delete\<close>

definition old_terminal :: "time \<Rightarrow> int \<Rightarrow> Workflow \<Rightarrow> bool" where
  "old_terminal now days x \<longleftrightarrow> wf_State x \<in> set WorkflowTerminalStates \<and> wf_CreatedAt x < AddDays now (- days)"

lemma deleteWorkflows_run:
  assumes "deleteWorkflows env wfs ctx w = (Inr u, w')"
  shows "workflows (db ctx w') = filter (\<lambda>r. wf_ID r \<notin> wf_ID ` set wfs) (workflows (db ctx w))"
proof -
  have "workflows (db ctx w') = filter (\<lambda>r. wf_ID r \<notin> wf_ID ` set wfs) (workflows (db ctx w))"
    if "forC wfs (\<lambda>x. Delete env ctx T_workflows (workflow_refs (wf_ID x)) (\<lambda>r. wf_ID r = wf_ID x)) w = (Inr ys, w')" for ys
    using that
  proof (induction wfs arbitrary: w ys)
    case (Cons x wfs)
    then obtain b w1 zs where d: "Delete env ctx T_workflows (workflow_refs (wf_ID x)) (\<lambda>r. wf_ID r = wf_ID x) w = (Inr b, w1)"
      and rest: "forC wfs (\<lambda>x. Delete env ctx T_workflows (workflow_refs (wf_ID x)) (\<lambda>r. wf_ID r = wf_ID x)) w1 = (Inr zs, w')"
      by (auto simp: run_simps)
    have "workflows (db ctx w1) = filter (\<lambda>r. wf_ID r \<noteq> wf_ID x) (workflows (db ctx w))"
      using Delete_run[OF d] by (auto simp: workflow_refs_def)
    with Cons.IH[OF rest] show ?case by (simp add: conj_commute)
  qed (simp add: run_simps)
  then show ?thesis using assms by (auto simp: deleteWorkflows_def run_simps)
qed

lemma deleteWorkflows_keeps:
  assumes run: "Transaction env ctx (deleteWorkflows env wfs) w = (r, w')" and tx: "\<not> ctx_tx ctx"
    and uniq: "distinct (map wf_ID (workflows (db ctx w)))" and sub: "set wfs \<subseteq> set (filter q (workflows (db ctx w)))"
  shows "distinct (map wf_ID (workflows (db ctx w'))) \<and>
    (\<forall>x \<in> set (workflows (db ctx w)). \<not> q x \<longrightarrow> x \<in> set (workflows (db ctx w')))"
proof (cases r)
  case (Inl e)
  from Transaction_err[OF run[unfolded Inl] tx] have "db ctx w' = db ctx w" by (simp add: db_def tenant_schema_def)
  then show ?thesis using uniq by simp
next
  case (Inr u)
  have "workflows (db ctx w') = filter (\<lambda>r. wf_ID r \<notin> wf_ID ` set wfs) (workflows (db ctx w))"
    by (rule Transaction_rel[OF run[unfolded Inr]]) (drule deleteWorkflows_run, simp)
  moreover have "wf_ID x \<notin> wf_ID ` set wfs" if "x \<in> set (workflows (db ctx w))" "\<not> q x" for x
    using that sub uniq by (auto simp: distinct_map inj_on_def)
  ultimately show ?thesis using uniq by (auto intro: distinct_map_filter')
qed

lemma cleanup_batches:
  assumes run: "ProcessInBatchWithOptions env ctx T_workflows [] (\<lambda>_. p) b deleting
      (\<lambda>wfs. if wfs = [] then returnC () else Transaction env ctx (deleteWorkflows env wfs)) w = (r, w')"
    and b: "b > 0" and tx: "\<not> ctx_tx ctx" and uniq: "distinct (map wf_ID (workflows (db ctx w)))"
  shows "(\<forall>x \<in> set (workflows (db ctx w)). \<not> p x \<longrightarrow> x \<in> set (workflows (db ctx w'))) \<and>
    (r = Inr () \<longrightarrow> (\<forall>x \<in> set (workflows (db ctx w')). \<not> p x))"
proof -
  let ?I = "\<lambda>d. distinct (map wf_ID (workflows d)) \<and> (\<forall>x \<in> set (workflows (db ctx w)). \<not> p x \<longrightarrow> x \<in> set (workflows d))"
  from run have l: "batchLoop (length (workflows (db ctx w)) + 2) env ctx T_workflows [] (\<lambda>_. p) b deleting
      (\<lambda>wfs. if wfs = [] then returnC () else Transaction env ctx (deleteWorkflows env wfs)) 0 None w = (r, w')"
    unfolding ProcessInBatchWithOptions_def bindC_def getC_def by simp
  have "?I (db ctx w') \<and> (\<not> isl r \<longrightarrow> matching T_workflows (\<lambda>_. p) (db ctx w') = [])"
  proof (rule batchLoop_delete[OF l b])
    fix items v x v'
    assume I: "?I (db ctx v)" and sub: "set items \<subseteq> set (matching T_workflows (\<lambda>_. p) (db ctx v))"
      and f: "(if items = [] then returnC () else Transaction env ctx (deleteWorkflows env items)) v = (x, v')"
    show "?I (db ctx v')"
    proof (cases "items = []")
      case True
      then show ?thesis using I f by (simp add: returnC_def)
    next
      case False
      with f have t: "Transaction env ctx (deleteWorkflows env items) v = (x, v')" by simp
      show ?thesis
        using deleteWorkflows_keeps[OF t tx conjunct1[OF I], of p] sub I by (auto simp: matching_def)
    qed
  qed (use uniq in \<open>auto simp: returnC_def\<close>)
  then show ?thesis by (auto simp: matching_def filter_empty_conv)
qed

lemma CleanupTerminalWorkflows_run:
  assumes run: "CleanupTerminalWorkflows env ctx w = (r, w')" and tn: "ctx_Tenant ctx = Some tn" and tx: "\<not> ctx_tx ctx"
    and uniq: "distinct (map wf_ID (workflows (db ctx w)))" and valid: "configs_valid (db ctx w)"
  shows "\<exists>n c. cfg_RetentionPeriodDays c \<ge> 30 \<and>
    (\<forall>x \<in> set (workflows (db ctx w)). \<not> old_terminal (clock env n) (cfg_RetentionPeriodDays c) x \<longrightarrow>
      x \<in> set (workflows (db ctx w'))) \<and>
    (r = Inr () \<longrightarrow> (\<exists>v. GetWorkflowConfig env ctx w = (Inr c, v)) \<and>
      (\<forall>x \<in> set (workflows (db ctx w')). \<not> old_terminal (clock env n) (cfg_RetentionPeriodDays c) x))"
proof -
  obtain x w1 where g: "GetWorkflowConfig env ctx w = (x, w1)" by fastforce
  have "only {TabTenantConfigs} tn w w1" by (rule steps_run[OF tab.steps_GetWorkflowConfig g]) (use tn in auto)
  then have w1: "workflows (db ctx w1) = workflows (db ctx w)"
    using only_db[of _ _ w w1 ctx] by (auto simp: changes_def)
  show ?thesis
  proof (cases x)
    case (Inl e)
    with g run have "isl r" "w' = w1"
      by (auto simp: CleanupTerminalWorkflows_def WorkflowConfig_get_def bindC_def wrapC_def)
    then show ?thesis using w1 by (intro exI[of _ 0] exI[of _ "undefined\<lparr>cfg_RetentionPeriodDays := 30\<rparr>"]) auto
  next
    case (Inr c)
    let ?p = "old_terminal (clock env (tick w1)) (cfg_RetentionPeriodDays c)"
    have c: "cfg_RetentionPeriodDays c \<ge> 30"
      using GetWorkflowConfig_valid[OF g[unfolded Inr] valid] by (simp add: cfg_valid_def)
    obtain w2 where t: "timeNow env w1 = (Inr (clock env (tick w1)), w2)" "db ctx w2 = db ctx w1"
      by (simp add: timeNow_def bindC_def tick_of_def returnC_def db_def tenant_schema_def)
    have "ProcessInBatchWithOptions env ctx T_workflows [] (\<lambda>_. ?p) DefaultLimit deleting
      (\<lambda>wfs. if wfs = [] then returnC () else Transaction env ctx (deleteWorkflows env wfs)) w2 = (r, w')"
      using run g Inr t(1)
      by (simp add: CleanupTerminalWorkflows_def WorkflowConfig_get_def bindC_def wrapC_def old_terminal_def[abs_def] Let_def)
    from cleanup_batches[OF this _ tx] uniq w1 t(2) have
      "(\<forall>x \<in> set (workflows (db ctx w)). \<not> ?p x \<longrightarrow> x \<in> set (workflows (db ctx w'))) \<and>
       (r = Inr () \<longrightarrow> (\<forall>x \<in> set (workflows (db ctx w')). \<not> ?p x))"
      by (simp add: DefaultLimit_def)
    then show ?thesis using c g Inr by blast
  qed
qed

end
