(* ===== verification/Workflow_Properties.thy ===== *)
theory Workflow_Properties
  imports Workflow_Laws
begin

text \<open>
  Properties of the approval workflow: the vote (src/internal/workflow/workflow.go) and the operations of the
  workflow manager (src/internal/manager/workflow.go).
\<close>

section \<open>Votes\<close>

text \<open>
  C6: A vote decides exactly by the score. Counting the approvers who are eligible or have voted, with the new vote,
  an approval moves the workflow on if approvals exceed rejections by the required number, a rejection ends it if
  even the approval of everybody who has not voted could not reach that number; otherwise the workflow stays.
\<close>

theorem vote_decides:
  assumes "fsm_ok env" and "ApplyTransition env acts ctx l t w = (Inr l', w')"
    and "t = (if b then TransitionApprove else TransitionReject)" and "l_Current l = wf_State (l_Workflow l)"
  shows "let v = cast_vote (l_ActorID l) b (counted ctx w l); score = n_approved v - n_rejected v;
      decided = (if b then score \<ge> l_MinimumApproverCount l else score + n_pending v < l_MinimumApproverCount l)
    in wf_State (l_Workflow l) = WorkflowStateWaitApproval \<and>
      (if decided then wf_State (l_Workflow l') = (if b then WorkflowStateWaitConfirmation else WorkflowStateRejected)
       else l' = l)"
proof -
  have next': "wf_next (l_Current l) t \<noteq> None" by (rule ApplyTransition_possible[OF assms(1,2)])
  then have st: "wf_State (l_Workflow l) = WorkflowStateWaitApproval"
    using assms(3,4) by (cases "wf_State (l_Workflow l)"; cases b) auto
  from assms(2) show ?thesis
  proof (cases rule: ApplyTransition_run)
    case (skipped w1)
    show ?thesis
      using checkVotingScore_run[OF transitionPrecheck_vote[OF skipped(1) assms(3)] assms(3)] skipped(2) st
      by (simp add: Let_def)
  next
    case (moved w1 s l2 w2)
    show ?thesis
      using checkVotingScore_run[OF transitionPrecheck_vote[OF moved(1) assms(3)] assms(3)]
        ApplyTransition_moved[OF assms(1,2) moved(1)] st assms(3,4) by (auto simp: Let_def)
  qed
qed

theorem vote_decides_witness:
  "let m = ApplyTransition ex_env ex_acts (ex_kadm ''cat'') ex_lifecycle TransitionApprove ex_world;
       v = cast_vote ''cat'' True (counted (ex_kadm ''cat'') ex_world ex_lifecycle)
   in n_approved v = 2 \<and> \<not> isl (fst m) \<and> wf_State (l_Workflow (projr (fst m))) = WorkflowStateWaitConfirmation"
proof -
  let ?m = "ApplyTransition ex_env ex_acts (ex_kadm ''cat'') ex_lifecycle TransitionApprove ex_world"
  let ?v = "cast_vote ''cat'' True (counted (ex_kadm ''cat'') ex_world ex_lifecycle)"
  have ok: "\<not> isl (fst ?m)" by (simp add: exec ex_lifecycle_def cong: exec_cong)
  have l: "l_Current ex_lifecycle = wf_State (l_Workflow ex_lifecycle)" "l_ActorID ex_lifecycle = ''cat''"
    "l_MinimumApproverCount ex_lifecycle = 2" by (simp_all add: ex_lifecycle_def exec)
  have v: "n_approved ?v = 2" "n_rejected ?v = 0"
    by (simp_all add: counted_def cast_vote_def n_approved_def n_rejected_def ex_lifecycle_def exec)
  show ?thesis
    using vote_decides[where b = True, OF fsm_ok_ex ran[OF ok] _ l(1)] ok l v by (simp add: Let_def)
qed

section \<open>Transitions\<close>

text \<open>
  C7: A user can only vote as a recorded approver of the workflow, and only its initiator can confirm or revoke it;
  no other transition can be requested.
\<close>

theorem TransitionWorkflow_authorized:
  assumes "TransitionWorkflow env ctx i t w = (Inr wkf', w')" and "ctx_Tenant ctx = Some tn" and "i \<noteq> uuid_Nil"
  shows "\<exists>user. ExtractUserIdentifier ctx = Inr user \<and>
    (t \<in> {TransitionApprove, TransitionReject} \<and>
       (\<exists>a \<in> set (approvers (db ctx w)). wa_WorkflowID a = i \<and> wa_UserID a = user) \<or>
     t \<in> {TransitionRevoke, TransitionConfirm} \<and>
       (\<exists>wkf \<in> set (workflows (db ctx w)). wf_ID wkf = i \<and> wf_InitiatorID wkf = user))"
proof -
  obtain user wkf v v' where s: "ExtractUserIdentifier ctx = Inr user" "wkf \<in> set (workflows (db ctx w))" "wf_ID wkf = i"
      "db ctx v = db ctx w" "transitionTx env user wkf t (ctx\<lparr>ctx_tx := True\<rparr>) v = (Inr wkf', v')"
    by (rule TransitionWorkflow_stages[OF assms])
  have "ctx_Tenant (ctx\<lparr>ctx_tx := True\<rparr>) = Some tn" using assms(2) by simp
  from s(5) this obtain l wa wb where l: "l_Workflow l = wkf" "l_ActorID l = user"
      "changes {TabTenantConfigs} (db ctx v) (db ctx wa)" "ValidateActor env (ctx\<lparr>ctx_tx := True\<rparr>) l t wa = (Inr (), wb)"
      "voting t \<or> t = TransitionRevoke \<or> t = TransitionConfirm"
    by (rule transitionTx_stages) simp
  have "approvers (db ctx wa) = approvers (db ctx w)" using l(3) s(4) by (simp add: changes_def)
  then show ?thesis
    using ValidateActor_run[OF l(4)] l s by (auto simp: voting_def)
qed

theorem TransitionWorkflow_authorized_witness:
  "\<not> isl (fst (TransitionWorkflow ex_env (ex_kadm ''cat'') 31 TransitionApprove ex_world)) \<and>
   (\<exists>a \<in> set (approvers (db (ex_kadm ''cat'') ex_world)). wa_WorkflowID a = 31 \<and> wa_UserID a = ''cat'')"
proof -
  let ?m = "TransitionWorkflow ex_env (ex_kadm ''cat'') 31 TransitionApprove ex_world"
  have ok: "\<not> isl (fst ?m)" by (simp add: exec cong: exec_cong)
  have "ExtractUserIdentifier (ex_kadm ''cat'') = Inr ''cat''" by (simp add: exec)
  with TransitionWorkflow_authorized[OF ran[OF ok] ex_kadm_sel(1)] ok show ?thesis by simp
qed

text \<open>
  C8: A workflow in a terminal state stays as it is: every requested transition fails, and nothing of it is
  kept, not even the vote that is recorded before the state is looked at.
\<close>

theorem terminal_workflow_unchanged:
  assumes "fsm_ok env" and "ctx_Tenant ctx = Some tn" and "i \<noteq> uuid_Nil" and "\<not> ctx_tx ctx"
    and "\<forall>r \<in> set (workflows (db ctx w)). wf_ID r = i \<longrightarrow> wf_State r \<in> set WorkflowTerminalStates"
  shows "isl (fst (TransitionWorkflow env ctx i t w)) \<and>
    schemas (snd (TransitionWorkflow env ctx i t w)) = schemas w \<and> tenants (snd (TransitionWorkflow env ctx i t w)) = tenants w"
  using TransitionWorkflow_terminal[OF assms] by (cases "TransitionWorkflow env ctx i t w") simp

theorem terminal_workflow_unchanged_witness:
  "let w = ex_with (\<lambda>d. d\<lparr>workflows := [ex_wf\<lparr>wf_State := WorkflowStateExpired\<rparr>]\<rparr>)
   in isl (fst (TransitionWorkflow ex_env (ex_kadm ''cat'') 31 TransitionApprove w)) \<and>
      schemas (snd (TransitionWorkflow ex_env (ex_kadm ''cat'') 31 TransitionApprove w)) = schemas w"
proof -
  let ?w = "ex_with (\<lambda>d. d\<lparr>workflows := [ex_wf\<lparr>wf_State := WorkflowStateExpired\<rparr>]\<rparr>)"
  have "\<forall>r \<in> set (workflows (db (ex_kadm ''cat'') ?w)). wf_ID r = 31 \<longrightarrow> wf_State r \<in> set WorkflowTerminalStates"
    by (simp add: exec)
  from terminal_workflow_unchanged[OF fsm_ok_ex ex_kadm_sel(1) _ _ this, of TransitionApprove] show ?thesis
    by (simp add: Let_def ex_kadm_sel)
qed

text \<open>
  C24: When the initiator ends a workflow, by revoking it or by confirming it, whether its action then succeeds
  or fails, the key or system it is about is no longer marked as being under a workflow.
\<close>

theorem TransitionWorkflow_unmarks:
  assumes "TransitionWorkflow env ctx i t w = (Inr wkf', w')" and "ctx_Tenant ctx = Some tn" and "i \<noteq> uuid_Nil"
    and "t \<in> {TransitionRevoke, TransitionConfirm}" and "wf_State wkf' \<in> set WorkflowTerminalStates"
  shows "marked wkf' False (db ctx w')"
proof -
  obtain user wkf v v' where s: "transitionTx env user wkf t (ctx\<lparr>ctx_tx := True\<rparr>) v = (Inr wkf', v')" "db ctx w' = db ctx v'"
    by (rule TransitionWorkflow_stages[OF assms(1-3)])
  have "ctx_Tenant (ctx\<lparr>ctx_tx := True\<rparr>) = Some tn" using assms(2) by simp
  note stages = transitionTx_stages[OF s(1) this]
  obtain eli wd we and l' :: Lifecycle where
      h: "HandleTerminalWorkflow env (ctx\<lparr>ctx_tx := True\<rparr>) (l_Workflow l') wd = (Inr (), we)"
        "attemptAutoReject env (ctx\<lparr>ctx_tx := True\<rparr>) (l_Workflow l') t eli we = (Inr wkf', v')"
    by (rule stages) (rule that, assumption+)
  have "wkf' = l_Workflow l'" "v' = we"
    using h(2) assms(4) by (auto simp: attemptAutoReject_def voting_def run_simps)
  with h(1) assms(5) have "markArtifact env (ctx\<lparr>ctx_tx := True\<rparr>) wkf' False wd = (Inr (), v')"
    by (simp add: HandleTerminalWorkflow_def)
  from markArtifact_marks[OF this] show ?thesis by (simp add: s(2))
qed

theorem TransitionWorkflow_unmarks_witness:
  "let m = TransitionWorkflow ex_env (ex_kadm ''ann'') 31 TransitionRevoke ex_world
   in \<not> isl (fst m) \<and> wf_State (projr (fst m)) = WorkflowStateRevoked \<and>
      marked (projr (fst m)) False (db (ex_kadm ''ann'') (snd m))"
proof -
  let ?m = "TransitionWorkflow ex_env (ex_kadm ''ann'') 31 TransitionRevoke ex_world"
  have ok: "\<not> isl (fst ?m)" "wf_State (projr (fst ?m)) = WorkflowStateRevoked"
    by (simp_all add: exec cong: exec_cong)
  then have "wf_State (projr (fst ?m)) \<in> set WorkflowTerminalStates" by (simp add: WorkflowTerminalStates_def)
  from TransitionWorkflow_unmarks[OF ran[OF ok(1)] ex_kadm_sel(1) _ _ this] ok show ?thesis by (simp add: Let_def)
qed




section \<open>Creation\<close>

text \<open>
  C23: A created workflow is stored once under a fresh id in its initial state, and its key or system is marked. While
  approval is switched on there was no other workflow in progress for the same artifact.
\<close>

theorem CreateWorkflow_stored:
  assumes "CreateWorkflow env ctx wkf0 w = (Inr wkf, w')" and "ctx_Tenant ctx = Some tn"
  shows "workflows (db ctx w') = workflows (db ctx w) @ [wkf] \<and> wf_ID wkf = wf_ID wkf0 \<and>
    wf_ID wkf \<notin> wf_ID ` set (workflows (db ctx w)) \<and> wf_State wkf = WorkflowStateInitial \<and>
    wf_ArtifactType wkf = wf_ArtifactType wkf0 \<and> wf_ArtifactID wkf = wf_ArtifactID wkf0 \<and> marked wkf True (db ctx w') \<and>
    (tenant_configs (db ctx w) \<noteq> [] \<and> (\<forall>c \<in> set (tenant_configs (db ctx w)). cfg_Enabled c) \<longrightarrow>
      (\<forall>x \<in> set (workflows (db ctx w)). \<not> active_for wkf0 x))"
  using CreateWorkflow_run[OF assms] by blast

definition ex_free :: world where
  "ex_free = ex_with (\<lambda>d. d\<lparr>workflows := [ex_wf\<lparr>wf_State := WorkflowStateExpired\<rparr>], keys := [ex_key\<lparr>key_UnderWorkflow := False\<rparr>]\<rparr>)"

theorem CreateWorkflow_stored_witness:
  "let m = CreateWorkflow ex_env (ex_kadm ''ann'') (ex_wf\<lparr>wf_ID := 33\<rparr>) ex_free
   in \<not> isl (fst m) \<and> map wf_ID (workflows (db (ex_kadm ''ann'') (snd m))) = [31, 33]"
proof -
  let ?m = "CreateWorkflow ex_env (ex_kadm ''ann'') (ex_wf\<lparr>wf_ID := 33\<rparr>) ex_free"
  have ok: "\<not> isl (fst ?m)" by (simp add: exec ex_free_def cong: exec_cong)
  have "map wf_ID (workflows (db (ex_kadm ''ann'') ex_free)) = [31]" by (simp add: exec ex_free_def)
  with CreateWorkflow_stored[OF ran[OF ok] ex_kadm_sel(1)] ok show ?thesis by (simp add: Let_def)
qed



section \<open>Clean-up\<close>

text \<open>
  C13: The clean-up only deletes workflows that are in a terminal state and older than the retention period, which is
  30 days at least, whether it ends with an error or not; and when it ends without an error, none of these is left.
\<close>

theorem CleanupTerminalWorkflows_exact:
  assumes "CleanupTerminalWorkflows env ctx w = (r, w')" and "ctx_Tenant ctx = Some tn" and "\<not> ctx_tx ctx"
    and "distinct (map wf_ID (workflows (db ctx w)))" and "configs_valid (db ctx w)"
  shows "\<exists>n c. cfg_RetentionPeriodDays c \<ge> 30 \<and>
    (\<forall>x \<in> set (workflows (db ctx w)). \<not> old_terminal (clock env n) (cfg_RetentionPeriodDays c) x \<longrightarrow>
      x \<in> set (workflows (db ctx w'))) \<and>
    (r = Inr () \<longrightarrow> (\<exists>v. GetWorkflowConfig env ctx w = (Inr c, v)) \<and>
      (\<forall>x \<in> set (workflows (db ctx w')). \<not> old_terminal (clock env n) (cfg_RetentionPeriodDays c) x))"
  by (rule CleanupTerminalWorkflows_run[OF assms])

definition ex_old :: world where
  "ex_old = ex_with (\<lambda>d. d\<lparr>workflows :=
     [ex_wf\<lparr>wf_State := WorkflowStateExpired, wf_CreatedAt := -10000000\<rparr>, ex_wf\<lparr>wf_ID := 33\<rparr>]\<rparr>)"

theorem CleanupTerminalWorkflows_exact_witness:
  "let ctx = ex_task ''INTERNAL_TASK_WORKFLOW_CLEANUP''; m = CleanupTerminalWorkflows ex_env ctx ex_old
   in fst m = Inr () \<and> map wf_ID (workflows (db ctx (snd m))) = [33] \<and>
      (\<exists>n (c :: WorkflowConfig). cfg_RetentionPeriodDays c \<ge> 30 \<and>
        (\<forall>x \<in> set (workflows (db ctx (snd m))). \<not> old_terminal (clock ex_env n) (cfg_RetentionPeriodDays c) x))"
proof -
  let ?c = "ex_task ''INTERNAL_TASK_WORKFLOW_CLEANUP''" let ?m = "CleanupTerminalWorkflows ex_env ?c ex_old"
  have ok: "\<not> isl (fst ?m)" and ids: "map wf_ID (workflows (db ?c (snd ?m))) = [33]"
    by (simp_all add: exec ex_old_def cong: exec_cong)
  have hyp: "distinct (map wf_ID (workflows (db ?c ex_old)))" "configs_valid (db ?c ex_old)"
    by (simp_all add: exec ex_old_def configs_valid_def cfg_valid_def)
  obtain n and c :: WorkflowConfig where "cfg_RetentionPeriodDays c \<ge> 30"
    "\<forall>x \<in> set (workflows (db ?c (snd ?m))). \<not> old_terminal (clock ex_env n) (cfg_RetentionPeriodDays c) x"
    using CleanupTerminalWorkflows_exact[OF ran[OF ok] ex_task_sel(1) _ hyp] by (auto simp: ex_task_sel)
  then show ?thesis using ok ids by (cases "fst ?m") (auto simp: Let_def)
qed

end
