(* ===== verification/System_Laws.thy ===== *)
theory System_Laws
  imports Example
begin

text \<open>
  Laws of the systems (src/internal/manager/system.go) and of the handlers of their jobs
  (src/internal/event-processor): what a request to link a system, and the end of its job, leave in the tables.
\<close>

section \<open>Systems with their properties\<close>

text \<open>the map of systems built from the rows of the join holds stored systems under their ids\<close>

lemma collectRow_systems:
  assumes "\<forall>row \<in> set rows. js_System row \<in> S" and "\<forall>(i, sv) \<in> set m. sv_System sv \<in> S \<and> sys_ID (sv_System sv) = i"
  shows "\<forall>(i, sv) \<in> set (foldl collectRow m rows). sv_System sv \<in> S \<and> sys_ID (sv_System sv) = i"
  using assms
proof (induction rows arbitrary: m)
  case (Cons row rows)
  have "\<forall>(i, sv) \<in> set (collectRow m row). sv_System sv \<in> S \<and> sys_ID (sv_System sv) = i"
    using Cons.prems
    by (auto simp: collectRow_def newView_def Let_def aset_def split: option.splits if_splits dest!: map_of_SomeD)
  then show ?case using Cons by simp
qed simp

lemma GetSystemByID_run:
  assumes "GetSystemByID env ctx i w = (Inr sv, w')"
  shows "sv_System sv \<in> set (systems (db ctx w))" "sys_ID (sv_System sv) = i" "same_data w w'" "db ctx w' = db ctx w"
proof -
  let ?q = "\<lambda>s. sys_ID s = i" let ?T = "T_join_systems env"
  from assms obtain syss n w1 where
    l: "ListAndCount_by env ctx T_systems [] (\<lambda>rs. rs) (\<lambda>_. ?q) \<lparr>pg_Skip = 0, pg_Top = 0, pg_Count = False\<rparr> w = (Inr (syss, n), w1)"
    and rest: "\<exists>m. ProcessInBatchFold env ctx ?T
            [RepoResourceTypeSystemProperty, RepoResourceTypeKeyconfiguration, RepoResourceTypeKeyconfiguration, RepoResourceTypeEvent]
            (\<lambda>d row. ?q (js_System row) \<and> sys_ID (js_System row) \<in> sys_ID ` set syss) DefaultLimit
            (\<lambda>m rows. returnC (foldl collectRow m rows)) [] w1 = (Inr m, w') \<and>
          (\<exists>svs. sv # svs = List.map_filter (\<lambda>s. map_of m (sys_ID s)) syss)"
    by (auto simp: GetSystemByID_def GetSystemByIDWithProperties_def ListAndCountSystemWithProperties_def run_simps
        split: if_splits list.splits) blast
  then obtain m svs where p: "ProcessInBatchFold env ctx ?T
            [RepoResourceTypeSystemProperty, RepoResourceTypeKeyconfiguration, RepoResourceTypeKeyconfiguration, RepoResourceTypeEvent]
            (\<lambda>d row. ?q (js_System row) \<and> sys_ID (js_System row) \<in> sys_ID ` set syss) DefaultLimit
            (\<lambda>m rows. returnC (foldl collectRow m rows)) [] w1 = (Inr m, w')"
    and m: "sv # svs = List.map_filter (\<lambda>s. map_of m (sys_ID s)) syss" by blast
  have w1: "same_data w w1" "\<forall>s \<in> set syss. sys_ID s = i"
    using ListAndCount_run[OF l] by (auto intro: same_db_data dest!: in_set_takeD)
  then have d1: "db ctx w1 = db ctx w" using same_data_db by blast
  have f: "m = foldl collectRow [] (matching ?T (\<lambda>d row. ?q (js_System row) \<and> sys_ID (js_System row) \<in> sys_ID ` set syss) (db ctx w1))"
      "same_data w1 w'" "db ctx w' = db ctx w1"
    using ProcessInBatchFold_collect[OF p] by (auto simp: DefaultLimit_def)
  have "\<forall>(j, sv) \<in> set m. sv_System sv \<in> set (systems (db ctx w)) \<and> sys_ID (sv_System sv) = j"
    unfolding f(1) d1
    by (rule collectRow_systems) (auto simp: matching_def T_join_systems_def joinSystem_def Let_def split: if_split_asm)
  moreover obtain s where "s \<in> set syss" "map_of m (sys_ID s) = Some sv"
  proof -
    have "sv \<in> set (List.map_filter (\<lambda>s. map_of m (sys_ID s)) syss)" by (simp flip: m)
    with that show thesis by (auto simp: List.map_filter_def)
  qed
  ultimately show "sv_System sv \<in> set (systems (db ctx w))" "sys_ID (sv_System sv) = i"
    using w1(2) by (auto dest!: map_of_SomeD)
  show "same_data w w'" "db ctx w' = db ctx w" using w1(1) f d1 same_data_trans by auto
qed

section \<open>Linking\<close>

lemma row_upd_twice:
  "(\<And>s. p s \<Longrightarrow> p (f s)) \<Longrightarrow> row_upd p (\<lambda>_. x) (row_upd p f rs) = row_upd p (\<lambda>_. x) rs"
  by (simp add: row_upd_def)

lemma uuidPtr_String_run [run_simps]:
  "uuidPtr_String env p w = (Inr s, w') \<longleftrightarrow> w' = w \<and> (\<exists>i. p = Some i \<and> s = uuid_String env i)"
  by (auto simp: uuidPtr_String_def run_simps split: option.splits)

text \<open>the target is stored, and the event that is to be sent puts the system into PROCESSING\<close>

lemma selectEvent_run:
  assumes "selectEvent env ctx system props kc w = (Inr ev, w1)" and "ev v = (Inr (job, s'), v')"
  shows "db ctx w1 = System_AfterSave (sys_ID system) props (systems_update (row_upd (\<lambda>s. sys_ID s = sys_ID system)
      (System_merge (system\<lparr>sys_TargetKeyConfigurationID := Some (kc_ID kc)\<rparr>))) (db ctx w))"
    and "calls w1 = calls w"
    and "\<exists>t d. handleSystemStatus env ctx (system\<lparr>sys_TargetKeyConfigurationID := Some (kc_ID kc)\<rparr>) props
      (createSystemEventJob env ctx t d) v = (Inr (job, s'), v')"
proof -
  let ?s = "system\<lparr>sys_TargetKeyConfigurationID := Some (kc_ID kc)\<rparr>"
  from assms(1) obtain b w0 where p: "PatchSystem env ctx ?s props w = (Inr b, w0)" and w1: "same_data w0 w1"
    by (auto simp: selectEvent_def Let_def run_simps same_data_def split: if_splits dest!: First_join_any)
  show "db ctx w1 = System_AfterSave (sys_ID system) props (systems_update (row_upd (\<lambda>s. sys_ID s = sys_ID system)
      (System_merge ?s)) (db ctx w))" "calls w1 = calls w"
    using Patch_after_run[OF p[unfolded PatchSystem_def]] w1 same_data_db[OF w1, of ctx]
    by (simp_all add: T_systems_def same_data_def) (metis wrote_calls)
  let ?link = "bindC (uuidPtr_String env (kc_PrimaryKeyID kc)) (SystemLink env ctx ?s props)"
  let ?switch = "\<lambda>old :: KeyConfiguration. bindC (uuidPtr_String env (kc_PrimaryKeyID kc)) (\<lambda>keyIDTo.
        bindC (uuidPtr_String env (kc_PrimaryKeyID old)) (\<lambda>keyIDFrom. SystemSwitch env ctx ?s props keyIDTo keyIDFrom))"
  have "ev = ?link \<or> (\<exists>old. ev = ?switch old)"
    using assms(1) by (auto simp: selectEvent_def Let_def run_simps split: if_split_asm)
  then consider (link) "ev = ?link" | (switch) old where "ev = ?switch old" by blast
  then show "\<exists>t d. handleSystemStatus env ctx ?s props (createSystemEventJob env ctx t d) v = (Inr (job, s'), v')"
  proof cases
    case link
    show ?thesis using assms(2) unfolding link run_simps SystemLink_def by blast
  next
    case switch
    show ?thesis using assms(2) unfolding switch run_simps SystemSwitch_def by blast
  qed
qed

lemma linkTx_run:
  assumes run: "linkTx env i k ctx w = (Inr s', w')" and k: "k \<noteq> uuid_Nil"
  obtains s kc key job where "s \<in> set (systems (db ctx w))" "sys_ID s = i" "kc \<in> set (key_configurations (db ctx w))" "kc_ID kc = k"
    "sys_Status s \<notin> {SystemStatusPROCESSING, SystemStatusFAILED}"
    "ctx_UserType ctx = Some InternalUser \<or> sys_KeyConfigurationID s = None \<or>
      kc_access ctx (db ctx w) APIActionSystemModifyLink (the (sys_KeyConfigurationID s))"
    "key \<in> set (keys (db ctx w))" "kc_PrimaryKeyID kc = Some (key_ID key)" "key_State key = KeyStateENABLED"
    "s' = s\<lparr>sys_TargetKeyConfigurationID := Some k, sys_Status := SystemStatusPROCESSING\<rparr>"
    "systems (db ctx w') = row_upd (\<lambda>s. sys_ID s = i) (\<lambda>_. s') (systems (db ctx w))"
    "changes {TabSystems, TabSystemProperties, TabEvents} (db ctx w) (db ctx w')"
    "calls w' = calls w @ [CallPrepareJob job]"
proof -
  from run k obtain sv w1 b w2 kc w3 c w4 ev w5 job where
      g: "GetSystemByID env ctx i w = (Inr sv, w1)"
    and a: "HasSystemAccess env ctx APIActionSystemModifyLink (sv_System sv) w1 = (Inr b, w2)"
    and kc: "First env ctx T_key_configurations (\<lambda>_ kc. k = uuid_Nil \<or> kc_ID kc = k) w2 = (Inr kc, w3)"
    and c: "CanConnectSystems env ctx kc w3 = (Inr c, w4)"
    and st: "sys_Status (sv_System sv) \<notin> {SystemStatusPROCESSING, SystemStatusFAILED}"
    and e: "selectEvent env ctx (sv_System sv) (sv_Properties sv) kc w4 = (Inr ev, w5)" "ev w5 = (Inr (job, s'), w')"
    by (auto simp: linkTx_def run_simps SendEvent_def Let_def split: if_splits)
  let ?s = "sv_System sv"
  note s = GetSystemByID_run[OF g]
  have a': "db ctx w2 = db ctx w" "calls w2 = calls w" "ctx_UserType ctx = Some InternalUser \<or> sys_KeyConfigurationID ?s = None \<or>
      kc_access ctx (db ctx w) APIActionSystemModifyLink (the (sys_KeyConfigurationID ?s))"
    using HasSystemAccess_run[OF a] s(3,4) by (auto simp: same_data_def same_db_def)
  have kc': "kc \<in> set (key_configurations (db ctx w))" "kc_ID kc = k" "db ctx w3 = db ctx w" "calls w3 = calls w"
    using First_join_found[OF kc] First_join_any[OF kc, of ctx] a' k by (auto simp: T_key_configurations_def same_data_def)
  from c obtain key where key: "key \<in> set (keys (db ctx w))" "kc_PrimaryKeyID kc = Some (key_ID key)" "key_State key = KeyStateENABLED"
    and w4: "db ctx w4 = db ctx w" "calls w4 = calls w"
    using kc' by (fastforce simp: CanConnectSystems_def run_simps T_keys_def same_data_def split: option.splits if_splits
      dest: First_join_found First_join_any[where c = ctx])
  note e' = selectEvent_run[OF e, unfolded w4 s(2) kc'(2)]
  from e'(3) obtain t d where h: "handleSystemStatus env ctx (?s\<lparr>sys_TargetKeyConfigurationID := Some k\<rparr>) (sv_Properties sv)
      (createSystemEventJob env ctx t d) w5 = (Inr (job, s'), w')" by blast
  note h' = systemEvent_run(2,3,4)[OF h]
  have sys: "systems (db ctx w') = row_upd (\<lambda>s. sys_ID s = i) (\<lambda>_. s') (systems (db ctx w))"
    by (subst h'(3)) (simp add: e'(1) s(2) h'(1) System_AfterSave_def row_upd_twice System_merge_def)
  have "changes {TabSystems, TabSystemProperties, TabEvents} (db ctx w) (db ctx w')"
    by (subst h'(3)) (simp add: e'(1) changes_def System_AfterSave_def)
  then show thesis
    using that[OF s(1,2) kc'(1,2) st a'(3) key _ sys] h' e'(2) by simp
qed

section \<open>The end of a job\<close>

lemma errorfC_run [run_simps]: "errorfC msg m w = (Inr x, w') \<longleftrightarrow> m w = (Inr x, w')"
  by (auto simp: errorfC_def run_simps)

lemma First_id_run:
  assumes "First_id env ctx T col t w = (Inr r, w')"
  shows "r \<in> set (t_get T (db ctx w))" "uuid_Parse env t = Some (col r)" "same_data w w'" "db ctx w' = db ctx w"
proof -
  from assms obtain j where j: "uuid_Parse env t = Some j" and f: "First env ctx T (\<lambda>_ r. col r = j) w = (Inr r, w')"
    by (auto simp: First_id_def run_simps split: option.splits elim!: WithTenant_run)
  show "r \<in> set (t_get T (db ctx w))" "uuid_Parse env t = Some (col r)" "same_data w w'" "db ctx w' = db ctx w"
    using First_join_found[OF f] First_join_any[OF f] j by auto
qed

lemma finishSystem_run:
  assumes "finishSystem env ctx job s w = (Inr u, w')"
  shows "db ctx w' = (db ctx w)\<lparr>systems := row_upd (\<lambda>r. sys_ID r = sys_ID s) (\<lambda>_. s) (systems (db ctx w)),
    events := filter (\<lambda>ev. \<not> (ev_Identifier ev = job_ExternalID job \<and> ev_Type ev = job_Type job)) (events (db ctx w))\<rparr>"
proof (rule Transaction_rel[OF assms[unfolded finishSystem_def]])
  fix v v' let ?c = "ctx\<lparr>ctx_tx := True\<rparr>"
  assume "bindC (saveSystem env ?c s) (\<lambda>_. cleanUpEvent env ?c job) v = (Inr u, v')"
  then obtain b v1 b' where "Patch env ?c T_systems (\<lambda>r. sys_ID r = sys_ID s) (\<lambda>_. s) v = (Inr b, v1)"
    and "Delete env ?c T_events Some (\<lambda>ev. ev_Identifier ev = job_ExternalID job \<and> ev_Type ev = job_Type job) v1 = (Inr b', v')"
    by (auto simp: run_simps saveSystem_def cleanUpEvent_def)
  from Patch_run[OF this(1)] Delete_run[OF this(2)]
  show "db ?c v' = (db ?c v)\<lparr>systems := row_upd (\<lambda>r. sys_ID r = sys_ID s) (\<lambda>_. s) (systems (db ?c v)),
    events := filter (\<lambda>ev. \<not> (ev_Identifier ev = job_ExternalID job \<and> ev_Type ev = job_Type job)) (events (db ?c v))\<rparr>"
    by (simp add: T_systems_def T_events_def)
qed

lemma SystemLink_done_run:
  assumes run: "SystemLink_HandleJobDoneEvent env ctx job w = (Inr u, w')" and d: "job_Data job = SystemData d"
    and c: "c = CreateTenantContext ctx (jd_TenantID d)"
  obtains s key where "s \<in> set (systems (db c w))" "uuid_Parse env (jd_SystemID d) = Some (sys_ID s)"
    "key \<in> set (keys (db c w))" "uuid_Parse env (jd_KeyIDTo d) = Some (key_ID key)"
    "db c w' = (db c w)\<lparr>systems := row_upd (\<lambda>r. sys_ID r = sys_ID s) (\<lambda>_. s\<lparr>sys_Status := SystemStatusCONNECTED,
        sys_KeyConfigurationID := Some (key_KeyConfigurationID key), sys_TargetKeyConfigurationID := None\<rparr>) (systems (db c w)),
      events := filter (\<lambda>ev. \<not> (ev_Identifier ev = job_ExternalID job \<and> ev_Type ev = job_Type job)) (events (db c w))\<rparr>"
proof -
  from run obtain s w1 w2 key w3 w4 where s: "getSystemByID env c (jd_SystemID d) w = (Inr s, w1)"
    and l: "sendL1KeyClaim env s (jd_TenantID d) True w1 = (Inr (), w2)"
    and k: "getKeyByKeyID env c (jd_KeyIDTo d) w2 = (Inr key, w3)"
    and f: "finishSystem env c job (s\<lparr>sys_Status := SystemStatusCONNECTED,
        sys_KeyConfigurationID := Some (key_KeyConfigurationID key), sys_TargetKeyConfigurationID := None\<rparr>) w3 = (Inr (), w4)"
    and a: "onlyLogged (sendAuditEvent env c ''CmkOnboarding'' (sys_ID s)) w4 = (Inr u, w')"
    by (auto simp: SystemLink_HandleJobDoneEvent_def unmarshalSystemJobData_def d c run_simps Let_def)
  have t: "same_tables w1 w2" "same_tables w4 w'"
    by (rule steps_run[OF ro.steps_sendL1KeyClaim l]) (rule steps_run[OF ro.steps_onlyLogged[OF ro.steps_sendAuditEvent] a])
  note s' = First_id_run[OF s[unfolded getSystemByID_def]]
  have k': "First_id env c T_keys key_ID (jd_KeyIDTo d) w2 = (Inr key, w3)" using k by (simp add: getKeyByKeyID_def run_simps)
  note k'' = First_id_run[OF k']
  have db: "db c w3 = db c w" "db c w' = db c w4" using k''(4) s'(4) same_tables_db[OF t(1)] same_tables_db[OF t(2)] by auto
  show thesis
    using that[of s key] s' k'' same_tables_db[OF t(1), of c] finishSystem_run[OF f] db by (simp add: T_systems_def T_keys_def)
qed

end
