(* ===== verification/System_Properties.thy ===== *)
theory System_Properties
  imports System_Laws
begin

text \<open>
  Properties of the systems: a request to link a system to a key configuration
  (src/internal/manager/system.go) and the end of its job (src/internal/event-processor/handlers_system.go).
\<close>

section \<open>Requests\<close>


definition ex_unlinked :: world where
  "ex_unlinked = ex_with (\<lambda>d. d\<lparr>systems := [ex_system\<lparr>sys_KeyConfigurationID := None, sys_Status := SystemStatusDISCONNECTED\<rparr>]\<rparr>)"


section \<open>Results\<close>

text \<open>
  C14: When the job of a link ends well, the system is connected to the configuration of the key it was linked
  with and has no target any more, its event is removed, and nothing else changed.
\<close>

theorem SystemLink_done:
  assumes "SystemLink_HandleJobDoneEvent env ctx job w = (Inr u, w')" and "job_Data job = SystemData d"
    and "c = CreateTenantContext ctx (jd_TenantID d)"
  shows "\<exists>s \<in> set (systems (db c w)). \<exists>key \<in> set (keys (db c w)).
    uuid_Parse env (jd_SystemID d) = Some (sys_ID s) \<and> uuid_Parse env (jd_KeyIDTo d) = Some (key_ID key) \<and>
    db c w' = (db c w)\<lparr>systems := row_upd (\<lambda>r. sys_ID r = sys_ID s) (\<lambda>_. s\<lparr>sys_Status := SystemStatusCONNECTED,
        sys_KeyConfigurationID := Some (key_KeyConfigurationID key), sys_TargetKeyConfigurationID := None\<rparr>) (systems (db c w)),
      events := filter (\<lambda>ev. \<not> (ev_Identifier ev = job_ExternalID job \<and> ev_Type ev = job_Type job)) (events (db c w))\<rparr>"
  by (rule SystemLink_done_run[OF assms]) blast

definition ex_link_data :: SystemActionJobData where
  "ex_link_data = \<lparr>jd_SystemID = ex_plugin 41, jd_TenantID = ''t1'', jd_KeyIDTo = ex_plugin 21, jd_KeyIDFrom = [], jd_Trigger = []\<rparr>"

definition ex_link_job :: Job where
  "ex_link_job = \<lparr>job_ExternalID = ex_plugin 41, job_Type = JobTypeSystemLink, job_Data = SystemData ex_link_data,
     job_Status = JobStatusCreated, job_ErrorMessage = []\<rparr>"

lemma ex_retry: "retryCall 3 f c = retryCall (Suc (Suc (Suc 0))) f c"
  by (simp only: numeral_3_eq_3)

lemma ex_uuid: "list_all (\<lambda>c. c = CHR ''u'') (replicate n (CHR ''u''))"
  by (simp add: list_all_iff)

theorem SystemLink_done_witness:
  "let c = CreateTenantContext (ex_task ''INTERNAL_EVENT_RECONCILER'') ''t1'';
       m = SystemLink_HandleJobDoneEvent ex_env (ex_task ''INTERNAL_EVENT_RECONCILER'') ex_link_job ex_unlinked
   in \<not> isl (fst m) \<and> map sys_Status (systems (db c (snd m))) = [SystemStatusCONNECTED]"
proof -
  let ?c = "CreateTenantContext (ex_task ''INTERNAL_EVENT_RECONCILER'') ''t1''"
  let ?m = "SystemLink_HandleJobDoneEvent ex_env (ex_task ''INTERNAL_EVENT_RECONCILER'') ex_link_job ex_unlinked"
  have ok: "\<not> isl (fst ?m)"
    by (simp add: exec ex_unlinked_def ex_link_job_def ex_link_data_def ex_retry ex_uuid cong: exec_cong)
  have "systems (db ?c ex_unlinked) = [ex_system\<lparr>sys_KeyConfigurationID := None, sys_Status := SystemStatusDISCONNECTED\<rparr>]"
    by (simp add: exec ex_unlinked_def)
  then show ?thesis
    using SystemLink_done[OF ran[OF ok], of ex_link_data ?c] ok
    by (auto simp: Let_def ex_link_job_def ex_link_data_def row_upd_def)
qed

end
