(* ===== verification/Task_Laws.thy ===== *)
theory Task_Laws
  imports Workflow_Laws
begin

text \<open>
  Laws of the background tasks (src/internal/async): what becomes of an operation whose role lacks a
  permission, and which tenants a tenant task visits.
\<close>

section \<open>Refused operations\<close>

text \<open>an error that no caller treats specially\<close>

definition plain :: "gerror \<Rightarrow> bool" where
  "plain e \<longleftrightarrow> list_all (\<lambda>n. \<not> errs_Is e n) [''panic'', ''repo.ErrNotFound'', ''grpc.Unavailable'', ''grpc.DeadlineExceeded'']"

definition refused :: "'a M \<Rightarrow> world \<Rightarrow> bool" where
  "refused m w \<longleftrightarrow> (\<exists>e w'. m w = (Inl e, w') \<and> same_data w w' \<and> plain e)"

lemma refused_bindC [intro]: "refused m w \<Longrightarrow> refused (bindC m f) w"
  by (auto simp: refused_def bindC_def)

lemma refused_wrapC:
  "refused m w \<Longrightarrow> plain [E n] \<Longrightarrow> refused (wrapC n m) w"
  by (auto simp: refused_def wrapC_def plain_def errs_Is_def)

lemma refused_onlyLogged: "refused m w \<Longrightarrow> \<exists>w'. onlyLogged m w = (Inr (), w') \<and> same_data w w'"
  by (auto simp: refused_def onlyLogged_def tryC_def returnC_def plain_def)

lemma refused_catchC:
  "refused m w \<Longrightarrow> (\<And>e. plain e \<Longrightarrow> h (Inl e) = returnC ()) \<Longrightarrow> \<exists>w'. catchC m h w = (Inr (), w') \<and> same_data w w'"
  by (auto simp: refused_def catchC_def tryC_def returnC_def) (auto simp: plain_def)

lemma steps_refused: "(\<And>w. refused m w) \<Longrightarrow> steps same_tables m"
  unfolding steps_def refused_def by (metis same_data_def same_tables_def snd_conv)

text \<open>an internal user without the permission\<close>

definition lacks :: "ctx \<Rightarrow> RepoResourceType \<Rightarrow> RepoAction \<Rightarrow> bool" where
  "lacks ctx r a \<longleftrightarrow> ctx_UserType ctx = Some InternalUser \<and>
     (\<exists>role. ctx_InternalUserData ctx = Some role \<and> \<not> internal_allowed (role, r, a))"

lemma CheckAuthz_lacks:
  assumes "lacks ctx r a"
  obtains e where "CheckAuthz (repoHandler k) ctx r a = Inl e" "plain e"
proof -
  have "\<exists>e. CheckAuthz (repoHandler k) ctx r a = Inl e \<and> plain e"
    using assms
    by (auto simp: lacks_def CheckAuthz_def checkInternalUserAuthz_def IsInternalUserAllowed_def validInternalRequest_def
        repoHandler_def ExtractUserType_def ExtractInternalRole_def NewRequest_def GetRequestID_def isValidResourceAction_def
        plain_def nonempty_value_def Wrap_def errs_Is_def InternalUser_def BusinessUser_def split: option.splits if_splits)
  with that show thesis by blast
qed

lemma checkResourceAuthZ_lacks: "lacks ctx r a \<Longrightarrow> refused (checkResourceAuthZ env ctx r a) w"
  by (erule CheckAuthz_lacks[where k = "authz_keys env (tick w)"])
    (auto simp: refused_def checkResourceAuthZ_def bindC_def tick_of_def liftC_def throwC_def same_data_def plain_def
      errs_Is_def split: option.splits)

lemma refused_List: "lacks ctx (t_res T) RepoActionList \<Longrightarrow> refused (List_join env ctx T joins arr q l off) w"
  unfolding List_join_def by (intro refused_bindC checkResourceAuthZ_lacks)

lemma refused_First: "lacks ctx (t_res T) RepoActionFirst \<Longrightarrow> refused (First_join env ctx T joins q) w"
  unfolding First_join_def by (intro refused_bindC checkResourceAuthZ_lacks)

lemma refused_Patch:
  "lacks ctx (t_res T) RepoActionUpdate \<Longrightarrow> refused (Patch env ctx T pk f) w"
  "lacks ctx (t_res T) RepoActionUpdate \<Longrightarrow> refused (Patch_after env ctx T pk f after) w"
  unfolding Patch_def Patch_after_def by (intro refused_bindC checkResourceAuthZ_lacks; assumption)+

lemma refused_ProcessInBatch:
  assumes "lacks ctx (t_res T) RepoActionList"
  shows "refused (ProcessInBatch env ctx T joins q b f) w"
proof -
  have "refused (batchLoop (Suc n) env ctx T joins q b opts f off None) w" for n opts off
    unfolding batchLoop.simps(2) by (intro refused_bindC refused_List assms)
  then show ?thesis
    by (simp add: ProcessInBatch_def ProcessInBatchWithOptions_def bindC_def getC_def refused_def del: batchLoop.simps)
qed

lemma refused_GetWorkflowConfig:
  assumes "lacks ctx RepoResourceTypeTenantconfig RepoActionFirst"
  shows "refused (GetWorkflowConfig env ctx) w"
proof -
  have "refused (First env ctx T_tenant_configs (\<lambda>_ _. True)) w" using assms by (intro refused_First) (simp add: T_tenant_configs_def)
  then show ?thesis
    by (auto simp: refused_def GetWorkflowConfig_def tryC_def throwC_def Wrap_def plain_def errs_Is_def)
qed

section \<open>Expiry\<close>

lemma Expire_run:
  assumes "fsm_ok env" and "Expire env ctx l w = (Inr l', w')"
  shows "wf_State (l_Workflow l') = WorkflowStateExpired \<and> wf_ArtifactType (l_Workflow l') = wf_ArtifactType (l_Workflow l)"
  using assms
  by (cases "l_Current l") (auto simp: Expire_def run_simps fsm_Event_run[OF assms(1)] saveState_def Workflow_Patch_def Let_def
      Workflow_BeforeSave_def split: option.splits)

lemma markArtifact_lacks:
  assumes "lacks ctx RepoResourceTypeKey RepoActionUpdate" and "wf_ArtifactType wkf = WorkflowArtifactTypeKey"
  shows "refused (markArtifact env ctx wkf b) w"
  using assms by (auto simp: markArtifact_def T_keys_def intro!: refused_bindC refused_Patch)

lemma expireTx_lacks:
  assumes "fsm_ok env" and "expireTx env wkf ctx w = (Inr wkf', w')" and "lacks ctx RepoResourceTypeKey RepoActionUpdate"
  shows "wf_ArtifactType wkf \<noteq> WorkflowArtifactTypeKey"
proof
  assume key: "wf_ArtifactType wkf = WorkflowArtifactTypeKey"
  from assms(2) obtain user l w1 w2 l' w3 where
      l: "getWorkflowLifecycle env ctx wkf user w1 = (Inr l, w2)" and e: "Expire env ctx l w2 = (Inr l', w3)"
    and h: "HandleTerminalWorkflow env ctx (l_Workflow l') w3 = (Inr (), w')"
    by (auto simp: expireTx_def run_simps)
  have "l_Workflow l = wkf"
    using l by (auto simp: getWorkflowLifecycle_def getWorkflowLifecycleWithEligibility_def run_simps NewLifecycle_def split: if_split_asm)
  then have "refused (HandleTerminalWorkflow env ctx (l_Workflow l')) w3"
    using Expire_run[OF assms(1) e] markArtifact_lacks[OF assms(3)] key
    by (simp add: HandleTerminalWorkflow_def WorkflowTerminalStates_def)
  with h show False by (simp add: refused_def)
qed

section \<open>Frames\<close>

context tenant_frame
begin

lemma steps_ProcessTask [steps_intro]:
  "ctx_Tenant ctx = Some tn \<Longrightarrow> steps R (ProcessTask env h ctx)"
  unfolding ProcessTask_def HYOKSync_ProcessTask_def SystemsRefresher_ProcessTask_def WorkflowCleaner_ProcessTask_def
    WorkflowExpiry_ProcessTask_def expireIfDue_def expireWorkflow_def
  by (cases h) (auto intro!: steps_intro split: option.split sum.split prod.split)

lemma steps_wrappedProcessTask [steps_intro]:
  "ctx_Tenant ctx = Some tn \<Longrightarrow> (\<And>c. ctx_Tenant c = Some tn \<Longrightarrow> steps R (f c)) \<Longrightarrow>
     steps R (wrappedProcessTask newid role f ctx)"
  by (auto simp: wrappedProcessTask_def bindC_def liftC_def steps_def InjectInternalUserData_def InjectRequestID_def
      split: sum.split option.split intro: R_refl)

end

section \<open>The tenants of a task\<close>

text \<open>the tenants are processed one after the other, whatever the outcome of each\<close>

inductive visits :: "('t \<Rightarrow> unit M) \<Rightarrow> 't list \<Rightarrow> world \<Rightarrow> world \<Rightarrow> bool" for f where
  none: "same_data w w' \<Longrightarrow> visits f [] w w'"
| one: "same_data w w1 \<Longrightarrow> f t w1 = (r, w2) \<Longrightarrow> visits f ts w2 w' \<Longrightarrow> visits f (t # ts) w w'"

lemma visits_before: "visits f ts w1 w' \<Longrightarrow> same_data w w1 \<Longrightarrow> visits f ts w w'"
  by (induction rule: visits.induct) (auto intro: visits.intros same_data_trans)

lemma visits_append: "visits f ts w w1 \<Longrightarrow> visits f us w1 w' \<Longrightarrow> visits f (ts @ us) w w'"
  by (induction rule: visits.induct) (auto intro: visits.one visits_before)

lemma visits_tenants:
  assumes "visits f ts w w'" and "\<And>t w r w'. f t w = (r, w') \<Longrightarrow> tenants w' = tenants w"
  shows "tenants w' = tenants w"
  using assms by (induction rule: visits.induct) (auto simp: same_data_def)

lemma forC_visits:
  "forC ts (\<lambda>t. onlyLogged (f t)) w = (Inr us, w') \<Longrightarrow> visits f ts w w'"
proof (induction ts arbitrary: w us)
  case (Cons t ts)
  then obtain w1 vs where o: "onlyLogged (f t) w = (Inr (), w1)"
    and rest: "forC ts (\<lambda>t. onlyLogged (f t)) w1 = (Inr vs, w')" by (auto simp: run_simps)
  from o obtain r where "f t w = (r, w1)"
    by (auto simp: onlyLogged_def run_simps split: if_split_asm)
  then show ?case using Cons.IH[OF rest] by (auto intro: visits.one simp: same_data_def)
qed (auto simp: run_simps same_data_def intro: visits.none)

lemma tenantLoop_visits:
  assumes "tenantLoop n env q (\<lambda>items. bindC (forC items (\<lambda>t. onlyLogged (f t))) (\<lambda>_. returnC ())) (int off) w = (Inr u, w')"
    and keep: "\<And>t w r w'. f t w = (r, w') \<Longrightarrow> tenants w' = tenants w"
  shows "visits f (drop off (filter q (tenants w))) w w'"
  using assms(1)
proof (induction n arbitrary: off w)
  case (Suc n)
  let ?M = "filter q (tenants w)"
  from Suc.prems obtain items w1 us w2 where l: "List_tenants env q DefaultLimit (int off) w = (Inr items, w1)"
    and f: "forC items (\<lambda>t. onlyLogged (f t)) w1 = (Inr us, w2)"
    and rest: "(if items = [] then returnC () else bindC (Count_tenants env q) (\<lambda>count.
       if int off + DefaultLimit \<ge> count then returnC ()
       else tenantLoop n env q (\<lambda>items. bindC (forC items (\<lambda>t. onlyLogged (f t))) (\<lambda>_. returnC ()))
         (int off + DefaultLimit))) w2 = (Inr u, w')"
    by (auto simp: run_simps)
  have items: "items = take 100 (drop off ?M)" "same_data w w1"
    using l by (auto simp: List_tenants_def run_simps applyPagination_def DefaultLimit_def same_data_def split: option.splits)
  have v: "visits f items w w2" by (rule visits_before[OF forC_visits[OF f] items(2)])
  have t2: "filter q (tenants w2) = ?M" using visits_tenants[OF v keep] by simp
  have split: "drop off ?M = items @ drop (off + 100) ?M"
    using append_take_drop_id[of 100 "drop off ?M"] items by (simp add: add.commute)
  show ?case
  proof (cases "drop (off + 100) ?M = []")
    case True
    then have "same_data w2 w'"
      using rest t2 by (auto simp: Count_tenants_def run_simps DefaultLimit_def same_data_def split: if_splits option.splits)
    then have "visits f (items @ []) w w'" by (intro visits_append[OF v] visits.none)
    then show ?thesis using split True by simp
  next
    case False
    then have "items \<noteq> []" using items by auto
    let ?w3 = "w2\<lparr>tick := Suc (tick w2)\<rparr>"
    have w3: "same_data w2 ?w3" by (simp add: same_data_def)
    have "tenantLoop n env q (\<lambda>items. bindC (forC items (\<lambda>t. onlyLogged (f t))) (\<lambda>_. returnC ())) (int (off + 100)) ?w3 = (Inr u, w')"
      using rest t2 False \<open>items \<noteq> []\<close>
      by (auto simp: Count_tenants_def run_simps DefaultLimit_def split: if_splits option.splits)
    from Suc.IH[OF this] have "visits f (drop (off + 100) ?M) w2 w'"
      using t2 visits_before[OF _ w3] by simp
    then show ?thesis using visits_append[OF v] split by simp
  qed
qed (simp add: run_simps)

text \<open>without faults of the database the loop ends, within its fuel, and fails only with a panic of a handler\<close>

lemma forC_panics:
  assumes "forC ts (\<lambda>t. onlyLogged (f t)) w = (Inl e, w')"
  shows "errs_Is e ''panic''"
  using assms
proof (induction ts arbitrary: w)
  case (Cons t ts)
  then consider "onlyLogged (f t) w = (Inl e, w')" | w1 where "forC ts (\<lambda>t. onlyLogged (f t)) w1 = (Inl e, w')"
    by (auto simp: bindC_run_err returnC_def)
  then show ?case
  proof cases
    case 1
    then show ?thesis by (auto simp: onlyLogged_def tryC_run_err returnC_def throwC_def split: if_split_asm)
  next
    case 2
    then show ?thesis by (rule Cons.IH)
  qed
qed (simp add: returnC_def)

lemma tenantLoop_ends:
  fixes f :: "Tenant \<Rightarrow> unit M"
  assumes "tenantLoop n env q (\<lambda>items. bindC (forC items (\<lambda>t. onlyLogged (f t))) (\<lambda>_. returnC ())) (int off) w = (Inl e, w')"
    and "0 < n" "length (filter q (tenants w)) < off + 100 * n" and fault: "\<And>k. db_fault env k = None"
    and keep: "\<And>t w r w'. f t w = (r, w') \<Longrightarrow> tenants w' = tenants w"
  shows "errs_Is e ''panic''"
  using assms(1-3)
proof (induction n arbitrary: off w)
  case (Suc n)
  let ?items = "take 100 (drop off (filter q (tenants w)))" let ?w1 = "w\<lparr>tick := Suc (tick w)\<rparr>"
  have l: "List_tenants env q DefaultLimit (int off) w = (Inr ?items, ?w1)"
    by (simp add: List_tenants_def bindC_def tick_of_def fault getC_def applyPagination_def DefaultLimit_def)
  obtain r w2 where f: "forC ?items (\<lambda>t. onlyLogged (f t)) ?w1 = (r, w2)" by fastforce
  show ?case
  proof (cases r)
    case (Inl e')
    then have "e' = e" using Suc.prems(1) l f by (simp add: bindC_def)
    then show ?thesis using forC_panics f Inl by blast
  next
    case (Inr us)
    have t2: "tenants w2 = tenants w" using visits_tenants[OF forC_visits[OF f[unfolded Inr]] keep] by simp
    let ?w3 = "w2\<lparr>tick := Suc (tick w2)\<rparr>"
    have more: "tenantLoop n env q (\<lambda>items. bindC (forC items (\<lambda>t. onlyLogged (f t))) (\<lambda>_. returnC ())) (int (off + 100)) ?w3 = (Inl e, w')"
        "length (filter q (tenants w)) > off + 100"
      using Suc.prems(1) l f Inr t2
      by (auto simp: bindC_run_err run_simps Count_tenants_def fault DefaultLimit_def split: if_splits)
    show ?thesis by (rule Suc.IH[OF more(1)]) (use more(2) Suc.prems(3) t2 in auto)
  qed
qed simp

end
