(* ===== verification/Task_Properties.thy ===== *)
theory Task_Properties
  imports Task_Laws
begin

text \<open>
  Properties of the background tasks (src/internal/async): which of them have the permissions for what they
  are to do, and which tenants they reach.
\<close>

section \<open>Permissions\<close>

lemma task_processing_lacks:
  "ctx_UserType ctx = Some InternalUser \<Longrightarrow> ctx_InternalUserData ctx = Some ''INTERNAL_TASK_PROCESSING'' \<Longrightarrow>
     r \<noteq> RepoResourceTypeTenant \<Longrightarrow> lacks ctx r a"
  by (simp add: lacks_def internal_allowed_role internal_policy_def internalTaskProcessing_repo_def granted_def)

lemma ProcessTask_refused:
  assumes "ctx_UserType ctx = Some InternalUser" "ctx_InternalUserData ctx = Some ''INTERNAL_TASK_PROCESSING''"
  shows "\<exists>w'. ProcessTask env h ctx w = (Inr (), w') \<and> same_data w w'"
proof (cases h)
  note lacks = task_processing_lacks[OF assms]
  case HYOKSync
  have "refused (SyncHYOKKeys env ctx) w"
    unfolding SyncHYOKKeys_def by (intro refused_ProcessInBatch lacks) (simp add: T_keys_def)
  then show ?thesis using HYOKSync refused_onlyLogged by (simp add: ProcessTask_def HYOKSync_ProcessTask_def)
next
  note lacks = task_processing_lacks[OF assms]
  case SystemsRefresher
  have r: "refused (UpdateSystems env ctx) w"
    unfolding UpdateSystems_def by (intro refused_ProcessInBatch lacks) (simp add: T_systems_def)
  show ?thesis
    unfolding SystemsRefresher ProcessTask_def SystemsRefresher_ProcessTask_def
    by (simp, rule refused_catchC[OF r]) (simp add: isConnectionError_def plain_def)
next
  note lacks = task_processing_lacks[OF assms]
  case WorkflowCleaner
  have "refused (CleanupTerminalWorkflows env ctx) w"
    unfolding CleanupTerminalWorkflows_def WorkflowConfig_get_def
    by (intro refused_bindC refused_wrapC refused_GetWorkflowConfig lacks) (simp_all add: plain_def errs_Is_def)
  then show ?thesis using WorkflowCleaner refused_onlyLogged by (simp add: ProcessTask_def WorkflowCleaner_ProcessTask_def)
next
  case WorkflowExpiryProcessor
  have "ensureBusinessUserOpsAllowed ctx [''INTERNAL_TASK_WORKFLOW_APPROVERS'', ''INTERNAL_TASK_WORKFLOW_EXPIRATION'',
      ''INTERNAL_TENANT_PROVISIONING''] = RoleNotSupported"
    using assms by (simp add: ensureBusinessUserOpsAllowed_def CheckInternalUserRoles_def ExtractInternalRole_def
      ExtractUserType_def nonempty_value_def InternalUser_def errs_Is_def)
  then have "refused (NeedsGroupFiltering env ctx a r) w" for a r
    by (simp add: NeedsGroupFiltering_def guarded_def refused_def throwC_def same_data_def plain_def errs_Is_def)
  then have r: "refused (GetWorkflows env ctx noFilter) w"
    unfolding GetWorkflows_def getWorkflows_def
    by (intro refused_bindC refused_wrapC) (simp_all add: plain_def errs_Is_def)
  show ?thesis
    unfolding WorkflowExpiryProcessor ProcessTask_def WorkflowExpiry_ProcessTask_def
    by (simp, rule refused_catchC[OF r]) simp
qed

text \<open>
  C18: A task that is fanned out does nothing, and reports success: the child task of a tenant runs with the role that
  lists the tenants, not with the role of its handler, so that its first access is refused and the refusal is
  only logged.
\<close>

theorem fan_out_does_nothing:
  assumes "ctx_UserType ctx \<in> {None, Some InternalUser}"
  shows "fst (ChildTask env newid h payload ctx w) = Inr () \<and> same_data w (snd (ChildTask env newid h payload ctx w))"
proof -
  obtain c where c: "ChildTask env newid h payload ctx w = ProcessTask env h c w"
      "ctx_UserType c = Some InternalUser" "ctx_InternalUserData c = Some ''INTERNAL_TASK_PROCESSING''"
    using assms by (auto simp: ChildTask_def wrappedProcessTask_def TenantFanOut_def InjectInternalUserData_def
      CreateTenantContext_def bindC_def liftC_def InternalUser_def)
  show ?thesis using ProcessTask_refused[OF c(2,3), of env h w] c(1) by auto
qed

theorem fan_out_does_nothing_witness:
  "let m = ChildTask ex_env ''q'' WorkflowCleaner (NewTaskPayload (ex_task ''r'') []) Background ex_world
   in fst m = Inr () \<and> same_data ex_world (snd m)"
  using fan_out_does_nothing[of Background ex_env "''q''" WorkflowCleaner "NewTaskPayload (ex_task ''r'') []" ex_world]
  by (simp add: Background_def Let_def)

section \<open>Refresh of the systems\<close>

text \<open>
  C19: The task that refreshes the properties of the systems never writes anything: its role may not update systems.
\<close>

theorem SystemsRefresher_writes_nothing:
  assumes "ctx_UserType ctx = Some InternalUser" "ctx_InternalUserData ctx = Some (Role SystemsRefresher)"
    and "ctx_Tenant ctx = Some tn"
  shows "same_tables w (snd (SystemsRefresher_ProcessTask env ctx w))"
proof -
  have "lacks ctx (t_res T_systems) RepoActionUpdate"
    using assms(1,2) by (simp add: lacks_def Role_def internal_allowed_role internal_policy_def
      internalTaskSystemRefresh_repo_def granted_def T_systems_def)
  then have patch: "steps same_tables (PatchSystem env ctx m props)" for m props
    unfolding PatchSystem_def by (intro steps_refused refused_Patch)
  have upd: "steps same_tables (updateSystem env ctx s)" for s
    unfolding updateSystem_def by (rule patch assms(3) steps_intro)+
  have "steps same_tables (SystemsRefresher_ProcessTask env ctx)"
    unfolding SystemsRefresher_ProcessTask_def UpdateSystems_def by (rule upd assms(3) steps_intro)+
  then show ?thesis by (simp add: steps_def)
qed

theorem SystemsRefresher_writes_nothing_witness:
  "let env = ex_env\<lparr>sis_GetSystemInfo := (\<lambda>_ _ _. Inr (Some [(''a'', ''b'')])), cfg_OptionalProperties := [(''a'', ''A'')]\<rparr>
   in same_tables ex_world (snd (SystemsRefresher_ProcessTask env (ex_task ''INTERNAL_TASK_SYSTEM_REFRESH'') ex_world))"
  unfolding Let_def by (rule SystemsRefresher_writes_nothing) (simp_all add: ex_task_sel InternalUser_def Role_def)

section \<open>Expiry\<close>

text \<open>
  C20: A workflow about a key never expires: the role of the expiry task may not update keys, and what the
  transaction did before the refusal is undone.
\<close>

theorem key_workflow_not_expired:
  assumes "fsm_ok env" and user: "ctx_UserType ctx = Some InternalUser" "ctx_InternalUserData ctx = Some (Role WorkflowExpiryProcessor)"
    and "\<not> ctx_tx ctx" and "i \<noteq> uuid_Nil"
    and key: "\<forall>r \<in> set (workflows (db ctx w)). wf_ID r = i \<longrightarrow> wf_ArtifactType r = WorkflowArtifactTypeKey"
  shows "isl (fst (ExpireWorkflow env ctx i w)) \<and> same_tables w (snd (ExpireWorkflow env ctx i w))"
proof -
  obtain x w1 where f: "firstWorkflow env ctx i w = (x, w1)" by fastforce
  have w1: "same_data w w1" using First_join_any[OF f[unfolded firstWorkflow_def]] by blast
  show ?thesis
  proof (cases x)
    case (Inl e)
    then show ?thesis using f w1 by (simp add: ExpireWorkflow_def bindC_def wrapC_def same_data_def same_tables_def)
  next
    case (Inr wkf)
    have wkf: "wf_ArtifactType wkf = WorkflowArtifactTypeKey"
      using First_join_found[OF f[unfolded firstWorkflow_def Inr]] assms(5) key by (auto simp: T_workflows_def)
    obtain y w2 where t: "Transaction env ctx (expireTx env wkf) w1 = (y, w2)" by fastforce
    then have run: "ExpireWorkflow env ctx i w = (y, w2)" using f Inr by (simp add: ExpireWorkflow_def bindC_def wrapC_def)
    have "lacks (ctx\<lparr>ctx_tx := True\<rparr>) RepoResourceTypeKey RepoActionUpdate"
      using user by (simp add: lacks_def Role_def internal_allowed_role internal_policy_def
        internalTaskWorkflowExpiration_repo_def granted_def)
    then have "isl y"
      using expireTx_lacks[OF assms(1)] wkf t by (cases y) (auto elim!: Transaction_step)
    then show ?thesis
      using run Transaction_err[of env ctx _ w1 _ w2] t assms(4) w1
      by (cases y) (auto simp: same_tables_def same_data_def)
  qed
qed

theorem key_workflow_not_expired_witness:
  "let m = ExpireWorkflow ex_env (ex_task ''INTERNAL_TASK_WORKFLOW_EXPIRATION'') 31 ex_world
   in isl (fst m) \<and> same_tables ex_world (snd m)"
  unfolding Let_def
  by (rule key_workflow_not_expired[OF fsm_ok_ex]) (simp_all add: exec Role_def InternalUser_def cong: exec_cong)

section \<open>Tenants\<close>

text \<open>
  C15: Without faults of the database a tenant task ends. If it ends without an error, it has run its handler for every
  tenant it was to run for, once and in order, whatever the outcome for the tenants before; otherwise a handler
  panicked.
\<close>

theorem RunTenantTask_visits:
  assumes fault: "\<And>k. db_fault env k = None" and user: "ctx_UserType ctx \<in> {None, Some InternalUser}"
  shows "case RunTenantTask env newid h tenantIDs ctx w of
      (Inl e, w') \<Rightarrow> errs_Is e ''panic''
    | (Inr _, w') \<Rightarrow> \<exists>c. InjectInternalUserData newid ctx ''INTERNAL_TASK_PROCESSING'' = Inr c \<and>
        visits (\<lambda>t. wrappedProcessTask newid (Role h) (ProcessTask env h) (CreateTenantContext c (ten_ID t)))
          (filter (\<lambda>t. tenantIDs = [] \<or> ten_ID t \<in> set tenantIDs) (tenants w)) w w'"
proof -
  let ?f = "\<lambda>c t. wrappedProcessTask newid (Role h) (ProcessTask env h) (CreateTenantContext c (ten_ID t))"
  let ?q = "\<lambda>t. tenantIDs = [] \<or> ten_ID t \<in> set tenantIDs"
  obtain c where c: "InjectInternalUserData newid ctx ''INTERNAL_TASK_PROCESSING'' = Inr c"
    using user by (auto simp: InjectInternalUserData_def)
  let ?loop = "tenantLoop (length (tenants w) + 2) env ?q
    (\<lambda>items. bindC (forC items (\<lambda>t. onlyLogged (?f c t))) (\<lambda>_. returnC ())) (int 0)"
  have run: "RunTenantTask env newid h tenantIDs ctx w = ?loop w"
    using c by (simp add: RunTenantTask_def ProcessTenantsInBatch_def bindC_def liftC_def getC_def Let_def del: tenantLoop.simps)
  have keep: "tenants v' = tenants v" if "?f c t v = (r, v')" for t v r v'
  proof -
    have "isolated (ten_ID t) v v'"
      by (rule steps_run[OF iso_all.steps_wrappedProcessTask that])
        (auto simp: CreateTenantContext_def intro: iso_all.steps_ProcessTask)
    then show ?thesis by (simp add: isolated_def)
  qed
  obtain x w' where l: "?loop w = (x, w')" by fastforce
  show ?thesis
  proof (cases x)
    case (Inl e)
    have le: "length (filter ?q (tenants w)) \<le> length (tenants w)" by (rule length_filter_le)
    have "errs_Is e ''panic''"
    proof (rule tenantLoop_ends[OF l[unfolded Inl]])
      show "length (filter ?q (tenants w)) < 0 + 100 * (length (tenants w) + 2)" by (rule le_less_trans[OF le]) simp
    qed (simp_all add: fault keep)
    then show ?thesis unfolding run l Inl by simp
  next
    case (Inr u)
    show ?thesis using tenantLoop_visits[OF l[unfolded Inr] keep] c unfolding run l Inr by simp
  qed
qed

theorem RunTenantTask_visits_witness:
  "let m = RunTenantTask ex_env ''q'' WorkflowCleaner [] Background ex_world
   in fst m = Inr () \<and> (\<exists>c. visits (\<lambda>t. wrappedProcessTask ''q'' (Role WorkflowCleaner) (ProcessTask ex_env WorkflowCleaner)
     (CreateTenantContext c (ten_ID t))) (tenants ex_world) ex_world (snd m))"
proof -
  let ?m = "RunTenantTask ex_env ''q'' WorkflowCleaner [] Background ex_world"
  have ok: "\<not> isl (fst ?m)" by (simp add: exec cong: exec_cong)
  have hyp: "\<And>k. db_fault ex_env k = None" "ctx_UserType Background \<in> {None, Some InternalUser}"
    by (simp_all add: ex_env_sel Background_def)
  from RunTenantTask_visits[OF hyp, of "''q''" WorkflowCleaner "[]" ex_world] ok show ?thesis
    by (cases ?m; cases "fst ?m") (auto simp: Let_def)
qed

end
