(* ===== verification/Error_Properties.thy ===== *)
theory Error_Properties
  imports Example
begin

text \<open>
  Properties of the errors shown outside: those of the HTTP API (src/internal/apierrors) and those of the
  jobs (src/internal/event-processor/errors.go).
\<close>

section \<open>Errors of the API\<close>

text \<open>the tables only hold client and server errors, and every entry has a sentinel\<close>

definition entry_ok :: "APIError ExposedErrors \<Rightarrow> bool" where
  "entry_ok e \<longleftrightarrow> 400 \<le> api_Status (ee_ExposedError e) \<and> api_Status (ee_ExposedError e) < 600 \<and> weight e \<ge> 1"

lemmas error_tables = keyConfiguration_errors_def keyVersion_errors_def workflow_errors_def system_errors_def label_errors_def
  tags_errors_def key_errors_def tenantconfig_errors_def groups_errors_def tenants_errors_def userinfo_errors_def
  defaultMapper_errors_def highPrio_errors_def workflow_errors1_def workflow_errors2_def workflow_errors3_def
  system_errors1_def system_errors2_def key_errors1_def key_errors2_def key_errors3_def

lemma entries_ok: "list_all entry_ok (em_Errors APIErrorMapper)" "list_all entry_ok (em_PriorityErrors APIErrorMapper)"
  by (simp_all add: APIErrorMapper_def error_tables exposed_def entry_ok_def)

text \<open>
  C16: Every error is answered with a client or server error. It is the one of a priority entry, or of an entry whose
  sentinels are all in the error's chain such that no other such entry has more sentinels, or, when no entry
  matches, an internal server error that tells nothing.
\<close>

theorem toAPIError_best:
  "400 \<le> api_Status (toAPIError err) \<and> api_Status (toAPIError err) < 600 \<and>
   ((\<exists>e \<in> set (em_PriorityErrors APIErrorMapper). list_ex (errs_Is err) (ee_InternalErrorChain e) \<and>
       toAPIError err = ee_ExposedError e) \<or>
    (\<exists>e \<in> set (em_Errors APIErrorMapper). list_all (errs_Is err) (ee_InternalErrorChain e) \<and>
       toAPIError err = ee_ExposedError e \<and> list_all (\<lambda>x. weight x \<le> weight e) (filter (covered err) (em_Errors APIErrorMapper))) \<or>
    filter (covered err) (em_Errors APIErrorMapper) = [] \<and> toAPIError err = InternalServerErrorMessage)"
proof -
  have ok: "\<forall>e \<in> set (em_Errors APIErrorMapper). entry_ok e" "\<forall>e \<in> set (em_PriorityErrors APIErrorMapper). entry_ok e"
    using entries_ok by (simp_all add: list_all_iff)
  then have w: "\<forall>e \<in> set (em_Errors APIErrorMapper). weight e \<ge> 1" by (simp add: entry_ok_def)
  show ?thesis
  proof (rule Transform_cases[OF w, of err InternalServerErrorMessage])
    fix e assume "e \<in> set (em_PriorityErrors APIErrorMapper)" "\<exists>s \<in> set (ee_InternalErrorChain e). errs_Is err s"
      "Transform APIErrorMapper InternalServerErrorMessage err = ee_ExposedError e"
    then show ?thesis using ok(2) by (auto simp: toAPIError_def entry_ok_def list_ex_iff)
  next
    fix e assume "e \<in> set (em_Errors APIErrorMapper)" "covered err e"
      "\<forall>x \<in> set (em_Errors APIErrorMapper). covered err x \<longrightarrow> weight x \<le> weight e"
      "Transform APIErrorMapper InternalServerErrorMessage err = ee_ExposedError e"
    then show ?thesis using ok(1) by (auto simp: toAPIError_def entry_ok_def list_all_iff covered_def)
  next
    assume "\<forall>e \<in> set (em_Errors APIErrorMapper). \<not> covered err e"
      "Transform APIErrorMapper InternalServerErrorMessage err = InternalServerErrorMessage"
    then show ?thesis by (simp add: toAPIError_def InternalServerErrorMessage_def filter_empty_conv)
  qed
qed

section \<open>Errors of jobs\<close>

lemma screamingSnake_chars: "screamingSnake s \<Longrightarrow> c \<in> set s \<Longrightarrow> isAZ c \<or> c = CHR ''_''"
  by (induction s rule: screamingSnake.induct) (auto split: if_splits)

text \<open>
  C17: The text of an error that carries a code in capitals is read back as the same error, whatever its
  message; the code and the message survive the transport through the job's error message.
\<close>

theorem ParseOrbitalError_String:
  assumes "screamingSnake (oe_Code e)"
  shows "ParseOrbitalError (OrbitalError_String e) = e"
proof -
  have c: "CHR '':'' \<notin> set (oe_Code e)"
    using screamingSnake_chars[OF assms, of "CHR '':''"] by (auto simp: isAZ_def Let_def)
  then have "takeWhile (\<lambda>c. c \<noteq> CHR '':'') (oe_Code e @ [CHR '':''] @ oe_Message e) = oe_Code e"
    "dropWhile (\<lambda>c. c \<noteq> CHR '':'') (oe_Code e @ [CHR '':''] @ oe_Message e) = CHR '':'' # oe_Message e"
    by (simp_all add: takeWhile_append dropWhile_append)
  then show ?thesis
    using assms by (simp add: ParseOrbitalError_def OrbitalError_String_def strings_Cut_def)
qed

theorem ParseOrbitalError_String_witness:
  "let e = \<lparr>oe_Message = ''no: such region'', oe_Code = ''UNSUPPORTED_REGION''\<rparr>
   in screamingSnake (oe_Code e) \<and> ParseOrbitalError (OrbitalError_String e) = e"
proof -
  let ?e = "\<lparr>oe_Message = ''no: such region'', oe_Code = ''UNSUPPORTED_REGION''\<rparr>"
  have "screamingSnake (oe_Code ?e)" by (simp add: isAZ_def Let_def)
  with ParseOrbitalError_String[OF this] show ?thesis by (simp only: Let_def simp_thms)
qed

end
