(* ===== verification/Tenant_Steps.thy ===== *)
theory Tenant_Steps
  imports Task_Laws
begin

text \<open>
  One step of a tenant: a request of one of its users, a background task for it, or the end of one of its
  jobs, with any outcome. Every relation that the repository operations of one tenant keep is kept by a step.
\<close>

section \<open>Steps\<close>

inductive tenant_step :: "env \<Rightarrow> string \<Rightarrow> world \<Rightarrow> world \<Rightarrow> bool" for env tn where
  SetWorkflow: "ctx_Tenant ctx = Some tn \<Longrightarrow> UpdateWorkflowConfig env ctx u w = (r, w') \<Longrightarrow> tenant_step env tn w w'"
| NewGroup: "ctx_Tenant ctx = Some tn \<Longrightarrow> CreateGroup env ctx g w = (r, w') \<Longrightarrow> tenant_step env tn w w'"
| ChangeGroup: "ctx_Tenant ctx = Some tn \<Longrightarrow> UpdateGroup env ctx i gp w = (r, w') \<Longrightarrow> tenant_step env tn w w'"
| RemoveGroup: "ctx_Tenant ctx = Some tn \<Longrightarrow> DeleteGroupByID env ctx i w = (r, w') \<Longrightarrow> tenant_step env tn w w'"
| NewConfig: "ctx_Tenant ctx = Some tn \<Longrightarrow> PostKeyConfigurations env ctx kc w = (r, w') \<Longrightarrow> tenant_step env tn w w'"
| ChangeConfig: "ctx_Tenant ctx = Some tn \<Longrightarrow> UpdateKeyConfigurationByID env ctx i cp w = (r, w') \<Longrightarrow> tenant_step env tn w w'"
| RemoveConfig: "ctx_Tenant ctx = Some tn \<Longrightarrow> DeleteKeyConfigurationByID env ctx i w = (r, w') \<Longrightarrow> tenant_step env tn w w'"
| Tags: "ctx_Tenant ctx = Some tn \<Longrightarrow> SetTags env ctx i ts w = (r, w') \<Longrightarrow> tenant_step env tn w w'"
| NewKey: "ctx_Tenant ctx = Some tn \<Longrightarrow> Create_key env ctx key w = (r, w') \<Longrightarrow> tenant_step env tn w w'"
| ReadKey: "ctx_Tenant ctx = Some tn \<Longrightarrow> Get env ctx i w = (r, w') \<Longrightarrow> tenant_step env tn w w'"
| ChangeKey: "ctx_Tenant ctx = Some tn \<Longrightarrow> UpdateKey env ctx i kp w = (r, w') \<Longrightarrow> tenant_step env tn w w'"
| RemoveKey: "ctx_Tenant ctx = Some tn \<Longrightarrow> Delete_key env ctx i w = (r, w') \<Longrightarrow> tenant_step env tn w w'"
| DetachKey: "ctx_Tenant ctx = Some tn \<Longrightarrow> Detach env ctx key w = (r, w') \<Longrightarrow> tenant_step env tn w w'"
| ImportParams: "ctx_Tenant ctx = Some tn \<Longrightarrow> GetImportParams env ctx i w = (r, w') \<Longrightarrow> tenant_step env tn w w'"
| Import: "ctx_Tenant ctx = Some tn \<Longrightarrow> ImportKeyMaterial env ctx i s w = (r, w') \<Longrightarrow> tenant_step env tn w w'"
| Labels: "ctx_Tenant ctx = Some tn \<Longrightarrow> CreateOrUpdateLabel env ctx i ls w = (r, w') \<Longrightarrow> tenant_step env tn w w'"
| RemoveLabel: "ctx_Tenant ctx = Some tn \<Longrightarrow> DeleteLabel env ctx i s w = (r, w') \<Longrightarrow> tenant_step env tn w w'"
| Refresh: "ctx_Tenant ctx = Some tn \<Longrightarrow> RefreshSystemsData env ctx w = (r, w') \<Longrightarrow> tenant_step env tn w w'"
| Link: "ctx_Tenant ctx = Some tn \<Longrightarrow> LinkSystemAction env ctx i j w = (r, w') \<Longrightarrow> tenant_step env tn w w'"
| Unlink: "ctx_Tenant ctx = Some tn \<Longrightarrow> UnlinkSystemAction env ctx i s w = (r, w') \<Longrightarrow> tenant_step env tn w w'"
| Recover: "ctx_Tenant ctx = Some tn \<Longrightarrow> SendRecoveryActions env ctx i ra w = (r, w') \<Longrightarrow> tenant_step env tn w w'"
| NewWorkflow: "ctx_Tenant ctx = Some tn \<Longrightarrow> CreateWorkflow env ctx wkf w = (r, w') \<Longrightarrow> tenant_step env tn w w'"
| Transition: "ctx_Tenant ctx = Some tn \<Longrightarrow> TransitionWorkflow env ctx i t w = (r, w') \<Longrightarrow> tenant_step env tn w w'"
| Assign: "ctx_Tenant ctx = Some tn \<Longrightarrow> AutoAssignApprovers env ctx i w = (r, w') \<Longrightarrow> tenant_step env tn w w'"
| Pending: "ctx_Tenant ctx = Some tn \<Longrightarrow> SyncPendingCreationKey env ctx i w = (r, w') \<Longrightarrow> tenant_step env tn w w'"
| Task: "ctx_Tenant ctx = Some tn \<Longrightarrow> ProcessTask env h ctx w = (r, w') \<Longrightarrow> tenant_step env tn w w'"
| JobDone: "jd_TenantID (unmarshalSystemJobData job) = tn \<Longrightarrow> jobDoneFunc env ctx job w = (r, w') \<Longrightarrow> tenant_step env tn w w'"
| JobFailed: "jd_TenantID (unmarshalSystemJobData job) = tn \<Longrightarrow> jobFailedFunc env ctx job w = (r, w') \<Longrightarrow> tenant_step env tn w w'"
| JobCanceled: "jd_TenantID (unmarshalSystemJobData job) = tn \<Longrightarrow> jobCanceledFunc env ctx job w = (r, w') \<Longrightarrow> tenant_step env tn w w'"

context tenant_frame
begin

lemma tenant_step_frame: "tenant_step env tn w w' \<Longrightarrow> R w w'"
  by (induction rule: tenant_step.induct) (erule steps_run[rotated], (rule steps_intro UNIV_I | assumption)+)+

lemma tenant_steps_frame: "(tenant_step env tn)\<^sup>*\<^sup>* w w' \<Longrightarrow> R w w'"
  by (induction rule: rtranclp_induct) (auto intro: R_refl R_trans tenant_step_frame)

end

lemmas tenant_steps_isolated = iso_all.tenant_steps_frame
lemmas tenant_steps_uniq = uniq_all.tenant_steps_frame
lemmas tenant_steps_log = grows_all.tenant_steps_frame

end
