(* ===== verification/Spec2Isabelle.thy ===== *)
theory Spec2Isabelle
  imports Key_Properties Access_Properties Repository_Properties Workflow_Properties
    System_Properties Task_Properties Error_Properties Tenant_Steps
begin

text \<open>
  Verification of the key-management service CMK (customer-managed keys).

  The service lets the users of a tenant manage key configurations, keys, the systems that use them, and the
  groups that administer them. Critical actions pass through an approval workflow. Changes that other systems have
  to follow are sent as jobs, whose end is handled by a reconciler; background tasks synchronise, expire and
  clean up. Every tenant has its own database schema, and every access to it is checked against policies.

  \<^bold>\<open>State and computations.\<close> A \<open>world\<close> holds the schema of each tenant (one list of rows per table), the list
  of tenants, a log of calls to the outside, the flag of an aborted transaction and a counter of interactions. An
  operation is a computation \<open>world \<Rightarrow> (gerror + 'a) \<times> world\<close>; errors are chains of sentinels, and a panic is an
  error of its own. Whatever is not part of the repository (clock, random ids, database faults, identity provider,
  key-store plugins, registry, job manager, queue, state-machine library, the cached allow list) is a function
  of the record \<open>env\<close>, which gets the counter, so that it can answer differently each time. Nothing is assumed of
  these functions but \<open>fsm_ok\<close> and \<open>orbital_ok\<close>, where a statement names them.

  \<^bold>\<open>Theories and code\<close> (paths under src/internal unless given).
  \<^item> \<open>Prelude\<close>, \<open>World\<close>: combinators with their inversion rules, the locale \<open>frame\<close> of relations that
    computations keep; the data of model, the world and the environment.
  \<^item> \<open>Cmk_Context\<close> (src/utils/context), \<open>Authz\<close> (authz): request contexts; policy tables, allow lists, decision.
  \<^item> \<open>Repo\<close>, \<open>Batch\<close> (repo, repo/sql, authz/repo): statements on the tables of a tenant with permission checks,
    unique constraints, references, transactions; pagination and batch loops. \<open>Repo_Laws\<close>, \<open>Repo_Errors\<close>: what each
    statement reads and writes; the locale \<open>table_laws\<close> with one interpretation per table, and \<open>world_frame\<close>, kept by
    every operation of a tenant and interpreted for isolation of tenants, growth of the log, unique constraints, sets
    of changed tables and reading operations.
  \<^item> \<open>Tenant_Config\<close>, \<open>User_Access\<close>, \<open>Group_Manager\<close>, \<open>Key_Config\<close>, \<open>Key_Versions\<close>, \<open>Key_Manager\<close>, \<open>System_Manager\<close>,
    \<open>Workflow_Manager\<close> (manager), \<open>Lifecycle\<close> (workflow), \<open>Event_Factory\<close>, \<open>Job_Handlers\<close> (event-processor), \<open>Async_Tasks\<close>
    (async), \<open>Error_Mapper\<close> (errs), \<open>Api_Errors\<close> (apierrors): one definition per function, under its name, with the
    frame rule of each operation. Functions of the same name in different packages carry a suffix or prefix.
  \<^item> \<open>Lifecycle_Laws\<close>, \<open>Key_Laws\<close>, \<open>Key_Config_Laws\<close>, \<open>Workflow_Laws\<close>, \<open>System_Laws\<close>, \<open>Task_Laws\<close>: the effect of successful and
    refused runs. \<open>Tenant_Steps\<close>: everything that can happen to a tenant as a step relation.
  \<^item> \<open>Execution\<close>, \<open>Example\<close>: evaluation of runs by rewriting, and a small deployment for the witnesses.
  \<^item> \<open>Key_Properties\<close>, \<open>Access_Properties\<close>, \<open>Repository_Properties\<close>, \<open>Workflow_Properties\<close>, \<open>System_Properties\<close>,
    \<open>Task_Properties\<close>, \<open>Error_Properties\<close> and this theory: the properties.

  \<^bold>\<open>What is shown.\<close> Tenants are isolated over all sequences of steps. The stored state of a workflow follows its state
  machine, votes decide by the score, only approvers and the initiator act, terminal workflows stay, and the
  clean-up deletes exactly the old ones. Keys and key configurations are created, changed and deleted under the
  conditions the code means to enforce, with what goes along. The authorization decision is characterised,
  mandatory groups are kept, configurations stay within their bounds, transactions are atomic, batch loops end
  and cover all rows. Errors shown outside are the best match. Some properties state what the code does against its
  intention: marks left by an automatic rejection, unchecked workflows when approval is off, labelled keys that cannot
  be deleted, dangling primary keys, pending keys that never become primary, and three background tasks whose role
  lacks the permissions for their work.

  \<^bold>\<open>Bounds.\<close> Batch loops run with fuel, the number of rows plus two; \<open>ProcessInBatch_terminates\<close> shows that more fuel
  changes nothing when the processing function does not create matching rows. Retries are bounded as in the code.
  Times and counts are integers, since the code compares and adds far below the limits of its 64-bit integers.
  The key type SYSTEM_MANAGED, which the API does not admit, has no constructor.

  \<^bold>\<open>Not modelled.\<close> The creation and removal of tenants (manager/tenant.go, operator) and database migrations, which
  change schemas as such; certificates, the keystore pool and the provisioning of the default keystore, which are
  dominated by plugin calls and X.509 data; the construction of SQL and OData text, of which the model has the
  meaning; the HTTP layer and generated code; queue, scheduler, notifications, configuration and logging, which are
  pure input and output. Interleaving of requests below the level of an operation is not modelled: a step is a whole
  operation, with database faults possible at every statement.
\<close>

text \<open>
  C2: The persisted workflow state follows the specified state machine: a transition that
  is applied successfully either leaves the workflow as it is (a vote that does not decide)
  or moves it one step, and never stores the transient state EXECUTING.
\<close>

theorem ApplyTransition_refines:
  assumes "fsm_ok env" and "ApplyTransition env acts ctx l t w = (Inr l', w')"
    and "l_Current l = wf_State (l_Workflow l)"
  shows "l' = l \<or> wf_move (wf_State (l_Workflow l)) (wf_State (l_Workflow l')) \<and>
    stored_state ctx w' (wf_ID (l_Workflow l)) (wf_State (l_Workflow l'))"
  using assms(2)
proof (cases rule: ApplyTransition_run)
  case (moved w1 s l2 w2)
  show ?thesis
    using ApplyTransition_moved[OF assms(1,2) moved(1)] assms(3) transitionPrecheck_allowed[OF moved(1)]
    by (cases "wf_State (l_Workflow l)"; cases t) (auto intro: wf_move.intros)
qed simp

theorem ApplyTransition_refines_witness:
  "\<exists>l' w'. ApplyTransition ex_env ex_acts (ex_ctx ''cat'' [''kadm'']) ex_lifecycle TransitionApprove ex_world
      = (Inr l', w') \<and> wf_State (l_Workflow l') = WorkflowStateWaitConfirmation \<and>
    stored_state (ex_ctx ''cat'' [''kadm'']) w' 31 WorkflowStateWaitConfirmation"
proof -
  let ?run = "ApplyTransition ex_env ex_acts (ex_ctx ''cat'' [''kadm'']) ex_lifecycle TransitionApprove ex_world"
  have "map_sum id (wf_State o l_Workflow) (fst ?run) = Inr WorkflowStateWaitConfirmation"
    by code_simp
  then obtain l' where l': "fst ?run = Inr l'" "wf_State (l_Workflow l') = WorkflowStateWaitConfirmation"
    by (cases "fst ?run") auto
  then have run: "?run = (Inr l', snd ?run)" by (simp add: prod_eq_iff)
  have l: "l_Current ex_lifecycle = wf_State (l_Workflow ex_lifecycle)" "wf_ID (l_Workflow ex_lifecycle) = 31"
    "wf_State (l_Workflow ex_lifecycle) = WorkflowStateWaitApproval"
    by code_simp+
  show ?thesis
    using ApplyTransition_refines[OF fsm_ok_ex run l(1)] l l' run by (intro exI[of _ l'] exI[of _ "snd ?run"]) auto
qed

text \<open>
  C1: Whatever the users of a tenant request, the background tasks do for it and its jobs end with, in any order and
  with any outcome, the schemas of the other tenants stay as they are, the list of tenants too, no unique constraint is
  violated, and what was sent to the outside before is kept in the log.
\<close>

theorem tenants_isolated:
  assumes "(tenant_step env tn)\<^sup>*\<^sup>* w w'" and "find (\<lambda>t. ten_ID t = tn) (tenants w) = Some t"
    and "\<forall>sn. schema_uniq (schemas w sn)"
  shows "(\<forall>sn. sn \<noteq> ten_SchemaName t \<longrightarrow> schemas w' sn = schemas w sn) \<and> tenants w' = tenants w \<and>
    (\<forall>sn. schema_uniq (schemas w' sn)) \<and> (\<exists>cs. calls w' = calls w @ cs)"
  using tenant_steps_isolated[OF assms(1)] tenant_steps_uniq[OF assms(1)] tenant_steps_log[OF assms(1)] assms(2,3)
  by (auto simp: isolated_def keeps_uniq_def log_grows_def)

theorem tenants_isolated_witness:
  "let m = Delete_key ex_env (ex_kadm ''ann'') 21 (ex_with (\<lambda>d. d\<lparr>systems := []\<rparr>))
   in fst m = Inr () \<and> keys (schemas (snd m) ''s1'') = [] \<and>
      schemas (snd m) ''s2'' = schemas (ex_with (\<lambda>d. d\<lparr>systems := []\<rparr>)) ''s2''"
proof -
  let ?w = "ex_with (\<lambda>d. d\<lparr>systems := []\<rparr>)" let ?m = "Delete_key ex_env (ex_kadm ''ann'') 21 ?w"
  have m: "fst ?m = Inr ()" "keys (schemas (snd ?m) ''s1'') = []" by (simp_all add: exec cong: exec_cong)
  have step: "(tenant_step ex_env ''t1'')\<^sup>*\<^sup>* ?w (snd ?m)"
    by (rule r_into_rtranclp, rule tenant_step.RemoveKey[OF ex_kadm_sel(1) surjective_pairing])
  have t: "find (\<lambda>t. ten_ID t = ''t1'') (tenants ?w) = Some (hd (tenants ?w))" by (simp add: ex_with_def ex_world_sel)
  have uniq: "\<forall>sn. schema_uniq (schemas ?w sn)"
    by (simp add: exec schema_uniq_def TenantAdminGroup_def TenantAuditorGroup_def)
  have "ten_SchemaName (hd (tenants ?w)) = ''s1''" by (simp add: ex_with_def ex_world_sel)
  then have "schemas (snd ?m) ''s2'' = schemas ?w ''s2''" using tenants_isolated[OF step t uniq] by simp
  with m show ?thesis unfolding Let_def by blast
qed

end
